(* ===== verification/Prelude.thy ===== *)
theory Prelude
  imports Main "HOL-Library.List_Lexorder" "HOL-Library.Char_ord" "HOL-Library.Product_Lexorder"
    "HOL-Library.Multiset"
begin

text \<open>
  Shared vocabulary of the development.

  A Python function of the repository ends in one of three ways: it returns a value (often the
  \<^verbatim>\<open>Success\<close> of \<^verbatim>\<open>domain/errors.py\<close>), it returns a \<^verbatim>\<open>Failure\<close> that carries an error code
  and a message, or it raises an exception. The type \<open>result\<close> has one constructor for each;
  \<open>bind\<close> sequences two computations and stops at the first failure or exception, and
  \<open>catch_value_error\<close> is the \<^verbatim>\<open>try ... except ValueError\<close> of the source. The details mapping
  of a \<^verbatim>\<open>StructuredError\<close> (only used for display) is not modelled.

  The theory also holds the list and dictionary facts the components share: strictly sorted
  sequences (the \<^verbatim>\<open>tuple(sorted(xs)) == xs and len(set(xs)) == len(xs)\<close> checks), insertion-ordered
  dictionaries as association lists, and the first-match search of \<^verbatim>\<open>next(..., None)\<close>.
\<close>

named_theorems res_simps \<open>case analysis of computations that succeed\<close>
named_theorems dec_simps \<open>numerical readings of the Decimal operations\<close>

section \<open>Results and exceptions\<close>

datatype error_code =
    INVALID_INPUT
  | CONFIGURATION_INVALID
  | UNAUTHORIZED
  | FORBIDDEN
  | NOT_FOUND
  | CONFLICT
  | CAPABILITY_DENIED
  | EGRESS_DENIED
  | DATA_UNAVAILABLE
  | RATE_LIMITED
  | BUDGET_EXHAUSTED
  | DEADLINE_EXCEEDED
  | MODEL_OUTPUT_INVALID
  | TOOL_FAILED
  | PAYLOAD_TOO_LARGE
  | INTERNAL_ERROR

text \<open>
  The exceptions that cross a function boundary of the modelled code. \<open>ValueError\<close> stands for
  \<^verbatim>\<open>ValueError\<close> and for the \<^verbatim>\<open>ValidationError\<close> of the model validators (a subclass of it);
  the \<^verbatim>\<open>decimal\<close> signals are \<^verbatim>\<open>ArithmeticError\<close>s, which \<^verbatim>\<open>except ValueError\<close> does not catch.
  \<open>IntegrityError\<close> and \<open>DatabaseError\<close> are the two kinds of database errors the adapters tell
  apart (a violated constraint, and every other \<^verbatim>\<open>SQLAlchemyError\<close>).
  \<open>NoReturn\<close> is no Python exception: it marks a call whose loop never ends.
\<close>

datatype exn =
    ValueError string
  | InvalidOperation
  | DivisionByZero
  | AssertionError
  | StopIteration
  | KeyError
  | TypeError
  | IndexError
  | IntegrityError
  | DatabaseError
  | NoReturn

datatype 'a result =
    Success 'a
  | Failure error_code string
  | Raised exn

fun bind :: "'a result \<Rightarrow> ('a \<Rightarrow> 'b result) \<Rightarrow> 'b result" where
  "bind (Success x) f = f x"
| "bind (Failure c m) f = Failure c m"
| "bind (Raised e) f = Raised e"

fun catch_value_error :: "'a result \<Rightarrow> 'a result \<Rightarrow> 'a result" where
  "catch_value_error (Raised (ValueError m)) h = h"
| "catch_value_error r h = r"

text \<open>A guard that raises \<^verbatim>\<open>ValueError\<close>, and one that returns a failure.\<close>

definition require :: "bool \<Rightarrow> string \<Rightarrow> unit result" where
  "require b m = (if b then Success () else Raised (ValueError m))"

text \<open>
  A validator is a list of conditions with the message each raises when it does not hold,
  checked in order; the validated model is returned unchanged.
\<close>

fun check_all :: "(bool \<times> string) list \<Rightarrow> 'a \<Rightarrow> 'a result" where
  "check_all [] x = Success x"
| "check_all ((b, m) # cs) x = (if b then check_all cs x else Raised (ValueError m))"

fun is_success :: "'a result \<Rightarrow> bool" where
  "is_success (Success x) = True"
| "is_success (Failure c m) = False"
| "is_success (Raised e) = False"

fun run_all :: "('a \<Rightarrow> 'b result) \<Rightarrow> 'a list \<Rightarrow> 'b list result" where
  "run_all f [] = Success []"
| "run_all f (x # xs) = bind (f x) (\<lambda>y. bind (run_all f xs) (\<lambda>ys. Success (y # ys)))"

lemma bind_Success_iff [res_simps]:
  "bind r f = Success y \<longleftrightarrow> (\<exists>x. r = Success x \<and> f x = Success y)"
  by (cases r) auto

lemma bind_Raised_iff:
  "bind r f = Raised e \<longleftrightarrow> r = Raised e \<or> (\<exists>x. r = Success x \<and> f x = Raised e)"
  by (cases r) auto

lemma bind_Failure_iff:
  "bind r f = Failure c m \<longleftrightarrow> r = Failure c m \<or> (\<exists>x. r = Success x \<and> f x = Failure c m)"
  by (cases r) auto

lemma bind_assoc: "bind (bind r f) g = bind r (\<lambda>x. bind (f x) g)"
  by (cases r) auto

lemma catch_Success_iff [res_simps]:
  "catch_value_error r (Failure c m) = Success x \<longleftrightarrow> r = Success x"
  by (cases "(r, Failure c m :: 'a result)" rule: catch_value_error.cases) auto

lemma catch_Success [simp]: "catch_value_error (Success x) h = Success x"
  by simp

lemma catch_not_value_error [simp]:
  "catch_value_error r (Failure c m) \<noteq> Raised (ValueError s)"
  by (cases "(r, Failure c m :: 'a result)" rule: catch_value_error.cases) auto

lemma require_Success_iff [res_simps]: "require b m = Success u \<longleftrightarrow> b"
  by (simp add: require_def)

lemma require_True [simp]: "require True m = Success ()"
  by (simp add: require_def)

lemma require_not_Failure [simp]: "require b m \<noteq> Failure c k"
  by (simp add: require_def)

lemma check_all_Success_iff [res_simps]:
  "check_all cs x = Success y \<longleftrightarrow> y = x \<and> list_all fst cs"
  by (induction cs) (auto split: if_splits)

lemma check_all_not_Failure [simp]: "check_all cs x \<noteq> Failure c m"
  by (induction cs) (auto split: if_splits)

lemma check_all_Raised: "check_all cs x = Raised e \<Longrightarrow> \<exists>m. e = ValueError m"
  by (induction cs) (auto split: if_splits)

lemma check_all_cases: "check_all cs x = Success x \<or> (\<exists>m. check_all cs x = Raised (ValueError m))"
  by (induction cs) (auto split: if_splits)

declare check_all.simps [simp del]

lemma is_success_iff: "is_success r \<longleftrightarrow> (\<exists>x. r = Success x)"
  by (cases r) auto

lemma run_all_Success:
  "run_all f xs = Success ys \<longleftrightarrow> list_all2 (\<lambda>x y. f x = Success y) xs ys"
  by (induction xs arbitrary: ys) (auto simp: bind_Success_iff list_all2_Cons1)

lemma run_all_length: "run_all f xs = Success ys \<Longrightarrow> length ys = length xs"
  by (auto simp: run_all_Success list_all2_lengthD)

section \<open>Sorted sequences\<close>

text \<open>
  \<^verbatim>\<open>values == tuple(sorted(values)) and len(values) == len(set(values))\<close>, the check the models
  apply to every sequence they keep in canonical order.
\<close>

definition sorted_unique :: "'a::linorder list \<Rightarrow> bool" where
  "sorted_unique xs \<longleftrightarrow> sorted xs \<and> distinct xs"

lemma sorted_unique_Nil [simp]: "sorted_unique []"
  by (simp add: sorted_unique_def)

lemma sorted_unique_single [simp]: "sorted_unique [x]"
  by (simp add: sorted_unique_def)

lemma sorted_unique_iff_strict: "sorted_unique xs \<longleftrightarrow> sorted_wrt (<) xs"
  by (simp add: sorted_unique_def strict_sorted_iff)

lemma sorted_unique_sort: "distinct xs \<Longrightarrow> sorted_unique (sort xs)"
  by (simp add: sorted_unique_def)

lemma sorted_unique_determined:
  "\<lbrakk>sorted_unique xs; sorted_unique ys; set xs = set ys\<rbrakk> \<Longrightarrow> xs = ys"
  by (simp add: sorted_unique_def sorted_distinct_set_unique)

lemma sorted_map_sort_key: "sorted (map f (sort_key f xs))"
  by simp

lemma distinct_map_sort_key: "distinct (map f (sort_key f xs)) = distinct (map f xs)"
proof -
  have "mset (map f (sort_key f xs)) = mset (map f xs)"
    by simp
  then show ?thesis
    by (metis mset_eq_imp_distinct_iff)
qed

lemma sorted_unique_map_sort_key:
  "distinct (map f xs) \<Longrightarrow> sorted_unique (map f (sort_key f xs))"
  by (simp only: sorted_unique_def sorted_map_sort_key distinct_map_sort_key simp_thms)

lemma insort_key_snoc: "f a \<le> f x \<Longrightarrow> insort_key f a (ys @ [x]) = insort_key f a ys @ [x]"
  by (induction ys) auto

lemma sort_key_snoc: "\<forall>y \<in> set xs. f y \<le> f x \<Longrightarrow> sort_key f (xs @ [x]) = sort_key f xs @ [x]"
  by (induction xs) (auto simp: insort_key_snoc)

section \<open>Dictionaries in insertion order\<close>

text \<open>
  A \<^verbatim>\<open>dict\<close> is an association list in insertion order; \<open>dict_set\<close> overwrites an existing key in
  place and appends a new one, as Python does.
\<close>

fun dict_set :: "'k \<Rightarrow> 'v \<Rightarrow> ('k \<times> 'v) list \<Rightarrow> ('k \<times> 'v) list" where
  "dict_set k v [] = [(k, v)]"
| "dict_set k v ((k', v') # kvs) =
     (if k' = k then (k, v) # kvs else (k', v') # dict_set k v kvs)"

text \<open>\<^verbatim>\<open>{key(x): val(x) for x in xs}\<close>: a later item overwrites an earlier one.\<close>

definition dict_of :: "('a \<Rightarrow> 'k) \<Rightarrow> ('a \<Rightarrow> 'v) \<Rightarrow> 'a list \<Rightarrow> ('k \<times> 'v) list" where
  "dict_of key val xs = fold (\<lambda>x. dict_set (key x) (val x)) xs []"

lemma map_of_dict_set [simp]: "map_of (dict_set k v kvs) = (map_of kvs)(k \<mapsto> v)"
  by (induction kvs) (auto simp: fun_eq_iff)

lemma keys_dict_set: "fst ` set (dict_set k v kvs) = insert k (fst ` set kvs)"
proof (induction kvs)
  case Nil
  then show ?case by simp
next
  case (Cons kv kvs)
  then show ?case by (cases kv) (simp add: insert_commute)
qed

lemma distinct_dict_set: "distinct (map fst kvs) \<Longrightarrow> distinct (map fst (dict_set k v kvs))"
proof (induction kvs)
  case Nil
  then show ?case by simp
next
  case (Cons kv kvs)
  then show ?case
    using keys_dict_set [of k v kvs] by (cases kv) auto
qed

lemma map_of_fold_dict_set:
  "map_of (fold (\<lambda>x. dict_set (key x) (val x)) xs kvs) =
     map_of kvs ++ map_of (rev (map (\<lambda>x. (key x, val x)) xs))"
  by (induction xs arbitrary: kvs) auto

lemma map_of_dict_of: "map_of (dict_of key val xs) = map_of (rev (map (\<lambda>x. (key x, val x)) xs))"
  by (simp add: dict_of_def map_of_fold_dict_set)

lemma map_of_dict_of_distinct:
  "distinct (map key xs) \<Longrightarrow>
   map_of (dict_of key val xs) = map_of (map (\<lambda>x. (key x, val x)) xs)"
  unfolding map_of_dict_of by (subst map_of_inject_set) (simp_all add: comp_def flip: rev_map)

lemma distinct_fold_dict_set:
  "distinct (map fst kvs) \<Longrightarrow>
   distinct (map fst (fold (\<lambda>x. dict_set (key x) (val x)) xs kvs))"
  by (induction xs arbitrary: kvs) (auto simp: distinct_dict_set)

lemma distinct_dict_of [simp]: "distinct (map fst (dict_of key val xs))"
  by (simp add: dict_of_def distinct_fold_dict_set)

lemma keys_fold_dict_set:
  "fst ` set (fold (\<lambda>x. dict_set (key x) (val x)) xs kvs) = key ` set xs \<union> fst ` set kvs"
  by (induction xs arbitrary: kvs) (auto simp: keys_dict_set)

lemma keys_dict_of: "fst ` set (dict_of key val xs) = key ` set xs"
  by (simp add: dict_of_def keys_fold_dict_set)

text \<open>Lookups and sizes of comprehended dictionaries; neither depends on the order of distinct keys.\<close>

lemma length_dict_of: "length (dict_of key v xs) = card (key ` set xs)"
proof -
  have "length (dict_of key v xs) = card (fst ` set (dict_of key v xs))"
    using distinct_card [OF distinct_dict_of [of key v xs]] by simp
  then show ?thesis
    by (simp add: keys_dict_of)
qed

lemma length_dict_of_iff: "length (dict_of key v xs) = length xs \<longleftrightarrow> distinct (map key xs)"
  using card_distinct [of "map key xs"] distinct_card [of "map key xs"] by (auto simp: length_dict_of)

lemma distinct_map_mset: "mset xs = mset ys \<Longrightarrow> distinct (map f xs) = distinct (map f ys)"
  using mset_eq_imp_distinct_iff [of "map f xs" "map f ys"] by simp

lemma map_of_dict_of_mset:
  assumes "distinct (map key xs)" "mset xs = mset ys"
  shows "map_of (dict_of key v xs) = map_of (dict_of key v ys)"
proof -
  have "distinct (map key ys)"
    using assms distinct_map_mset [of xs ys key] by simp
  moreover have "set xs = set ys"
    using assms(2) by (rule mset_eq_setD)
  ultimately show ?thesis
    unfolding map_of_dict_of_distinct [OF assms(1)] map_of_dict_of_distinct [OF \<open>distinct (map key ys)\<close>]
    using assms(1) by (subst map_of_inject_set) (simp_all add: comp_def)
qed

lemma sort_key_mset:
  assumes "distinct (map f xs)" "mset xs = mset ys"
  shows "sort_key f xs = sort_key f ys"
proof (rule properties_for_sort_key)
  show "mset (sort_key f ys) = mset xs"
    using assms(2) by simp
  show "sorted (map f (sort_key f ys))"
    by simp
  fix k assume "k \<in> set (sort_key f ys)"
  have one: "filter (\<lambda>x. f k = f x) zs = [k]" if "distinct (map f zs)" "k \<in> set zs" for zs
    using that by (induction zs) (auto simp: filter_empty_conv, metis image_eqI)
  have "set xs = set ys"
    using assms(2) by (rule mset_eq_setD)
  then show "filter (\<lambda>x. f k = f x) (sort_key f ys) = filter (\<lambda>x. f k = f x) xs"
    using assms \<open>k \<in> _\<close> one [of xs] one [of "sort_key f ys"] distinct_map_sort_key [of f ys]
      distinct_map_mset [of xs ys f] by simp
qed

lemma map_of_dict_of_mem: "map_of (dict_of key v xs) k = Some y \<Longrightarrow> \<exists>x \<in> set xs. key x = k \<and> v x = y"
  unfolding map_of_dict_of by (fastforce dest!: map_of_SomeD)

lemma map_of_dict_of_option:
  "map_of (dict_of key v xs) k = map_option v (map_of (dict_of key (\<lambda>x. x) xs) k)"
proof -
  have "rev (map (\<lambda>x. (key x, v x)) xs) = map (\<lambda>(k, x). (k, v x)) (rev (map (\<lambda>x. (key x, x)) xs))"
    by (simp add: rev_map)
  then show ?thesis
    unfolding map_of_dict_of by (simp add: map_of_map)
qed

lemma map_of_dict_of_None: "map_of (dict_of key v xs) k = None \<longleftrightarrow> k \<notin> key ` set xs"
  by (metis keys_dict_of map_of_eq_None_iff)

text \<open>\<^verbatim>\<open>next((x for x in xs if p(x)), None)\<close> is \<open>List.find\<close>.\<close>

lemma find_distinct:
  "\<lbrakk>distinct (map f xs); x \<in> set xs\<rbrakk> \<Longrightarrow> List.find (\<lambda>y. f y = f x) xs = Some x"
  by (induction xs) (auto simp: image_iff)

lemma find_key: "List.find (\<lambda>y. f y = k) xs = Some x \<Longrightarrow> x \<in> set xs \<and> f x = k"
  by (induction xs) (auto split: if_splits)

lemma find_SomeD: "List.find p xs = Some x \<Longrightarrow> x \<in> set xs \<and> p x"
  by (auto simp: find_Some_iff)

end
