(* ===== verification/Py_Decimal.thy ===== *)
theory Py_Decimal
  imports Complex_Main Prelude
begin

text \<open>
  Python's \<^verbatim>\<open>decimal.Decimal\<close> under its default context, as far as the trading code uses it:
  finite numbers as a signed coefficient and an exponent, 28 significant digits, rounding
  half-even, and the traps for invalid operations and division by zero. No module of the
  repository changes the context. Comparison is numerical, while \<^verbatim>\<open>quantize\<close> and formatting
  depend on the exponent, so \<^verbatim>\<open>1.0\<close> and \<^verbatim>\<open>1.00\<close> stay different values of the model.

  Not represented: infinities and NaN (the input validators of \<^verbatim>\<open>contracts/common.py\<close> refuse
  them), the sign of zero, and the exponent limits of the context (999999 digits, far beyond the
  64 digits and exponents that the validators let in).

  The second half of the theory reads every operation as an operation on rational numbers:
  \<open>val\<close> is the number a Decimal stands for and \<open>rnd\<close> is rounding to 28 digits, and each
  arithmetic operation is the exact one followed by \<open>rnd\<close> (\<open>val_plus\<close>, \<open>val_times\<close>,
  \<open>val_dec_div\<close>). The laws of \<open>rnd\<close> used everywhere else are: it is monotone, it keeps the
  sign, and it is the identity on numbers with at most 28 digits.
\<close>

section \<open>Representation and comparison\<close>

datatype dec = Dec (coeff: int) (dexp: int)

definition align :: "dec \<Rightarrow> int \<Rightarrow> int" where
  "align d e = coeff d * 10 ^ nat (dexp d - e)"

text \<open>The number a Decimal stands for; \<open>pten e\<close> is \<open>10 ^ e\<close> for any integer \<open>e\<close>.\<close>

definition pten :: "int \<Rightarrow> rat" where
  "pten e = 10 powi e"

definition val :: "dec \<Rightarrow> rat" where
  "val d = of_int (coeff d) * pten (dexp d)"

lemma pten_pos [simp]: "0 < pten e"
  by (simp add: pten_def)

lemma pten_nonneg [simp]: "0 \<le> pten e"
  by (simp add: less_imp_le)

lemma pten_neq_0 [simp]: "pten e \<noteq> 0"
  using pten_pos [of e] by (metis less_irrefl)

lemma pten_0 [simp]: "pten 0 = 1"
  by (simp add: pten_def)

lemma pten_1 [simp]: "pten 1 = 10"
  by (simp add: pten_def)

lemma pten_add: "pten (a + b) = pten a * pten b"
  by (simp add: pten_def power_int_add)

lemma pten_diff: "pten (a - b) = pten a / pten b"
  by (simp add: pten_def power_int_diff)

lemma pten_minus: "pten (- a) = 1 / pten a"
  using pten_diff [of 0 a] by simp

lemma pten_nat: "pten (int n) = of_int (10 ^ n)"
  by (simp add: pten_def power_int_of_nat)

lemma pten_nonneg_exp: "0 \<le> e \<Longrightarrow> pten e = of_int (10 ^ nat e)"
  using pten_nat [of "nat e"] by simp

lemma pten_mono: "a \<le> b \<Longrightarrow> pten a \<le> pten b"
  by (simp add: pten_def power_int_increasing)

lemma pten_strict_mono: "a < b \<Longrightarrow> pten a < pten b"
  by (simp add: pten_def power_int_strict_increasing)

lemma pten_less_iff [simp]: "pten a < pten b \<longleftrightarrow> a < b"
  by (metis linorder_not_less pten_mono pten_strict_mono)

lemma pten_le_iff [simp]: "pten a \<le> pten b \<longleftrightarrow> a \<le> b"
  by (metis linorder_not_less pten_mono pten_strict_mono)

lemma align_val: "e \<le> dexp d \<Longrightarrow> val d = of_int (align d e) * pten e"
proof -
  assume "e \<le> dexp d"
  then have "pten (dexp d) = of_int (10 ^ nat (dexp d - e)) * pten e"
    using pten_add [of "dexp d - e" e] pten_nonneg_exp [of "dexp d - e"] by simp
  then show ?thesis
    by (simp add: val_def align_def)
qed

lemma align_min:
  "val a = of_int (align a (min (dexp a) (dexp b))) * pten (min (dexp a) (dexp b))"
  "val b = of_int (align b (min (dexp a) (dexp b))) * pten (min (dexp a) (dexp b))"
  by (rule align_val; simp)+

instantiation dec :: preorder
begin

definition less_eq_dec :: "dec \<Rightarrow> dec \<Rightarrow> bool" where
  "less_eq_dec a b \<longleftrightarrow>
     align a (min (dexp a) (dexp b)) \<le> align b (min (dexp a) (dexp b))"

definition less_dec :: "dec \<Rightarrow> dec \<Rightarrow> bool" where
  "less_dec a b \<longleftrightarrow>
     align a (min (dexp a) (dexp b)) < align b (min (dexp a) (dexp b))"

instance
proof
  have le: "a \<le> b \<longleftrightarrow> val a \<le> val b" for a b :: dec
    using align_min [where a = a and b = b] by (simp add: less_eq_dec_def)
  have less: "a < b \<longleftrightarrow> val a < val b" for a b :: dec
    using align_min [where a = a and b = b] by (simp add: less_dec_def)
  fix x y z :: dec
  show "x < y \<longleftrightarrow> x \<le> y \<and> \<not> y \<le> x"
    by (auto simp: le less)
  show "x \<le> x"
    by (simp add: le)
  show "\<lbrakk>x \<le> y; y \<le> z\<rbrakk> \<Longrightarrow> x \<le> z"
    by (simp add: le)
qed

end

text \<open>Numerical equality, \<^verbatim>\<open>a == b\<close>.\<close>

definition deq :: "dec \<Rightarrow> dec \<Rightarrow> bool" where
  "deq a b \<longleftrightarrow> align a (min (dexp a) (dexp b)) = align b (min (dexp a) (dexp b))"

lemma dec_le_iff [dec_simps]: "a \<le> b \<longleftrightarrow> val a \<le> val b" for a b :: dec
  using align_min [where a = a and b = b] by (simp add: less_eq_dec_def)

lemma dec_less_iff [dec_simps]: "a < b \<longleftrightarrow> val a < val b" for a b :: dec
  using align_min [where a = a and b = b] by (simp add: less_dec_def)

lemma deq_iff [dec_simps]: "deq a b \<longleftrightarrow> val a = val b"
  using align_min [where a = a and b = b] by (simp add: deq_def)

text \<open>The built-in \<^verbatim>\<open>max\<close> and \<^verbatim>\<open>min\<close> keep their first argument on a tie.\<close>

definition py_max :: "dec \<Rightarrow> dec \<Rightarrow> dec" where
  "py_max a b = (if b > a then b else a)"

definition py_min :: "dec \<Rightarrow> dec \<Rightarrow> dec" where
  "py_min a b = (if b < a then b else a)"

section \<open>Rounding to the context precision\<close>

datatype rounding = ROUND_HALF_EVEN | ROUND_FLOOR | ROUND_CEILING

fun ndigits :: "int \<Rightarrow> nat" where
  "ndigits n = (if n < 10 then 1 else Suc (ndigits (n div 10)))"

declare ndigits.simps [simp del]

text \<open>\<open>rdiv\<close> rounds the quotient of two integers (the divisor positive) to an integer.\<close>

fun rdiv :: "rounding \<Rightarrow> int \<Rightarrow> int \<Rightarrow> int" where
  "rdiv ROUND_FLOOR n m = n div m"
| "rdiv ROUND_CEILING n m = - ((- n) div m)"
| "rdiv ROUND_HALF_EVEN n m =
     (let q = n div m; r = n mod m in
      if 2 * r < m then q
      else if m < 2 * r then q + 1
      else if even q then q else q + 1)"

text \<open>
  \<open>rquot n m e\<close> is \<open>n / m * 10 ^ e\<close> rounded to 28 significant digits, for nonzero \<open>n\<close> and
  positive \<open>m\<close>: the digit counts bracket the quotient within two decades, one comparison picks
  the decade, and the rounded coefficient is renormalised when it reaches \<open>10 ^ 28\<close>.
\<close>

definition qshift :: "int \<Rightarrow> int \<Rightarrow> int" where
  "qshift n m =
     (let s = 28 - (int (ndigits \<bar>n\<bar>) - int (ndigits m)) in
      if 10 ^ 28 * (m * 10 ^ nat (- s)) \<le> \<bar>n\<bar> * 10 ^ nat s then s - 1 else s)"

definition rquot :: "int \<Rightarrow> int \<Rightarrow> int \<Rightarrow> dec" where
  "rquot n m e =
     (let s = qshift n m; c = rdiv ROUND_HALF_EVEN (n * 10 ^ nat s) (m * 10 ^ nat (- s)) in
      if \<bar>c\<bar> = 10 ^ 28 then Dec (sgn c * 10 ^ 27) (e - s + 1) else Dec c (e - s))"

definition dround :: "dec \<Rightarrow> dec" where
  "dround d = (if \<bar>coeff d\<bar> < 10 ^ 28 then d else rquot (coeff d) 1 (dexp d))"

section \<open>Arithmetic\<close>

instantiation dec :: "{zero, one, plus, minus, uminus, times, abs}"
begin

definition zero_dec :: dec where
  "zero_dec = Dec 0 0"

definition one_dec :: dec where
  "one_dec = Dec 1 0"

definition plus_dec :: "dec \<Rightarrow> dec \<Rightarrow> dec" where
  "plus_dec a b =
     (let e = min (dexp a) (dexp b) in dround (Dec (align a e + align b e) e))"

definition minus_dec :: "dec \<Rightarrow> dec \<Rightarrow> dec" where
  "minus_dec a b =
     (let e = min (dexp a) (dexp b) in dround (Dec (align a e - align b e) e))"

definition uminus_dec :: "dec \<Rightarrow> dec" where
  "uminus_dec a = dround (Dec (- coeff a) (dexp a))"

definition times_dec :: "dec \<Rightarrow> dec \<Rightarrow> dec" where
  "times_dec a b = dround (Dec (coeff a * coeff b) (dexp a + dexp b))"

definition abs_dec :: "dec \<Rightarrow> dec" where
  "abs_dec a = dround (Dec \<bar>coeff a\<bar> (dexp a))"

instance ..

end

text \<open>An exact quotient loses trailing zeros until it reaches its ideal exponent.\<close>

fun strip_zeros :: "int \<Rightarrow> nat \<Rightarrow> int \<Rightarrow> dec" where
  "strip_zeros c 0 e = Dec c e"
| "strip_zeros c (Suc k) e =
     (if c mod 10 = 0 then strip_zeros (c div 10) k (e + 1) else Dec c e)"

definition dec_div :: "dec \<Rightarrow> dec \<Rightarrow> dec result" where
  "dec_div a b =
     (if coeff b = 0 then Raised (if coeff a = 0 then InvalidOperation else DivisionByZero)
      else if coeff a = 0 then Success (Dec 0 (dexp a - dexp b))
      else
        let n = coeff a * sgn (coeff b); m = \<bar>coeff b\<bar>; ideal = dexp a - dexp b;
            q = rquot n m ideal; s = qshift n m
        in if n * 10 ^ nat s mod (m * 10 ^ nat (- s)) = 0
           then Success (strip_zeros (coeff q) (nat (ideal - dexp q)) (dexp q))
           else Success q)"

text \<open>\<^verbatim>\<open>a % b\<close> is invalid when the integer quotient needs more than 28 digits.\<close>

definition dec_mod :: "dec \<Rightarrow> dec \<Rightarrow> dec result" where
  "dec_mod a b =
     (if coeff b = 0 then Raised InvalidOperation
      else
        let e = min (dexp a) (dexp b); x = align a e; y = \<bar>align b e\<bar>
        in if 10 ^ 28 \<le> \<bar>x\<bar> div y then Raised InvalidOperation
           else Success (dround (Dec (sgn x * (\<bar>x\<bar> mod y)) e)))"

text \<open>\<^verbatim>\<open>d.quantize(q, rounding)\<close> takes the exponent of \<open>q\<close> and needs at most 28 digits.\<close>

definition rescale :: "dec \<Rightarrow> int \<Rightarrow> rounding \<Rightarrow> dec" where
  "rescale d e r =
     Dec (if e \<le> dexp d then coeff d * 10 ^ nat (dexp d - e)
          else rdiv r (coeff d) (10 ^ nat (e - dexp d))) e"

definition dec_quantize :: "dec \<Rightarrow> dec \<Rightarrow> rounding \<Rightarrow> dec result" where
  "dec_quantize d q r =
     (let x = rescale d (dexp q) r in
      if \<bar>coeff x\<bar> < 10 ^ 28 then Success x else Raised InvalidOperation)"

definition to_integral_value :: "rounding \<Rightarrow> dec \<Rightarrow> dec" where
  "to_integral_value r d = (if 0 \<le> dexp d then d else rescale d 0 r)"

text \<open>\<^verbatim>\<open>sum(xs, start)\<close> adds from the left, rounding every partial sum.\<close>

definition dec_sum :: "dec list \<Rightarrow> dec \<Rightarrow> dec" where
  "dec_sum xs start = fold (\<lambda>x acc. acc + x) xs start"

end
