(* ===== verification/Decimal_Rounding.thy ===== *)
theory Decimal_Rounding
  imports Py_Decimal
begin

text \<open>
  The numerical reading of \<open>Py_Decimal\<close>: \<open>rhe\<close> is round-half-even of a rational number,
  \<open>rnd\<close> rounds a rational number to 28 significant digits, and every Decimal operation is shown
  to compute the exact operation followed by \<open>rnd\<close>. The laws of \<open>rnd\<close> (monotone, odd, sign
  preserving, exact on 28-digit numbers, relative error below one half unit) are what the
  components reason with.
\<close>

section \<open>Round half even\<close>

definition rhe :: "rat \<Rightarrow> int" where
  "rhe x =
     (let q = \<lfloor>x\<rfloor>; r = x - of_int q in
      if r < 1 / 2 then q else if 1 / 2 < r then q + 1 else if even q then q else q + 1)"

lemma rhe_of_int [simp]: "rhe (of_int k) = k"
  by (simp add: rhe_def)

lemma rhe_bounds: "\<lfloor>x\<rfloor> \<le> rhe x \<and> rhe x \<le> \<lfloor>x\<rfloor> + 1"
  by (simp add: rhe_def Let_def)

lemma rhe_mono: "x \<le> y \<Longrightarrow> rhe x \<le> rhe y"
proof -
  assume le: "x \<le> y"
  then have fl: "\<lfloor>x\<rfloor> \<le> \<lfloor>y\<rfloor>"
    by (rule floor_mono)
  show ?thesis
  proof (cases "\<lfloor>x\<rfloor> = \<lfloor>y\<rfloor>")
    case True
    with le show ?thesis
      by (auto simp: rhe_def Let_def)
  next
    case False
    with fl rhe_bounds [of x] rhe_bounds [of y] show ?thesis
      by linarith
  qed
qed

lemma rhe_error: "\<bar>of_int (rhe x) - x\<bar> \<le> 1 / 2"
proof -
  have "of_int \<lfloor>x\<rfloor> \<le> x" "x < of_int \<lfloor>x\<rfloor> + 1"
    by linarith+
  then show ?thesis
    by (auto simp: rhe_def Let_def abs_le_iff)
qed

lemma rhe_minus: "rhe (- x) = - rhe x"
proof (cases "x = of_int \<lfloor>x\<rfloor>")
  case True
  then show ?thesis
    by (metis of_int_minus rhe_of_int)
next
  case False
  have fl: "\<lfloor>- x\<rfloor> = - \<lfloor>x\<rfloor> - 1"
    using False floor_correct [of x] by (intro floor_unique) (auto simp: less_le)
  have r: "- x - of_int \<lfloor>- x\<rfloor> = 1 - (x - of_int \<lfloor>x\<rfloor>)"
    by (simp add: fl)
  define t where "t = x - of_int \<lfloor>x\<rfloor>"
  have "rhe (- x) = (if 1 - t < 1 / 2 then - \<lfloor>x\<rfloor> - 1 else if 1 / 2 < 1 - t then - \<lfloor>x\<rfloor>
      else if even (- \<lfloor>x\<rfloor> - 1) then - \<lfloor>x\<rfloor> - 1 else - \<lfloor>x\<rfloor>)"
    by (simp only: rhe_def Let_def r t_def [symmetric]) (simp add: fl)
  moreover have "rhe x = (if t < 1 / 2 then \<lfloor>x\<rfloor> else if 1 / 2 < t then \<lfloor>x\<rfloor> + 1
      else if even \<lfloor>x\<rfloor> then \<lfloor>x\<rfloor> else \<lfloor>x\<rfloor> + 1)"
    by (simp only: rhe_def Let_def t_def [symmetric])
  ultimately show ?thesis
    by (cases "t < 1 / 2"; cases "1 / 2 < t") auto
qed

lemma rdiv_floor: "rdiv ROUND_FLOOR n m = \<lfloor>of_int n / of_int m :: rat\<rfloor>"
  by (simp add: floor_divide_of_int_eq)

lemma rdiv_ceiling: "rdiv ROUND_CEILING n m = \<lceil>of_int n / of_int m :: rat\<rceil>"
  using floor_divide_of_int_eq [of "- n" m, where ?'a = rat] by (simp add: ceiling_def)

lemma rdiv_half_even:
  assumes "0 < m"
  shows "rdiv ROUND_HALF_EVEN n m = rhe (of_int n / of_int m)"
proof -
  have fl: "\<lfloor>of_int n / of_int m :: rat\<rfloor> = n div m"
    by (rule floor_divide_of_int_eq)
  have "of_int n = (of_int (n div m) * of_int m + of_int (n mod m) :: rat)"
    by (metis of_int_add of_int_mult div_mult_mod_eq)
  then have r: "of_int n / of_int m - of_int (n div m) = (of_int (n mod m) / of_int m :: rat)"
    using assms by (simp add: field_simps)
  have half: "(of_int k :: rat) / of_int m < 1 / 2 \<longleftrightarrow> 2 * k < m"
    "1 / 2 < (of_int k :: rat) / of_int m \<longleftrightarrow> m < 2 * k" for k
    using assms of_int_less_iff [of "2 * k" m, where ?'a = rat]
      of_int_less_iff [of m "2 * k", where ?'a = rat]
    by (simp_all add: divide_less_eq less_divide_eq mult.commute)
  show ?thesis
    by (simp only: rhe_def rdiv.simps Let_def fl r half)
qed

section \<open>Rounding to 28 digits\<close>

text \<open>\<open>bracket x E\<close>: the coefficient of \<open>x\<close> at exponent \<open>E\<close> has exactly 28 digits.\<close>

definition bracket :: "rat \<Rightarrow> int \<Rightarrow> bool" where
  "bracket x E \<longleftrightarrow> pten (E + 27) \<le> \<bar>x\<bar> \<and> \<bar>x\<bar> < pten (E + 28)"

definition rnd :: "rat \<Rightarrow> rat" where
  "rnd x =
     (if x = 0 then 0
      else let E = (THE E. bracket x E) in of_int (rhe (x / pten E)) * pten E)"

lemma bracket_unique:
  assumes "bracket x E" "bracket x F"
  shows "E = F"
proof -
  have "pten (E + 27) < pten (F + 28)" "pten (F + 27) < pten (E + 28)"
    using assms unfolding bracket_def by linarith+
  then show ?thesis
    by simp
qed

lemma bracket_nonzero: "bracket x E \<Longrightarrow> x \<noteq> 0"
  using pten_pos [of "E + 27"] by (auto simp: bracket_def simp del: pten_pos)

lemma rnd_bracket: "bracket x E \<Longrightarrow> rnd x = of_int (rhe (x / pten E)) * pten E"
proof -
  assume br: "bracket x E"
  then have "(THE E. bracket x E) = E"
    by (rule the_equality) (rule bracket_unique [OF _ br])
  with bracket_nonzero [OF br] show ?thesis
    by (simp add: rnd_def Let_def)
qed

lemma bracket_scale: "bracket x E \<Longrightarrow> bracket (x * pten e) (E + e)"
  by (simp add: bracket_def abs_mult pten_add algebra_simps)

lemma ndigits_bounds: "0 < n \<Longrightarrow> 10 ^ (ndigits n - 1) \<le> n \<and> n < 10 ^ ndigits n \<and> 0 < ndigits n"
proof (induction n rule: ndigits.induct)
  case (1 n)
  show ?case
  proof (cases "n < 10")
    case True
    with "1.prems" show ?thesis
      by (simp add: ndigits.simps)
  next
    case False
    then have IH: "10 ^ (ndigits (n div 10) - 1) \<le> n div 10" "n div 10 < 10 ^ ndigits (n div 10)"
        "0 < ndigits (n div 10)"
      using "1.IH" by simp_all
    then obtain k where k: "ndigits (n div 10) = Suc k"
      by (cases "ndigits (n div 10)") simp_all
    have "10 * 10 ^ k \<le> n" "n < 10 * 10 ^ Suc k"
      using IH k by simp_all
    then show ?thesis
      using False k by (simp add: ndigits.simps [of n])
  qed
qed

lemma pten_split: "pten s = of_int (10 ^ nat s) / of_int (10 ^ nat (- s))"
proof (cases "0 \<le> s")
  case True
  then show ?thesis
    by (simp add: pten_nonneg_exp)
next
  case False
  then show ?thesis
    using pten_minus [of "- s"] by (simp add: pten_nonneg_exp)
qed

lemma pten_scale_le_iff:
  assumes "0 < m"
  shows "c * (m * 10 ^ nat (- s)) \<le> n * 10 ^ nat s
    \<longleftrightarrow> of_int c * of_int m \<le> (of_int n * pten s :: rat)"
proof -
  have "of_int c * of_int m \<le> (of_int n * pten s :: rat) \<longleftrightarrow>
      of_int c * of_int m * of_int (10 ^ nat (- s)) \<le> (of_int n * of_int (10 ^ nat s) :: rat)"
    by (simp add: pten_split [of s] divide_simps)
  also have "\<dots> \<longleftrightarrow> (of_int (c * (m * 10 ^ nat (- s))) :: rat) \<le> of_int (n * 10 ^ nat s)"
    by (simp add: mult.assoc)
  also have "\<dots> \<longleftrightarrow> c * (m * 10 ^ nat (- s)) \<le> n * 10 ^ nat s"
    by (rule of_int_le_iff)
  finally show ?thesis
    by simp
qed

lemma qshift_bracket:
  assumes "n \<noteq> 0" "0 < m"
  shows "bracket (of_int n / of_int m) (- qshift n m)"
proof -
  define a b where "a = int (ndigits \<bar>n\<bar>)" and "b = int (ndigits m)"
  define x :: rat where "x = of_int \<bar>n\<bar> / of_int m"
  have pow: "(of_int (10 ^ k) :: rat) = pten (int k)" for k
    by (simp add: pten_nat)
  have n: "pten (a - 1) \<le> of_int \<bar>n\<bar>" "of_int \<bar>n\<bar> < pten a"
    using ndigits_bounds [of "\<bar>n\<bar>"] assms(1) pow [of "ndigits \<bar>n\<bar>"]
      pow [of "ndigits \<bar>n\<bar> - 1"] unfolding a_def
    by (metis abs_zero zero_less_abs_iff of_int_le_iff of_nat_1 of_nat_diff Suc_leI One_nat_def,
        metis abs_zero zero_less_abs_iff of_int_less_iff)
  have m: "pten (b - 1) \<le> of_int m" "of_int m < pten b"
    using ndigits_bounds [of m] assms(2) pow [of "ndigits m"] pow [of "ndigits m - 1"]
    unfolding b_def
    by (metis of_int_le_iff of_nat_1 of_nat_diff Suc_leI One_nat_def, metis of_int_less_iff)
  have mpos: "(0 :: rat) < of_int m"
    using assms(2) by simp
  have low: "pten (a - b - 1) \<le> x"
  proof -
    have "pten (a - b - 1) * of_int m \<le> pten (a - b - 1) * pten b"
      using m by (intro mult_left_mono) auto
    also have "\<dots> = pten (a - 1)"
      by (simp flip: pten_add)
    finally show ?thesis
      using n mpos by (simp add: x_def pos_le_divide_eq)
  qed
  have high: "x < pten (a - b + 1)"
  proof -
    have "pten a = pten (a - b + 1) * pten (b - 1)"
      by (simp flip: pten_add)
    also have "\<dots> \<le> pten (a - b + 1) * of_int m"
      using m by (intro mult_left_mono) auto
    finally show ?thesis
      using n mpos by (simp add: x_def pos_divide_less_eq)
  qed
  have test: "10 ^ 28 * (m * 10 ^ nat (- s)) \<le> \<bar>n\<bar> * 10 ^ nat s \<longleftrightarrow> pten (28 - s) \<le> x" for s
  proof -
    have "10 ^ 28 * (m * 10 ^ nat (- s)) \<le> \<bar>n\<bar> * 10 ^ nat s
        \<longleftrightarrow> pten 28 * of_int m \<le> of_int \<bar>n\<bar> * pten s"
      using pten_scale_le_iff [OF assms(2), of "10 ^ 28" s "\<bar>n\<bar>"] pten_nat [of 28] by simp
    also have "\<dots> \<longleftrightarrow> pten (28 - s) \<le> x"
      using mpos by (simp add: x_def pten_diff divide_le_eq pos_le_divide_eq)
    finally show ?thesis .
  qed
  have xn: "\<bar>of_int n / of_int m :: rat\<bar> = x"
    using assms(2) by (simp add: x_def abs_divide)
  show ?thesis
    using low high unfolding bracket_def xn qshift_def Let_def test
    by (auto simp: a_def b_def algebra_simps)
qed

lemma bracket_exists: "x \<noteq> 0 \<Longrightarrow> \<exists>E. bracket x E"
proof -
  assume "x \<noteq> 0"
  obtain n m where q: "quotient_of x = (n, m)"
    by (cases "quotient_of x")
  have x: "x = of_int n / of_int m" and m: "0 < m"
    using quotient_of_div [OF q] quotient_of_denom_pos [OF q] by simp_all
  with \<open>x \<noteq> 0\<close> have "n \<noteq> 0"
    by auto
  with m x qshift_bracket [of n m] show ?thesis
    by auto
qed

lemma rnd_cases:
  obtains "x = 0" "rnd x = 0"
  | E where "bracket x E" "rnd x = of_int (rhe (x / pten E)) * pten E"
  using bracket_exists [of x] rnd_bracket [of x] by (cases "x = 0") (auto simp: rnd_def)

lemma rnd_0 [simp]: "rnd 0 = 0"
  by (simp add: rnd_def)

lemma bracket_minus [simp]: "bracket (- x) E = bracket x E"
  by (simp add: bracket_def)

lemma rnd_minus: "rnd (- x) = - rnd x"
proof (cases x rule: rnd_cases)
  case 1
  then show ?thesis by simp
next
  case (2 E)
  then have "rnd (- x) = of_int (rhe (- x / pten E)) * pten E"
    by (intro rnd_bracket) simp
  with 2 show ?thesis
    by (simp add: rhe_minus)
qed

text \<open>A positive number with 28 digits at \<open>E\<close> rounds within its own decade.\<close>

lemma rnd_decade:
  assumes "bracket x E" "0 < x"
  shows "pten (E + 27) \<le> rnd x" "rnd x \<le> pten (E + 28)"
proof -
  have lo: "of_int (10 ^ 27) \<le> x / pten E" and hi: "x / pten E \<le> of_int (10 ^ 28)"
    using assms pten_nat [of 27] pten_nat [of 28]
    by (simp_all add: bracket_def pten_add pos_le_divide_eq pos_divide_le_eq mult.commute)
  have "10 ^ 27 \<le> rhe (x / pten E)"
    using rhe_mono [OF lo] by (simp only: rhe_of_int)
  then have "of_int (10 ^ 27) * pten E \<le> of_int (rhe (x / pten E)) * pten E"
    by (intro mult_right_mono) (simp_all only: of_int_le_iff pten_nonneg)
  then show "pten (E + 27) \<le> rnd x"
    using pten_nat [of 27] by (simp add: rnd_bracket [OF assms(1)] pten_add mult.commute)
  have "rhe (x / pten E) \<le> 10 ^ 28"
    using rhe_mono [OF hi] by (simp only: rhe_of_int)
  then have "of_int (rhe (x / pten E)) * pten E \<le> of_int (10 ^ 28) * pten E"
    by (intro mult_right_mono) (simp_all only: of_int_le_iff pten_nonneg)
  then show "rnd x \<le> pten (E + 28)"
    using pten_nat [of 28] by (simp add: rnd_bracket [OF assms(1)] pten_add mult.commute)
qed

lemma rnd_pos: "0 < x \<Longrightarrow> 0 < rnd x"
  using bracket_exists [of x] rnd_decade(1) [of x] pten_pos by (metis less_irrefl order_less_le_trans)

lemma rnd_mono_pos:
  assumes "0 < x" "x \<le> y"
  shows "rnd x \<le> rnd y"
proof -
  obtain E where E: "bracket x E"
    using bracket_exists [of x] assms(1) by auto
  obtain F where F: "bracket y F"
    using bracket_exists [of y] assms by auto
  have "pten (E + 27) < pten (F + 28)"
    using E F assms unfolding bracket_def by linarith
  then have EF: "E \<le> F"
    by simp
  show ?thesis
  proof (cases "E = F")
    case True
    have "x / pten E \<le> y / pten E"
      using assms by (simp add: divide_right_mono)
    with True show ?thesis
      by (simp add: rnd_bracket [OF E] rnd_bracket [OF F] rhe_mono)
  next
    case False
    with EF have "pten (E + 28) \<le> pten (F + 27)"
      by simp
    with rnd_decade(2) [OF E] rnd_decade(1) [OF F] assms show ?thesis
      by linarith
  qed
qed

theorem rnd_mono: "x \<le> y \<Longrightarrow> rnd x \<le> rnd y"
proof -
  assume le: "x \<le> y"
  consider "0 < x" | "x = 0" | "x < 0" "0 \<le> y" | "y < 0"
    by linarith
  then show ?thesis
  proof cases
    case 1
    with le show ?thesis by (simp add: rnd_mono_pos)
  next
    case 2
    with le rnd_pos [of y] show ?thesis
      by (cases "y = 0") auto
  next
    case 3
    with rnd_pos [of "- x"] rnd_pos [of y] show ?thesis
      by (cases "y = 0") (auto simp: rnd_minus)
  next
    case 4
    with le rnd_mono_pos [of "- y" "- x"] show ?thesis
      by (simp add: rnd_minus)
  qed
qed

lemma rnd_nonneg: "0 \<le> x \<Longrightarrow> 0 \<le> rnd x"
  using rnd_mono [of 0 x] by simp

lemma rnd_pos_iff [simp]: "0 < rnd x \<longleftrightarrow> 0 < x"
  using rnd_pos rnd_mono [of x 0] by (metis linorder_not_less rnd_0)

lemma rnd_neg_iff [simp]: "rnd x < 0 \<longleftrightarrow> x < 0"
  using rnd_pos_iff [of "- x"] by (simp add: rnd_minus)

lemma rnd_eq_0_iff [simp]: "rnd x = 0 \<longleftrightarrow> x = 0"
  using rnd_pos_iff [of x] rnd_neg_iff [of x] by (metis less_linear less_irrefl rnd_0)

lemma rnd_nonneg_iff [simp]: "0 \<le> rnd x \<longleftrightarrow> 0 \<le> x"
  using rnd_neg_iff [of x] by (simp add: linorder_not_less [symmetric])

lemma rnd_nonpos_iff [simp]: "rnd x \<le> 0 \<longleftrightarrow> x \<le> 0"
  using rnd_pos_iff [of x] by (simp add: linorder_not_less [symmetric])

text \<open>
  \<open>fits e x\<close>: \<open>x\<close> is a multiple of \<open>10 ^ e\<close> with at most 28 digits (or \<open>10 ^ 28\<close> itself).
\<close>

definition fits :: "int \<Rightarrow> rat \<Rightarrow> bool" where
  "fits e x \<longleftrightarrow> (\<exists>k. x = of_int k * pten e \<and> \<bar>k\<bar> \<le> 10 ^ 28)"

lemma rhe_integral: "x = of_int k \<Longrightarrow> rhe x = k"
  by simp

theorem rnd_exact:
  assumes "fits e x"
  shows "rnd x = x"
proof (cases x rule: rnd_cases)
  case 1
  then show ?thesis by simp
next
  case (2 E)
  from assms obtain k where x: "x = of_int k * pten e" and k: "\<bar>k\<bar> \<le> 10 ^ 28"
    by (auto simp: fits_def)
  have "\<bar>x\<bar> \<le> pten (28 + e)"
  proof -
    have "(of_int \<bar>k\<bar> :: rat) \<le> of_int (10 ^ 28)"
      using k by (simp only: of_int_le_iff)
    then show ?thesis
      using pten_nat [of 28] by (simp add: x abs_mult pten_add)
  qed
  then have "pten (E + 27) \<le> pten (28 + e)"
    using 2(1) unfolding bracket_def by linarith
  then have le: "E \<le> e + 1"
    by simp
  have "\<exists>j. x / pten E = of_int j"
  proof (cases "E \<le> e")
    case True
    then have "x / pten E = of_int (k * 10 ^ nat (e - E))"
      using pten_nonneg_exp [of "e - E"] by (simp add: x pten_diff flip: times_divide_eq_right)
    then show ?thesis ..
  next
    case False
    with le have E: "E = e + 1"
      by simp
    then have "pten 28 * pten e \<le> of_int \<bar>k\<bar> * pten e"
      using 2(1) unfolding bracket_def by (simp add: x abs_mult flip: pten_add)
    then have "(of_int (10 ^ 28) :: rat) \<le> of_int \<bar>k\<bar>"
      using pten_nat [of 28] by simp
    then have "10 ^ 28 \<le> \<bar>k\<bar>"
      by (simp only: of_int_le_iff)
    with k have "\<bar>k\<bar> = 10 ^ 28"
      by simp
    then have "k = sgn k * 10 ^ 28"
      by (metis sgn_mult_abs)
    then have "k = 10 * (sgn k * 10 ^ 27)"
      by simp
    then have "x / pten E = of_int (sgn k * 10 ^ 27)"
      by (simp add: x E pten_add)
    then show ?thesis ..
  qed
  then obtain j where j: "x / pten E = of_int j" ..
  with 2 have "rnd x = of_int j * pten E"
    by (simp add: rhe_integral)
  also have "\<dots> = x"
    using j by (metis nonzero_eq_divide_eq pten_neq_0)
  finally show ?thesis .
qed

text \<open>The error of a rounding is at most half a unit in the 28th digit.\<close>

lemma rnd_error: "\<bar>rnd x - x\<bar> \<le> \<bar>x\<bar> * pten (- 27) / 2"
proof (cases x rule: rnd_cases)
  case 1
  then show ?thesis by simp
next
  case (2 E)
  have "rnd x - x = (of_int (rhe (x / pten E)) - x / pten E) * pten E"
    by (simp add: 2(2) left_diff_distrib)
  then have "\<bar>rnd x - x\<bar> = \<bar>of_int (rhe (x / pten E)) - x / pten E\<bar> * pten E"
    by (simp only: abs_mult abs_of_nonneg pten_nonneg)
  also have "\<dots> \<le> 1 / 2 * pten E"
    using rhe_error [of "x / pten E"] by (intro mult_right_mono) auto
  also have "pten E = pten (E + 27) * pten (- 27)"
    by (simp flip: pten_add)
  also have "1 / 2 * (pten (E + 27) * pten (- 27)) \<le> 1 / 2 * (\<bar>x\<bar> * pten (- 27))"
    using 2(1) by (intro mult_left_mono mult_right_mono) (auto simp: bracket_def)
  finally show ?thesis
    by simp
qed

section \<open>The operations, numerically\<close>

lemma val_Dec: "val (Dec c e) = of_int c * pten e"
  by (simp add: val_def)

lemma val_0 [simp]: "val 0 = 0"
  by (simp add: zero_dec_def val_Dec)

lemma val_1 [simp]: "val 1 = 1"
  by (simp add: one_dec_def val_Dec)

lemma val_eq_0_iff: "val d = 0 \<longleftrightarrow> coeff d = 0"
  by (simp add: val_def)

lemma val_rquot:
  assumes "n \<noteq> 0" "0 < m"
  shows "val (rquot n m e) = rnd (of_int n / of_int m * pten e)"
proof -
  define s c where "s = qshift n m"
    and "c = rdiv ROUND_HALF_EVEN (n * 10 ^ nat s) (m * 10 ^ nat (- s))"
  have "bracket (of_int n / of_int m * pten e) (- s + e)"
    unfolding s_def by (rule bracket_scale [OF qshift_bracket [OF assms]])
  then have r: "rnd (of_int n / of_int m * pten e) =
      of_int (rhe (of_int n / of_int m * pten e / pten (- s + e))) * pten (- s + e)"
    by (rule rnd_bracket)
  have "c = rhe (of_int (n * 10 ^ nat s) / of_int (m * 10 ^ nat (- s)))"
    unfolding c_def using assms by (intro rdiv_half_even) simp
  also have "of_int (n * 10 ^ nat s) / of_int (m * 10 ^ nat (- s)) = of_int n / of_int m * pten s"
    by (simp add: pten_split [of s])
  also have "\<dots> = of_int n / of_int m * pten e / pten (- s + e)"
    by (simp add: pten_add pten_minus pten_diff)
  finally have c: "c = rhe (of_int n / of_int m * pten e / pten (- s + e))" .
  have rq: "rquot n m e = (if \<bar>c\<bar> = 10 ^ 28 then Dec (sgn c * 10 ^ 27) (e - s + 1) else Dec c (e - s))"
    by (simp only: rquot_def Let_def s_def c_def)
  have "val (rquot n m e) = of_int c * pten (e - s)"
  proof (cases "\<bar>c\<bar> = 10 ^ 28")
    case True
    then have c10: "sgn c * 10 ^ 27 * 10 = c"
      using sgn_mult_abs [of c] by simp
    have "val (rquot n m e) = of_int (sgn c * 10 ^ 27) * pten (e - s + 1)"
      by (simp only: rq True refl if_True val_Dec)
    also have "\<dots> = of_int (sgn c * 10 ^ 27 * 10) * pten (e - s)"
      by (simp add: pten_add)
    finally show ?thesis
      by (simp only: c10)
  next
    case False
    then show ?thesis
      by (simp only: rq if_False val_Dec)
  qed
  then show ?thesis
    using r c by (simp add: add.commute)
qed

lemma val_dround: "val (dround d) = rnd (val d)"
proof (cases "\<bar>coeff d\<bar> < 10 ^ 28")
  case True
  then have "fits (dexp d) (val d)"
    by (auto simp: fits_def val_def intro!: exI [of _ "coeff d"])
  with True show ?thesis
    by (simp add: dround_def rnd_exact)
next
  case False
  then have "coeff d \<noteq> 0"
    by auto
  with False show ?thesis
    by (simp add: dround_def val_rquot) (simp add: val_def)
qed

lemma val_plus [dec_simps]: "val (a + b) = rnd (val a + val b)"
  using align_min [where a = a and b = b]
  by (simp add: plus_dec_def Let_def val_dround val_Dec distrib_right)

lemma val_minus [dec_simps]: "val (a - b) = rnd (val a - val b)"
  using align_min [where a = a and b = b]
  by (simp add: minus_dec_def Let_def val_dround val_Dec left_diff_distrib)

lemma val_uminus [dec_simps]: "val (- a) = - rnd (val a)"
  by (simp add: uminus_dec_def val_dround val_Dec flip: rnd_minus) (simp add: val_def)

lemma val_times [dec_simps]: "val (a * b) = rnd (val a * val b)"
  by (simp add: times_dec_def val_dround val_Dec) (simp add: val_def pten_add algebra_simps)

lemma val_abs [dec_simps]: "val \<bar>a\<bar> = rnd \<bar>val a\<bar>"
  by (simp add: abs_dec_def val_dround val_Dec) (simp add: val_def abs_mult)

lemma val_py_max [dec_simps]: "val (py_max a b) = max (val a) (val b)"
  by (simp add: py_max_def dec_less_iff max_def)

lemma val_py_min [dec_simps]: "val (py_min a b) = min (val a) (val b)"
  by (simp add: py_min_def dec_less_iff min_def)

lemma val_strip_zeros: "val (strip_zeros c k e) = of_int c * pten e"
proof (induction c k e rule: strip_zeros.induct)
  case (1 c e)
  then show ?case by (simp add: val_Dec)
next
  case (2 c k e)
  show ?case
  proof (cases "c mod 10 = 0")
    case True
    then have c: "c = c div 10 * 10"
      by presburger
    have "val (strip_zeros c (Suc k) e) = of_int (c div 10) * (pten e * 10)"
      using True 2 by (simp add: pten_add)
    also have "\<dots> = of_int (c div 10 * 10) * pten e"
      by (simp only: of_int_mult of_int_numeral mult_ac)
    finally show ?thesis
      using c by simp
  next
    case False
    then show ?thesis by (simp add: val_Dec)
  qed
qed

theorem val_dec_div:
  assumes "val b \<noteq> 0"
  shows "\<exists>d. dec_div a b = Success d \<and> val d = rnd (val a / val b)"
proof (cases "coeff a = 0")
  case True
  with assms show ?thesis
    by (auto simp: dec_div_def val_eq_0_iff val_Dec val_def [of a])
next
  case False
  have b: "coeff b \<noteq> 0"
    using assms by (simp add: val_eq_0_iff)
  define n m ideal where "n = coeff a * sgn (coeff b)" and "m = \<bar>coeff b\<bar>"
    and "ideal = dexp a - dexp b"
  have "n \<noteq> 0" "0 < m"
    using False b by (simp_all add: n_def m_def sgn_eq_0_iff)
  then have q: "val (rquot n m ideal) = rnd (of_int n / of_int m * pten ideal)"
    by (rule val_rquot)
  have "(of_int n / of_int m :: rat) = of_int (coeff a) / of_int (coeff b)"
    using b by (cases "0 < coeff b") (auto simp: n_def m_def)
  then have "of_int n / of_int m * pten ideal = val a / val b"
    by (simp add: ideal_def pten_diff val_def)
  with q have q': "val (rquot n m ideal) = rnd (val a / val b)"
    by simp
  have "val (strip_zeros (coeff d) k (dexp d)) = val d" for d k
    by (simp only: val_strip_zeros val_def [of d])
  with q' False b show ?thesis
    by (simp add: dec_div_def Let_def flip: n_def m_def ideal_def)
qed

lemma dec_div_Success: "dec_div a b = Success d \<Longrightarrow> val b \<noteq> 0 \<and> val d = rnd (val a / val b)"
  using val_dec_div [of b a] by (cases "val b = 0") (auto simp: dec_div_def val_eq_0_iff)

section \<open>Integral values, quantize and the quantum check\<close>

lemma rdiv_of_quotient:
  assumes "0 < m"
  shows "rdiv r n m = (case r of ROUND_HALF_EVEN \<Rightarrow> rhe (of_int n / of_int m)
     | ROUND_FLOOR \<Rightarrow> \<lfloor>of_int n / of_int m :: rat\<rfloor>
     | ROUND_CEILING \<Rightarrow> \<lceil>of_int n / of_int m :: rat\<rceil>)"
  by (cases r) (simp_all only: rounding.case rdiv_half_even [OF assms] rdiv_floor rdiv_ceiling)

definition round_int :: "rounding \<Rightarrow> rat \<Rightarrow> int" where
  "round_int r x = (case r of ROUND_HALF_EVEN \<Rightarrow> rhe x | ROUND_FLOOR \<Rightarrow> \<lfloor>x\<rfloor> | ROUND_CEILING \<Rightarrow> \<lceil>x\<rceil>)"

lemma round_int_simps [simp]:
  "round_int ROUND_HALF_EVEN x = rhe x"
  "round_int ROUND_FLOOR x = \<lfloor>x\<rfloor>"
  "round_int ROUND_CEILING x = \<lceil>x\<rceil>"
  by (simp_all add: round_int_def)

lemma round_int_of_int [simp]: "round_int r (of_int k) = k"
  by (cases r) simp_all

lemma round_int_mono: "x \<le> y \<Longrightarrow> round_int r x \<le> round_int r y"
  by (cases r) (simp_all add: rhe_mono floor_mono ceiling_mono)

lemma rescale_coeff: "coeff (rescale d e r) = round_int r (val d / pten e)"
proof (cases "e \<le> dexp d")
  case True
  then have "val d / pten e = of_int (coeff d * 10 ^ nat (dexp d - e))"
    using pten_nonneg_exp [of "dexp d - e"]
    by (simp add: val_def pten_diff flip: times_divide_eq_right)
  then show ?thesis
    using True by (simp only: rescale_def dec.sel if_True round_int_of_int)
next
  case False
  then have "val d / pten e = of_int (coeff d) / of_int (10 ^ nat (e - dexp d))"
    using pten_nonneg_exp [of "e - dexp d"] by (simp add: val_def pten_diff field_simps)
  then show ?thesis
    using False by (simp only: rescale_def round_int_def dec.sel if_False)
      (rule rdiv_of_quotient, simp)
qed

lemma val_rescale: "val (rescale d e r) = of_int (round_int r (val d / pten e)) * pten e"
  by (simp add: val_def [of "rescale d e r"] rescale_coeff) (simp add: rescale_def)

lemma val_to_integral_value [dec_simps]:
  "val (to_integral_value r d) = of_int (round_int r (val d))"
proof (cases "0 \<le> dexp d")
  case True
  then have "val d = of_int (coeff d * 10 ^ nat (dexp d))"
    by (simp add: val_def pten_nonneg_exp)
  with True show ?thesis
    by (metis to_integral_value_def round_int_of_int)
next
  case False
  then show ?thesis
    by (simp add: to_integral_value_def val_rescale)
qed

lemma dec_quantize_Success:
  "dec_quantize d q r = Success x \<longleftrightarrow>
     x = Dec (round_int r (val d / pten (dexp q))) (dexp q) \<and>
     \<bar>round_int r (val d / pten (dexp q))\<bar> < 10 ^ 28"
proof -
  have "rescale d (dexp q) r = Dec (round_int r (val d / pten (dexp q))) (dexp q)"
    using rescale_coeff [of d "dexp q" r] by (intro dec.expand) (auto simp: rescale_def)
  then show ?thesis
    by (auto simp: dec_quantize_def Let_def)
qed

text \<open>
  \<open>is_quantized\<close> (\<^verbatim>\<open>domain/_trading.py\<close>): the amount is a multiple of the quantum, with fewer
  than \<open>10 ^ 28\<close> quanta; a larger quotient makes \<^verbatim>\<open>%\<close> signal, which the code reads as False.
\<close>

definition is_quantized :: "dec \<Rightarrow> dec \<Rightarrow> bool" where
  "is_quantized v q =
     (if q \<le> 0 then False
      else case dec_mod v q of Success r \<Rightarrow> deq r 0 | Failure c m \<Rightarrow> False | Raised e \<Rightarrow> False)"

theorem is_quantized_iff:
  "is_quantized v q \<longleftrightarrow> 0 < val q \<and> (\<exists>k. val v = of_int k * val q \<and> \<bar>k\<bar> < 10 ^ 28)"
proof (cases "0 < val q")
  case False
  then show ?thesis
    by (simp add: is_quantized_def dec_le_iff)
next
  case True
  define e x y where "e = min (dexp v) (dexp q)" and "x = align v e" and "y = align q e"
  have vx: "val v = of_int x * pten e" and qy: "val q = of_int y * pten e"
    using align_min [where a = v and b = q] by (simp_all add: e_def x_def y_def)
  with True have y: "0 < y"
    by (simp add: zero_less_mult_iff pten_nonneg [THEN leD])
  have cq: "coeff q \<noteq> 0"
    using True by (auto simp flip: val_eq_0_iff)
  have "is_quantized v q \<longleftrightarrow> \<bar>x\<bar> div y < 10 ^ 28 \<and> sgn x * (\<bar>x\<bar> mod y) = 0"
    using True cq y
    by (auto simp: is_quantized_def dec_le_iff dec_mod_def Let_def deq_iff val_dround val_Dec
        simp flip: e_def x_def y_def)
  also have "\<dots> \<longleftrightarrow> (\<exists>k. x = k * y \<and> \<bar>k\<bar> < 10 ^ 28)"
  proof
    assume a: "\<bar>x\<bar> div y < 10 ^ 28 \<and> sgn x * (\<bar>x\<bar> mod y) = 0"
    then have "\<bar>x\<bar> mod y = 0"
      by (auto simp: sgn_eq_0_iff)
    then have "x = sgn x * (\<bar>x\<bar> div y) * y"
      by (metis mult.assoc sgn_mult_abs mult_div_mod_eq add_0_right mult.commute)
    moreover have "\<bar>sgn x * (\<bar>x\<bar> div y)\<bar> < 10 ^ 28"
      using a y by (auto simp: abs_mult abs_sgn_eq pos_imp_zdiv_nonneg_iff)
    ultimately show "\<exists>k. x = k * y \<and> \<bar>k\<bar> < 10 ^ 28"
      by blast
  next
    assume "\<exists>k. x = k * y \<and> \<bar>k\<bar> < 10 ^ 28"
    then show "\<bar>x\<bar> div y < 10 ^ 28 \<and> sgn x * (\<bar>x\<bar> mod y) = 0"
      using y by (auto simp: abs_mult)
  qed
  also have "\<dots> \<longleftrightarrow> (\<exists>k. val v = of_int k * val q \<and> \<bar>k\<bar> < 10 ^ 28)"
    by (simp add: vx qy mult.assoc [symmetric] flip: of_int_mult)
  finally show ?thesis
    using True by simp
qed

end
