(* ===== verification/Quantum.thy ===== *)
theory Quantum
  imports Decimal_Rounding
begin

text \<open>
  Amounts on the grid of a quantum. The trading models keep every amount a multiple of a declared
  quantum; \<open>on_grid q x\<close> says that the number \<open>x\<close> is such a multiple and \<open>in_range q x\<close> that
  it has at most 28 digits down to the last digit of the quantum. Sums and differences of grid
  amounts stay on the grid, and Decimal arithmetic on them is exact while the result is in range.

  The locale \<open>quantizer\<close> is the contract of the rounding helpers of the execution code: divide
  by the quantum, round to an integer with a monotone rule, multiply again.
\<close>

section \<open>The grid\<close>

text \<open>Rounding twice is rounding once.\<close>

lemma rnd_idem [simp]: "rnd (rnd x) = rnd x"
proof (cases x rule: rnd_cases)
  case (2 E)
  have "\<bar>x / pten E\<bar> \<le> of_int (10 ^ 28)"
    using 2(1) pten_nat [of 28] by (simp add: bracket_def pten_add abs_mult pos_divide_le_eq mult.commute less_imp_le)
  then have "x / pten E \<le> of_int (10 ^ 28)" "of_int (- (10 ^ 28)) \<le> x / pten E"
    unfolding abs_le_iff of_int_minus by linarith+
  then have "\<bar>rhe (x / pten E)\<bar> \<le> 10 ^ 28"
    using rhe_mono [of "x / pten E" "of_int (10 ^ 28)"] rhe_mono [of "of_int (- (10 ^ 28))" "x / pten E"]
    unfolding rhe_of_int abs_le_iff by linarith
  then have "fits E (rnd x)"
    unfolding fits_def 2(2) by blast
  then show ?thesis
    by (rule rnd_exact)
qed simp

definition on_grid :: "dec \<Rightarrow> rat \<Rightarrow> bool" where
  "on_grid q x \<longleftrightarrow> 0 < val q \<and> (\<exists>k. x = of_int k * val q)"

definition in_range :: "dec \<Rightarrow> rat \<Rightarrow> bool" where
  "in_range q x \<longleftrightarrow> \<bar>x\<bar> < 10 ^ 28 * pten (dexp q)"

lemma on_grid_pos: "on_grid q x \<Longrightarrow> 0 < val q"
  by (simp add: on_grid_def)

lemma on_grid_0 [simp]: "on_grid q 0 \<longleftrightarrow> 0 < val q"
  by (auto simp: on_grid_def intro!: exI [of _ 0])

lemma in_range_0 [simp]: "in_range q 0"
  by (simp add: in_range_def)

lemma on_grid_self [simp]: "on_grid q (val q) \<longleftrightarrow> 0 < val q"
  by (auto simp: on_grid_def intro!: exI [of _ 1])

lemma on_grid_add [intro]: "\<lbrakk>on_grid q x; on_grid q y\<rbrakk> \<Longrightarrow> on_grid q (x + y)"
  by (auto simp: on_grid_def simp flip: distrib_right of_int_add)

lemma on_grid_diff [intro]: "\<lbrakk>on_grid q x; on_grid q y\<rbrakk> \<Longrightarrow> on_grid q (x - y)"
  by (auto simp: on_grid_def simp flip: left_diff_distrib of_int_diff)

lemma on_grid_minus [intro]: "on_grid q x \<Longrightarrow> on_grid q (- x)"
  by (auto simp: on_grid_def) (metis minus_mult_left of_int_minus)

lemma on_grid_sum_list: "\<lbrakk>0 < val q; \<forall>x \<in> set xs. on_grid q x\<rbrakk> \<Longrightarrow> on_grid q (sum_list xs)"
  by (induction xs) auto

lemma on_grid_cong: "val q = val q' \<Longrightarrow> on_grid q x = on_grid q' x"
  by (simp add: on_grid_def)

lemma in_range_minus [simp]: "in_range q (- x) = in_range q x"
  by (simp add: in_range_def)

lemma in_range_between: "\<lbrakk>in_range q a; in_range q b; a \<le> x; x \<le> b\<rbrakk> \<Longrightarrow> in_range q x"
  by (auto simp: in_range_def)

lemma pos_coeff: "0 < val q \<longleftrightarrow> 0 < coeff q"
  by (simp add: val_def zero_less_mult_iff) (metis not_less_iff_gr_or_eq pten_pos)

lemma pten_le_quantum: "0 < val q \<Longrightarrow> pten (dexp q) \<le> val q"
proof -
  assume "0 < val q"
  then have "1 \<le> coeff q"
    by (simp add: pos_coeff)
  then show ?thesis
    using mult_right_mono [of 1 "of_int (coeff q)" "pten (dexp q)"] by (simp add: val_def)
qed

lemma grid_fits: "\<lbrakk>on_grid q x; in_range q x\<rbrakk> \<Longrightarrow> fits (dexp q) x"
proof -
  assume grid: "on_grid q x" and range: "in_range q x"
  from grid obtain k where "x = of_int (k * coeff q) * pten (dexp q)"
    by (auto simp: on_grid_def val_def mult.assoc)
  moreover from this range have "(of_int \<bar>k * coeff q\<bar> :: rat) < of_int (10 ^ 28)"
    by (simp add: in_range_def abs_mult)
  ultimately show ?thesis
    unfolding fits_def of_int_less_iff by (metis less_imp_le)
qed

lemma rnd_grid [simp]: "\<lbrakk>on_grid q x; in_range q x\<rbrakk> \<Longrightarrow> rnd x = x"
  using grid_fits rnd_exact by blast

text \<open>The quantum check of the models in terms of the grid.\<close>

lemma is_quantized_grid: "is_quantized d q \<Longrightarrow> on_grid q (val d)"
  by (auto simp: is_quantized_iff on_grid_def)

lemma grid_is_quantized: "\<lbrakk>on_grid q (val d); in_range q (val d)\<rbrakk> \<Longrightarrow> is_quantized d q"
proof -
  assume grid: "on_grid q (val d)" and range: "in_range q (val d)"
  from grid obtain k where k: "val d = of_int k * val q" and q: "0 < val q"
    by (auto simp: on_grid_def)
  have "\<bar>of_int k\<bar> * pten (dexp q) \<le> \<bar>of_int k\<bar> * val q"
    using pten_le_quantum [OF q] by (simp add: mult_left_mono)
  also have "\<dots> < 10 ^ 28 * pten (dexp q)"
    using range q by (simp add: in_range_def k abs_mult)
  finally have "(of_int \<bar>k\<bar> :: rat) < of_int (10 ^ 28)"
    by simp
  then show ?thesis
    unfolding of_int_less_iff using k q by (auto simp: is_quantized_iff)
qed

lemma val_plus_grid:
  "\<lbrakk>on_grid q (val a); on_grid q (val b); in_range q (val a + val b)\<rbrakk> \<Longrightarrow> val (a + b) = val a + val b"
  unfolding val_plus by (rule rnd_grid) auto

lemma val_minus_grid:
  "\<lbrakk>on_grid q (val a); on_grid q (val b); in_range q (val a - val b)\<rbrakk> \<Longrightarrow> val (a - b) = val a - val b"
  unfolding val_minus by (rule rnd_grid) auto

lemma val_uminus_grid: "\<lbrakk>on_grid q (val a); in_range q (val a)\<rbrakk> \<Longrightarrow> val (- a) = - val a"
  by (simp add: val_uminus)

lemma grid_step: "\<lbrakk>on_grid q x; on_grid q y; x < y\<rbrakk> \<Longrightarrow> x + val q \<le> y"
proof -
  assume "on_grid q x" "on_grid q y" "x < y"
  then obtain k l where *: "x = of_int k * val q" "y = of_int l * val q" "0 < val q"
    by (auto simp: on_grid_def)
  with \<open>x < y\<close> have "k + 1 \<le> l"
    by (simp add: mult_less_cancel_right)
  then have "of_int (k + 1) * val q \<le> of_int l * val q"
    using * by (intro mult_right_mono) simp_all
  with * show ?thesis
    by (simp add: distrib_right)
qed

section \<open>Rounding to the grid\<close>

locale quantizer =
  fixes quant :: "dec \<Rightarrow> dec \<Rightarrow> dec result"
    and steps :: "rat \<Rightarrow> int"
  assumes quant_val:
      "0 < val q \<Longrightarrow> \<exists>d. quant v q = Success d \<and>
         val d = rnd (of_int (steps (rnd (val v / val q))) * val q)"
    and steps_mono: "x \<le> y \<Longrightarrow> steps x \<le> steps y"
    and steps_of_int: "steps (of_int k) = k"
begin

lemma quant_total: "0 < val q \<Longrightarrow> \<exists>d. quant v q = Success d"
  using quant_val by blast

lemma quant_Success:
  "\<lbrakk>quant v q = Success d; 0 < val q\<rbrakk> \<Longrightarrow>
   val d = rnd (of_int (steps (rnd (val v / val q))) * val q)"
  using quant_val [of q v] by auto

text \<open>A bound on the grid is reached in the same number of steps.\<close>

lemma steps_grid:
  assumes "on_grid q b" "in_range q b"
  shows "of_int (steps (rnd (b / val q))) * val q = b"
proof -
  obtain k where k: "b = of_int k * val q" and q: "0 < val q"
    using assms by (auto simp: on_grid_def)
  have "\<bar>k\<bar> < 10 ^ 28"
  proof -
    obtain d where "d = Dec (k * coeff q) (dexp q)" "val d = b"
      by (simp add: k val_def)
    with assms have "is_quantized d q"
      using grid_is_quantized [of q d] by simp
    then show ?thesis
      using k q \<open>val d = b\<close> by (auto simp: is_quantized_iff)
  qed
  then have "fits 0 (b / val q)"
    unfolding fits_def using k q by (intro exI [of _ k]) auto
  with k q show ?thesis
    by (simp add: rnd_exact steps_of_int)
qed

lemma quant_upper:
  assumes d: "quant v q = Success d" and b: "on_grid q b" "in_range q b" "val v \<le> b"
  shows "of_int (steps (rnd (val v / val q))) * val q \<le> b" "val d \<le> b"
proof -
  have q: "0 < val q"
    using b(1) by (rule on_grid_pos)
  then have "rnd (val v / val q) \<le> rnd (b / val q)"
    using b(3) by (intro rnd_mono divide_right_mono) simp_all
  then show le: "of_int (steps (rnd (val v / val q))) * val q \<le> b"
    using steps_mono steps_grid [OF b(1, 2)] q
    by (metis mult_right_mono of_int_le_iff less_imp_le)
  show "val d \<le> b"
    using rnd_mono [OF le] b quant_Success [OF d q] by simp
qed

lemma quant_lower:
  assumes d: "quant v q = Success d" and b: "on_grid q b" "in_range q b" "b \<le> val v"
  shows "b \<le> of_int (steps (rnd (val v / val q))) * val q" "b \<le> val d"
proof -
  have q: "0 < val q"
    using b(1) by (rule on_grid_pos)
  then have "rnd (b / val q) \<le> rnd (val v / val q)"
    using b(3) by (intro rnd_mono divide_right_mono) simp_all
  then show le: "b \<le> of_int (steps (rnd (val v / val q))) * val q"
    using steps_mono steps_grid [OF b(1, 2)] q
    by (metis mult_right_mono of_int_le_iff less_imp_le)
  show "b \<le> val d"
    using rnd_mono [OF le] b quant_Success [OF d q] by simp
qed

lemma quant_between:
  assumes d: "quant v q = Success d"
    and a: "on_grid q a" "in_range q a" "a \<le> val v"
    and b: "on_grid q b" "in_range q b" "val v \<le> b"
  shows "on_grid q (val d) \<and> in_range q (val d) \<and> a \<le> val d \<and> val d \<le> b"
proof -
  let ?x = "of_int (steps (rnd (val v / val q))) * val q"
  have q: "0 < val q"
    using b(1) by (rule on_grid_pos)
  have "on_grid q ?x"
    using q by (auto simp: on_grid_def)
  moreover have "in_range q ?x"
    using quant_lower(1) [OF d a] quant_upper(1) [OF d b] a(2) b(2) in_range_between by blast
  ultimately show ?thesis
    using quant_Success [OF d q] quant_lower(2) [OF d a] quant_upper(2) [OF d b] by simp
qed

lemma quant_fixed:
  assumes "quant v q = Success d" "on_grid q (val v)" "in_range q (val v)"
  shows "val d = val v"
  using quant_upper(2) [OF assms(1-3)] quant_lower(2) [OF assms(1-3)] by simp

end

end
