(* ===== verification/Contracts.thy ===== *)
theory Contracts
  imports Quantum
begin

text \<open>
  The wire primitives of \<^verbatim>\<open>packages/contracts/src/stonks_contracts/common.py\<close>: the field types
  with their validators, the canonical JSON text and the payload hash, and the trading helpers of
  \<^verbatim>\<open>domain/_trading.py\<close>.

  SHA-256 and UUID-5 are parameters of the model: a value of the record \<open>hashing\<close> holds the two
  functions, and \<open>wf_hashing\<close> states their documented output formats (64 lower-case hexadecimal
  digits, a canonical UUID). A UUID is its canonical text, so that \<^verbatim>\<open>str(uuid)\<close> is the identity and
  sorting by it is sorting the text. A validated time is the number of microseconds since
  1970-01-01T00:00:00Z; a raw \<^verbatim>\<open>datetime\<close> argument is a value of \<open>pytime\<close>, because comparing a
  naive time with a validated one raises \<^verbatim>\<open>TypeError\<close> and several functions handle that.
\<close>

type_synonym uuid = string
type_synonym utc = int
type_synonym hash = string

section \<open>Times\<close>

datatype pytime = Utc utc | Naive utc

text \<open>\<^verbatim>\<open>a < b\<close> on two times: defined when both are aware or both naive.\<close>

fun time_less :: "pytime \<Rightarrow> pytime \<Rightarrow> bool result" where
  "time_less (Utc a) (Utc b) = Success (a < b)"
| "time_less (Naive a) (Naive b) = Success (a < b)"
| "time_less a b = Raised TypeError"

text \<open>The \<^verbatim>\<open>UTCDateTime\<close> validator accepts aware times only.\<close>

fun normalize_utc :: "pytime \<Rightarrow> utc result" where
  "normalize_utc (Utc t) = Success t"
| "normalize_utc (Naive t) = Raised (ValueError ''datetime must be timezone-aware'')"

section \<open>Field validators\<close>

definition decimal_ok :: "dec \<Rightarrow> bool" where
  "decimal_ok d \<longleftrightarrow>
     ndigits \<bar>coeff d\<bar> \<le> 64 \<and> \<bar>dexp d\<bar> \<le> 64 \<and>
     \<bar>dexp d + int (ndigits \<bar>coeff d\<bar>) - 1\<bar> \<le> 64"

definition positive_ok :: "dec \<Rightarrow> bool" where
  "positive_ok d \<longleftrightarrow> decimal_ok d \<and> \<not> d \<le> 0"

definition non_negative_ok :: "dec \<Rightarrow> bool" where
  "non_negative_ok d \<longleftrightarrow> decimal_ok d \<and> \<not> d < 0"

definition unit_ok :: "dec \<Rightarrow> bool" where
  "unit_ok d \<longleftrightarrow> decimal_ok d \<and> 0 \<le> d \<and> d \<le> 1"

definition signed_unit_ok :: "dec \<Rightarrow> bool" where
  "signed_unit_ok d \<longleftrightarrow> decimal_ok d \<and> Dec (- 1) 0 \<le> d \<and> d \<le> 1"

definition char_between :: "char \<Rightarrow> char \<Rightarrow> char \<Rightarrow> bool" where
  "char_between a c b \<longleftrightarrow> a \<le> c \<and> c \<le> b"

definition hex_char :: "char \<Rightarrow> bool" where
  "hex_char c \<longleftrightarrow> char_between CHR ''0'' c CHR ''9'' \<or> char_between CHR ''a'' c CHR ''f''"

definition upper_char :: "char \<Rightarrow> bool" where
  "upper_char c \<longleftrightarrow> char_between CHR ''A'' c CHR ''Z''"

definition sha256_ok :: "string \<Rightarrow> bool" where
  "sha256_ok s \<longleftrightarrow> length s = 64 \<and> list_all hex_char s"

definition currency_ok :: "string \<Rightarrow> bool" where
  "currency_ok s \<longleftrightarrow> length s = 3 \<and> list_all upper_char s"

definition nonempty_ok :: "string \<Rightarrow> bool" where
  "nonempty_ok s \<longleftrightarrow> s \<noteq> []"

text \<open>An optional field is valid when it is absent or its value is.\<close>

definition opt_ok :: "('a \<Rightarrow> bool) \<Rightarrow> 'a option \<Rightarrow> bool" where
  "opt_ok p x \<longleftrightarrow> (case x of None \<Rightarrow> True | Some y \<Rightarrow> p y)"

text \<open>The canonical text of a UUID: 8-4-4-4-12 lower-case hexadecimal digits.\<close>

definition uuid_canonical :: "string \<Rightarrow> bool" where
  "uuid_canonical s \<longleftrightarrow>
     length s = 36 \<and>
     list_all (\<lambda>i. if i \<in> {8, 13, 18, 23} then s ! i = CHR ''-'' else hex_char (s ! i)) [0..<36]"

section \<open>Canonical JSON and the payload hash\<close>

datatype json =
    JNull
  | JBool bool
  | JInt int
  | JStr string
  | JList "json list"
  | JObj "(string \<times> json) list"

definition digit_char :: "int \<Rightarrow> char" where
  "digit_char n = char_of (48 + n)"

fun show_digits :: "int \<Rightarrow> string" where
  "show_digits n =
     (if n < 10 then [digit_char n] else show_digits (n div 10) @ [digit_char (n mod 10)])"

declare show_digits.simps [simp del]

definition show_int :: "int \<Rightarrow> string" where
  "show_int n = (if n < 0 then ''-'' @ show_digits (- n) else show_digits n)"

definition pad_left :: "nat \<Rightarrow> string \<Rightarrow> string" where
  "pad_left n s = replicate (n - length s) CHR ''0'' @ s"

text \<open>\<^verbatim>\<open>format(value, "f")\<close>: fixed-point notation with the exponent's number of decimals.\<close>

definition serialize_decimal :: "dec \<Rightarrow> string" where
  "serialize_decimal d =
     (let sign = (if coeff d < 0 then ''-'' else '''') in
      if 0 \<le> dexp d then sign @ show_digits (\<bar>coeff d\<bar> * 10 ^ nat (dexp d))
      else
        let k = nat (- dexp d); s = pad_left (Suc k) (show_digits \<bar>coeff d\<bar>)
        in sign @ take (length s - k) s @ ''.'' @ drop (length s - k) s)"

text \<open>
  Days since 1970-01-01 to a proleptic Gregorian date, counting years from March so that the
  leap day is the last day of a year.
\<close>

definition civil_from_days :: "int \<Rightarrow> int \<times> int \<times> int" where
  "civil_from_days days =
     (let z = days + 719468; era = z div 146097; doe = z mod 146097;
          yoe = (doe - doe div 1460 + doe div 36524 - doe div 146096) div 365;
          doy = doe - (365 * yoe + yoe div 4 - yoe div 100);
          mp = (5 * doy + 2) div 153; d = doy - (153 * mp + 2) div 5 + 1;
          m = (if mp < 10 then mp + 3 else mp - 9);
          y = yoe + era * 400 + (if m \<le> 2 then 1 else 0)
      in (y, m, d))"

text \<open>\<^verbatim>\<open>value.isoformat()\<close> of a UTC time, with the offset written as \<open>tz\<close>.\<close>

definition isoformat :: "string \<Rightarrow> utc \<Rightarrow> string" where
  "isoformat tz t =
     (let secs = t div 1000000; us = t mod 1000000; days = secs div 86400; sod = secs mod 86400 in
      case civil_from_days days of (y, m, d) \<Rightarrow>
        pad_left 4 (show_int y) @ ''-'' @ pad_left 2 (show_int m) @ ''-'' @ pad_left 2 (show_int d)
        @ ''T'' @ pad_left 2 (show_int (sod div 3600)) @ '':''
        @ pad_left 2 (show_int (sod mod 3600 div 60)) @ '':'' @ pad_left 2 (show_int (sod mod 60))
        @ (if us = 0 then '''' else ''.'' @ pad_left 6 (show_int us)) @ tz)"

definition serialize_utc :: "utc \<Rightarrow> string" where
  "serialize_utc t = isoformat ''Z'' t"

definition escape_char :: "char \<Rightarrow> string" where
  "escape_char c =
     (let n = of_char c :: int in
      if n = 34 then [CHR 0x5C, CHR 0x22]
      else if n = 92 then [CHR 0x5C, CHR 0x5C]
      else if n = 8 then CHR 0x5C # ''b''
      else if n = 9 then CHR 0x5C # ''t''
      else if n = 10 then CHR 0x5C # ''n''
      else if n = 12 then CHR 0x5C # ''f''
      else if n = 13 then CHR 0x5C # ''r''
      else if n < 32 then
        CHR 0x5C # ''u00'' @
        [digit_char (n div 16), if n mod 16 < 10 then digit_char (n mod 16) else char_of (87 + n mod 16)]
      else [c])"

definition json_string :: "string \<Rightarrow> string" where
  "json_string s = [CHR 0x22] @ concat (map escape_char s) @ [CHR 0x22]"

fun comma_sep :: "string list \<Rightarrow> string" where
  "comma_sep [] = ''''"
| "comma_sep [s] = s"
| "comma_sep (s # t # ss) = s @ '','' @ comma_sep (t # ss)"

fun canonical_json :: "json \<Rightarrow> string" where
  "canonical_json JNull = ''null''"
| "canonical_json (JBool b) = (if b then ''true'' else ''false'')"
| "canonical_json (JInt n) = show_int n"
| "canonical_json (JStr s) = json_string s"
| "canonical_json (JList xs) = ''['' @ comma_sep (map canonical_json xs) @ '']''"
| "canonical_json (JObj kvs) =
     ''{'' @ comma_sep (map (\<lambda>(k, s). json_string k @ '':'' @ s)
       (sort_key fst (map (\<lambda>(k, v). (k, canonical_json v)) kvs))) @ ''}''"

record hashing =
  sha256 :: "string \<Rightarrow> string"
  uuid5 :: "string \<Rightarrow> string"

definition wf_hashing :: "hashing \<Rightarrow> bool" where
  "wf_hashing H \<longleftrightarrow> (\<forall>s. sha256_ok (sha256 H s)) \<and> (\<forall>s. uuid_canonical (uuid5 H s))"

definition stable_payload_hash :: "hashing \<Rightarrow> json \<Rightarrow> hash" where
  "stable_payload_hash H j = sha256 H (canonical_json j)"

text \<open>JSON forms of the field types (\<^verbatim>\<open>model_dump(mode="json")\<close>).\<close>

definition jdec :: "dec \<Rightarrow> json" where
  "jdec d = JStr (serialize_decimal d)"

definition jtime :: "utc \<Rightarrow> json" where
  "jtime t = JStr (serialize_utc t)"

definition jopt :: "('a \<Rightarrow> json) \<Rightarrow> 'a option \<Rightarrow> json" where
  "jopt f x = (case x of None \<Rightarrow> JNull | Some y \<Rightarrow> f y)"

text \<open>The placeholder digest of the provisional models.\<close>

definition PLACEHOLDER_HASH :: hash where
  "PLACEHOLDER_HASH = replicate 64 CHR ''0''"

section \<open>Facts about the primitives\<close>

lemma positive_ok_pos: "positive_ok d \<Longrightarrow> 0 < val d"
  by (simp add: positive_ok_def dec_le_iff)

lemma non_negative_ok_nonneg: "non_negative_ok d \<Longrightarrow> 0 \<le> val d"
  by (simp add: non_negative_ok_def dec_less_iff)

lemma wf_hashing_stable: "wf_hashing H \<Longrightarrow> sha256_ok (stable_payload_hash H j)"
  by (simp add: wf_hashing_def stable_payload_hash_def)

lemma wf_hashing_uuid5: "wf_hashing H \<Longrightarrow> uuid_canonical (uuid5 H s)"
  by (simp add: wf_hashing_def)

text \<open>The order in which a model lists its fields does not matter for the hash.\<close>

lemma canonical_json_perm:
  assumes "mset kvs = mset kvs'" "distinct (map fst kvs)"
  shows "canonical_json (JObj kvs) = canonical_json (JObj kvs')"
proof -
  let ?f = "\<lambda>(k, v). (k, canonical_json v)"
  have fst: "map fst (map ?f xs) = map fst xs" for xs :: "(string \<times> json) list"
    by (auto simp: comp_def case_prod_unfold)
  have "mset (map ?f kvs) = mset (map ?f kvs')"
    using assms(1) by (simp only: mset_map)
  moreover have "inj_on fst (set (map ?f kvs))"
    using assms(2) fst [of kvs] by (metis distinct_map)
  ultimately have "sort_key fst (map ?f kvs) = sort_key fst (map ?f kvs')"
    by (rule sort_key_eq_sort_key)
  then show ?thesis
    by simp
qed

section \<open>Results of arithmetic as field values\<close>

text \<open>A rounded Decimal has at most 28 digits, and rounding never lowers the exponent.\<close>

lemma rquot_digits:
  assumes "n \<noteq> 0" "0 < m"
  shows "\<bar>coeff (rquot n m e)\<bar> < 10 ^ 28"
proof -
  define s where "s = qshift n m"
  let ?c = "rdiv ROUND_HALF_EVEN (n * 10 ^ nat s) (m * 10 ^ nat (- s))"
  have "bracket (of_int n / of_int m) (- s)"
    using qshift_bracket [OF assms] by (simp add: s_def)
  then have "\<bar>of_int n / of_int m\<bar> < pten (28 - s)"
    by (simp add: bracket_def)
  then have "\<bar>of_int n / of_int m\<bar> * pten s < 10 ^ 28"
    using pten_nat [of 28] by (simp add: pten_diff field_simps)
  then have "\<bar>of_int n / of_int m * pten s\<bar> < (10 ^ 28 :: rat)"
    by (simp add: abs_mult)
  then have abs: "of_int n / of_int m * pten s \<le> of_int (10 ^ 28)"
      "of_int (- (10 ^ 28)) \<le> of_int n / of_int m * pten s"
    unfolding abs_less_iff by simp_all
  have c: "?c = rhe (of_int n / of_int m * pten s)"
    using assms by (subst rdiv_half_even) (simp_all add: pten_split [of s])
  have "?c \<le> 10 ^ 28"
    using rhe_mono [OF abs(1)] unfolding c rhe_of_int .
  moreover have "- (10 ^ 28) \<le> ?c"
    using rhe_mono [OF abs(2)] unfolding c rhe_of_int .
  ultimately have "\<bar>?c\<bar> \<le> 10 ^ 28"
    by linarith
  moreover have "rquot n m e = (if \<bar>?c\<bar> = 10 ^ 28 then Dec (sgn ?c * 10 ^ 27) (e - s + 1)
      else Dec ?c (e - s))"
    by (simp only: rquot_def Let_def s_def)
  ultimately show ?thesis
    by (cases "\<bar>?c\<bar> = 10 ^ 28") (simp_all add: abs_mult sgn_if del: rdiv.simps)
qed

lemma dround_digits: "\<bar>coeff (dround d)\<bar> < 10 ^ 28"
  using rquot_digits [of "coeff d" 1 "dexp d"] by (auto simp: dround_def)

lemma dround_exp: "dexp d \<le> dexp (dround d)"
proof (cases "\<bar>coeff d\<bar> < 10 ^ 28")
  case False
  have "ndigits 1 = 1"
    by (simp add: ndigits.simps)
  have "qshift (coeff d) 1 \<le> 0"
  proof -
    have "\<not> int (ndigits \<bar>coeff d\<bar>) \<le> 28"
    proof
      assume "int (ndigits \<bar>coeff d\<bar>) \<le> 28"
      then have "(10 :: int) ^ ndigits \<bar>coeff d\<bar> \<le> 10 ^ 28"
        by (intro power_increasing) auto
      with False ndigits_bounds [of "\<bar>coeff d\<bar>"] show False
        by (cases "coeff d = 0") auto
    qed
    then show ?thesis
      by (simp add: qshift_def Let_def \<open>ndigits 1 = 1\<close>)
  qed
  with False show ?thesis
    by (simp add: dround_def rquot_def Let_def del: rdiv.simps)
qed (simp add: dround_def)

lemma ndigits_le:
  assumes "\<bar>n\<bar> < 10 ^ k" "0 < k"
  shows "ndigits \<bar>n\<bar> \<le> k"
proof (cases "n = 0")
  case True
  then show ?thesis
    using assms by (simp add: ndigits.simps)
next
  case False
  then have "10 ^ (ndigits \<bar>n\<bar> - 1) \<le> \<bar>n\<bar>" "0 < ndigits \<bar>n\<bar>"
    using ndigits_bounds [of "\<bar>n\<bar>"] by auto
  with assms have "(10 :: int) ^ (ndigits \<bar>n\<bar> - 1) < 10 ^ k"
    by linarith
  then show ?thesis
    using \<open>0 < ndigits \<bar>n\<bar>\<close> by (simp add: power_strict_increasing_iff)
qed

text \<open>The adjusted exponent brackets the value.\<close>

lemma adjusted_bounds:
  assumes "val d \<noteq> 0"
  shows "pten (dexp d + int (ndigits \<bar>coeff d\<bar>) - 1) \<le> \<bar>val d\<bar>"
    "\<bar>val d\<bar> < pten (dexp d + int (ndigits \<bar>coeff d\<bar>))"
proof -
  have "coeff d \<noteq> 0"
    using assms by (simp add: val_eq_0_iff)
  then have b: "10 ^ (ndigits \<bar>coeff d\<bar> - 1) \<le> \<bar>coeff d\<bar>" "\<bar>coeff d\<bar> < 10 ^ ndigits \<bar>coeff d\<bar>"
      "0 < ndigits \<bar>coeff d\<bar>"
    using ndigits_bounds [of "\<bar>coeff d\<bar>"] by auto
  have v: "\<bar>val d\<bar> = of_int \<bar>coeff d\<bar> * pten (dexp d)"
    by (simp add: val_def abs_mult)
  have "pten (int (ndigits \<bar>coeff d\<bar> - 1)) \<le> of_int \<bar>coeff d\<bar>"
    unfolding pten_nat of_int_le_iff by (rule b(1))
  then show "pten (dexp d + int (ndigits \<bar>coeff d\<bar>) - 1) \<le> \<bar>val d\<bar>"
    using b(3) pten_add [of "int (ndigits \<bar>coeff d\<bar> - 1)" "dexp d"]
    unfolding v by (simp add: of_nat_diff add.commute algebra_simps mult_right_mono)
  have "of_int \<bar>coeff d\<bar> < pten (int (ndigits \<bar>coeff d\<bar>))"
    unfolding pten_nat of_int_less_iff by (rule b(2))
  then show "\<bar>val d\<bar> < pten (dexp d + int (ndigits \<bar>coeff d\<bar>))"
    using pten_add [of "int (ndigits \<bar>coeff d\<bar>)" "dexp d"]
    unfolding v by (simp add: add.commute)
qed

text \<open>Subtracting a smaller amount gives a value that the field validators accept.\<close>

lemma decimal_ok_dround:
  assumes e: "- 64 \<le> dexp d" "dexp d \<le> 64" and le: "\<bar>val (dround d)\<bar> \<le> \<bar>val a\<bar>" and a: "decimal_ok a"
  shows "decimal_ok (dround d)"
proof (cases "val (dround d) = 0")
  case True
  then have "coeff d = 0"
    by (simp add: val_dround val_eq_0_iff)
  then have "dround d = d"
    by (simp add: dround_def)
  then show ?thesis
    using e \<open>coeff d = 0\<close> by (simp add: decimal_ok_def ndigits.simps)
next
  case False
  then have "val a \<noteq> 0"
    using le by auto
  have "pten (dexp (dround d) + int (ndigits \<bar>coeff (dround d)\<bar>) - 1) <
      pten (dexp a + int (ndigits \<bar>coeff a\<bar>))"
    using adjusted_bounds(1) [OF False] adjusted_bounds(2) [OF \<open>val a \<noteq> 0\<close>] le by linarith
  then have "dexp (dround d) + int (ndigits \<bar>coeff (dround d)\<bar>) - 1 \<le> 64"
    using a by (simp add: decimal_ok_def abs_le_iff)
  moreover have "ndigits \<bar>coeff (dround d)\<bar> \<le> 28"
    using dround_digits by (rule ndigits_le) simp
  moreover have "0 < ndigits \<bar>coeff (dround d)\<bar>"
    using ndigits_bounds [of "\<bar>coeff (dround d)\<bar>"] False by (simp add: val_eq_0_iff)
  ultimately show ?thesis
    using dround_exp [of d] e by (simp add: decimal_ok_def abs_le_iff)
qed

lemma decimal_ok_minus:
  assumes "decimal_ok a" "decimal_ok b" "\<bar>val (a - b)\<bar> \<le> \<bar>val a\<bar>"
  shows "decimal_ok (a - b)"
  using assms unfolding minus_dec_def Let_def
  by (intro decimal_ok_dround [where a = a]) (simp_all add: decimal_ok_def min_def abs_le_iff)

lemma decimal_ok_0 [simp]: "decimal_ok 0"
  by (simp add: decimal_ok_def zero_dec_def ndigits.simps)

end
