(* ===== verification/Canonical_Json.thy ===== *)
theory Canonical_Json
  imports Contracts
begin

text \<open>
  What the canonical JSON of \<^verbatim>\<open>contracts/common.py\<close> identifies. Every digest of the repository is
  the SHA-256 of such a text, so a digest binds the fields of a model exactly when different field
  values give different texts. \<open>canonical_json_eq_iff\<close> shows that two values have the same text
  if and only if they agree up to the order of object members: numbers, escaped strings, arrays
  and objects can all be read back without ambiguity. For models with a fixed set of members
  \<open>canonical_fields_eq\<close> turns that into equality of the members.
\<close>

section \<open>Numbers\<close>

fun digits_value :: "string \<Rightarrow> int \<Rightarrow> int" where
  "digits_value [] acc = acc"
| "digits_value (c # cs) acc = digits_value cs (10 * acc + (of_char c - 48))"

lemma digits_value_append: "digits_value (xs @ ys) acc = digits_value ys (digits_value xs acc)"
  by (induction xs arbitrary: acc) auto

lemma of_char_digit: "0 \<le> n \<Longrightarrow> n < 10 \<Longrightarrow> (of_char (digit_char n) :: int) = 48 + n"
  unfolding digit_char_def by (subst of_char_of) (simp add: take_bit_eq_mod)

lemma digits_value_show:
  "0 \<le> n \<Longrightarrow> digits_value (show_digits n) 0 = n \<and> show_digits n \<noteq> [] \<and>
     (\<forall>c \<in> set (show_digits n). 48 \<le> (of_char c :: int) \<and> (of_char c :: int) \<le> 57)"
proof (induction n rule: show_digits.induct)
  case (1 n)
  then show ?case
    by (cases "n < 10")
       (subst (1 2 3) show_digits.simps;
        auto simp: of_char_digit digits_value_append split: if_splits)+
qed

lemma show_digits_inj: "\<lbrakk>0 \<le> m; 0 \<le> n; show_digits m = show_digits n\<rbrakk> \<Longrightarrow> m = n"
  using digits_value_show by metis

definition num_char :: "char \<Rightarrow> bool" where
  "num_char c \<longleftrightarrow> (of_char c :: int) = 45 \<or> 48 \<le> (of_char c :: int) \<and> (of_char c :: int) \<le> 57"

lemma show_int_chars: "show_int n \<noteq> [] \<and> list_all num_char (show_int n)"
  using digits_value_show [of n] digits_value_show [of "- n"]
  by (auto simp: show_int_def num_char_def list_all_iff)

lemma show_digits_no_minus: "0 \<le> n \<Longrightarrow> CHR ''-'' \<notin> set (show_digits n)"
  using digits_value_show [of n] by fastforce

lemma show_int_inj: "show_int m = show_int n \<Longrightarrow> m = n"
  using show_digits_inj [of m n] show_digits_inj [of "- m" "- n"]
    show_digits_no_minus [of m] show_digits_no_minus [of n]
  by (auto simp: show_int_def split: if_splits) (metis list.set_intros(1))+

text \<open>Two texts that are split after their longest prefix of \<open>p\<close> characters.\<close>

definition stops :: "(char \<Rightarrow> bool) \<Rightarrow> string \<Rightarrow> bool" where
  "stops p s \<longleftrightarrow> (case s of [] \<Rightarrow> True | c # _ \<Rightarrow> \<not> p c)"

lemma append_stops:
  "\<lbrakk>xs @ s = ys @ t; list_all p xs; list_all p ys; stops p s; stops p t\<rbrakk> \<Longrightarrow> xs = ys \<and> s = t"
  by (induction xs arbitrary: ys)
     (auto simp: stops_def append_eq_Cons_conv Cons_eq_append_conv split: list.splits)

section \<open>Strings\<close>

definition hex_value :: "char \<Rightarrow> int" where
  "hex_value c = (let n = of_char c in if n < 58 then n - 48 else n - 87)"

fun unescape :: "string \<Rightarrow> (char \<times> string) option" where
  "unescape [] = None"
| "unescape (c # cs) =
     (if c \<noteq> CHR 0x5C then Some (c, cs)
      else case cs of
        [] \<Rightarrow> None
      | e # es \<Rightarrow>
          if e = CHR ''u'' then (case es of
             _ # _ # h # l # rest \<Rightarrow> Some (char_of (16 * hex_value h + hex_value l), rest)
           | _ \<Rightarrow> None)
          else Some (if e = CHR ''b'' then CHR 0x08 else if e = CHR ''t'' then CHR 0x09
            else if e = CHR ''n'' then CHR 0x0A else if e = CHR ''f'' then CHR 0x0C
            else if e = CHR ''r'' then CHR 0x0D else e, es))"


lemma small_cases:
  fixes n :: int
  assumes "0 \<le> n" "n < 32"
  shows "n \<in> set [0, 1, 2, 3, 4, 5, 6, 7, 8, 9, 10, 11, 12, 13, 14, 15, 16, 17, 18, 19, 20, 21, 22,
    23, 24, 25, 26, 27, 28, 29, 30, 31]"
  using assms by simp presburger

lemma unescape_small:
  "list_all (\<lambda>n. unescape (escape_char (char_of (n :: int)) @ x) = Some (char_of n, x))
     [0, 1, 2, 3, 4, 5, 6, 7, 8, 9, 10, 11, 12, 13, 14, 15, 16, 17, 18, 19, 20, 21, 22,
      23, 24, 25, 26, 27, 28, 29, 30, 31]"
  by (simp add: escape_char_def Let_def digit_char_def hex_value_def) (simp add: char_of_def)

lemma of_char_eq_imp: "(of_char c :: int) = n \<Longrightarrow> c = char_of n"
  by auto

lemma unescape_escape: "unescape (escape_char c @ x) = Some (c, x)"
proof (cases "(of_char c :: int) < 32")
  case True
  have "0 \<le> (of_char c :: int)"
    by (simp add: of_char_def)
  with True have "of_char c \<in> set [0 :: int, 1, 2, 3, 4, 5, 6, 7, 8, 9, 10, 11, 12, 13, 14, 15, 16, 17,
      18, 19, 20, 21, 22, 23, 24, 25, 26, 27, 28, 29, 30, 31]"
    by (intro small_cases)
  then have "unescape (escape_char (char_of (of_char c :: int)) @ x) =
      Some (char_of (of_char c :: int), x)"
    using unescape_small [of x] unfolding list_all_iff by blast
  then show ?thesis
    by simp
next
  case False
  consider "c = CHR 0x22" | "c = CHR 0x5C" | "c \<noteq> CHR 0x22" "c \<noteq> CHR 0x5C"
    by blast
  then show ?thesis
  proof cases
    case 3
    then have "(of_char c :: int) \<noteq> 34" "(of_char c :: int) \<noteq> 92"
      using of_char_eq_imp [of c 34] of_char_eq_imp [of c 92] by (auto simp: char_of_def)
    with 3 False have "escape_char c = [c]"
      by (simp add: escape_char_def Let_def)
    with 3 show ?thesis
      by simp
  qed (simp_all add: escape_char_def)
qed

lemma escape_char_first:
  "\<exists>d ds. escape_char c = d # ds \<and> d \<noteq> CHR 0x22"
proof -
  have "c \<noteq> CHR 0x22 \<or> (of_char c :: int) = 34"
    by auto
  then show ?thesis
    by (auto simp: escape_char_def Let_def)
qed

lemma escape_append_inj:
  "concat (map escape_char a) @ CHR 0x22 # s = concat (map escape_char b) @ CHR 0x22 # t \<Longrightarrow>
   a = b \<and> s = t"
proof (induction a arbitrary: b)
  case Nil
  then show ?case
    using escape_char_first [of "hd b"] by (cases b) auto
next
  case (Cons c cs)
  then obtain d ds where b: "b = d # ds"
    using escape_char_first [of c] by (cases b) auto
  then have "unescape (escape_char c @ concat (map escape_char cs) @ CHR 0x22 # s) =
      unescape (escape_char d @ concat (map escape_char ds) @ CHR 0x22 # t)"
    using Cons.prems by simp
  then show ?case
    using Cons.IH b by (simp add: unescape_escape)
qed

lemma json_string_append_inj:
  "json_string a @ s = json_string b @ t \<Longrightarrow> a = b \<and> s = t"
  using escape_append_inj [of a s b t] by (simp add: json_string_def)

section \<open>Values\<close>

text \<open>The normal form sorts the members of every object by name; \<open>render\<close> prints as it stands.\<close>

fun jnorm :: "json \<Rightarrow> json" where
  "jnorm (JList xs) = JList (map jnorm xs)"
| "jnorm (JObj kvs) = JObj (sort_key fst (map (\<lambda>(k, v). (k, jnorm v)) kvs))"
| "jnorm j = j"

fun render :: "json \<Rightarrow> string" where
  "render JNull = ''null''"
| "render (JBool b) = (if b then ''true'' else ''false'')"
| "render (JInt n) = show_int n"
| "render (JStr s) = json_string s"
| "render (JList xs) = ''['' @ comma_sep (map render xs) @ '']''"
| "render (JObj kvs) =
     ''{'' @ comma_sep (map (\<lambda>(k, v). json_string k @ '':'' @ render v) kvs) @ ''}''"

lemma sort_key_map_snd:
  "sort_key fst (map (\<lambda>(k, v). (k, f v)) kvs) = map (\<lambda>(k, v). (k, f v)) (sort_key fst kvs)"
proof -
  have ins: "insort_key fst (k, f v) (map (\<lambda>(k, v). (k, f v)) xs) =
      map (\<lambda>(k, v). (k, f v)) (insort_key fst (k, v) xs)" for k v and xs
    by (induction xs) auto
  show ?thesis
    by (induction kvs) (auto simp: ins)
qed

lemma canonical_render: "canonical_json j = render (jnorm j)"
proof (induction j rule: canonical_json.induct)
  case (6 kvs)
  have "map (\<lambda>(k, v). (k, canonical_json v)) kvs =
      map (\<lambda>(k, v). (k, render v)) (map (\<lambda>(k, v). (k, jnorm v)) kvs)"
    using 6 by auto
  then have "sort_key fst (map (\<lambda>(k, v). (k, canonical_json v)) kvs) =
      map (\<lambda>(k, v). (k, render v)) (sort_key fst (map (\<lambda>(k, v). (k, jnorm v)) kvs))"
    by (simp only: sort_key_map_snd)
  then show ?case
    by (simp only: canonical_json.simps jnorm.simps render.simps map_map comp_def case_prod_unfold
        fst_conv snd_conv)
qed (auto simp: comp_def cong: map_cong)

definition value_start :: "char \<Rightarrow> bool" where
  "value_start c \<longleftrightarrow> c \<notin> set '',]}:''"

lemma render_start: "\<exists>c cs. render j = c # cs \<and> value_start c"
proof (cases j)
  case (JInt n)
  then show ?thesis
    using show_int_chars [of n] by (cases "show_int n") (auto simp: value_start_def num_char_def)
qed (auto simp: value_start_def json_string_def)

definition delimited :: "string \<Rightarrow> bool" where
  "delimited s \<longleftrightarrow> s \<noteq> [] \<longrightarrow> hd s \<in> set '',]}''"

lemma delimited_stops: "delimited s \<Longrightarrow> stops num_char s"
  by (cases s) (auto simp: delimited_def stops_def num_char_def)

lemma comma_sep_Cons: "comma_sep (s # ss) = s @ concat (map (\<lambda>t. '','' @ t) ss)"
  by (induction ss arbitrary: s) auto

text \<open>A separated sequence of items that are self-delimiting can be read back.\<close>

lemma tail_inj:
  assumes item: "\<And>x y s t. \<lbrakk>x \<in> set xs; f x @ s = f y @ t; delimited s; delimited t\<rbrakk> \<Longrightarrow> x = y \<and> s = t"
    and close: "close \<in> set '']}''"
  shows "concat (map (\<lambda>x. '','' @ f x) xs) @ close # s = concat (map (\<lambda>x. '','' @ f x) ys) @ close # t
    \<Longrightarrow> xs = ys \<and> s = t"
  using item
proof (induction xs arbitrary: ys)
  case Nil
  then show ?case
    using close by (cases ys) auto
next
  case (Cons x xs)
  then obtain y ys' where ys: "ys = y # ys'"
    using close by (cases ys) auto
  have del: "delimited (concat (map (\<lambda>x. '','' @ f x) zs) @ close # u)" for zs u
    using close by (cases zs) (auto simp: delimited_def)
  have "f x @ concat (map (\<lambda>x. '','' @ f x) xs) @ close # s =
      f y @ concat (map (\<lambda>x. '','' @ f x) ys') @ close # t"
    using Cons.prems(1) ys by simp
  then have "x = y" "concat (map (\<lambda>x. '','' @ f x) xs) @ close # s =
      concat (map (\<lambda>x. '','' @ f x) ys') @ close # t"
    using Cons.prems(2) [of x] del by auto
  moreover from this(2) have "xs = ys' \<and> s = t"
    by (rule Cons.IH) (rule Cons.prems(2), auto)
  ultimately show ?case
    using ys by simp
qed

lemma sequence_inj:
  assumes item: "\<And>x y s t. \<lbrakk>x \<in> set xs; f x @ s = f y @ t; delimited s; delimited t\<rbrakk> \<Longrightarrow> x = y \<and> s = t"
    and start: "\<And>x. \<exists>c cs. f x = c # cs \<and> value_start c"
    and close: "close \<in> set '']}''"
    and eq: "comma_sep (map f xs) @ close # s = comma_sep (map f ys) @ close # t"
  shows "xs = ys \<and> s = t"
proof -
  have ne: "zs = []" if "comma_sep (map f zs) @ close # u = close # v" for zs u v
    using that start [of "hd zs"] close by (cases zs) (auto simp: comma_sep_Cons value_start_def)
  show ?thesis
  proof (cases "xs = [] \<or> ys = []")
    case True
    then show ?thesis
      using ne [of xs s t] ne [of ys t s] eq by force
  next
    case False
    have "concat (map (\<lambda>x. '','' @ f x) xs) @ close # s =
        concat (map (\<lambda>x. '','' @ f x) ys) @ close # t"
      using False eq by (cases xs; cases ys) (auto simp: comma_sep_Cons comp_def)
    then show ?thesis
      using tail_inj [of xs f close] item close by blast
  qed
qed

lemma member_inj:
  assumes "\<And>s t. \<lbrakk>render v @ s = render w @ t; delimited s; delimited t\<rbrakk> \<Longrightarrow> v = w \<and> s = t"
    and "(json_string k @ '':'' @ render v) @ s = (json_string l @ '':'' @ render w) @ t"
    and "delimited s" "delimited t"
  shows "(k, v) = (l, w) \<and> s = t"
  using json_string_append_inj [of k "'':'' @ render v @ s" l "'':'' @ render w @ t"] assms(1) [of s t] assms(2-4) by simp

lemma show_int_first [simp]:
  "\<not> num_char c \<Longrightarrow> show_int n @ s \<noteq> c # x" "\<not> num_char c \<Longrightarrow> c # x \<noteq> show_int n @ s"
  using show_int_chars [of n] by (cases "show_int n"; auto)+

lemma not_num_char [simp]:
  "\<not> num_char CHR ''n''" "\<not> num_char CHR ''t''" "\<not> num_char CHR ''f''" "\<not> num_char CHR 0x22"
  "\<not> num_char CHR ''[''" "\<not> num_char CHR ''{''"
  by (simp_all add: num_char_def)

lemma show_int_append_inj:
  "\<lbrakk>show_int m @ s = show_int n @ t; delimited s; delimited t\<rbrakk> \<Longrightarrow> m = n \<and> s = t"
  using append_stops [of "show_int m" s "show_int n" t num_char] show_int_chars delimited_stops
    show_int_inj by metis

lemma render_append_inj:
  "\<lbrakk>render a @ s = render b @ t; delimited s; delimited t\<rbrakk> \<Longrightarrow> a = b \<and> s = t"
proof (induction a arbitrary: b s t)
  case (JList xs)
  obtain ys where b: "b = JList ys"
    using JList.prems(1) by (cases b) (auto simp: json_string_def split: if_splits)
  have "xs = ys \<and> s = t"
    by (rule sequence_inj [of xs render "CHR '']''"])
       (use JList b render_start in auto)
  with b show ?case
    by simp
next
  case (JObj kvs)
  obtain lws where b: "b = JObj lws"
    using JObj.prems(1) by (cases b) (auto simp: json_string_def split: if_splits)
  let ?f = "\<lambda>(k, v). json_string k @ '':'' @ render v"
  have item: "kv = lw \<and> s = t"
    if "kv \<in> set kvs" "?f kv @ s = ?f lw @ t" "delimited s" "delimited t" for kv lw s t
  proof -
    obtain k v l w where kv: "kv = (k, v)" "lw = (l, w)"
      by (cases kv, cases lw)
    have "(k, v) = (l, w) \<and> s = t"
    proof (rule member_inj)
      show "v = w \<and> s = t" if "render v @ s = render w @ t" "delimited s" "delimited t" for s t
        using JObj.IH [of kv v s w t] \<open>kv \<in> set kvs\<close> kv that by (simp add: snds.simps)
    qed (use that kv in auto)
    with kv show ?thesis
      by simp
  qed
  have "kvs = lws \<and> s = t"
    by (rule sequence_inj [of kvs ?f "CHR ''}''", OF item])
       (use JObj.prems(1) b in \<open>auto simp: json_string_def value_start_def\<close>)
  with b show ?case
    by simp
next
  case (JInt n)
  then obtain m where "b = JInt m"
    by (cases b) (auto simp: json_string_def split: if_splits)
  with JInt show ?case
    using show_int_append_inj [of n s m t] by simp
next
  case (JStr x)
  obtain y where "b = JStr y"
    using JStr.prems(1) by (cases b) (auto simp: json_string_def split: if_splits)
  with JStr show ?case
    using json_string_append_inj [of x s y t] by simp
next
  case JNull
  then show ?case
    by (cases b) (auto simp: json_string_def split: if_splits)
next
  case (JBool x)
  then show ?case
    by (cases b) (auto simp: json_string_def split: if_splits)
qed

theorem canonical_json_eq_iff: "canonical_json a = canonical_json b \<longleftrightarrow> jnorm a = jnorm b"
  using render_append_inj [of "jnorm a" "[]" "jnorm b" "[]"]
  by (auto simp: canonical_render delimited_def)

section \<open>Models with fixed members\<close>

fun atomic :: "json \<Rightarrow> bool" where
  "atomic (JList xs) = False"
| "atomic (JObj kvs) = False"
| "atomic j = True"

lemma jnorm_atomic [simp]: "atomic j \<Longrightarrow> jnorm j = j"
  by (cases j) auto

lemma atomic_simps [simp]:
  "atomic (jdec d)" "atomic (jtime t)" "(\<And>x. atomic (f x)) \<Longrightarrow> atomic (jopt f y)"
  by (auto simp: jdec_def jtime_def jopt_def split: option.splits)

lemma jopt_JStr_eq [simp]: "jopt JStr a = jopt JStr b \<longleftrightarrow> a = b"
  by (auto simp: jopt_def split: option.splits)

lemma map_of_sort_key:
  assumes "distinct (map fst xs)"
  shows "map_of (sort_key fst xs) = map_of xs"
proof -
  have "set (sort_key fst xs) = set xs"
    by simp
  moreover have "distinct (map fst (sort_key fst xs))"
    using assms by (simp only: distinct_map_sort_key)
  ultimately show ?thesis
    using assms by (metis map_of_inject_set)
qed

lemma same_keys_eq:
  assumes "map fst xs = map fst ys" "distinct (map fst xs)" "map_of xs = map_of ys"
  shows "xs = ys"
proof (rule nth_equalityI)
  show len: "length xs = length ys"
    using assms(1) by (rule map_eq_imp_length_eq)
  fix i assume i: "i < length xs"
  have "fst (xs ! i) = fst (ys ! i)"
    using assms(1) i len by (metis nth_map)
  moreover have "map_of xs (fst (xs ! i)) = Some (snd (xs ! i))"
    using assms(2) i by simp
  moreover have "map_of ys (fst (ys ! i)) = Some (snd (ys ! i))"
    using assms(1, 2) i len by (metis map_of_eq_Some_iff nth_mem prod.collapse)
  ultimately show "xs ! i = ys ! i"
    using assms(3) by (metis option.inject prod.expand)
qed

lemma canonical_members:
  assumes keys: "map fst xs = map fst ys" "distinct (map fst xs)"
    and eq: "canonical_json (JObj xs) = canonical_json (JObj ys)"
  shows "map (\<lambda>(k, v). (k, jnorm v)) xs = map (\<lambda>(k, v). (k, jnorm v)) ys"
proof (rule same_keys_eq)
  let ?n = "map (\<lambda>(k, v). (k, jnorm v))"
  have fst: "map fst (?n zs) = map fst zs" for zs
    by (auto simp: comp_def case_prod_unfold)
  show "map fst (?n xs) = map fst (?n ys)" "distinct (map fst (?n xs))"
    using keys by (simp_all only: fst)
  have "sort_key fst (?n xs) = sort_key fst (?n ys)"
    using eq by (simp add: canonical_json_eq_iff del: canonical_json.simps)
  then show "map_of (?n xs) = map_of (?n ys)"
    using keys by (metis fst map_of_sort_key)
qed

lemma canonical_fields_eq:
  assumes keys: "map fst xs = map fst ys" "distinct (map fst xs)"
    and inj: "list_all2 (\<lambda>v w. jnorm v = jnorm w \<longrightarrow> v = w) (map snd xs) (map snd ys)"
    and eq: "canonical_json (JObj xs) = canonical_json (JObj ys)"
  shows "xs = ys"
  using canonical_members [OF keys eq] inj
  by (induction xs ys rule: list_induct2') (auto simp: list.rel_map)

section \<open>Decimals\<close>

lemma digits_value_zeros: "digits_value (replicate k CHR ''0'' @ s) 0 = digits_value s 0"
  by (induction k) auto

lemma digits_value_pad: "0 \<le> n \<Longrightarrow> digits_value (pad_left k (show_digits n)) 0 = n"
  using digits_value_show [of n] by (simp add: pad_left_def digits_value_zeros)

lemma pad_left_chars: "0 \<le> n \<Longrightarrow> c \<in> set (pad_left k (show_digits n)) \<Longrightarrow> 48 \<le> (of_char c :: int)"
  using digits_value_show [of n] by (auto simp: pad_left_def)

definition dec_digits :: "dec \<Rightarrow> string" where
  "dec_digits d = (if 0 \<le> dexp d then show_digits (\<bar>coeff d\<bar> * 10 ^ nat (dexp d))
     else pad_left (Suc (nat (- dexp d))) (show_digits \<bar>coeff d\<bar>))"

definition dec_places :: "dec \<Rightarrow> nat" where
  "dec_places d = nat (- dexp d)"

lemma dec_digits_value:
  "of_int (digits_value (dec_digits d) 0) * pten (- int (dec_places d)) = \<bar>val d\<bar>"
proof (cases "0 \<le> dexp d")
  case True
  then show ?thesis
    using digits_value_show [of "\<bar>coeff d\<bar> * 10 ^ nat (dexp d)"]
    by (simp add: dec_digits_def dec_places_def val_def abs_mult pten_nonneg_exp)
next
  case False
  then show ?thesis
    by (simp add: dec_digits_def dec_places_def val_def abs_mult digits_value_pad)
qed

lemma dec_digits_chars: "c \<in> set (dec_digits d) \<Longrightarrow> 48 \<le> (of_char c :: int)"
  using digits_value_show [of "\<bar>coeff d\<bar> * 10 ^ nat (dexp d)"] pad_left_chars [of "\<bar>coeff d\<bar>" c]
  by (auto simp: dec_digits_def split: if_splits)

definition dec_body :: "dec \<Rightarrow> string" where
  "dec_body d = (let s = dec_digits d; n = length s - dec_places d in
     if 0 \<le> dexp d then s else take n s @ ''.'' @ drop n s)"

lemma serialize_decimal_alt:
  "serialize_decimal d = (if coeff d < 0 then ''-'' else []) @ dec_body d"
  by (simp add: serialize_decimal_def dec_body_def dec_digits_def dec_places_def Let_def)

lemma dec_body_chars: "c \<in> set (dec_body d) \<Longrightarrow> 48 \<le> (of_char c :: int) \<or> c = CHR ''.''"
  using dec_digits_chars [of _ d]
  by (auto simp: dec_body_def Let_def split: if_splits dest: in_set_takeD in_set_dropD)

lemma dec_body_inj:
  assumes "dec_body a = dec_body b"
  shows "dec_digits a = dec_digits b \<and> dec_places a = dec_places b"
proof -
  have dot: "CHR ''.'' \<notin> set (dec_digits d)" for d
    using dec_digits_chars [of "CHR ''.''" d] by auto
  have point: "CHR ''.'' \<in> set (dec_body d) \<longleftrightarrow> dexp d < 0" for d
    using dot [of d] by (auto simp: dec_body_def Let_def)
  have len: "dec_places d \<le> length (dec_digits d)" if "dexp d < 0" for d
    using that by (simp add: dec_digits_def dec_places_def pad_left_def)
  show ?thesis
  proof (cases "dexp a < 0")
    case True
    then have b: "dexp b < 0"
      using assms point by metis
    let ?n = "length (dec_digits a) - dec_places a" and ?m = "length (dec_digits b) - dec_places b"
    have "take ?n (dec_digits a) @ CHR ''.'' # drop ?n (dec_digits a) =
        take ?m (dec_digits b) @ CHR ''.'' # drop ?m (dec_digits b)"
      using assms True b by (simp add: dec_body_def Let_def)
    then have eq: "take ?n (dec_digits a) = take ?m (dec_digits b)"
        "drop ?n (dec_digits a) = drop ?m (dec_digits b)"
      by (subst (asm) append_Cons_eq_iff; auto dest: in_set_takeD in_set_dropD simp: dot)+
    then have "dec_digits a = dec_digits b"
      by (metis append_take_drop_id)
    moreover have "dec_places a = dec_places b"
      using arg_cong [OF eq(2), of length] len [OF True] len [OF b] by simp
    ultimately show ?thesis by simp
  next
    case False
    then have "\<not> dexp b < 0"
      using assms point by metis
    with False assms show ?thesis
      by (simp add: dec_body_def Let_def dec_places_def)
  qed
qed

theorem serialize_decimal_inj:
  assumes "serialize_decimal a = serialize_decimal b"
  shows "val a = val b"
proof -
  have minus: "CHR ''-'' \<notin> set (dec_body d)" for d
    using dec_body_chars [of "CHR ''-''" d] by auto
  have sign: "CHR ''-'' \<in> set (serialize_decimal d) \<longleftrightarrow> coeff d < 0" for d
    using minus [of d] by (simp add: serialize_decimal_alt)
  have neg: "coeff a < 0 \<longleftrightarrow> coeff b < 0"
    using assms sign by metis
  then have "dec_body a = dec_body b"
    using assms by (simp add: serialize_decimal_alt split: if_splits)
  then have "dec_digits a = dec_digits b" "dec_places a = dec_places b"
    using dec_body_inj [of a b] by simp_all
  then have abs: "\<bar>val a\<bar> = \<bar>val b\<bar>"
    using dec_digits_value [of a] dec_digits_value [of b] by simp
  have "val d < 0 \<longleftrightarrow> coeff d < 0" for d
    by (simp add: val_def mult_less_0_iff not_less less_imp_le leD)
  with neg have "val a < 0 \<longleftrightarrow> val b < 0"
    by simp
  with abs show ?thesis
    by (auto simp: abs_if split: if_splits)
qed

end
