(* ===== verification/Hash_Chain.thy ===== *)
theory Hash_Chain
  imports Canonical_Json
begin

text \<open>
  The hash chain, the interface four components share: account events, reservation events, order
  events and journal transactions. A record of a chain carries a sequence number, the hash of the
  record before it and its own hash, which is the digest of the canonical JSON of its other
  fields. The locale asks only that the JSON determines the fields and the fields determine the
  previous hash; it gives the position of every record of a linked chain, how a chain is extended,
  and that the last hash of an intact chain fixes the whole chain, as long as the digest has no
  collision among the records at hand.
\<close>

locale hash_chain =
  fixes seq :: "'e \<Rightarrow> int"
    and prev :: "'e \<Rightarrow> hash option"
    and self :: "'e \<Rightarrow> hash"
    and fields :: "'e \<Rightarrow> (string \<times> json) list"
  assumes fields_inj:
      "canonical_json (JObj (fields a)) = canonical_json (JObj (fields b)) \<Longrightarrow> fields a = fields b"
    and fields_prev: "fields a = fields b \<Longrightarrow> prev a = prev b"
begin

fun linked :: "int \<Rightarrow> hash option \<Rightarrow> 'e list \<Rightarrow> bool" where
  "linked n p [] = True"
| "linked n p (e # es) = (seq e = n \<and> prev e = p \<and> linked (n + 1) (Some (self e)) es)"

definition intact :: "hashing \<Rightarrow> 'e \<Rightarrow> bool" where
  "intact H e \<longleftrightarrow> self e = stable_payload_hash H (JObj (fields e))"

definition payloads :: "'e set \<Rightarrow> string set" where
  "payloads A = (\<lambda>e. canonical_json (JObj (fields e))) ` A"

lemma linked_append:
  "linked n p (es @ [e]) \<longleftrightarrow> linked n p es \<and> seq e = n + int (length es) \<and>
     prev e = (if es = [] then p else Some (self (last es)))"
  by (induction es arbitrary: n p) (auto simp: algebra_simps)

lemma linked_nth:
  "\<lbrakk>linked n p es; i < length es\<rbrakk> \<Longrightarrow> seq (es ! i) = n + int i \<and>
     prev (es ! i) = (if i = 0 then p else Some (self (es ! (i - 1))))"
proof (induction es rule: rev_induct)
  case (snoc e es)
  then show ?case
    by (cases "i = length es") (auto simp: linked_append nth_append last_conv_nth)
qed simp

lemma linked_sequences: "linked n p es \<Longrightarrow> map seq es = map (\<lambda>i. n + int i) [0..<length es]"
  by (rule nth_equalityI) (auto dest: linked_nth)

lemma linked_distinct: "linked n p es \<Longrightarrow> distinct es"
proof -
  assume "linked n p es"
  then have "distinct (map seq es)"
    by (simp add: linked_sequences distinct_map inj_on_def)
  then show ?thesis
    by (simp add: distinct_map)
qed

lemma intact_eq:
  assumes "intact H a" "intact H b" "inj_on (sha256 H) (payloads A)" "a \<in> A" "b \<in> A"
    and "self a = self b"
  shows "fields a = fields b"
proof -
  have "sha256 H (canonical_json (JObj (fields a))) = sha256 H (canonical_json (JObj (fields b)))"
    using assms(1, 2, 6) by (simp add: intact_def stable_payload_hash_def)
  then have "canonical_json (JObj (fields a)) = canonical_json (JObj (fields b))"
    using assms(3-5) by (auto simp: payloads_def dest: inj_onD)
  then show ?thesis
    by (rule fields_inj)
qed

lemma linked_tail:
  assumes "linked n None (es @ [e])"
  shows "linked n None es" "prev e = (if es = [] then None else Some (self (last es)))"
  using assms by (simp_all add: linked_append)

theorem head_determines_chain:
  assumes "linked n None as" "linked m None bs" "as \<noteq> []" "bs \<noteq> []"
    and "\<forall>e \<in> set as \<union> set bs. intact H e"
    and "inj_on (sha256 H) (payloads (set as \<union> set bs))"
    and "self (last as) = self (last bs)"
  shows "map fields as = map fields bs"
  using assms
proof (induction as arbitrary: bs rule: rev_induct)
  case (snoc a as)
  from snoc.prems(4) obtain bs' b where bs: "bs = bs' @ [b]"
    by (metis append_butlast_last_id)
  have fields: "fields a = fields b"
    by (rule intact_eq [of H a b "set (as @ [a]) \<union> set bs"]) (use snoc.prems bs in auto)
  have prev: "prev a = prev b"
    using fields by (rule fields_prev)
  show ?case
  proof (cases "as = [] \<or> bs' = []")
    case True
    then have "as = [] \<and> bs' = []"
      using prev linked_tail(2) [OF snoc.prems(1)] linked_tail(2) [of m bs' b] snoc.prems(2) bs
      by (auto split: if_splits)
    with fields bs show ?thesis by simp
  next
    case False
    have "inj_on (sha256 H) (payloads (set as \<union> set bs'))"
      by (rule inj_on_subset [OF snoc.prems(6)]) (auto simp: payloads_def bs)
    moreover have "self (last as) = self (last bs')"
      using prev linked_tail(2) [OF snoc.prems(1)] linked_tail(2) [of m bs' b] snoc.prems(2) bs False
      by auto
    ultimately have "map fields as = map fields bs'"
      using snoc.prems False bs by (intro snoc.IH) (auto simp: linked_append)
    with fields bs show ?thesis by simp
  qed
qed simp

end

end
