(* ===== verification/Portfolio.thy ===== *)
theory Portfolio
  imports Hash_Chain
begin

text \<open>
  \<^verbatim>\<open>domain/portfolio.py\<close>: cash and position balances, the point-in-time account snapshot, the
  account aggregate with its hash-chained audit events, and the deterministic portfolio target.
  Every Pydantic model is a record whose field names carry a prefix (\<open>cb_\<close>, \<open>pb_\<close>, \<open>sn_\<close>,
  \<open>ae_\<close>, \<open>ac_\<close>, \<open>al_\<close>, \<open>pt_\<close>) before the Python name, a validator that checks the field
  types first and the model conditions after them, in the order of the source, and a JSON form.
\<close>

section \<open>Balances\<close>

record cash_balance =
  cb_currency :: string
  cb_settled_amount :: dec
  cb_reserved_amount :: dec
  cb_quantum :: dec

definition validate_cash_balance :: "cash_balance \<Rightarrow> cash_balance result" where
  "validate_cash_balance c = check_all
     [(currency_ok (cb_currency c) \<and> non_negative_ok (cb_settled_amount c) \<and>
       non_negative_ok (cb_reserved_amount c) \<and> positive_ok (cb_quantum c), ''field''),
      (\<not> cb_reserved_amount c > cb_settled_amount c, ''reserved cash cannot exceed settled cash''),
      (is_quantized (cb_settled_amount c) (cb_quantum c) \<and>
       is_quantized (cb_reserved_amount c) (cb_quantum c),
       ''cash amounts must match currency quantum'')] c"

definition cash_available_amount :: "cash_balance \<Rightarrow> dec" where
  "cash_available_amount c = cb_settled_amount c - cb_reserved_amount c"

record position_balance =
  pb_instrument_id :: uuid
  pb_quantity :: dec
  pb_sellable_quantity :: dec
  pb_reserved_quantity :: dec
  pb_quantum :: dec

definition validate_position_balance :: "position_balance \<Rightarrow> position_balance result" where
  "validate_position_balance p = check_all
     [(non_negative_ok (pb_quantity p) \<and> non_negative_ok (pb_sellable_quantity p) \<and>
       non_negative_ok (pb_reserved_quantity p) \<and> positive_ok (pb_quantum p), ''field''),
      (\<not> pb_sellable_quantity p > pb_quantity p,
       ''sellable quantity cannot exceed position quantity''),
      (\<not> pb_reserved_quantity p > pb_sellable_quantity p,
       ''reserved quantity cannot exceed sellable quantity''),
      (is_quantized (pb_quantity p) (pb_quantum p) \<and>
       is_quantized (pb_sellable_quantity p) (pb_quantum p) \<and>
       is_quantized (pb_reserved_quantity p) (pb_quantum p),
       ''position quantities must match instrument quantum'')] p"

definition position_available_quantity :: "position_balance \<Rightarrow> dec" where
  "position_available_quantity p = pb_sellable_quantity p - pb_reserved_quantity p"

definition cash_balance_json :: "cash_balance \<Rightarrow> json" where
  "cash_balance_json c = JObj
     [(''currency'', JStr (cb_currency c)), (''settled_amount'', jdec (cb_settled_amount c)),
      (''reserved_amount'', jdec (cb_reserved_amount c)), (''quantum'', jdec (cb_quantum c))]"

definition position_balance_json :: "position_balance \<Rightarrow> json" where
  "position_balance_json p = JObj
     [(''instrument_id'', JStr (pb_instrument_id p)), (''quantity'', jdec (pb_quantity p)),
      (''sellable_quantity'', jdec (pb_sellable_quantity p)),
      (''reserved_quantity'', jdec (pb_reserved_quantity p)), (''quantum'', jdec (pb_quantum p))]"

text \<open>Model equality compares the fields, and amounts numerically.\<close>

definition cash_balance_eq :: "cash_balance \<Rightarrow> cash_balance \<Rightarrow> bool" where
  "cash_balance_eq a b \<longleftrightarrow>
     cb_currency a = cb_currency b \<and> deq (cb_settled_amount a) (cb_settled_amount b) \<and>
     deq (cb_reserved_amount a) (cb_reserved_amount b) \<and> deq (cb_quantum a) (cb_quantum b)"

definition position_balance_eq :: "position_balance \<Rightarrow> position_balance \<Rightarrow> bool" where
  "position_balance_eq a b \<longleftrightarrow>
     pb_instrument_id a = pb_instrument_id b \<and> deq (pb_quantity a) (pb_quantity b) \<and>
     deq (pb_sellable_quantity a) (pb_sellable_quantity b) \<and>
     deq (pb_reserved_quantity a) (pb_reserved_quantity b) \<and> deq (pb_quantum a) (pb_quantum b)"

section \<open>The account snapshot\<close>

record account_snapshot =
  sn_snapshot_id :: uuid
  sn_account_id :: string
  sn_as_of :: utc
  sn_account_aggregate_sequence :: int
  sn_portfolio_sequence :: int
  sn_ledger_sequence :: int
  sn_ledger_hash :: "hash option"
  sn_cash :: "cash_balance list"
  sn_positions :: "position_balance list"
  sn_pending_order_ids :: "uuid list"

definition validate_snapshot :: "account_snapshot \<Rightarrow> account_snapshot result" where
  "validate_snapshot s = check_all
     [(nonempty_ok (sn_account_id s) \<and> 0 \<le> sn_account_aggregate_sequence s \<and>
       0 \<le> sn_portfolio_sequence s \<and> 0 \<le> sn_ledger_sequence s \<and>
       opt_ok sha256_ok (sn_ledger_hash s) \<and> length (sn_cash s) \<le> 64 \<and>
       length (sn_positions s) \<le> 100000 \<and> length (sn_pending_order_ids s) \<le> 100000, ''field''),
      ((sn_ledger_sequence s = 0) = (sn_ledger_hash s = None),
       ''only genesis portfolio snapshot may omit ledger hash''),
      (sorted_unique (map cb_currency (sn_cash s)),
       ''cash currencies must be unique and stably sorted''),
      (sorted_unique (map pb_instrument_id (sn_positions s)),
       ''position instruments must be unique and stably sorted''),
      (sorted_unique (sn_pending_order_ids s),
       ''pending order ids must be unique and stably sorted'')] s"

definition snapshot_json :: "account_snapshot \<Rightarrow> json" where
  "snapshot_json s = JObj
     [(''snapshot_id'', JStr (sn_snapshot_id s)), (''account_id'', JStr (sn_account_id s)),
      (''as_of'', jtime (sn_as_of s)),
      (''account_aggregate_sequence'', JInt (sn_account_aggregate_sequence s)),
      (''portfolio_sequence'', JInt (sn_portfolio_sequence s)),
      (''ledger_sequence'', JInt (sn_ledger_sequence s)),
      (''ledger_hash'', jopt JStr (sn_ledger_hash s)),
      (''cash'', JList (map cash_balance_json (sn_cash s))),
      (''positions'', JList (map position_balance_json (sn_positions s))),
      (''pending_order_ids'', JList (map JStr (sn_pending_order_ids s)))]"

definition snapshot_hash :: "hashing \<Rightarrow> account_snapshot \<Rightarrow> hash" where
  "snapshot_hash H s = stable_payload_hash H (snapshot_json s)"

section \<open>The account aggregate and its event chain\<close>

record account_event =
  ae_event_id :: uuid
  ae_account_id :: string
  ae_sequence :: int
  ae_event_type :: string
  ae_aggregate_ref_type :: string
  ae_aggregate_ref_id :: uuid
  ae_occurred_at :: utc
  ae_previous_hash :: "hash option"
  ae_event_hash :: hash

definition account_event_fields :: "account_event \<Rightarrow> (string \<times> json) list" where
  "account_event_fields e =
     [(''event_id'', JStr (ae_event_id e)), (''account_id'', JStr (ae_account_id e)),
      (''sequence'', JInt (ae_sequence e)), (''event_type'', JStr (ae_event_type e)),
      (''aggregate_ref_type'', JStr (ae_aggregate_ref_type e)),
      (''aggregate_ref_id'', JStr (ae_aggregate_ref_id e)),
      (''occurred_at'', jtime (ae_occurred_at e)),
      (''previous_hash'', jopt JStr (ae_previous_hash e))]"

definition expected_account_event_hash :: "hashing \<Rightarrow> account_event \<Rightarrow> hash" where
  "expected_account_event_hash H e = stable_payload_hash H (JObj (account_event_fields e))"

definition validate_account_event :: "hashing \<Rightarrow> account_event \<Rightarrow> account_event result" where
  "validate_account_event H e = check_all
     [(nonempty_ok (ae_account_id e) \<and> 1 \<le> ae_sequence e \<and> nonempty_ok (ae_event_type e) \<and>
       nonempty_ok (ae_aggregate_ref_type e) \<and> opt_ok sha256_ok (ae_previous_hash e) \<and>
       sha256_ok (ae_event_hash e), ''field''),
      ((ae_sequence e = 1) = (ae_previous_hash e = None),
       ''only genesis account event may omit previous hash''),
      (ae_event_hash e = expected_account_event_hash H e,
       ''paper account event hash does not match payload'')] e"

record account_state =
  ac_account_id :: string
  ac_base_currency :: string
  ac_account_aggregate_sequence :: int
  ac_portfolio_sequence :: int
  ac_ledger_sequence :: int
  ac_ledger_hash :: "hash option"
  ac_cash :: "cash_balance list"
  ac_positions :: "position_balance list"
  ac_events :: "account_event list"
  ac_created_at :: utc
  ac_updated_at :: utc

text \<open>The loop of \<^verbatim>\<open>_validate_event_chain\<close>, from a sequence number and a previous hash.\<close>

fun event_chain_ok :: "string \<Rightarrow> int \<Rightarrow> hash option \<Rightarrow> account_event list \<Rightarrow> bool" where
  "event_chain_ok acct n prev [] = True"
| "event_chain_ok acct n prev (e # es) =
     (ae_account_id e = acct \<and> ae_sequence e = n \<and> ae_previous_hash e = prev \<and>
      event_chain_ok acct (n + 1) (Some (ae_event_hash e)) es)"

definition validate_account_state :: "account_state \<Rightarrow> account_state result" where
  "validate_account_state a = check_all
     [(nonempty_ok (ac_account_id a) \<and> currency_ok (ac_base_currency a) \<and>
       0 \<le> ac_account_aggregate_sequence a \<and> 0 \<le> ac_portfolio_sequence a \<and>
       0 \<le> ac_ledger_sequence a \<and> opt_ok sha256_ok (ac_ledger_hash a) \<and>
       length (ac_cash a) \<le> 64 \<and> length (ac_positions a) \<le> 100000 \<and>
       length (ac_events a) \<le> 1000000, ''field''),
      ((ac_ledger_sequence a = 0) = (ac_ledger_hash a = None),
       ''only genesis paper account may omit ledger hash''),
      (\<not> ac_updated_at a < ac_created_at a, ''paper account timeline is invalid''),
      (sorted_unique (map cb_currency (ac_cash a)),
       ''cash currencies must be unique and stably sorted''),
      (sorted_unique (map pb_instrument_id (ac_positions a)),
       ''position instruments must be unique and stably sorted''),
      (int (length (ac_events a)) = ac_account_aggregate_sequence a,
       ''paper account event count does not match sequence''),
      (event_chain_ok (ac_account_id a) 1 None (ac_events a),
       ''paper account event chain is invalid'')] a"

section \<open>The portfolio target\<close>

record target_allocation =
  al_instrument_id :: uuid
  al_current_quantity :: dec
  al_target_quantity :: dec
  al_delta_quantity :: dec
  al_quantity_quantum :: dec
  al_target_weight :: dec
  al_constraint_diagnostics :: "string list"

definition validate_allocation :: "target_allocation \<Rightarrow> target_allocation result" where
  "validate_allocation a = check_all
     [(decimal_ok (al_current_quantity a) \<and> decimal_ok (al_target_quantity a) \<and>
       decimal_ok (al_delta_quantity a) \<and> positive_ok (al_quantity_quantum a) \<and>
       signed_unit_ok (al_target_weight a) \<and> length (al_constraint_diagnostics a) \<le> 64, ''field''),
      (deq (al_delta_quantity a) (al_target_quantity a - al_current_quantity a),
       ''delta quantity must equal target minus current quantity''),
      (is_quantized (al_current_quantity a) (al_quantity_quantum a) \<and>
       is_quantized (al_target_quantity a) (al_quantity_quantum a) \<and>
       is_quantized (al_delta_quantity a) (al_quantity_quantum a),
       ''allocation quantities must match instrument quantum''),
      (sorted_unique (al_constraint_diagnostics a),
       ''constraint diagnostics must be unique and stably sorted'')] a"

definition allocation_json :: "target_allocation \<Rightarrow> json" where
  "allocation_json a = JObj
     [(''instrument_id'', JStr (al_instrument_id a)),
      (''current_quantity'', jdec (al_current_quantity a)),
      (''target_quantity'', jdec (al_target_quantity a)),
      (''delta_quantity'', jdec (al_delta_quantity a)),
      (''quantity_quantum'', jdec (al_quantity_quantum a)),
      (''target_weight'', jdec (al_target_weight a)),
      (''constraint_diagnostics'', JList (map JStr (al_constraint_diagnostics a)))]"

record portfolio_target =
  pt_target_id :: uuid
  pt_account_id :: string
  pt_portfolio_snapshot_id :: uuid
  pt_account_aggregate_sequence :: int
  pt_portfolio_sequence :: int
  pt_as_of :: utc
  pt_allocations :: "target_allocation list"
  pt_input_signal_ids :: "uuid list"
  pt_policy_version :: string
  pt_policy_hash :: hash
  pt_expected_turnover :: dec
  pt_expected_cost :: dec
  pt_cost_currency :: string
  pt_calculation_hash :: hash

text \<open>The payload of the calculation hash leaves out the target id and the hash itself.\<close>

definition target_fields :: "portfolio_target \<Rightarrow> (string \<times> json) list" where
  "target_fields t =
     [(''account_id'', JStr (pt_account_id t)),
      (''portfolio_snapshot_id'', JStr (pt_portfolio_snapshot_id t)),
      (''account_aggregate_sequence'', JInt (pt_account_aggregate_sequence t)),
      (''portfolio_sequence'', JInt (pt_portfolio_sequence t)),
      (''as_of'', jtime (pt_as_of t)),
      (''allocations'', JList (map allocation_json (pt_allocations t))),
      (''input_signal_ids'', JList (map JStr (pt_input_signal_ids t))),
      (''policy_version'', JStr (pt_policy_version t)),
      (''policy_hash'', JStr (pt_policy_hash t)),
      (''expected_turnover'', jdec (pt_expected_turnover t)),
      (''expected_cost'', jdec (pt_expected_cost t)),
      (''cost_currency'', JStr (pt_cost_currency t))]"

definition expected_calculation_hash :: "hashing \<Rightarrow> portfolio_target \<Rightarrow> hash" where
  "expected_calculation_hash H t = stable_payload_hash H (JObj (target_fields t))"

definition target_json :: "portfolio_target \<Rightarrow> json" where
  "target_json t = JObj
     ([(''target_id'', JStr (pt_target_id t)), (''calculation_hash'', JStr (pt_calculation_hash t))]
      @ target_fields t)"

definition validate_target :: "hashing \<Rightarrow> portfolio_target \<Rightarrow> portfolio_target result" where
  "validate_target H t = check_all
     [(nonempty_ok (pt_account_id t) \<and> 0 \<le> pt_account_aggregate_sequence t \<and>
       0 \<le> pt_portfolio_sequence t \<and> pt_allocations t \<noteq> [] \<and>
       length (pt_allocations t) \<le> 100000 \<and> length (pt_input_signal_ids t) \<le> 100000 \<and>
       nonempty_ok (pt_policy_version t) \<and> sha256_ok (pt_policy_hash t) \<and>
       non_negative_ok (pt_expected_turnover t) \<and> non_negative_ok (pt_expected_cost t) \<and>
       currency_ok (pt_cost_currency t) \<and> sha256_ok (pt_calculation_hash t), ''field''),
      (sorted_unique (map al_instrument_id (pt_allocations t)),
       ''target instruments must be unique and stably sorted''),
      (sorted_unique (pt_input_signal_ids t),
       ''input signal ids must be unique and stably sorted''),
      (pt_calculation_hash t = expected_calculation_hash H t,
       ''portfolio calculation hash does not match payload'')] t"

text \<open>
  \<^verbatim>\<open>PortfolioTarget.create\<close>: the argument carries every field but the hash; the provisional model
  has the placeholder in that place, and the final one is validated with the computed hash.
\<close>

definition create_target :: "hashing \<Rightarrow> portfolio_target \<Rightarrow> portfolio_target result" where
  "create_target H t =
     (let provisional = t\<lparr>pt_calculation_hash := PLACEHOLDER_HASH\<rparr> in
      validate_target H (t\<lparr>pt_calculation_hash := expected_calculation_hash H provisional\<rparr>))"

section \<open>What the validators guarantee\<close>

lemmas portfolio_validators =
  validate_cash_balance_def validate_position_balance_def validate_snapshot_def
  validate_account_event_def validate_account_state_def validate_allocation_def
  validate_target_def

lemma expected_calculation_hash_frame [simp]:
  "expected_calculation_hash H (t\<lparr>pt_calculation_hash := h\<rparr>) = expected_calculation_hash H t"
  "expected_calculation_hash H (t\<lparr>pt_target_id := i\<rparr>) = expected_calculation_hash H t"
  by (simp_all add: expected_calculation_hash_def target_fields_def)

text \<open>A valid cash balance has a non-negative available amount, on the currency grid.\<close>

lemma cash_available_nonneg:
  "validate_cash_balance c = Success c \<Longrightarrow> 0 \<le> val (cash_available_amount c)"
  by (simp add: portfolio_validators res_simps cash_available_amount_def dec_simps)

lemma position_available_nonneg:
  "validate_position_balance p = Success p \<Longrightarrow> 0 \<le> val (position_available_quantity p)"
  by (simp add: portfolio_validators res_simps position_available_quantity_def dec_simps)

text \<open>The account's events are a hash chain.\<close>

interpretation account_chain:
  hash_chain ae_sequence ae_previous_hash ae_event_hash account_event_fields
proof
  fix a b
  show "account_event_fields a = account_event_fields b"
    if "canonical_json (JObj (account_event_fields a)) =
        canonical_json (JObj (account_event_fields b))"
    using _ _ _ that by (rule canonical_fields_eq) (simp_all add: account_event_fields_def)
  show "ae_previous_hash a = ae_previous_hash b"
    if "account_event_fields a = account_event_fields b"
    using that by (simp add: account_event_fields_def jopt_JStr_eq)
qed

lemma event_chain_linked:
  "event_chain_ok acct n prev es \<longleftrightarrow>
     list_all (\<lambda>e. ae_account_id e = acct) es \<and> account_chain.linked n prev es"
  by (induction es arbitrary: n prev) auto

end
