(* ===== verification/Risk.thy ===== *)
theory Risk
  imports Portfolio
begin

text \<open>
  \<^verbatim>\<open>domain/risk.py\<close>: hard-risk checks and the immutable risk decision that every reservation and
  order is bound to.
\<close>

section \<open>Strings used by the validators\<close>

text \<open>\<^verbatim>\<open>not s.strip()\<close> for text: only white space.\<close>

definition is_space :: "char \<Rightarrow> bool" where
  "is_space c \<longleftrightarrow>
     char_between (char_of (9::nat)) c (char_of (13::nat)) \<or>
     char_between (char_of (28::nat)) c (char_of (32::nat))"

definition blank :: "string \<Rightarrow> bool" where
  "blank s \<longleftrightarrow> list_all is_space s"

text \<open>The identifier pattern \<^verbatim>\<open>^[a-z][a-z0-9_.-]{0,127}$\<close>.\<close>

definition lower_char :: "char \<Rightarrow> bool" where
  "lower_char c \<longleftrightarrow> char_between CHR ''a'' c CHR ''z''"

definition code_char :: "char \<Rightarrow> bool" where
  "code_char c \<longleftrightarrow>
     lower_char c \<or> char_between CHR ''0'' c CHR ''9'' \<or> c \<in> {CHR ''_'', CHR ''.'', CHR ''-''}"

fun code_ok :: "string \<Rightarrow> bool" where
  "code_ok [] = False"
| "code_ok (c # cs) = (lower_char c \<and> length cs \<le> 127 \<and> list_all code_char cs)"

text \<open>
  The patterns \<^verbatim>\<open>^[0-9]+\.[0-9]+\.[0-9]+$\<close> (a version), \<^verbatim>\<open>^[A-Z0-9]{4}$\<close> (a market code) and
  \<^verbatim>\<open>^sha256:[a-f0-9]{64}$\<close> (the reference of an artifact).
\<close>

definition digit_text :: "string \<Rightarrow> bool" where
  "digit_text s \<longleftrightarrow> s \<noteq> [] \<and> list_all (\<lambda>c. char_between CHR ''0'' c CHR ''9'') s"

fun split_dot :: "string \<Rightarrow> string list" where
  "split_dot [] = [[]]"
| "split_dot (c # cs) =
     (if c = CHR ''.'' then [] # split_dot cs
      else case split_dot cs of [] \<Rightarrow> [[c]] | w # ws \<Rightarrow> (c # w) # ws)"

definition version_ok :: "string \<Rightarrow> bool" where
  "version_ok s \<longleftrightarrow> length (split_dot s) = 3 \<and> list_all digit_text (split_dot s)"

definition mic_ok :: "string \<Rightarrow> bool" where
  "mic_ok s \<longleftrightarrow>
     length s = 4 \<and> list_all (\<lambda>c. upper_char c \<or> char_between CHR ''0'' c CHR ''9'') s"

definition artifact_ref_ok :: "string \<Rightarrow> bool" where
  "artifact_ref_ok s \<longleftrightarrow> take 7 s = ''sha256:'' \<and> sha256_ok (drop 7 s)"

section \<open>Checks and decisions\<close>

record risk_check =
  rc_code :: string
  rc_passed :: bool
  rc_actual :: "dec option"
  rc_limit :: "dec option"
  rc_reason :: "string option"

definition validate_risk_check :: "risk_check \<Rightarrow> risk_check result" where
  "validate_risk_check c = check_all
     [(code_ok (rc_code c) \<and> opt_ok decimal_ok (rc_actual c) \<and> opt_ok decimal_ok (rc_limit c) \<and>
       opt_ok (\<lambda>r. length r \<le> 256) (rc_reason c), ''field''),
      (rc_passed c \<or> (case rc_reason c of None \<Rightarrow> False | Some r \<Rightarrow> \<not> blank r),
       ''failed risk check requires a reason'')] c"

definition risk_check_json :: "risk_check \<Rightarrow> json" where
  "risk_check_json c = JObj
     [(''code'', JStr (rc_code c)), (''passed'', JBool (rc_passed c)),
      (''actual'', jopt jdec (rc_actual c)), (''limit'', jopt jdec (rc_limit c)),
      (''reason'', jopt JStr (rc_reason c))]"

record risk_decision =
  rd_decision_id :: uuid
  rd_portfolio_target_id :: uuid
  rd_input_target_hash :: hash
  rd_account_id :: string
  rd_account_aggregate_sequence :: int
  rd_portfolio_sequence :: int
  rd_approved :: bool
  rd_normalized_target :: "portfolio_target option"
  rd_checks :: "risk_check list"
  rd_policy_version :: string
  rd_policy_hash :: hash
  rd_decided_at :: utc
  rd_expires_at :: utc
  rd_decision_hash :: hash

definition decision_fields :: "risk_decision \<Rightarrow> (string \<times> json) list" where
  "decision_fields d =
     [(''decision_id'', JStr (rd_decision_id d)),
      (''portfolio_target_id'', JStr (rd_portfolio_target_id d)),
      (''input_target_hash'', JStr (rd_input_target_hash d)),
      (''account_id'', JStr (rd_account_id d)),
      (''account_aggregate_sequence'', JInt (rd_account_aggregate_sequence d)),
      (''portfolio_sequence'', JInt (rd_portfolio_sequence d)),
      (''approved'', JBool (rd_approved d)),
      (''normalized_target'', jopt target_json (rd_normalized_target d)),
      (''checks'', JList (map risk_check_json (rd_checks d))),
      (''policy_version'', JStr (rd_policy_version d)),
      (''policy_hash'', JStr (rd_policy_hash d)),
      (''decided_at'', jtime (rd_decided_at d)),
      (''expires_at'', jtime (rd_expires_at d))]"

definition expected_decision_hash :: "hashing \<Rightarrow> risk_decision \<Rightarrow> hash" where
  "expected_decision_hash H d = stable_payload_hash H (JObj (decision_fields d))"

definition normalized_target_matches :: "risk_decision \<Rightarrow> bool" where
  "normalized_target_matches d \<longleftrightarrow>
     (case rd_normalized_target d of None \<Rightarrow> True | Some t \<Rightarrow>
        pt_account_id t = rd_account_id d \<and>
        pt_account_aggregate_sequence t = rd_account_aggregate_sequence d \<and>
        pt_portfolio_sequence t = rd_portfolio_sequence d)"

definition validate_decision :: "hashing \<Rightarrow> risk_decision \<Rightarrow> risk_decision result" where
  "validate_decision H d = check_all
     [(sha256_ok (rd_input_target_hash d) \<and> nonempty_ok (rd_account_id d) \<and>
       0 \<le> rd_account_aggregate_sequence d \<and> 0 \<le> rd_portfolio_sequence d \<and>
       rd_checks d \<noteq> [] \<and> length (rd_checks d) \<le> 256 \<and> nonempty_ok (rd_policy_version d) \<and>
       sha256_ok (rd_policy_hash d) \<and> sha256_ok (rd_decision_hash d), ''field''),
      (\<not> rd_expires_at d \<le> rd_decided_at d, ''risk decision expiry must be after decision time''),
      (sorted_unique (map rc_code (rd_checks d)),
       ''risk checks must be unique and stably sorted''),
      (rd_approved d \<longrightarrow> rd_normalized_target d \<noteq> None,
       ''approved decision requires a normalized target''),
      (rd_approved d \<longrightarrow> list_all rc_passed (rd_checks d),
       ''approved decision requires every risk check to pass''),
      (\<not> rd_approved d \<longrightarrow> \<not> list_all rc_passed (rd_checks d),
       ''rejected decision requires at least one failed risk check''),
      (normalized_target_matches d,
       ''normalized target must preserve account sequence binding''),
      (rd_decision_hash d = expected_decision_hash H d,
       ''risk decision hash does not match payload'')] d"

definition create_decision ::
  "hashing \<Rightarrow> uuid \<Rightarrow> portfolio_target \<Rightarrow> bool \<Rightarrow> portfolio_target option \<Rightarrow> risk_check list \<Rightarrow>
   string \<Rightarrow> hash \<Rightarrow> utc \<Rightarrow> utc \<Rightarrow> risk_decision result" where
  "create_decision H decision_id target approved normalized checks policy_version policy_hash
     decided_at expires_at =
     (let provisional =
        \<lparr>rd_decision_id = decision_id, rd_portfolio_target_id = pt_target_id target,
         rd_input_target_hash = pt_calculation_hash target,
         rd_account_id = pt_account_id target,
         rd_account_aggregate_sequence = pt_account_aggregate_sequence target,
         rd_portfolio_sequence = pt_portfolio_sequence target,
         rd_approved = approved, rd_normalized_target = normalized, rd_checks = checks,
         rd_policy_version = policy_version, rd_policy_hash = policy_hash,
         rd_decided_at = decided_at, rd_expires_at = expires_at,
         rd_decision_hash = PLACEHOLDER_HASH\<rparr>
      in validate_decision H
           (provisional\<lparr>rd_decision_hash := expected_decision_hash H provisional\<rparr>))"

text \<open>\<^verbatim>\<open>is_current\<close> takes any object as the time; a naive time is never current.\<close>

fun is_current :: "risk_decision \<Rightarrow> int \<Rightarrow> int \<Rightarrow> pytime \<Rightarrow> bool" where
  "is_current d account_sequence portfolio_sequence (Naive t) = False"
| "is_current d account_sequence portfolio_sequence (Utc t) =
     (rd_approved d \<and> rd_decided_at d \<le> t \<and> t < rd_expires_at d \<and>
      account_sequence = rd_account_aggregate_sequence d \<and>
      portfolio_sequence = rd_portfolio_sequence d)"

definition authorized_target_hash :: "risk_decision \<Rightarrow> hash option" where
  "authorized_target_hash d = map_option pt_calculation_hash (rd_normalized_target d)"

section \<open>Properties of a valid decision\<close>

lemma expected_decision_hash_frame [simp]:
  "expected_decision_hash H (d\<lparr>rd_decision_hash := h\<rparr>) = expected_decision_hash H d"
  by (simp add: expected_decision_hash_def decision_fields_def)

lemma valid_decision_approved_iff:
  "validate_decision H d = Success d \<Longrightarrow> rd_approved d \<longleftrightarrow> list_all rc_passed (rd_checks d)"
  by (auto simp: validate_decision_def res_simps)

lemma valid_decision_target:
  "\<lbrakk>validate_decision H d = Success d; rd_approved d\<rbrakk> \<Longrightarrow> \<exists>t. rd_normalized_target d = Some t"
  by (auto simp: validate_decision_def res_simps)

lemma is_current_approved: "is_current d a p t \<Longrightarrow> rd_approved d"
  by (cases t) simp_all

end
