(* ===== verification/Reservations.thy ===== *)
theory Reservations
  imports Risk
begin

text \<open>
  \<^verbatim>\<open>domain/reservations.py\<close>: balances set aside for one order, and the events that create, consume,
  release and expire them. A mutation pairs the new reservation with the event that explains it;
  the events of a reservation form a hash chain.
\<close>

section \<open>Models\<close>

datatype reservation_kind = CASH | POSITION

datatype reservation_state = OPEN | PARTIALLY_CONSUMED | CONSUMED | RELEASED | EXPIRED

datatype reservation_event_type = CREATED_EV | CONSUMED_EV | RELEASED_EV | EXPIRED_EV

fun kind_value :: "reservation_kind \<Rightarrow> string" where
  "kind_value CASH = ''cash''"
| "kind_value POSITION = ''position''"

fun state_value :: "reservation_state \<Rightarrow> string" where
  "state_value OPEN = ''open''"
| "state_value PARTIALLY_CONSUMED = ''partially_consumed''"
| "state_value CONSUMED = ''consumed''"
| "state_value RELEASED = ''released''"
| "state_value EXPIRED = ''expired''"

fun event_type_value :: "reservation_event_type \<Rightarrow> string" where
  "event_type_value CREATED_EV = ''created''"
| "event_type_value CONSUMED_EV = ''consumed''"
| "event_type_value RELEASED_EV = ''released''"
| "event_type_value EXPIRED_EV = ''expired''"

record reservation =
  rv_reservation_id :: uuid
  rv_order_intent_id :: uuid
  rv_account_id :: string
  rv_instrument_id :: "uuid option"
  rv_kind :: reservation_kind
  rv_commodity :: string
  rv_amount :: dec
  rv_remaining_amount :: dec
  rv_quantum :: dec
  rv_risk_decision_id :: uuid
  rv_risk_decision_hash :: hash
  rv_portfolio_target_id :: uuid
  rv_authorized_target_hash :: hash
  rv_risk_account_aggregate_sequence :: int
  rv_account_aggregate_sequence :: int
  rv_portfolio_sequence :: int
  rv_state :: reservation_state
  rv_created_at :: utc
  rv_updated_at :: utc
  rv_expires_at :: utc
  rv_event_sequence :: int
  rv_previous_event_hash :: "hash option"
  rv_event_hash :: hash

definition state_amount_ok :: "reservation_state \<Rightarrow> dec \<Rightarrow> dec \<Rightarrow> bool" where
  "state_amount_ok state amount remaining \<longleftrightarrow>
     (case state of
        OPEN \<Rightarrow> deq remaining amount
      | PARTIALLY_CONSUMED \<Rightarrow> 0 < remaining \<and> remaining < amount
      | CONSUMED \<Rightarrow> deq remaining 0
      | RELEASED \<Rightarrow> deq remaining 0
      | EXPIRED \<Rightarrow> deq remaining 0)"

definition validate_reservation :: "reservation \<Rightarrow> reservation result" where
  "validate_reservation r = check_all
     [(nonempty_ok (rv_account_id r) \<and> nonempty_ok (rv_commodity r) \<and> positive_ok (rv_amount r) \<and>
       decimal_ok (rv_remaining_amount r) \<and> positive_ok (rv_quantum r) \<and>
       sha256_ok (rv_risk_decision_hash r) \<and> sha256_ok (rv_authorized_target_hash r) \<and>
       0 \<le> rv_risk_account_aggregate_sequence r \<and> 1 \<le> rv_account_aggregate_sequence r \<and>
       0 \<le> rv_portfolio_sequence r \<and> 1 \<le> rv_event_sequence r \<and>
       opt_ok sha256_ok (rv_previous_event_hash r) \<and> sha256_ok (rv_event_hash r), ''field''),
      (rv_account_aggregate_sequence r = rv_risk_account_aggregate_sequence r + 1,
       ''reservation must advance account aggregate sequence once''),
      (\<not> rv_updated_at r < rv_created_at r, ''reservation timeline is invalid''),
      (rv_state r = EXPIRED \<longrightarrow> \<not> rv_updated_at r < rv_expires_at r,
       ''expired reservation event cannot precede expiry''),
      (rv_state r \<noteq> EXPIRED \<longrightarrow> \<not> rv_updated_at r \<ge> rv_expires_at r,
       ''non-expiry reservation event must precede expiry''),
      (is_quantized (rv_amount r) (rv_quantum r) \<and>
       is_quantized (rv_remaining_amount r) (rv_quantum r),
       ''reservation amounts must match commodity quantum''),
      (0 \<le> rv_remaining_amount r \<and> rv_remaining_amount r \<le> rv_amount r,
       ''reservation remaining amount is outside valid range''),
      (state_amount_ok (rv_state r) (rv_amount r) (rv_remaining_amount r),
       ''reservation state does not match remaining amount''),
      ((rv_event_sequence r = 1) = (rv_previous_event_hash r = None),
       ''only genesis reservation event may omit previous hash''),
      (\<not> (rv_kind r = POSITION \<and> rv_instrument_id r = None),
       ''position reservation requires an instrument'')] r"

record reservation_event =
  re_event_id :: uuid
  re_reservation_id :: uuid
  re_sequence :: int
  re_event_type :: reservation_event_type
  re_from_state :: "reservation_state option"
  re_to_state :: reservation_state
  re_amount :: dec
  re_remaining_amount :: dec
  re_occurred_at :: utc
  re_reason :: string
  re_previous_event_hash :: "hash option"
  re_event_hash :: hash

definition reservation_event_fields :: "reservation_event \<Rightarrow> (string \<times> json) list" where
  "reservation_event_fields e =
     [(''event_id'', JStr (re_event_id e)), (''reservation_id'', JStr (re_reservation_id e)),
      (''sequence'', JInt (re_sequence e)),
      (''event_type'', JStr (event_type_value (re_event_type e))),
      (''from_state'', jopt (\<lambda>s. JStr (state_value s)) (re_from_state e)),
      (''to_state'', JStr (state_value (re_to_state e))),
      (''amount'', jdec (re_amount e)), (''remaining_amount'', jdec (re_remaining_amount e)),
      (''occurred_at'', jtime (re_occurred_at e)), (''reason'', JStr (re_reason e)),
      (''previous_event_hash'', jopt JStr (re_previous_event_hash e))]"

definition expected_reservation_event_hash :: "hashing \<Rightarrow> reservation_event \<Rightarrow> hash" where
  "expected_reservation_event_hash H e = stable_payload_hash H (JObj (reservation_event_fields e))"


definition validate_reservation_event ::
  "hashing \<Rightarrow> reservation_event \<Rightarrow> reservation_event result" where
  "validate_reservation_event H e = check_all
     [(1 \<le> re_sequence e \<and> positive_ok (re_amount e) \<and> decimal_ok (re_remaining_amount e) \<and>
       1 \<le> length (re_reason e) \<and> length (re_reason e) \<le> 256 \<and>
       opt_ok sha256_ok (re_previous_event_hash e) \<and> sha256_ok (re_event_hash e), ''field''),
      ((re_sequence e = 1) = (re_previous_event_hash e = None),
       ''only genesis reservation event may omit previous hash''),
      (re_event_hash e = expected_reservation_event_hash H e,
       ''reservation event hash does not match payload'')] e"

record reservation_mutation =
  rm_reservation :: reservation
  rm_event :: reservation_event

definition validate_mutation :: "reservation_mutation \<Rightarrow> reservation_mutation result" where
  "validate_mutation m =
     (let r = rm_reservation m; e = rm_event m in check_all
       [(rv_reservation_id r = re_reservation_id e \<and> rv_event_sequence r = re_sequence e \<and>
         rv_previous_event_hash r = re_previous_event_hash e \<and>
         rv_event_hash r = re_event_hash e \<and> rv_state r = re_to_state e \<and>
         deq (rv_remaining_amount r) (re_remaining_amount e) \<and>
         rv_updated_at r = re_occurred_at e,
         ''reservation projection does not match event'')] m)"

text \<open>JSON forms and model equality, for the outcome of an execution.\<close>

definition reservation_json :: "reservation \<Rightarrow> json" where
  "reservation_json r = JObj
     [(''reservation_id'', JStr (rv_reservation_id r)),
      (''order_intent_id'', JStr (rv_order_intent_id r)),
      (''account_id'', JStr (rv_account_id r)),
      (''instrument_id'', jopt JStr (rv_instrument_id r)),
      (''kind'', JStr (kind_value (rv_kind r))), (''commodity'', JStr (rv_commodity r)),
      (''amount'', jdec (rv_amount r)), (''remaining_amount'', jdec (rv_remaining_amount r)),
      (''quantum'', jdec (rv_quantum r)), (''risk_decision_id'', JStr (rv_risk_decision_id r)),
      (''risk_decision_hash'', JStr (rv_risk_decision_hash r)),
      (''portfolio_target_id'', JStr (rv_portfolio_target_id r)),
      (''authorized_target_hash'', JStr (rv_authorized_target_hash r)),
      (''risk_account_aggregate_sequence'', JInt (rv_risk_account_aggregate_sequence r)),
      (''account_aggregate_sequence'', JInt (rv_account_aggregate_sequence r)),
      (''portfolio_sequence'', JInt (rv_portfolio_sequence r)),
      (''state'', JStr (state_value (rv_state r))), (''created_at'', jtime (rv_created_at r)),
      (''updated_at'', jtime (rv_updated_at r)), (''expires_at'', jtime (rv_expires_at r)),
      (''event_sequence'', JInt (rv_event_sequence r)),
      (''previous_event_hash'', jopt JStr (rv_previous_event_hash r)),
      (''event_hash'', JStr (rv_event_hash r))]"

definition mutation_json :: "reservation_mutation \<Rightarrow> json" where
  "mutation_json m = JObj
     [(''reservation'', reservation_json (rm_reservation m)),
      (''event'', JObj ((''event_hash'', JStr (re_event_hash (rm_event m)))
         # reservation_event_fields (rm_event m)))]"

definition reservation_eq :: "reservation \<Rightarrow> reservation \<Rightarrow> bool" where
  "reservation_eq a b \<longleftrightarrow>
     deq (rv_amount a) (rv_amount b) \<and> deq (rv_remaining_amount a) (rv_remaining_amount b) \<and>
     deq (rv_quantum a) (rv_quantum b) \<and>
     a\<lparr>rv_amount := 0, rv_remaining_amount := 0, rv_quantum := 0\<rparr> =
     b\<lparr>rv_amount := 0, rv_remaining_amount := 0, rv_quantum := 0\<rparr>"

section \<open>Operations\<close>

text \<open>\<^verbatim>\<open>_event\<close> derives the event id, computes the hash of the provisional event and validates.\<close>

definition reservation_event_id :: "hashing \<Rightarrow> uuid \<Rightarrow> int \<Rightarrow> uuid" where
  "reservation_event_id H rid sequence =
     uuid5 H (''reservation:'' @ rid @ '':'' @ show_int sequence)"

definition make_reservation_event ::
  "hashing \<Rightarrow> uuid \<Rightarrow> int \<Rightarrow> reservation_event_type \<Rightarrow> reservation_state option \<Rightarrow>
   reservation_state \<Rightarrow> dec \<Rightarrow> dec \<Rightarrow> utc \<Rightarrow> string \<Rightarrow> hash option \<Rightarrow> reservation_event result" where
  "make_reservation_event H rid sequence event_type from_state to_state amount remaining
     occurred_at reason previous =
     (let provisional =
        \<lparr>re_event_id = reservation_event_id H rid sequence, re_reservation_id = rid,
         re_sequence = sequence, re_event_type = event_type, re_from_state = from_state,
         re_to_state = to_state, re_amount = amount, re_remaining_amount = remaining,
         re_occurred_at = occurred_at, re_reason = reason, re_previous_event_hash = previous,
         re_event_hash = PLACEHOLDER_HASH\<rparr>
      in validate_reservation_event H
           (provisional\<lparr>re_event_hash := expected_reservation_event_hash H provisional\<rparr>))"

definition create_reservation ::
  "hashing \<Rightarrow> uuid \<Rightarrow> uuid \<Rightarrow> risk_decision \<Rightarrow> reservation_kind \<Rightarrow> string \<Rightarrow> dec \<Rightarrow> dec \<Rightarrow>
   uuid option \<Rightarrow> pytime \<Rightarrow> pytime \<Rightarrow> int \<Rightarrow> int \<Rightarrow> reservation_mutation result" where
  "create_reservation H reservation_id order_intent_id decision kind commodity amount quantum
     instrument_id when expires_at current_account_sequence current_portfolio_sequence =
     (if \<not> is_current decision current_account_sequence current_portfolio_sequence when
      then Failure CONFLICT ''risk decision is stale or not approved''
      else (case time_less (Utc (rd_expires_at decision)) expires_at of
        Raised e \<Rightarrow> Failure INVALID_INPUT ''reservation time is invalid''
      | Failure c m \<Rightarrow> Failure c m
      | Success outlives_decision \<Rightarrow>
      if outlives_decision
      then Failure INVALID_INPUT ''reservation cannot outlive risk decision''
      else (case authorized_target_hash decision of
        None \<Rightarrow> Failure CONFLICT ''risk decision has no authorized target''
      | Some target_hash \<Rightarrow> catch_value_error
          (bind (normalize_utc when) (\<lambda>t. bind (normalize_utc expires_at) (\<lambda>until.
           bind (make_reservation_event H reservation_id 1 CREATED_EV None OPEN amount amount t
                   ''reservation_created'' None) (\<lambda>event.
           bind (validate_reservation
             \<lparr>rv_reservation_id = reservation_id, rv_order_intent_id = order_intent_id,
              rv_account_id = rd_account_id decision, rv_instrument_id = instrument_id,
              rv_kind = kind, rv_commodity = commodity, rv_amount = amount,
              rv_remaining_amount = amount, rv_quantum = quantum,
              rv_risk_decision_id = rd_decision_id decision,
              rv_risk_decision_hash = rd_decision_hash decision,
              rv_portfolio_target_id = rd_portfolio_target_id decision,
              rv_authorized_target_hash = target_hash,
              rv_risk_account_aggregate_sequence = rd_account_aggregate_sequence decision,
              rv_account_aggregate_sequence = current_account_sequence + 1,
              rv_portfolio_sequence = current_portfolio_sequence, rv_state = OPEN,
              rv_created_at = t, rv_updated_at = t, rv_expires_at = until,
              rv_event_sequence = 1, rv_previous_event_hash = None,
              rv_event_hash = re_event_hash event\<rparr>) (\<lambda>reservation.
           validate_mutation \<lparr>rm_reservation = reservation, rm_event = event\<rparr>)))))
          (Failure INVALID_INPUT ''reservation is invalid''))))"

text \<open>\<^verbatim>\<open>_mutate\<close>: the event is built outside the \<^verbatim>\<open>try\<close>, the new reservation inside it.\<close>

definition mutate ::
  "hashing \<Rightarrow> reservation \<Rightarrow> reservation_event_type \<Rightarrow> reservation_state \<Rightarrow> dec \<Rightarrow> dec \<Rightarrow> utc \<Rightarrow>
   string \<Rightarrow> reservation_mutation result" where
  "mutate H r event_type target_state amount remaining when reason =
     bind (make_reservation_event H (rv_reservation_id r) (rv_event_sequence r + 1) event_type
             (Some (rv_state r)) target_state amount remaining when reason
             (Some (rv_event_hash r))) (\<lambda>event.
     catch_value_error
       (bind (validate_reservation
          (r\<lparr>rv_state := target_state, rv_remaining_amount := remaining, rv_updated_at := when,
             rv_event_sequence := re_sequence event,
             rv_previous_event_hash := re_previous_event_hash event,
             rv_event_hash := re_event_hash event\<rparr>)) (\<lambda>updated.
        validate_mutation \<lparr>rm_reservation = updated, rm_event = event\<rparr>))
       (Failure CONFLICT ''reservation transition is invalid''))"

definition active_state :: "reservation_state \<Rightarrow> bool" where
  "active_state s \<longleftrightarrow> s \<in> {OPEN, PARTIALLY_CONSUMED}"

definition validate_mutable :: "reservation \<Rightarrow> pytime \<Rightarrow> utc result" where
  "validate_mutable r when =
     (if \<not> active_state (rv_state r) then Failure CONFLICT ''reservation is already terminal''
      else case when of
        Naive t \<Rightarrow> Failure INVALID_INPUT ''reservation event time is invalid''
      | Utc t \<Rightarrow>
          if t < rv_updated_at r then Failure CONFLICT ''reservation event time moved backwards''
          else if t \<ge> rv_expires_at r then Failure CONFLICT ''reservation is expired''
          else Success t)"

definition consume_reservation ::
  "hashing \<Rightarrow> reservation \<Rightarrow> dec \<Rightarrow> pytime \<Rightarrow> reservation_mutation result" where
  "consume_reservation H r amount when =
     bind (validate_mutable r when) (\<lambda>t.
     if amount \<le> 0 \<or> \<not> is_quantized amount (rv_quantum r)
     then Failure INVALID_INPUT ''consume amount is invalid''
     else if amount > rv_remaining_amount r
     then Failure CONFLICT ''consume amount exceeds reservation''
     else
       let remaining = rv_remaining_amount r - amount;
           state = (if deq remaining 0 then CONSUMED else PARTIALLY_CONSUMED)
       in mutate H r CONSUMED_EV state amount remaining t ''reservation_consumed'')"

definition release_reservation ::
  "hashing \<Rightarrow> reservation \<Rightarrow> pytime \<Rightarrow> string \<Rightarrow> reservation_mutation result" where
  "release_reservation H r when reason =
     bind (validate_mutable r when) (\<lambda>t.
     if blank reason then Failure INVALID_INPUT ''release reason is required''
     else mutate H r RELEASED_EV RELEASED (rv_remaining_amount r) 0 t reason)"

definition expire_reservation ::
  "hashing \<Rightarrow> reservation \<Rightarrow> pytime \<Rightarrow> reservation_mutation result" where
  "expire_reservation H r when =
     (if \<not> active_state (rv_state r) then Failure CONFLICT ''reservation is already terminal''
      else case when of
        Naive t \<Rightarrow> Failure INVALID_INPUT ''reservation event time is invalid''
      | Utc t \<Rightarrow>
          if t < rv_expires_at r \<or> t < rv_updated_at r
          then Failure CONFLICT ''reservation is not eligible to expire''
          else mutate H r EXPIRED_EV EXPIRED (rv_remaining_amount r) 0 t ''reservation_expired'')"

end
