(* ===== verification/Status_Machine.thy ===== *)
theory Status_Machine
  imports Prelude
begin

text \<open>
  The status machines of the development: a table of allowed next statuses with a rank that every
  change of status raises. The locale shows what holds of any history that follows the table: a
  status that was left never comes back, a terminal status ends the history, and the number of
  real changes is bounded by the rank of the last status.
\<close>

locale status_machine =
  fixes nexts :: "'s \<Rightarrow> 's set"
    and rank :: "'s \<Rightarrow> nat"
  assumes rank_step: "t \<in> nexts s \<Longrightarrow> t = s \<or> rank s < rank t"
begin

fun history :: "'s \<Rightarrow> 's list \<Rightarrow> bool" where
  "history s [] = True"
| "history s (t # ts) = (t \<in> nexts s \<and> history t ts)"

definition terminal :: "'s \<Rightarrow> bool" where
  "terminal s \<longleftrightarrow> nexts s = {}"

lemma history_append: "history s (ts @ us) \<longleftrightarrow> history s ts \<and> history (last (s # ts)) us"
  by (induction ts arbitrary: s) auto

lemma history_rank: "history s ts \<Longrightarrow> rank s \<le> rank (last (s # ts))"
  by (induction ts arbitrary: s) (fastforce dest: rank_step)+

lemma terminal_end: "terminal s \<Longrightarrow> history s ts \<longleftrightarrow> ts = []"
  by (cases ts) (auto simp: terminal_def)

lemma terminal_last:
  assumes "history s ts" "i < length ts" "terminal (ts ! i)"
  shows "i = length ts - 1"
proof -
  have "history (last (s # take (Suc i) ts)) (drop (Suc i) ts)"
    using assms(1) history_append [of s "take (Suc i) ts" "drop (Suc i) ts"] by simp
  moreover have "last (s # take (Suc i) ts) = ts ! i"
    using assms(2) by (simp add: take_Suc_conv_app_nth)
  ultimately have "drop (Suc i) ts = []"
    using assms(3) terminal_end by metis
  then show ?thesis
    using assms(2) by simp
qed

text \<open>Once a different status follows \<open>s\<close>, \<open>s\<close> does not occur again.\<close>

lemma rank_history: "\<lbrakk>history s ts; t \<in> set ts\<rbrakk> \<Longrightarrow> t = s \<or> rank s < rank t"
  by (induction ts arbitrary: s) (fastforce dest: rank_step)+

lemma no_return: "\<lbrakk>history s (t # ts); t \<noteq> s\<rbrakk> \<Longrightarrow> s \<notin> set (t # ts)"
  using rank_step [of t s] rank_history [of t ts s] by auto

end

end
