(* ===== verification/Sample_Hashing.thy ===== *)
theory Sample_Hashing
  imports Contracts
begin

text \<open>
  A concrete pair of digest functions for the examples: every text has the same digest, in the
  documented formats. Nothing but the examples uses it; the theorems hold for every \<open>hashing\<close>.
\<close>

definition sample_hashing :: hashing where
  "sample_hashing = \<lparr>sha256 = (\<lambda>s. replicate 64 CHR ''a''),
     uuid5 = (\<lambda>s. ''00000000-0000-5000-8000-000000000000'')\<rparr>"

lemma sample_hash [simp]:
  "stable_payload_hash sample_hashing j = replicate 64 CHR ''a''"
  "uuid5 sample_hashing s = ''00000000-0000-5000-8000-000000000000''"
  by (simp_all add: sample_hashing_def stable_payload_hash_def)

lemma sample_sha256_ok [simp]: "sha256_ok (replicate 64 CHR ''a'')"
  by code_simp

lemma wf_sample_hashing [simp]: "wf_hashing sample_hashing"
proof -
  have "uuid_canonical ''00000000-0000-5000-8000-000000000000''"
    by code_simp
  then show ?thesis
    by (simp add: wf_hashing_def sample_hashing_def)
qed

text \<open>A second pair tells texts apart by the last digit of their length.\<close>

definition length_hashing :: hashing where
  "length_hashing = \<lparr>sha256 = (\<lambda>s. replicate 63 CHR ''a'' @ [digit_char (int (length s) mod 10)]),
     uuid5 = (\<lambda>s. ''00000000-0000-5000-8000-000000000000'')\<rparr>"

lemma hex_digit: "0 \<le> n \<Longrightarrow> n < 10 \<Longrightarrow> hex_char (digit_char n)"
proof -
  assume "0 \<le> n" "n < 10"
  then have "n \<in> set [0, 1, 2, 3, 4, 5, 6, 7, 8, 9]"
    by simp presburger
  moreover have "list_all (\<lambda>n. hex_char (digit_char n)) [0, 1, 2, 3, 4, 5, 6, 7, 8, 9]"
    by code_simp
  ultimately show ?thesis
    unfolding list_all_iff by blast
qed

lemma wf_length_hashing [simp]: "wf_hashing length_hashing"
proof -
  have "uuid_canonical ''00000000-0000-5000-8000-000000000000''"
    by code_simp
  moreover have "hex_char CHR ''a''"
    by code_simp
  ultimately show ?thesis
    by (simp add: wf_hashing_def length_hashing_def sha256_ok_def hex_digit list_all_iff)
qed

end
