(* ===== verification/Reservation_Lifecycle.thy ===== *)
theory Reservation_Lifecycle
  imports Reservations Status_Machine Sample_Hashing
begin

text \<open>
  The life of a reservation: what each operation of \<^verbatim>\<open>domain/reservations.py\<close> does to the amounts,
  the state and the event chain, when it succeeds, and what holds along any sequence of successful
  operations. The events are a \<open>hash_chain\<close> and the states a \<open>status_machine\<close>.
\<close>

section \<open>What one operation does\<close>

lemmas reservation_validators =
  validate_reservation_def validate_reservation_event_def validate_mutation_def

interpretation reservation_chain:
  hash_chain re_sequence re_previous_event_hash re_event_hash reservation_event_fields
proof
  fix a b
  show "reservation_event_fields a = reservation_event_fields b"
    if "canonical_json (JObj (reservation_event_fields a)) =
        canonical_json (JObj (reservation_event_fields b))"
    using _ _ _ that by (rule canonical_fields_eq) (simp_all add: reservation_event_fields_def)
  show "re_previous_event_hash a = re_previous_event_hash b"
    if "reservation_event_fields a = reservation_event_fields b"
    using that by (simp add: reservation_event_fields_def)
qed

lemma expected_reservation_event_hash_frame [simp]:
  "expected_reservation_event_hash H (e\<lparr>re_event_hash := h\<rparr>) = expected_reservation_event_hash H e"
  by (simp add: expected_reservation_event_hash_def reservation_event_fields_def)

text \<open>The reservation and the event that \<open>mutate\<close> builds, up to the event's hash.\<close>

definition mutated :: "reservation \<Rightarrow> reservation_state \<Rightarrow> dec \<Rightarrow> utc \<Rightarrow> hash \<Rightarrow> reservation" where
  "mutated r state remaining when h =
     r\<lparr>rv_state := state, rv_remaining_amount := remaining, rv_updated_at := when,
       rv_event_sequence := rv_event_sequence r + 1,
       rv_previous_event_hash := Some (rv_event_hash r), rv_event_hash := h\<rparr>"

definition mutation_event ::
  "hashing \<Rightarrow> reservation \<Rightarrow> reservation_event_type \<Rightarrow> reservation_state \<Rightarrow> dec \<Rightarrow> dec \<Rightarrow> utc \<Rightarrow>
   string \<Rightarrow> reservation_event" where
  "mutation_event H r event_type state amount remaining when reason =
     (let e = \<lparr>re_event_id = reservation_event_id H (rv_reservation_id r) (rv_event_sequence r + 1),
        re_reservation_id = rv_reservation_id r, re_sequence = rv_event_sequence r + 1,
        re_event_type = event_type, re_from_state = Some (rv_state r), re_to_state = state,
        re_amount = amount, re_remaining_amount = remaining, re_occurred_at = when,
        re_reason = reason, re_previous_event_hash = Some (rv_event_hash r),
        re_event_hash = PLACEHOLDER_HASH\<rparr>
      in e\<lparr>re_event_hash := expected_reservation_event_hash H e\<rparr>)"

lemma mutation_event_sel [simp]:
  "re_reservation_id (mutation_event H r et s a rem t reason) = rv_reservation_id r"
  "re_sequence (mutation_event H r et s a rem t reason) = rv_event_sequence r + 1"
  "re_event_type (mutation_event H r et s a rem t reason) = et"
  "re_from_state (mutation_event H r et s a rem t reason) = Some (rv_state r)"
  "re_to_state (mutation_event H r et s a rem t reason) = s"
  "re_amount (mutation_event H r et s a rem t reason) = a"
  "re_remaining_amount (mutation_event H r et s a rem t reason) = rem"
  "re_occurred_at (mutation_event H r et s a rem t reason) = t"
  "re_reason (mutation_event H r et s a rem t reason) = reason"
  "re_previous_event_hash (mutation_event H r et s a rem t reason) = Some (rv_event_hash r)"
  by (simp_all add: mutation_event_def Let_def)

lemma mutation_event_intact [simp]:
  "re_event_hash (mutation_event H r et s a rem t reason) =
     expected_reservation_event_hash H (mutation_event H r et s a rem t reason)"
  by (simp add: mutation_event_def Let_def expected_reservation_event_hash_def
      reservation_event_fields_def)

lemma mutated_sel [simp]:
  "rv_state (mutated r s rem t h) = s" "rv_remaining_amount (mutated r s rem t h) = rem"
  "rv_updated_at (mutated r s rem t h) = t" "rv_amount (mutated r s rem t h) = rv_amount r"
  "rv_quantum (mutated r s rem t h) = rv_quantum r"
  "rv_event_sequence (mutated r s rem t h) = rv_event_sequence r + 1"
  "rv_previous_event_hash (mutated r s rem t h) = Some (rv_event_hash r)"
  "rv_event_hash (mutated r s rem t h) = h"
  "rv_expires_at (mutated r s rem t h) = rv_expires_at r"
  "rv_created_at (mutated r s rem t h) = rv_created_at r"
  "rv_reservation_id (mutated r s rem t h) = rv_reservation_id r"
  "rv_kind (mutated r s rem t h) = rv_kind r"
  "rv_order_intent_id (mutated r s rem t h) = rv_order_intent_id r"
  by (simp_all add: mutated_def)

lemma make_event_eq:
  "make_reservation_event H (rv_reservation_id r) (rv_event_sequence r + 1) et (Some (rv_state r)) s
     a rem t reason (Some (rv_event_hash r)) =
   validate_reservation_event H (mutation_event H r et s a rem t reason)"
  by (simp add: make_reservation_event_def mutation_event_def Let_def)

lemma validate_same:
  "validate_reservation r = Success x \<Longrightarrow> x = r"
  "validate_reservation_event H e = Success y \<Longrightarrow> y = e"
  "validate_mutation m = Success z \<Longrightarrow> z = m"
  by (simp_all add: reservation_validators check_all_Success_iff Let_def)

lemma validate_mutation_mutated:
  "validate_mutation \<lparr>rm_reservation = mutated r s rem t (re_event_hash (mutation_event H r et s a rem t reason)),
     rm_event = mutation_event H r et s a rem t reason\<rparr> =
   Success \<lparr>rm_reservation = mutated r s rem t (re_event_hash (mutation_event H r et s a rem t reason)),
     rm_event = mutation_event H r et s a rem t reason\<rparr>"
  by (simp add: validate_mutation_def check_all_Success_iff deq_iff Let_def)

text \<open>The one fact about \<open>mutate\<close> that the rest uses.\<close>

lemma mutate_Success_iff:
  "mutate H r et s a rem t reason = Success m \<longleftrightarrow>
     (let e = mutation_event H r et s a rem t reason; r' = mutated r s rem t (re_event_hash e) in
      m = \<lparr>rm_reservation = r', rm_event = e\<rparr> \<and>
      validate_reservation_event H e = Success e \<and> validate_reservation r' = Success r')"
proof -
  define e where "e = mutation_event H r et s a rem t reason"
  define r' where "r' = mutated r s rem t (re_event_hash e)"
  have upd: "r\<lparr>rv_state := s, rv_remaining_amount := rem, rv_updated_at := t,
      rv_event_sequence := re_sequence e, rv_previous_event_hash := re_previous_event_hash e,
      rv_event_hash := re_event_hash e\<rparr> = r'"
    by (simp add: e_def r'_def mutated_def)
  have ok: "validate_mutation \<lparr>rm_reservation = r', rm_event = e\<rparr> = Success \<lparr>rm_reservation = r', rm_event = e\<rparr>"
    unfolding e_def r'_def by (rule validate_mutation_mutated)
  have "mutate H r et s a rem t reason = Success m \<longleftrightarrow>
      m = \<lparr>rm_reservation = r', rm_event = e\<rparr> \<and>
      validate_reservation_event H e = Success e \<and> validate_reservation r' = Success r'"
    unfolding mutate_def make_event_eq e_def [symmetric] bind_Success_iff catch_Success_iff
    using upd ok by (metis validate_same(1, 2) result.inject(1))
  then show ?thesis
    by (simp only: Let_def e_def r'_def)
qed

section \<open>Runs of a reservation\<close>

text \<open>
  A step of a reservation is a successful consume, release or expire, with any argument; a run is
  a sequence of steps from a starting reservation.
\<close>

inductive reservation_step :: "hashing \<Rightarrow> reservation \<Rightarrow> reservation_mutation \<Rightarrow> bool" for H where
  step_consume: "consume_reservation H r amount t = Success m \<Longrightarrow> reservation_step H r m"
| step_release: "release_reservation H r t reason = Success m \<Longrightarrow> reservation_step H r m"
| step_expire: "expire_reservation H r t = Success m \<Longrightarrow> reservation_step H r m"

inductive reservation_run ::
  "hashing \<Rightarrow> reservation \<Rightarrow> reservation_mutation list \<Rightarrow> reservation \<Rightarrow> bool" for H r where
  run_start: "reservation_run H r [] r"
| run_step: "\<lbrakk>reservation_run H r ms r'; reservation_step H r' m\<rbrakk> \<Longrightarrow>
    reservation_run H r (ms @ [m]) (rm_reservation m)"

text \<open>The table of states the operations follow.\<close>

fun reservation_next :: "reservation_state \<Rightarrow> reservation_state set" where
  "reservation_next OPEN = {PARTIALLY_CONSUMED, CONSUMED, RELEASED, EXPIRED}"
| "reservation_next PARTIALLY_CONSUMED = {PARTIALLY_CONSUMED, CONSUMED, RELEASED, EXPIRED}"
| "reservation_next CONSUMED = {}"
| "reservation_next RELEASED = {}"
| "reservation_next EXPIRED = {}"

fun reservation_rank :: "reservation_state \<Rightarrow> nat" where
  "reservation_rank OPEN = 0"
| "reservation_rank PARTIALLY_CONSUMED = 1"
| "reservation_rank CONSUMED = 2"
| "reservation_rank RELEASED = 2"
| "reservation_rank EXPIRED = 2"

interpretation reservation_states: status_machine reservation_next reservation_rank
  by unfold_locales (case_tac s; auto)

lemma active_next: "active_state s \<Longrightarrow> {PARTIALLY_CONSUMED, CONSUMED, RELEASED, EXPIRED} \<subseteq> reservation_next s"
  by (cases s) (auto simp: active_state_def)

text \<open>Every step is one \<open>mutate\<close>: part of the remaining amount, or all of it.\<close>

lemma step_mutate:
  assumes "reservation_step H r m"
  obtains et s a rem t reason where "mutate H r et s a rem t reason = Success m"
    "active_state (rv_state r)" "s \<in> reservation_next (rv_state r)" "rv_updated_at r \<le> t"
    "is_quantized a (rv_quantum r) \<and> a \<le> rv_remaining_amount r \<and> rem = rv_remaining_amount r - a \<or>
     a = rv_remaining_amount r \<and> rem = 0"
  using assms
proof cases
  case (step_consume amount t)
  then show ?thesis
    by (auto simp: consume_reservation_def validate_mutable_def res_simps Let_def not_less
        dec_less_iff dec_le_iff active_next [THEN subsetD] split: if_splits pytime.splits intro!: that)
next
  case (step_release t reason)
  then show ?thesis
    by (auto simp: release_reservation_def validate_mutable_def res_simps not_less
        active_next [THEN subsetD] split: if_splits pytime.splits intro!: that)
next
  case (step_expire t)
  then show ?thesis
    by (auto simp: expire_reservation_def res_simps not_less
        active_next [THEN subsetD] split: if_splits pytime.splits intro!: that)
qed

definition valid_reservation :: "reservation \<Rightarrow> bool" where
  "valid_reservation r \<longleftrightarrow> validate_reservation r = Success r"

text \<open>The amounts of a valid reservation are on the grid of its quantum.\<close>

lemma valid_reservation_amounts:
  assumes "valid_reservation r"
  shows "on_grid (rv_quantum r) (val (rv_amount r))"
    "on_grid (rv_quantum r) (val (rv_remaining_amount r))"
    "0 \<le> val (rv_remaining_amount r)" "val (rv_remaining_amount r) \<le> val (rv_amount r)"
    "0 < val (rv_quantum r)"
  using assms
  by (auto simp: valid_reservation_def validate_reservation_def check_all_Success_iff dec_simps
      is_quantized_grid dest: positive_ok_pos)

lemma step_frame:
  assumes "reservation_step H r m"
  shows "valid_reservation (rm_reservation m)"
    "rv_amount (rm_reservation m) = rv_amount r" "rv_quantum (rm_reservation m) = rv_quantum r"
    "rv_reservation_id (rm_reservation m) = rv_reservation_id r"
    "rv_event_sequence (rm_reservation m) = rv_event_sequence r + 1"
    "re_sequence (rm_event m) = rv_event_sequence r + 1"
    "re_previous_event_hash (rm_event m) = Some (rv_event_hash r)"
    "re_event_hash (rm_event m) = rv_event_hash (rm_reservation m)"
    "reservation_chain.intact H (rm_event m)"
    "rv_state (rm_reservation m) \<in> reservation_next (rv_state r)"
    "re_from_state (rm_event m) = Some (rv_state r)"
    "re_to_state (rm_event m) = rv_state (rm_reservation m)"
    "0 < val (re_amount (rm_event m))"
    "rv_updated_at r \<le> rv_updated_at (rm_reservation m)"
  using assms
  by (cases rule: step_mutate;
      auto simp: mutate_Success_iff Let_def valid_reservation_def reservation_chain.intact_def
        expected_reservation_event_hash_def validate_reservation_event_def check_all_Success_iff
      dest: positive_ok_pos)+

lemma step_conserves:
  assumes "reservation_step H r m" "valid_reservation r"
    and range: "in_range (rv_quantum r) (val (rv_amount r))"
  shows "val (rv_remaining_amount (rm_reservation m)) + val (re_amount (rm_event m)) =
      val (rv_remaining_amount r)"
    "on_grid (rv_quantum r) (val (re_amount (rm_event m)))"
proof -
  note amounts = valid_reservation_amounts [OF assms(2)]
  have rem: "in_range (rv_quantum r) (val (rv_remaining_amount r))"
    using in_range_between [OF in_range_0 range] amounts by blast
  have part: "val (rv_remaining_amount r - a) = val (rv_remaining_amount r) - val a"
    if "on_grid (rv_quantum r) (val a)" "val a \<le> val (rv_remaining_amount r)" "0 < val a" for a
    by (rule val_minus_grid [OF amounts(2) that(1)], rule in_range_between [OF in_range_0 rem])
       (use that in auto)
  have "0 < val (re_amount (rm_event m))"
    using step_frame(13) [OF assms(1)] .
  with assms(1) show "val (rv_remaining_amount (rm_reservation m)) + val (re_amount (rm_event m)) =
      val (rv_remaining_amount r)" "on_grid (rv_quantum r) (val (re_amount (rm_event m)))"
    using part amounts
    by (cases rule: step_mutate;
        auto simp: mutate_Success_iff Let_def dec_le_iff dest: is_quantized_grid)+
qed

section \<open>When the operations succeed\<close>

lemma mutate_ok:
  assumes r: "valid_reservation r" and H: "wf_hashing H"
    and "positive_ok a" "decimal_ok rem" "is_quantized rem (rv_quantum r)"
    and "0 \<le> val rem" "val rem \<le> val (rv_amount r)" "state_amount_ok s (rv_amount r) rem"
    and "rv_created_at r \<le> t" "s = EXPIRED \<longleftrightarrow> rv_expires_at r \<le> t"
    and "1 \<le> length reason" "length reason \<le> 256"
  shows "is_success (mutate H r et s a rem t reason)"
proof -
  let ?e = "mutation_event H r et s a rem t reason"
  have seq: "1 \<le> rv_event_sequence r" and hash: "sha256_ok (rv_event_hash r)"
    using r by (auto simp: valid_reservation_def validate_reservation_def check_all_Success_iff)
  have sha: "sha256_ok (re_event_hash ?e)"
    using H by (simp add: expected_reservation_event_hash_def wf_hashing_stable)
  have "validate_reservation_event H ?e = Success ?e"
    using seq hash sha assms(3, 4, 11, 12)
    by (simp add: validate_reservation_event_def check_all_Success_iff opt_ok_def)
  moreover have "validate_reservation (mutated r s rem t (re_event_hash ?e)) =
      Success (mutated r s rem t (re_event_hash ?e))"
    using r seq hash sha assms(4-10)
    by (simp add: valid_reservation_def validate_reservation_def check_all_Success_iff opt_ok_def
        dec_le_iff mutated_def del: mutation_event_intact)
  ultimately show ?thesis
    by (simp add: is_success_iff mutate_Success_iff Let_def)
qed

lemma valid_active:
  assumes "valid_reservation r" "active_state (rv_state r)"
  shows "positive_ok (rv_remaining_amount r)" "decimal_ok (rv_remaining_amount r)"
    "rv_created_at r \<le> rv_updated_at r" "rv_updated_at r < rv_expires_at r"
  using assms
  by (auto simp: valid_reservation_def validate_reservation_def check_all_Success_iff
      active_state_def positive_ok_def state_amount_ok_def dec_simps)

text \<open>Consuming leaves a valid remainder exactly when the amount is there.\<close>

lemma consume_remainder:
  assumes r: "valid_reservation r" and range: "in_range (rv_quantum r) (val (rv_amount r))"
    and a: "decimal_ok a" "is_quantized a (rv_quantum r)" "0 < val a" "val a \<le> val (rv_remaining_amount r)"
  shows "val (rv_remaining_amount r - a) = val (rv_remaining_amount r) - val a"
    "is_quantized (rv_remaining_amount r - a) (rv_quantum r)"
    "decimal_ok (rv_remaining_amount r - a)"
proof -
  note amounts = valid_reservation_amounts [OF r]
  have rem: "in_range (rv_quantum r) (val (rv_remaining_amount r) - val a)"
    using in_range_between [OF in_range_0 range] amounts a by auto
  show eq: "val (rv_remaining_amount r - a) = val (rv_remaining_amount r) - val a"
    using val_minus_grid [OF amounts(2) is_quantized_grid [OF a(2)] rem] .
  show "is_quantized (rv_remaining_amount r - a) (rv_quantum r)"
    by (rule grid_is_quantized; unfold eq) (auto intro!: amounts is_quantized_grid a rem)
  show "decimal_ok (rv_remaining_amount r - a)"
    using r a by (intro decimal_ok_minus)
      (auto simp: eq valid_reservation_def validate_reservation_def check_all_Success_iff)
qed

lemma consume_succeeds:
  assumes "valid_reservation r" "wf_hashing H" "in_range (rv_quantum r) (val (rv_amount r))"
    and "active_state (rv_state r)" "rv_updated_at r \<le> t" "t < rv_expires_at r"
    and a: "decimal_ok a" "is_quantized a (rv_quantum r)" "0 < val a" "val a \<le> val (rv_remaining_amount r)"
  shows "is_success (consume_reservation H r a (Utc t))"
proof -
  note amounts = valid_reservation_amounts [OF assms(1)]
  note rem = consume_remainder [OF assms(1, 3) a]
  let ?rem = "rv_remaining_amount r - a"
  let ?s = "if deq ?rem 0 then CONSUMED else PARTIALLY_CONSUMED"
  have "is_success (mutate H r CONSUMED_EV ?s a ?rem t ''reservation_consumed'')"
    using assms(4-6) amounts a valid_active [OF assms(1, 4)] rem
    by (intro mutate_ok [OF assms(1, 2)])
       (auto simp: positive_ok_def state_amount_ok_def dec_simps)
  then show ?thesis
    using assms(4-6) a
    by (simp add: consume_reservation_def validate_mutable_def dec_le_iff dec_less_iff Let_def)
qed

lemma release_succeeds:
  assumes "valid_reservation r" "wf_hashing H" "active_state (rv_state r)"
    and "rv_updated_at r \<le> t" "t < rv_expires_at r" "\<not> blank reason" "length reason \<le> 256"
  shows "is_success (release_reservation H r (Utc t) reason)"
proof -
  have "1 \<le> length reason"
    using assms(6) by (cases reason) (auto simp: blank_def)
  then have "is_success (mutate H r RELEASED_EV RELEASED (rv_remaining_amount r) 0 t reason)"
    using assms valid_reservation_amounts [OF assms(1)] valid_active [OF assms(1, 3)]
    by (intro mutate_ok) (auto simp: state_amount_ok_def dec_simps is_quantized_iff)
  then show ?thesis
    using assms by (simp add: release_reservation_def validate_mutable_def)
qed

lemma expire_succeeds:
  assumes "valid_reservation r" "wf_hashing H" "active_state (rv_state r)"
    and "rv_expires_at r \<le> t"
  shows "is_success (expire_reservation H r (Utc t))"
proof -
  have "is_success (mutate H r EXPIRED_EV EXPIRED (rv_remaining_amount r) 0 t ''reservation_expired'')"
    using assms valid_reservation_amounts [OF assms(1)] valid_active [OF assms(1, 3)]
    by (intro mutate_ok) (auto simp: state_amount_ok_def dec_simps is_quantized_iff)
  then show ?thesis
    using assms valid_active [OF assms(1, 3)] by (simp add: expire_reservation_def)
qed

section \<open>Properties\<close>

lemma run_frame:
  "\<lbrakk>reservation_run H r ms r'; valid_reservation r\<rbrakk> \<Longrightarrow>
   valid_reservation r' \<and> rv_amount r' = rv_amount r \<and> rv_quantum r' = rv_quantum r"
  by (induction rule: reservation_run.induct) (simp_all add: step_frame)

lemma run_conserves:
  assumes "reservation_run H r ms r'" "valid_reservation r"
    and "in_range (rv_quantum r) (val (rv_amount r))"
  shows "val (rv_remaining_amount r') + (\<Sum>m\<leftarrow>ms. val (re_amount (rm_event m))) =
      val (rv_remaining_amount r)"
  using assms
proof (induction rule: reservation_run.induct)
  case (run_step ms r' m)
  then show ?case
    using run_frame [OF run_step.hyps(1)] step_conserves(1) [OF run_step.hyps(2)] by simp
qed simp

lemma run_steps_bounded:
  assumes "reservation_run H r ms r'" "valid_reservation r"
    and "in_range (rv_quantum r) (val (rv_amount r))"
  shows "of_nat (length ms) * val (rv_quantum r) \<le> (\<Sum>m\<leftarrow>ms. val (re_amount (rm_event m)))"
  using assms
proof (induction rule: reservation_run.induct)
  case (run_step ms r' m)
  have f: "valid_reservation r'" "rv_quantum r' = rv_quantum r" "rv_amount r' = rv_amount r"
    using run_frame [OF run_step.hyps(1)] run_step.prems by auto
  have grid: "on_grid (rv_quantum r) (val (re_amount (rm_event m)))"
    using step_conserves(2) [OF run_step.hyps(2) f(1)] f run_step.prems by simp
  then have "val (rv_quantum r) \<le> val (re_amount (rm_event m))"
    using grid_step [of "rv_quantum r" 0] step_frame(13) [OF run_step.hyps(2)]
    by (simp add: on_grid_pos)
  with run_step show ?case
    by (simp add: distrib_right)
qed simp

lemma run_linked:
  assumes "reservation_run H r ms r'"
  shows "reservation_chain.linked (rv_event_sequence r + 1) (Some (rv_event_hash r)) (map rm_event ms)"
    "rv_event_sequence r' = rv_event_sequence r + int (length ms)"
    "rv_event_hash r' = (if ms = [] then rv_event_hash r else re_event_hash (rm_event (last ms)))"
    "\<forall>m \<in> set ms. reservation_chain.intact H (rm_event m)"
  using assms
  by (induction rule: reservation_run.induct)
     (auto simp: reservation_chain.linked_append step_frame last_map)

lemma run_history:
  assumes "reservation_run H r ms r'"
  shows "reservation_states.history (rv_state r) (map (\<lambda>m. rv_state (rm_reservation m)) ms)"
    "rv_state r' = last (rv_state r # map (\<lambda>m. rv_state (rm_reservation m)) ms)"
  using assms
  by (induction rule: reservation_run.induct)
     (auto simp: reservation_states.history_append dest: step_frame(10))

text \<open>
  A sample reservation of 100.00 with two decimals, and the run that consumes 30.00 and releases
  the rest.
\<close>

definition sample_reservation :: reservation where
  "sample_reservation =
     \<lparr>rv_reservation_id = ''r'', rv_order_intent_id = ''i'', rv_account_id = ''a'',
      rv_instrument_id = Some ''x'', rv_kind = CASH, rv_commodity = ''USD'',
      rv_amount = Dec 10000 (-2), rv_remaining_amount = Dec 10000 (-2), rv_quantum = Dec 1 (-2),
      rv_risk_decision_id = ''d'', rv_risk_decision_hash = replicate 64 CHR ''a'',
      rv_portfolio_target_id = ''t'', rv_authorized_target_hash = replicate 64 CHR ''a'',
      rv_risk_account_aggregate_sequence = 0, rv_account_aggregate_sequence = 1,
      rv_portfolio_sequence = 0, rv_state = OPEN, rv_created_at = 0, rv_updated_at = 0,
      rv_expires_at = 100, rv_event_sequence = 1, rv_previous_event_hash = None,
      rv_event_hash = replicate 64 CHR ''a''\<rparr>"

lemma sample_reservation_valid: "valid_reservation sample_reservation"
  unfolding valid_reservation_def by code_simp

lemma sample_reservation_range: "in_range (rv_quantum sample_reservation) (val (rv_amount sample_reservation))"
  by (simp add: sample_reservation_def in_range_def val_Dec pten_def)


lemma sample_consume:
  obtains m where "consume_reservation sample_hashing sample_reservation (Dec 3000 (-2)) (Utc 10) = Success m"
proof -
  have "is_success (consume_reservation sample_hashing sample_reservation (Dec 3000 (-2)) (Utc 10))"
  proof (rule consume_succeeds [OF sample_reservation_valid wf_sample_hashing sample_reservation_range])
    show "decimal_ok (Dec 3000 (-2))" "active_state (rv_state sample_reservation)"
        "is_quantized (Dec 3000 (-2)) (rv_quantum sample_reservation)"
      by code_simp+
  qed (simp_all add: sample_reservation_def val_Dec pten_def)
  then show ?thesis
    using that by (auto simp: is_success_iff)
qed

lemma sample_run:
  obtains m where "reservation_run sample_hashing sample_reservation [m] (rm_reservation m)"
    "consume_reservation sample_hashing sample_reservation (Dec 3000 (-2)) (Utc 10) = Success m"
  using sample_consume run_step [OF run_start step_consume] by (metis append_Nil)

text \<open>
  C2: nothing of a reservation is lost or made up. After any sequence of successful consume, release
  and expire operations on a valid reservation, the reservation is still valid, and the remaining
  amount plus the amounts of all events is the remaining amount it started with, as long as the
  reserved amount has at most 28 digits at its quantum.
\<close>

theorem reservation_conservation:
  assumes "reservation_run H r ms r'" "validate_reservation r = Success r"
    and "in_range (rv_quantum r) (val (rv_amount r))"
  shows "validate_reservation r' = Success r' \<and> rv_amount r' = rv_amount r \<and>
    val (rv_remaining_amount r') + (\<Sum>m\<leftarrow>ms. val (re_amount (rm_event m))) =
      val (rv_remaining_amount r)"
  using run_frame [OF assms(1)] run_conserves [OF assms(1)] assms(2, 3)
  by (simp add: valid_reservation_def)

theorem reservation_conservation_witness:
  "\<exists>m. consume_reservation sample_hashing sample_reservation (Dec 3000 (-2)) (Utc 10) = Success m \<and>
     val (rv_remaining_amount (rm_reservation m)) + val (re_amount (rm_event m)) = 100"
proof -
  obtain m where m: "reservation_run sample_hashing sample_reservation [m] (rm_reservation m)"
      "consume_reservation sample_hashing sample_reservation (Dec 3000 (-2)) (Utc 10) = Success m"
    by (rule sample_run)
  have "val (rv_remaining_amount sample_reservation) = 100"
    by (simp add: sample_reservation_def val_Dec pten_def)
  then show ?thesis
    using reservation_conservation [OF m(1) sample_reservation_valid [unfolded valid_reservation_def]
        sample_reservation_range] m(2) by auto
qed

text \<open>
  C22: a reservation is used up after finitely many operations: every successful operation takes at
  least one quantum, so a run has at most as many steps as the remaining amount has quanta.
\<close>

theorem reservation_runs_are_finite:
  assumes "reservation_run H r ms r'" "validate_reservation r = Success r"
    and "in_range (rv_quantum r) (val (rv_amount r))"
  shows "of_nat (length ms) * val (rv_quantum r) \<le> val (rv_remaining_amount r)"
  using run_steps_bounded [OF assms(1)] run_conserves [OF assms(1)] run_frame [OF assms(1)]
    valid_reservation_amounts(3) [of r'] assms(2, 3)
  by (simp add: valid_reservation_def)

theorem reservation_runs_are_finite_witness:
  "\<exists>m. consume_reservation sample_hashing sample_reservation (Dec 3000 (-2)) (Utc 10) = Success m \<and>
     of_nat (length [m]) * val (rv_quantum sample_reservation) \<le>
       val (rv_remaining_amount sample_reservation)"
proof -
  obtain m where m: "reservation_run sample_hashing sample_reservation [m] (rm_reservation m)"
      "consume_reservation sample_hashing sample_reservation (Dec 3000 (-2)) (Utc 10) = Success m"
    by (rule sample_run)
  then show ?thesis
    using reservation_runs_are_finite [OF m(1) sample_reservation_valid [unfolded valid_reservation_def]
        sample_reservation_range] by blast
qed



text \<open>
  The states of a reservation only move forward. In every run the states follow the table
  \<open>reservation_next\<close>; once a reservation is consumed, released or expired no operation of any kind
  succeeds any more.
\<close>

theorem reservation_terminal_absorbing:
  assumes "reservation_run H r ms r'" "rv_state r' \<in> {CONSUMED, RELEASED, EXPIRED}"
  shows "reservation_states.history (rv_state r) (map (\<lambda>m. rv_state (rm_reservation m)) ms) \<and>
    \<not> is_success (consume_reservation H r' a t) \<and> \<not> is_success (release_reservation H r' t reason) \<and>
    \<not> is_success (expire_reservation H r' t)"
proof -
  have none: "\<not> reservation_step H r' m" for m
    using assms(2) step_frame(10) [of H r' m] by auto
  then show ?thesis
    using run_history(1) [OF assms(1)] step_consume step_release step_expire
    by (metis is_success_iff)
qed

lemma release_Success_state:
  "release_reservation H r t reason = Success m \<Longrightarrow> rv_state (rm_reservation m) = RELEASED"
  by (auto simp: release_reservation_def res_simps mutate_Success_iff Let_def split: if_splits)

theorem reservation_terminal_absorbing_witness:
  "\<exists>m. release_reservation sample_hashing sample_reservation (Utc 10) ''done'' = Success m \<and>
     \<not> is_success (consume_reservation sample_hashing (rm_reservation m) (Dec 1 0) (Utc 20))"
proof -
  have "is_success (release_reservation sample_hashing sample_reservation (Utc 10) ''done'')"
  proof (rule release_succeeds [OF sample_reservation_valid wf_sample_hashing])
    show "active_state (rv_state sample_reservation)" "\<not> blank ''done''"
      by code_simp+
  qed (simp_all add: sample_reservation_def)
  then obtain m where m: "release_reservation sample_hashing sample_reservation (Utc 10) ''done'' = Success m"
    by (auto simp: is_success_iff)
  then have "reservation_run sample_hashing sample_reservation [m] (rm_reservation m)"
    using run_step [OF run_start step_release] by fastforce
  then show ?thesis
    using reservation_terminal_absorbing release_Success_state [OF m] m by blast
qed

text \<open>
  The events of a reservation form a hash chain. In a run, event number \<open>i\<close> carries the next
  sequence number and the hash of the event before it, every event hash is the digest of the
  event's fields, and the reservation always carries the hash of its last event.
\<close>

theorem reservation_events_chained:
  assumes "reservation_run H r ms r'" "i < length ms"
  shows "re_sequence (rm_event (ms ! i)) = rv_event_sequence r + 1 + int i \<and>
    re_previous_event_hash (rm_event (ms ! i)) =
      Some (if i = 0 then rv_event_hash r else re_event_hash (rm_event (ms ! (i - 1)))) \<and>
    re_event_hash (rm_event (ms ! i)) = expected_reservation_event_hash H (rm_event (ms ! i)) \<and>
    rv_event_hash r' = re_event_hash (rm_event (last ms))"
proof -
  have "reservation_chain.intact H (rm_event (ms ! i))"
    using run_linked(4) [OF assms(1)] assms(2) by simp
  then show ?thesis
    using reservation_chain.linked_nth [OF run_linked(1) [OF assms(1)], of i] run_linked(3) [OF assms(1)]
      assms(2)
    by (auto simp: reservation_chain.intact_def expected_reservation_event_hash_def)
qed

theorem reservation_events_chained_witness:
  "\<exists>m. consume_reservation sample_hashing sample_reservation (Dec 3000 (-2)) (Utc 10) = Success m \<and>
     re_sequence (rm_event m) = 2 \<and>
     re_previous_event_hash (rm_event m) = Some (rv_event_hash sample_reservation)"
proof -
  obtain m where m: "reservation_run sample_hashing sample_reservation [m] (rm_reservation m)"
      "consume_reservation sample_hashing sample_reservation (Dec 3000 (-2)) (Utc 10) = Success m"
    by (rule sample_run)
  then show ?thesis
    using reservation_events_chained [OF m(1), of 0] by (auto simp: sample_reservation_def)
qed

end
