(* ===== verification/Orders.thy ===== *)
theory Orders
  imports Reservations
begin

text \<open>
  \<^verbatim>\<open>domain/orders.py\<close>: reservation-backed order intents, execution commands and the hash-chained
  order events. \<open>create_order_intent\<close>, \<open>build_execution_command\<close> and \<open>append_order_event\<close> are
  whole translations: every guard in the source order, the authorization bindings, and the final
  validation of the built model, whose \<^verbatim>\<open>ValueError\<close> becomes a failure.
\<close>

section \<open>Models\<close>

datatype order_side = BUY | SELL

datatype order_type = MARKET | LIMIT | STOP | STOP_LIMIT

datatype time_in_force = DAY | GTC | IOC

datatype order_status =
    CREATED
  | ACCEPTED
  | PARTIALLY_FILLED
  | FILLED
  | REJECTED
  | CANCELLED
  | ORDER_EXPIRED

fun side_value :: "order_side \<Rightarrow> string" where
  "side_value BUY = ''buy''"
| "side_value SELL = ''sell''"

fun order_type_value :: "order_type \<Rightarrow> string" where
  "order_type_value MARKET = ''market''"
| "order_type_value LIMIT = ''limit''"
| "order_type_value STOP = ''stop''"
| "order_type_value STOP_LIMIT = ''stop_limit''"

fun tif_value :: "time_in_force \<Rightarrow> string" where
  "tif_value DAY = ''day''"
| "tif_value GTC = ''gtc''"
| "tif_value IOC = ''ioc''"

fun status_value :: "order_status \<Rightarrow> string" where
  "status_value CREATED = ''created''"
| "status_value ACCEPTED = ''accepted''"
| "status_value PARTIALLY_FILLED = ''partially_filled''"
| "status_value FILLED = ''filled''"
| "status_value REJECTED = ''rejected''"
| "status_value CANCELLED = ''cancelled''"
| "status_value ORDER_EXPIRED = ''expired''"

fun transitions :: "order_status \<Rightarrow> order_status set" where
  "transitions CREATED = {ACCEPTED, REJECTED, CANCELLED, ORDER_EXPIRED}"
| "transitions ACCEPTED = {PARTIALLY_FILLED, FILLED, CANCELLED, ORDER_EXPIRED}"
| "transitions PARTIALLY_FILLED = {PARTIALLY_FILLED, FILLED, CANCELLED, ORDER_EXPIRED}"
| "transitions FILLED = {}"
| "transitions REJECTED = {}"
| "transitions CANCELLED = {}"
| "transitions ORDER_EXPIRED = {}"

record order_intent =
  oi_intent_id :: uuid
  oi_run_id :: uuid
  oi_account_id :: string
  oi_instrument_id :: uuid
  oi_side :: order_side
  oi_order_type :: order_type
  oi_quantity :: dec
  oi_quantity_quantum :: dec
  oi_limit_price :: "dec option"
  oi_stop_price :: "dec option"
  oi_time_in_force :: time_in_force
  oi_valid_from :: utc
  oi_valid_until :: utc
  oi_risk_decision_id :: uuid
  oi_risk_decision_hash :: hash
  oi_reservation_id :: uuid
  oi_reservation_hash :: hash
  oi_portfolio_target_id :: uuid
  oi_authorized_target_hash :: hash
  oi_portfolio_snapshot_id :: uuid
  oi_risk_account_aggregate_sequence :: int
  oi_account_aggregate_sequence :: int
  oi_portfolio_sequence :: int
  oi_idempotency_key :: string
  oi_execution_model_version :: string
  oi_created_at :: utc
  oi_intent_hash :: hash

definition intent_fields :: "order_intent \<Rightarrow> (string \<times> json) list" where
  "intent_fields i =
     [(''intent_id'', JStr (oi_intent_id i)), (''run_id'', JStr (oi_run_id i)),
      (''account_id'', JStr (oi_account_id i)), (''instrument_id'', JStr (oi_instrument_id i)),
      (''side'', JStr (side_value (oi_side i))),
      (''order_type'', JStr (order_type_value (oi_order_type i))),
      (''quantity'', jdec (oi_quantity i)), (''quantity_quantum'', jdec (oi_quantity_quantum i)),
      (''limit_price'', jopt jdec (oi_limit_price i)),
      (''stop_price'', jopt jdec (oi_stop_price i)),
      (''time_in_force'', JStr (tif_value (oi_time_in_force i))),
      (''valid_from'', jtime (oi_valid_from i)), (''valid_until'', jtime (oi_valid_until i)),
      (''risk_decision_id'', JStr (oi_risk_decision_id i)),
      (''risk_decision_hash'', JStr (oi_risk_decision_hash i)),
      (''reservation_id'', JStr (oi_reservation_id i)),
      (''reservation_hash'', JStr (oi_reservation_hash i)),
      (''portfolio_target_id'', JStr (oi_portfolio_target_id i)),
      (''authorized_target_hash'', JStr (oi_authorized_target_hash i)),
      (''portfolio_snapshot_id'', JStr (oi_portfolio_snapshot_id i)),
      (''risk_account_aggregate_sequence'', JInt (oi_risk_account_aggregate_sequence i)),
      (''account_aggregate_sequence'', JInt (oi_account_aggregate_sequence i)),
      (''portfolio_sequence'', JInt (oi_portfolio_sequence i)),
      (''idempotency_key'', JStr (oi_idempotency_key i)),
      (''execution_model_version'', JStr (oi_execution_model_version i)),
      (''created_at'', jtime (oi_created_at i))]"

definition expected_intent_hash :: "hashing \<Rightarrow> order_intent \<Rightarrow> hash" where
  "expected_intent_hash H i = stable_payload_hash H (JObj (intent_fields i))"

definition intent_json :: "order_intent \<Rightarrow> json" where
  "intent_json i = JObj ((''intent_hash'', JStr (oi_intent_hash i)) # intent_fields i)"

definition validate_intent :: "hashing \<Rightarrow> order_intent \<Rightarrow> order_intent result" where
  "validate_intent H i = check_all
     [(nonempty_ok (oi_account_id i) \<and> positive_ok (oi_quantity i) \<and>
       positive_ok (oi_quantity_quantum i) \<and> opt_ok positive_ok (oi_limit_price i) \<and>
       opt_ok positive_ok (oi_stop_price i) \<and> sha256_ok (oi_risk_decision_hash i) \<and>
       sha256_ok (oi_reservation_hash i) \<and> sha256_ok (oi_authorized_target_hash i) \<and>
       0 \<le> oi_risk_account_aggregate_sequence i \<and> 1 \<le> oi_account_aggregate_sequence i \<and>
       0 \<le> oi_portfolio_sequence i \<and> nonempty_ok (oi_idempotency_key i) \<and>
       nonempty_ok (oi_execution_model_version i) \<and> sha256_ok (oi_intent_hash i), ''field''),
      (oi_created_at i \<le> oi_valid_from i \<and> oi_valid_from i < oi_valid_until i,
       ''order validity timeline is invalid''),
      (is_quantized (oi_quantity i) (oi_quantity_quantum i),
       ''order quantity must match instrument quantum''),
      (\<not> (oi_order_type i \<in> {LIMIT, STOP_LIMIT} \<and> oi_limit_price i = None),
       ''limit order requires limit price''),
      (\<not> (oi_order_type i \<in> {STOP, STOP_LIMIT} \<and> oi_stop_price i = None),
       ''stop order requires stop price''),
      (oi_intent_hash i = expected_intent_hash H i,
       ''order intent hash does not match payload'')] i"

record execution_command =
  xc_command_id :: uuid
  xc_intent :: order_intent
  xc_risk_decision_hash :: hash
  xc_reservation_hash :: hash
  xc_account_aggregate_sequence :: int
  xc_portfolio_sequence :: int
  xc_attempt_generation :: int
  xc_attempt_nonce :: string
  xc_issued_at :: utc
  xc_command_hash :: hash

definition command_fields :: "execution_command \<Rightarrow> (string \<times> json) list" where
  "command_fields c =
     [(''command_id'', JStr (xc_command_id c)), (''intent'', intent_json (xc_intent c)),
      (''risk_decision_hash'', JStr (xc_risk_decision_hash c)),
      (''reservation_hash'', JStr (xc_reservation_hash c)),
      (''account_aggregate_sequence'', JInt (xc_account_aggregate_sequence c)),
      (''portfolio_sequence'', JInt (xc_portfolio_sequence c)),
      (''attempt_generation'', JInt (xc_attempt_generation c)),
      (''issued_at'', jtime (xc_issued_at c))]"

text \<open>The attempt nonce is left out of the command hash.\<close>

definition expected_command_hash :: "hashing \<Rightarrow> execution_command \<Rightarrow> hash" where
  "expected_command_hash H c = stable_payload_hash H (JObj (command_fields c))"

definition command_json :: "execution_command \<Rightarrow> json" where
  "command_json c = JObj
     ([(''attempt_nonce'', JStr (xc_attempt_nonce c)), (''command_hash'', JStr (xc_command_hash c))]
      @ command_fields c)"

definition validate_command :: "hashing \<Rightarrow> execution_command \<Rightarrow> execution_command result" where
  "validate_command H c = check_all
     [(sha256_ok (xc_risk_decision_hash c) \<and> sha256_ok (xc_reservation_hash c) \<and>
       1 \<le> xc_account_aggregate_sequence c \<and> 0 \<le> xc_portfolio_sequence c \<and>
       1 \<le> xc_attempt_generation c \<and> nonempty_ok (xc_attempt_nonce c) \<and>
       sha256_ok (xc_command_hash c), ''field''),
      (\<not> xc_issued_at c < oi_created_at (xc_intent c),
       ''execution command cannot precede order intent''),
      (xc_risk_decision_hash c = oi_risk_decision_hash (xc_intent c) \<and>
       xc_reservation_hash c = oi_reservation_hash (xc_intent c) \<and>
       xc_account_aggregate_sequence c = oi_account_aggregate_sequence (xc_intent c) \<and>
       xc_portfolio_sequence c = oi_portfolio_sequence (xc_intent c),
       ''execution command binding does not match intent''),
      (xc_command_hash c = expected_command_hash H c,
       ''execution command hash does not match payload'')] c"

record order_event =
  oe_event_id :: uuid
  oe_order_intent_id :: uuid
  oe_sequence :: int
  oe_from_status :: order_status
  oe_to_status :: order_status
  oe_cumulative_filled_quantity :: dec
  oe_remaining_quantity :: dec
  oe_occurred_at :: utc
  oe_reason :: "string option"
  oe_previous_event_hash :: "hash option"
  oe_event_hash :: hash

definition order_event_fields :: "order_event \<Rightarrow> (string \<times> json) list" where
  "order_event_fields e =
     [(''event_id'', JStr (oe_event_id e)), (''order_intent_id'', JStr (oe_order_intent_id e)),
      (''sequence'', JInt (oe_sequence e)),
      (''from_status'', JStr (status_value (oe_from_status e))),
      (''to_status'', JStr (status_value (oe_to_status e))),
      (''cumulative_filled_quantity'', jdec (oe_cumulative_filled_quantity e)),
      (''remaining_quantity'', jdec (oe_remaining_quantity e)),
      (''occurred_at'', jtime (oe_occurred_at e)), (''reason'', jopt JStr (oe_reason e)),
      (''previous_event_hash'', jopt JStr (oe_previous_event_hash e))]"

definition expected_order_event_hash :: "hashing \<Rightarrow> order_event \<Rightarrow> hash" where
  "expected_order_event_hash H e = stable_payload_hash H (JObj (order_event_fields e))"

definition order_event_json :: "order_event \<Rightarrow> json" where
  "order_event_json e = JObj ((''event_hash'', JStr (oe_event_hash e)) # order_event_fields e)"

definition validate_order_event :: "hashing \<Rightarrow> order_event \<Rightarrow> order_event result" where
  "validate_order_event H e = check_all
     [(1 \<le> oe_sequence e \<and> decimal_ok (oe_cumulative_filled_quantity e) \<and>
       decimal_ok (oe_remaining_quantity e) \<and> opt_ok (\<lambda>r. length r \<le> 256) (oe_reason e) \<and>
       opt_ok sha256_ok (oe_previous_event_hash e) \<and> sha256_ok (oe_event_hash e), ''field''),
      (oe_to_status e \<in> transitions (oe_from_status e), ''order status transition is not allowed''),
      ((oe_sequence e = 1) = (oe_previous_event_hash e = None),
       ''only genesis order event may omit previous hash''),
      (oe_event_hash e = expected_order_event_hash H e,
       ''order event hash does not match payload'')] e"

text \<open>Model equality of events (amounts compare numerically).\<close>

definition order_event_eq :: "order_event \<Rightarrow> order_event \<Rightarrow> bool" where
  "order_event_eq a b \<longleftrightarrow>
     oe_event_id a = oe_event_id b \<and> oe_order_intent_id a = oe_order_intent_id b \<and>
     oe_sequence a = oe_sequence b \<and> oe_from_status a = oe_from_status b \<and>
     oe_to_status a = oe_to_status b \<and>
     deq (oe_cumulative_filled_quantity a) (oe_cumulative_filled_quantity b) \<and>
     deq (oe_remaining_quantity a) (oe_remaining_quantity b) \<and>
     oe_occurred_at a = oe_occurred_at b \<and> oe_reason a = oe_reason b \<and>
     oe_previous_event_hash a = oe_previous_event_hash b \<and> oe_event_hash a = oe_event_hash b"

section \<open>Creating an order intent\<close>

text \<open>
  \<^verbatim>\<open>created_at < decision.decided_at or valid_until > reservation.expires_at\<close>, where the second
  comparison is only evaluated when the first one is false and either may raise \<^verbatim>\<open>TypeError\<close>.
\<close>

definition intent_timeline_invalid :: "pytime \<Rightarrow> utc \<Rightarrow> pytime \<Rightarrow> utc \<Rightarrow> bool result" where
  "intent_timeline_invalid created_at decided_at valid_until expires_at =
     bind (time_less created_at (Utc decided_at)) (\<lambda>early.
       if early then Success True else time_less (Utc expires_at) valid_until)"

definition validate_intent_binding ::
  "uuid \<Rightarrow> risk_decision \<Rightarrow> reservation \<Rightarrow> uuid \<Rightarrow> order_side \<Rightarrow> dec \<Rightarrow> dec \<Rightarrow> pytime \<Rightarrow> pytime \<Rightarrow>
   unit result" where
  "validate_intent_binding intent_id decision reservation instrument_id side quantity
     quantity_quantum valid_until created_at =
     (case (rd_approved decision, rd_normalized_target decision) of
        (True, Some target) \<Rightarrow>
          if rv_state reservation \<noteq> OPEN then Failure CONFLICT ''reservation is not open''
          else if \<not> (rv_order_intent_id reservation = intent_id \<and>
            rv_risk_decision_id reservation = rd_decision_id decision \<and>
            rv_risk_decision_hash reservation = rd_decision_hash decision \<and>
            rv_authorized_target_hash reservation = pt_calculation_hash target \<and>
            rv_account_id reservation = rd_account_id decision \<and>
            rv_instrument_id reservation = Some instrument_id \<and>
            rv_risk_account_aggregate_sequence reservation =
              rd_account_aggregate_sequence decision \<and>
            rv_portfolio_sequence reservation = rd_portfolio_sequence decision)
          then Failure CONFLICT ''risk and reservation binding mismatch''
          else (case List.find (\<lambda>a. al_instrument_id a = instrument_id) (pt_allocations target) of
            None \<Rightarrow> Failure CONFLICT ''order does not match authorized target delta''
          | Some allocation \<Rightarrow>
              let expected_side = (if al_delta_quantity allocation > 0 then BUY else SELL);
                  expected_kind = (if expected_side = BUY then CASH else POSITION)
              in if deq (al_delta_quantity allocation) 0 \<or>
                    \<not> deq quantity \<bar>al_delta_quantity allocation\<bar> \<or>
                    \<not> deq quantity_quantum (al_quantity_quantum allocation) \<or>
                    side \<noteq> expected_side \<or> rv_kind reservation \<noteq> expected_kind
                 then Failure CONFLICT ''order does not match authorized target delta''
                 else (case intent_timeline_invalid created_at (rd_decided_at decision)
                              valid_until (rv_expires_at reservation) of
                     Raised e \<Rightarrow> Failure INVALID_INPUT ''order authorization time is invalid''
                   | Failure c m \<Rightarrow> Failure c m
                   | Success True \<Rightarrow> Failure CONFLICT ''order validity exceeds authorization''
                   | Success False \<Rightarrow> Success ()))
      | _ \<Rightarrow> Failure CONFLICT ''risk decision is not approved'')"

definition create_order_intent ::
  "hashing \<Rightarrow> uuid \<Rightarrow> uuid \<Rightarrow> risk_decision \<Rightarrow> reservation \<Rightarrow> uuid \<Rightarrow> order_side \<Rightarrow> order_type \<Rightarrow>
   dec \<Rightarrow> dec \<Rightarrow> dec option \<Rightarrow> dec option \<Rightarrow> time_in_force \<Rightarrow> pytime \<Rightarrow> pytime \<Rightarrow> string \<Rightarrow> string \<Rightarrow>
   pytime \<Rightarrow> order_intent result" where
  "create_order_intent H intent_id run_id decision reservation instrument_id side order_type
     quantity quantity_quantum limit_price stop_price tif valid_from valid_until
     idempotency_key execution_model_version created_at =
     bind (validate_intent_binding intent_id decision reservation instrument_id side quantity
             quantity_quantum valid_until created_at) (\<lambda>_.
     case rd_normalized_target decision of
       None \<Rightarrow> Failure CONFLICT ''risk decision has no authorized target''
     | Some normalized \<Rightarrow> catch_value_error
         (bind (normalize_utc valid_from) (\<lambda>from_t. bind (normalize_utc valid_until) (\<lambda>until_t.
          bind (normalize_utc created_at) (\<lambda>created_t.
          let provisional =
            \<lparr>oi_intent_id = intent_id, oi_run_id = run_id,
             oi_account_id = rd_account_id decision, oi_instrument_id = instrument_id,
             oi_side = side, oi_order_type = order_type, oi_quantity = quantity,
             oi_quantity_quantum = quantity_quantum, oi_limit_price = limit_price,
             oi_stop_price = stop_price, oi_time_in_force = tif, oi_valid_from = from_t,
             oi_valid_until = until_t, oi_risk_decision_id = rd_decision_id decision,
             oi_risk_decision_hash = rd_decision_hash decision,
             oi_reservation_id = rv_reservation_id reservation,
             oi_reservation_hash = rv_event_hash reservation,
             oi_portfolio_target_id = rd_portfolio_target_id decision,
             oi_authorized_target_hash = rv_authorized_target_hash reservation,
             oi_portfolio_snapshot_id = pt_portfolio_snapshot_id normalized,
             oi_risk_account_aggregate_sequence = rd_account_aggregate_sequence decision,
             oi_account_aggregate_sequence = rv_account_aggregate_sequence reservation,
             oi_portfolio_sequence = rd_portfolio_sequence decision,
             oi_idempotency_key = idempotency_key,
             oi_execution_model_version = execution_model_version,
             oi_created_at = created_t, oi_intent_hash = PLACEHOLDER_HASH\<rparr>
          in validate_intent H
               (provisional\<lparr>oi_intent_hash := expected_intent_hash H provisional\<rparr>)))))
         (Failure INVALID_INPUT ''order intent is invalid''))"

section \<open>Building an execution command\<close>

definition validate_command_binding ::
  "order_intent \<Rightarrow> risk_decision \<Rightarrow> reservation option \<Rightarrow> int \<Rightarrow> int \<Rightarrow> pytime \<Rightarrow>
   (reservation \<times> utc) result" where
  "validate_command_binding intent decision reservation current_account_sequence
     current_portfolio_sequence issued_at =
     (case reservation of
        None \<Rightarrow> Failure CONFLICT ''open reservation is required''
      | Some r \<Rightarrow>
          if \<not> (rd_approved decision \<and>
            oi_risk_decision_id intent = rd_decision_id decision \<and>
            oi_risk_decision_hash intent = rd_decision_hash decision \<and>
            oi_reservation_id intent = rv_reservation_id r \<and>
            oi_reservation_hash intent = rv_event_hash r \<and>
            rv_state r = OPEN \<and> rv_order_intent_id r = oi_intent_id intent \<and>
            current_account_sequence = oi_account_aggregate_sequence intent \<and>
            current_account_sequence = rv_account_aggregate_sequence r \<and>
            current_portfolio_sequence = oi_portfolio_sequence intent \<and>
            current_portfolio_sequence = rd_portfolio_sequence decision)
          then Failure CONFLICT ''execution authorization binding is stale''
          else (case issued_at of
            Naive t \<Rightarrow> Failure INVALID_INPUT ''execution command time is invalid''
          | Utc t \<Rightarrow>
              if \<not> (oi_created_at intent \<le> t \<and> t < oi_valid_until intent)
              then Failure CONFLICT ''execution command is outside validity window''
              else if t \<ge> rv_expires_at r \<or> t \<ge> rd_expires_at decision
              then Failure CONFLICT ''execution authorization expired''
              else Success (r, t)))"

definition build_execution_command ::
  "hashing \<Rightarrow> uuid \<Rightarrow> order_intent \<Rightarrow> risk_decision \<Rightarrow> reservation option \<Rightarrow> int \<Rightarrow> int \<Rightarrow> int \<Rightarrow>
   string \<Rightarrow> pytime \<Rightarrow> execution_command result" where
  "build_execution_command H command_id intent decision reservation current_account_sequence
     current_portfolio_sequence attempt_generation attempt_nonce issued_at =
     bind (validate_command_binding intent decision reservation current_account_sequence
             current_portfolio_sequence issued_at) (\<lambda>(r, t).
     let provisional =
       \<lparr>xc_command_id = command_id, xc_intent = intent,
        xc_risk_decision_hash = rd_decision_hash decision,
        xc_reservation_hash = rv_event_hash r,
        xc_account_aggregate_sequence = current_account_sequence,
        xc_portfolio_sequence = current_portfolio_sequence,
        xc_attempt_generation = attempt_generation, xc_attempt_nonce = attempt_nonce,
        xc_issued_at = t, xc_command_hash = PLACEHOLDER_HASH\<rparr>
     in catch_value_error
          (validate_command H
             (provisional\<lparr>xc_command_hash := expected_command_hash H provisional\<rparr>))
          (Failure INVALID_INPUT ''execution command is invalid''))"

section \<open>Appending an order event\<close>

definition validate_status_quantities :: "order_status \<Rightarrow> dec \<Rightarrow> dec \<Rightarrow> unit result" where
  "validate_status_quantities status filled remaining =
     (if status = ACCEPTED \<and> \<not> deq filled 0
      then Failure CONFLICT ''accepted order cannot already be filled''
      else if status = PARTIALLY_FILLED \<and> \<not> (filled > 0 \<and> remaining > 0)
      then Failure CONFLICT ''partial fill quantities are invalid''
      else if status = FILLED \<and> \<not> deq remaining 0
      then Failure CONFLICT ''filled order must have zero remaining''
      else Success ())"

definition order_event_id :: "hashing \<Rightarrow> uuid \<Rightarrow> int \<Rightarrow> uuid" where
  "order_event_id H intent_id sequence =
     uuid5 H (''order:'' @ intent_id @ '':'' @ show_int sequence)"

definition from_status_of :: "order_event option \<Rightarrow> order_status" where
  "from_status_of previous = (case previous of None \<Rightarrow> CREATED | Some p \<Rightarrow> oe_to_status p)"

definition previous_event_check :: "order_intent \<Rightarrow> order_event option \<Rightarrow> utc \<Rightarrow> dec \<Rightarrow> unit result" where
  "previous_event_check intent previous t cumulative =
     (case previous of
        None \<Rightarrow> Success ()
      | Some p \<Rightarrow>
          if oe_order_intent_id p \<noteq> oi_intent_id intent
          then Failure CONFLICT ''previous order event belongs elsewhere''
          else if t < oe_occurred_at p
          then Failure CONFLICT ''order event time moved backwards''
          else if cumulative < oe_cumulative_filled_quantity p
          then Failure CONFLICT ''filled quantity cannot decrease''
          else Success ())"

definition append_order_event ::
  "hashing \<Rightarrow> order_intent \<Rightarrow> order_event option \<Rightarrow> order_status \<Rightarrow> dec \<Rightarrow> pytime \<Rightarrow> string option \<Rightarrow>
   order_event result" where
  "append_order_event H intent previous target_status cumulative occurred_at reason =
     (case occurred_at of
        Naive t \<Rightarrow> Failure INVALID_INPUT ''order event time is invalid''
      | Utc t \<Rightarrow>
      if t < oi_created_at intent then Failure CONFLICT ''order event cannot precede intent''
      else if (if target_status = ORDER_EXPIRED then t < oi_valid_until intent
               else t \<ge> oi_valid_until intent)
      then Failure CONFLICT ''order event violates validity window''
      else if target_status \<notin> transitions (from_status_of previous)
      then Failure CONFLICT ''order status transition is not allowed''
      else bind (previous_event_check intent previous t cumulative) (\<lambda>_.
      if \<not> is_quantized cumulative (oi_quantity_quantum intent)
      then Failure INVALID_INPUT ''filled quantity is not quantized''
      else
        let remaining = oi_quantity intent - cumulative in
        if cumulative < 0 \<or> remaining < 0
        then Failure CONFLICT ''order event would overfill intent''
        else bind (validate_status_quantities target_status cumulative remaining) (\<lambda>_.
          let sequence = (case previous of None \<Rightarrow> 1 | Some p \<Rightarrow> oe_sequence p + 1);
              provisional =
                \<lparr>oe_event_id = order_event_id H (oi_intent_id intent) sequence,
                 oe_order_intent_id = oi_intent_id intent, oe_sequence = sequence,
                 oe_from_status = from_status_of previous, oe_to_status = target_status,
                 oe_cumulative_filled_quantity = cumulative, oe_remaining_quantity = remaining,
                 oe_occurred_at = t, oe_reason = reason,
                 oe_previous_event_hash = map_option oe_event_hash previous,
                 oe_event_hash = PLACEHOLDER_HASH\<rparr>
          in catch_value_error
               (validate_order_event H
                  (provisional\<lparr>oe_event_hash := expected_order_event_hash H provisional\<rparr>))
               (Failure INVALID_INPUT ''order event is invalid''))))"

end
