(* ===== verification/Order_Lifecycle.thy ===== *)
theory Order_Lifecycle
  imports Orders Status_Machine Sample_Hashing
begin

text \<open>
  The life of an order: \<open>append_order_event\<close> as the only way a history of events grows, and what
  holds of every history. Order events are a \<open>hash_chain\<close> and the transition table of
  \<^verbatim>\<open>domain/orders.py\<close> is a \<open>status_machine\<close>.
\<close>

section \<open>One event\<close>

interpretation order_chain:
  hash_chain oe_sequence oe_previous_event_hash oe_event_hash order_event_fields
proof
  fix a b
  show "order_event_fields a = order_event_fields b"
    if "canonical_json (JObj (order_event_fields a)) = canonical_json (JObj (order_event_fields b))"
    using _ _ _ that by (rule canonical_fields_eq) (simp_all add: order_event_fields_def)
  show "oe_previous_event_hash a = oe_previous_event_hash b"
    if "order_event_fields a = order_event_fields b"
    using that by (simp add: order_event_fields_def)
qed

fun order_rank :: "order_status \<Rightarrow> nat" where
  "order_rank CREATED = 0"
| "order_rank ACCEPTED = 1"
| "order_rank PARTIALLY_FILLED = 2"
| "order_rank FILLED = 3"
| "order_rank REJECTED = 3"
| "order_rank CANCELLED = 3"
| "order_rank ORDER_EXPIRED = 3"

interpretation order_statuses: status_machine transitions order_rank
  by unfold_locales (case_tac s; auto)

definition next_sequence :: "order_event option \<Rightarrow> int" where
  "next_sequence previous = (case previous of None \<Rightarrow> 1 | Some p \<Rightarrow> oe_sequence p + 1)"

text \<open>The event that \<open>append_order_event\<close> builds.\<close>

definition appended ::
  "hashing \<Rightarrow> order_intent \<Rightarrow> order_event option \<Rightarrow> order_status \<Rightarrow> dec \<Rightarrow> utc \<Rightarrow> string option \<Rightarrow>
   order_event" where
  "appended H i previous status cumulative t reason =
     (let e = \<lparr>oe_event_id = order_event_id H (oi_intent_id i) (next_sequence previous),
        oe_order_intent_id = oi_intent_id i, oe_sequence = next_sequence previous,
        oe_from_status = from_status_of previous, oe_to_status = status,
        oe_cumulative_filled_quantity = cumulative,
        oe_remaining_quantity = oi_quantity i - cumulative, oe_occurred_at = t,
        oe_reason = reason, oe_previous_event_hash = map_option oe_event_hash previous,
        oe_event_hash = PLACEHOLDER_HASH\<rparr>
      in e\<lparr>oe_event_hash := expected_order_event_hash H e\<rparr>)"

lemma appended_sel [simp]:
  "oe_order_intent_id (appended H i p s c t reason) = oi_intent_id i"
  "oe_sequence (appended H i p s c t reason) = next_sequence p"
  "oe_from_status (appended H i p s c t reason) = from_status_of p"
  "oe_to_status (appended H i p s c t reason) = s"
  "oe_cumulative_filled_quantity (appended H i p s c t reason) = c"
  "oe_remaining_quantity (appended H i p s c t reason) = oi_quantity i - c"
  "oe_occurred_at (appended H i p s c t reason) = t"
  "oe_reason (appended H i p s c t reason) = reason"
  "oe_previous_event_hash (appended H i p s c t reason) = map_option oe_event_hash p"
  "oe_event_hash (appended H i p s c t reason) =
     expected_order_event_hash H (appended H i p s c t reason)"
  by (simp_all add: appended_def Let_def expected_order_event_hash_def order_event_fields_def)

text \<open>The guards of \<open>append_order_event\<close> as one condition.\<close>

definition appendable ::
  "order_intent \<Rightarrow> order_event option \<Rightarrow> order_status \<Rightarrow> dec \<Rightarrow> utc \<Rightarrow> bool" where
  "appendable i previous status cumulative t \<longleftrightarrow>
     oi_created_at i \<le> t \<and> (status = ORDER_EXPIRED \<longleftrightarrow> oi_valid_until i \<le> t) \<and>
     status \<in> transitions (from_status_of previous) \<and>
     (case previous of None \<Rightarrow> True
      | Some p \<Rightarrow> oe_order_intent_id p = oi_intent_id i \<and> oe_occurred_at p \<le> t \<and>
          val (oe_cumulative_filled_quantity p) \<le> val cumulative) \<and>
     is_quantized cumulative (oi_quantity_quantum i) \<and>
     0 \<le> val cumulative \<and> val cumulative \<le> val (oi_quantity i) \<and>
     (status = ACCEPTED \<longrightarrow> val cumulative = 0) \<and>
     (status = PARTIALLY_FILLED \<longrightarrow> 0 < val cumulative \<and> val cumulative < val (oi_quantity i)) \<and>
     (status = FILLED \<longrightarrow> val cumulative = val (oi_quantity i))"

lemma remaining_sign:
  "oi_quantity i - c < 0 \<longleftrightarrow> val (oi_quantity i) < val c"
  "oi_quantity i - c > 0 \<longleftrightarrow> val c < val (oi_quantity i)"
  "deq (oi_quantity i - c) 0 \<longleftrightarrow> val c = val (oi_quantity i)"
  by (auto simp: dec_simps)

lemma append_order_event_eq:
  "append_order_event H i p s c (Utc t) reason = Success e \<longleftrightarrow>
     appendable i p s c t \<and> e = appended H i p s c t reason \<and>
     validate_order_event H (appended H i p s c t reason) = Success (appended H i p s c t reason)"
proof -
  have val: "validate_order_event H x = Success y \<Longrightarrow> y = x" for x y
    by (simp add: validate_order_event_def check_all_Success_iff)
  have prev: "previous_event_check i p t c = Success u \<longleftrightarrow>
      (case p of None \<Rightarrow> True
       | Some p \<Rightarrow> oe_order_intent_id p = oi_intent_id i \<and> oe_occurred_at p \<le> t \<and>
          val (oe_cumulative_filled_quantity p) \<le> val c)" for u
    by (auto simp: previous_event_check_def dec_less_iff split: option.splits)
  have status: "validate_status_quantities s c (oi_quantity i - c) = Success u \<longleftrightarrow>
      (s = ACCEPTED \<longrightarrow> val c = 0) \<and>
      (s = PARTIALLY_FILLED \<longrightarrow> 0 < val c \<and> val c < val (oi_quantity i)) \<and>
      (s = FILLED \<longrightarrow> val c = val (oi_quantity i))" for u
    unfolding validate_status_quantities_def remaining_sign by (auto simp: deq_iff dec_less_iff)
  have expired: "validate_status_quantities ORDER_EXPIRED c x = Success ()" for x
    by (simp add: validate_status_quantities_def)
  define v where "v = validate_order_event H (appended H i p s c t reason)"
  have v: "v = Success e \<longleftrightarrow> e = appended H i p s c t reason \<and>
      v = Success (appended H i p s c t reason)"
    unfolding v_def using val by metis
  have unfold: "append_order_event H i p s c (Utc t) reason =
     (if t < oi_created_at i then Failure CONFLICT ''order event cannot precede intent''
      else if (if s = ORDER_EXPIRED then t < oi_valid_until i else t \<ge> oi_valid_until i)
      then Failure CONFLICT ''order event violates validity window''
      else if s \<notin> transitions (from_status_of p)
      then Failure CONFLICT ''order status transition is not allowed''
      else bind (previous_event_check i p t c) (\<lambda>_.
      if \<not> is_quantized c (oi_quantity_quantum i)
      then Failure INVALID_INPUT ''filled quantity is not quantized''
      else if c < 0 \<or> oi_quantity i - c < 0
      then Failure CONFLICT ''order event would overfill intent''
      else bind (validate_status_quantities s c (oi_quantity i - c)) (\<lambda>_.
        catch_value_error v (Failure INVALID_INPUT ''order event is invalid''))))"
    by (simp add: append_order_event_def v_def appended_def next_sequence_def Let_def)
  show ?thesis
    unfolding unfold appendable_def v_def [symmetric] remaining_sign
    using v by (auto simp: bind_Success_iff catch_Success_iff prev status expired not_less
        dec_less_iff)
qed

definition valid_intent :: "hashing \<Rightarrow> order_intent \<Rightarrow> bool" where
  "valid_intent H i \<longleftrightarrow> validate_intent H i = Success i"

definition valid_order_event :: "hashing \<Rightarrow> order_event \<Rightarrow> bool" where
  "valid_order_event H e \<longleftrightarrow> validate_order_event H e = Success e"

lemma valid_intent_quantity:
  assumes "valid_intent H i"
  shows "on_grid (oi_quantity_quantum i) (val (oi_quantity i))" "0 < val (oi_quantity i)"
    "decimal_ok (oi_quantity i)" "oi_created_at i \<le> oi_valid_from i" "oi_valid_from i < oi_valid_until i"
  using assms
  by (auto simp: valid_intent_def validate_intent_def check_all_Success_iff is_quantized_grid
      positive_ok_def dec_le_iff)

text \<open>An event whose guards hold is built and valid.\<close>

lemma append_succeeds:
  assumes i: "valid_intent H' i" and H: "wf_hashing H" and ok: "appendable i p s c t"
    and c: "decimal_ok c" and reason: "opt_ok (\<lambda>r. length r \<le> 256) reason"
    and p: "case p of None \<Rightarrow> True | Some p \<Rightarrow> valid_order_event H p"
    and range: "in_range (oi_quantity_quantum i) (val (oi_quantity i))"
  shows "append_order_event H i p s c (Utc t) reason = Success (appended H i p s c t reason)"
proof -
  let ?e = "appended H i p s c t reason"
  note q = valid_intent_quantity [OF i]
  have c_grid: "on_grid (oi_quantity_quantum i) (val c)" "0 \<le> val c" "val c \<le> val (oi_quantity i)"
    using ok by (auto simp: appendable_def is_quantized_grid)
  then have rem: "val (oi_quantity i - c) = val (oi_quantity i) - val c"
    using in_range_between [OF in_range_0 range] by (intro val_minus_grid [OF q(1)]) auto
  have "decimal_ok (oi_quantity i - c)"
    using c_grid q by (intro decimal_ok_minus [OF _ c]) (auto simp: rem)
  moreover have "sha256_ok (oe_event_hash ?e)"
    using H by (simp add: expected_order_event_hash_def wf_hashing_stable)
  moreover have "1 \<le> next_sequence p" "next_sequence p = 1 \<longleftrightarrow> p = None"
      "opt_ok sha256_ok (map_option oe_event_hash p)"
    using p by (auto simp: next_sequence_def opt_ok_def valid_order_event_def validate_order_event_def
        check_all_Success_iff split: option.splits)
  moreover have "s \<in> transitions (from_status_of p)"
    using ok by (simp add: appendable_def)
  ultimately have "validate_order_event H ?e = Success ?e"
    using c reason by (simp add: validate_order_event_def check_all_Success_iff del: appended_sel(10))
      (simp add: appended_sel(10))
  then show ?thesis
    using ok by (simp add: append_order_event_eq)
qed

section \<open>Histories\<close>

definition previous_of :: "order_event list \<Rightarrow> order_event option" where
  "previous_of es = (if es = [] then None else Some (last es))"

inductive order_history :: "hashing \<Rightarrow> order_intent \<Rightarrow> order_event list \<Rightarrow> bool" for H i where
  no_events: "order_history H i []"
| one_more: "\<lbrakk>order_history H i es;
     append_order_event H i (previous_of es) status cumulative t reason = Success e\<rbrakk> \<Longrightarrow>
     order_history H i (es @ [e])"

lemma append_Utc:
  "append_order_event H i p s c t reason = Success e \<Longrightarrow> \<exists>u. t = Utc u"
  by (cases t) (simp_all add: append_order_event_def)

lemma history_step:
  assumes "append_order_event H i (previous_of es) s c t reason = Success e"
  obtains u where "t = Utc u" "appendable i (previous_of es) s c u"
    "e = appended H i (previous_of es) s c u reason" "valid_order_event H e"
  using assms append_Utc [OF assms] by (auto simp: append_order_event_eq valid_order_event_def)

lemma history_events:
  assumes "order_history H i es" "e \<in> set es"
  shows "valid_order_event H e" "oe_order_intent_id e = oi_intent_id i"
    "is_quantized (oe_cumulative_filled_quantity e) (oi_quantity_quantum i)"
    "0 \<le> val (oe_cumulative_filled_quantity e)"
    "val (oe_cumulative_filled_quantity e) \<le> val (oi_quantity i)"
    "oe_remaining_quantity e = oi_quantity i - oe_cumulative_filled_quantity e"
    "order_chain.intact H e" "oi_created_at i \<le> oe_occurred_at e"
    "oe_to_status e = FILLED \<longrightarrow> val (oe_cumulative_filled_quantity e) = val (oi_quantity i)"
    "oe_to_status e = PARTIALLY_FILLED \<longrightarrow> 0 < val (oe_cumulative_filled_quantity e) \<and>
       val (oe_cumulative_filled_quantity e) < val (oi_quantity i)"
    "oe_to_status e = ACCEPTED \<longrightarrow> val (oe_cumulative_filled_quantity e) = 0"
    "oe_to_status e = ORDER_EXPIRED \<longleftrightarrow> oi_valid_until i \<le> oe_occurred_at e"
  using assms
  by (induction rule: order_history.induct)
     (auto elim!: history_step simp: appendable_def order_chain.intact_def
        expected_order_event_hash_def)

lemma history_linked:
  "order_history H i es \<Longrightarrow> order_chain.linked 1 None es"
proof (induction rule: order_history.induct)
  case (one_more es s c t reason e)
  have "es \<noteq> [] \<Longrightarrow> oe_sequence (last es) = int (length es)"
    using order_chain.linked_nth [OF one_more.IH, of "length es - 1"]
    by (simp add: last_conv_nth) (cases es; simp)
  moreover obtain u where "e = appended H i (previous_of es) s c u reason"
    using one_more.hyps(2) by (rule history_step)
  ultimately show ?case
    using one_more.IH by (simp add: order_chain.linked_append previous_of_def next_sequence_def)
qed simp

lemma butlast_snoc_map:
  "butlast (x # map f es @ [y]) = butlast (x # map f es) @ [last (x # map f es)]"
  by (induction es rule: rev_induct) (auto simp: butlast_append)

lemma history_statuses:
  "order_history H i es \<Longrightarrow> order_statuses.history CREATED (map oe_to_status es) \<and>
     map oe_from_status es = butlast (CREATED # map oe_to_status es)"
proof (induction rule: order_history.induct)
  case (one_more es s c t reason e)
  have "from_status_of (previous_of es) = last (CREATED # map oe_to_status es)"
    by (auto simp: from_status_of_def previous_of_def last_map)
  moreover obtain u where "appendable i (previous_of es) s c u"
      "e = appended H i (previous_of es) s c u reason"
    using one_more.hyps(2) by (rule history_step)
  ultimately have "oe_from_status e = last (CREATED # map oe_to_status es)"
      "oe_to_status e \<in> transitions (last (CREATED # map oe_to_status es))"
    by (simp_all only: appendable_def appended_sel)
  then show ?case
    using one_more.IH by (simp add: order_statuses.history_append butlast_snoc_map)
qed simp

lemma history_monotone:
  "order_history H i es \<Longrightarrow>
   sorted (map (\<lambda>e. val (oe_cumulative_filled_quantity e)) es) \<and> sorted (map oe_occurred_at es)"
proof (induction rule: order_history.induct)
  case (one_more es s c t reason e)
  then show ?case
  proof (cases "es = []")
    case False
    obtain u where u: "appendable i (Some (last es)) s c u" "e = appended H i (Some (last es)) s c u reason"
      using history_step [OF one_more.hyps(2)] False unfolding previous_of_def by metis
    have "x \<le> last xs" if "sorted xs" "x \<in> set xs" for x and xs :: "'b::linorder list"
      using that by (induction xs) auto
    note top = this
    show ?thesis
      using one_more.IH u False
        top [of "map (\<lambda>e. val (oe_cumulative_filled_quantity e)) es"] top [of "map oe_occurred_at es"]
      by (fastforce simp: sorted_append appendable_def last_map)
  qed simp
qed simp

section \<open>Properties\<close>

text \<open>A sample order for 10 units, and the history accepted, partly filled, filled.\<close>

definition sample_intent :: order_intent where
  "sample_intent =
     \<lparr>oi_intent_id = ''i'', oi_run_id = ''run'', oi_account_id = ''a'', oi_instrument_id = ''x'',
      oi_side = BUY, oi_order_type = MARKET, oi_quantity = Dec 10 0, oi_quantity_quantum = Dec 1 0,
      oi_limit_price = None, oi_stop_price = None, oi_time_in_force = DAY, oi_valid_from = 0,
      oi_valid_until = 100, oi_risk_decision_id = ''d'',
      oi_risk_decision_hash = replicate 64 CHR ''a'', oi_reservation_id = ''r'',
      oi_reservation_hash = replicate 64 CHR ''a'', oi_portfolio_target_id = ''t'',
      oi_authorized_target_hash = replicate 64 CHR ''a'', oi_portfolio_snapshot_id = ''s'',
      oi_risk_account_aggregate_sequence = 0, oi_account_aggregate_sequence = 1,
      oi_portfolio_sequence = 0, oi_idempotency_key = ''k'',
      oi_execution_model_version = ''paper-v1'', oi_created_at = 0,
      oi_intent_hash = replicate 64 CHR ''a''\<rparr>"

lemma sample_intent_valid: "valid_intent sample_hashing sample_intent"
proof -
  have "is_quantized (Dec 10 0) (Dec 1 0)" "positive_ok (Dec 10 0)" "positive_ok (Dec 1 0)"
    by code_simp+
  then show ?thesis
    by (simp add: valid_intent_def validate_intent_def check_all_Success_iff sample_intent_def
        nonempty_ok_def opt_ok_def expected_intent_hash_def)
qed

lemma sample_intent_range: "in_range (oi_quantity_quantum sample_intent) (val (oi_quantity sample_intent))"
  by (simp add: sample_intent_def in_range_def val_Dec)

definition sample_accepted :: order_event where
  "sample_accepted = appended sample_hashing sample_intent None ACCEPTED 0 5 None"

definition sample_partial :: order_event where
  "sample_partial = appended sample_hashing sample_intent (Some sample_accepted) PARTIALLY_FILLED (Dec 4 0) 6 None"

lemma sample_order_history:
  "order_history sample_hashing sample_intent [sample_accepted, sample_partial]"
proof -
  have q: "is_quantized 0 (oi_quantity_quantum sample_intent)"
      "is_quantized (Dec 4 0) (oi_quantity_quantum sample_intent)" "decimal_ok (Dec 4 0)"
    by code_simp+
  have "appendable sample_intent None ACCEPTED 0 5"
    using q by (simp add: appendable_def from_status_of_def)
      (simp add: sample_intent_def val_Dec)
  then have a: "append_order_event sample_hashing sample_intent None ACCEPTED 0 (Utc 5) None = Success sample_accepted"
    unfolding sample_accepted_def
    by (intro append_succeeds [OF sample_intent_valid]) (simp_all add: sample_intent_range opt_ok_def)
  then have v: "valid_order_event sample_hashing sample_accepted"
    by (simp add: append_order_event_eq valid_order_event_def sample_accepted_def)
  have "appendable sample_intent (Some sample_accepted) PARTIALLY_FILLED (Dec 4 0) 6"
    using q by (simp add: appendable_def from_status_of_def sample_accepted_def)
      (simp add: sample_intent_def val_Dec)
  then have "append_order_event sample_hashing sample_intent (Some sample_accepted) PARTIALLY_FILLED (Dec 4 0)
      (Utc 6) None = Success sample_partial"
    unfolding sample_partial_def
    by (intro append_succeeds [OF sample_intent_valid]) (simp_all add: sample_intent_range opt_ok_def q v)
  then show ?thesis
    using one_more [OF one_more [OF no_events, of sample_hashing sample_intent ACCEPTED 0 "Utc 5" None],
        of sample_accepted PARTIALLY_FILLED "Dec 4 0" "Utc 6" None sample_partial] a
    by (simp add: previous_of_def)
qed

text \<open>
  C3: an order is never overfilled and no quantity disappears. In every history of a valid order
  that \<open>append_order_event\<close> builds, the filled quantity never decreases, stays between zero and the
  ordered quantity, and together with the remaining quantity is exactly the ordered quantity; a
  filled order is filled completely and a partly filled one is neither empty nor complete.
\<close>

theorem order_fills_conserved:
  assumes "order_history H i es" "validate_intent H i = Success i"
    and "in_range (oi_quantity_quantum i) (val (oi_quantity i))" "e \<in> set es"
  shows "sorted (map (\<lambda>e. val (oe_cumulative_filled_quantity e)) es) \<and>
    0 \<le> val (oe_cumulative_filled_quantity e) \<and>
    val (oe_cumulative_filled_quantity e) + val (oe_remaining_quantity e) = val (oi_quantity i) \<and>
    0 \<le> val (oe_remaining_quantity e) \<and>
    (oe_to_status e = FILLED \<longrightarrow> val (oe_remaining_quantity e) = 0) \<and>
    (oe_to_status e = PARTIALLY_FILLED \<longrightarrow>
       0 < val (oe_cumulative_filled_quantity e) \<and> 0 < val (oe_remaining_quantity e))"
proof -
  note ev = history_events [OF assms(1, 4)]
  have "on_grid (oi_quantity_quantum i) (val (oi_quantity i))"
    using assms(2) valid_intent_quantity(1) by (simp add: valid_intent_def)
  then have "val (oe_remaining_quantity e) = val (oi_quantity i) - val (oe_cumulative_filled_quantity e)"
    unfolding ev(6) using in_range_between [OF in_range_0 assms(3)] ev(4, 5)
    by (intro val_minus_grid [OF _ is_quantized_grid [OF ev(3)]]) auto
  then show ?thesis
    using ev history_monotone [OF assms(1)] by simp
qed

theorem order_fills_conserved_witness:
  "val (oe_cumulative_filled_quantity sample_partial) + val (oe_remaining_quantity sample_partial) = 10"
proof -
  have "val (oi_quantity sample_intent) = 10"
    by (simp add: sample_intent_def val_Dec)
  then show ?thesis
    using order_fills_conserved [OF sample_order_history sample_intent_valid [unfolded valid_intent_def]
        sample_intent_range, of sample_partial] by simp
qed

text \<open>
  C15: the life of an order. The statuses of a history follow the transition table from
  \<open>CREATED\<close>; each event starts where the one before ended; times never go back; an event with a
  terminal status is the last one; and a status that was left does not come back.
\<close>

theorem order_lifecycle:
  assumes "order_history H i es"
  shows "order_statuses.history CREATED (map oe_to_status es) \<and>
    map oe_from_status es = butlast (CREATED # map oe_to_status es) \<and>
    sorted (map oe_occurred_at es) \<and>
    (\<forall>n < length es. transitions (oe_to_status (es ! n)) = {} \<longrightarrow> n = length es - 1) \<and>
    CREATED \<notin> set (map oe_to_status es)"
proof -
  note st = history_statuses [OF assms]
  have "n = length es - 1" if "n < length es" "transitions (oe_to_status (es ! n)) = {}" for n
    using order_statuses.terminal_last [of CREATED "map oe_to_status es" n] st that
    by (simp add: order_statuses.terminal_def)
  moreover have "CREATED \<notin> set (map oe_to_status es)"
    using order_statuses.no_return [of CREATED "oe_to_status (hd es)" "map oe_to_status (tl es)"] st
    by (cases es) auto
  ultimately show ?thesis
    using st history_monotone [OF assms] by blast
qed

theorem order_lifecycle_witness:
  "map oe_from_status [sample_accepted, sample_partial] = [CREATED, ACCEPTED] \<and>
   CREATED \<notin> set (map oe_to_status [sample_accepted, sample_partial])"
  using order_lifecycle [OF sample_order_history] by (simp add: sample_accepted_def)

text \<open>
  C23: tamper evidence. Two event histories, of whatever orders, that end in the same event hash are
  the same history, field by field, unless the digest has a collision among their events.
\<close>

theorem order_history_tamper_evident:
  assumes "order_history H i as" "order_history H j bs" "as \<noteq> []" "bs \<noteq> []"
    and "inj_on (sha256 H) ((\<lambda>e. canonical_json (JObj (order_event_fields e))) ` (set as \<union> set bs))"
    and "oe_event_hash (last as) = oe_event_hash (last bs)"
  shows "map order_event_fields as = map order_event_fields bs"
  using order_chain.head_determines_chain [OF history_linked [OF assms(1)] history_linked [OF assms(2)]
      assms(3, 4), of H] history_events(7) [OF assms(1)] history_events(7) [OF assms(2)] assms(5, 6)
  by (auto simp: order_chain.payloads_def)

text \<open>The same two events under a digest that tells them apart.\<close>

definition length_accepted :: order_event where
  "length_accepted = appended length_hashing sample_intent None ACCEPTED 0 5 None"

definition length_partial :: order_event where
  "length_partial =
     appended length_hashing sample_intent (Some length_accepted) PARTIALLY_FILLED (Dec 4 0) 6 (Some ''x'')"

lemma length_order_history:
  assumes "j = sample_intent \<or> j = sample_intent\<lparr>oi_account_id := ''b''\<rparr>"
  shows "order_history length_hashing j [length_accepted, length_partial]"
proof -
  have q: "is_quantized 0 (Dec 1 0)" "is_quantized (Dec 4 0) (Dec 1 0)" "decimal_ok (Dec 4 0)"
    by code_simp+
  have sel: "oi_quantity j = Dec 10 0" "oi_quantity_quantum j = Dec 1 0" "oi_created_at j = 0"
      "oi_valid_until j = 100" "oi_intent_id j = ''i''" "oi_intent_id sample_intent = ''i''"
    using assms by (auto simp: sample_intent_def)
  have app: "appended length_hashing j p s c t r = appended length_hashing sample_intent p s c t r" for p s c t r
    using assms by (auto simp: appended_def)
  have valid: "valid_intent sample_hashing j"
    using assms sample_intent_valid
    by (auto simp: valid_intent_def validate_intent_def check_all_Success_iff expected_intent_hash_def nonempty_ok_def)
  have range: "in_range (Dec 1 0) 10"
    by (simp add: in_range_def)
  have a: "append_order_event length_hashing j None ACCEPTED 0 (Utc 5) None = Success length_accepted"
    unfolding length_accepted_def app [symmetric]
    by (rule append_succeeds [OF valid])
       (simp_all add: appendable_def from_status_of_def sel q val_Dec range opt_ok_def)
  then have v: "valid_order_event length_hashing length_accepted"
    by (auto simp: append_order_event_eq valid_order_event_def)
  have "append_order_event length_hashing j (Some length_accepted) PARTIALLY_FILLED (Dec 4 0) (Utc 6)
      (Some ''x'') = Success length_partial"
    unfolding length_partial_def app [symmetric]
    by (rule append_succeeds [OF valid])
       (simp_all add: appendable_def from_status_of_def sel q val_Dec range opt_ok_def v,
        simp_all add: length_accepted_def sel)
  then show ?thesis
    using one_more [OF one_more [OF no_events, of length_hashing j ACCEPTED 0 "Utc 5" None],
        of length_accepted PARTIALLY_FILLED "Dec 4 0" "Utc 6" "Some ''x''"] a
    by (simp add: previous_of_def)
qed

theorem order_history_tamper_evident_witness:
  "order_history length_hashing sample_intent [length_accepted, length_partial] \<and>
   order_history length_hashing (sample_intent\<lparr>oi_account_id := ''b''\<rparr>) [length_accepted, length_partial] \<and>
   map order_event_fields [length_accepted, length_partial] =
     map order_event_fields [length_accepted, length_partial]"
proof -
  have h: "order_history length_hashing sample_intent [length_accepted, length_partial]"
      "order_history length_hashing (sample_intent\<lparr>oi_account_id := ''b''\<rparr>) [length_accepted, length_partial]"
    by (rule length_order_history; simp)+
  have "sha256 length_hashing (canonical_json (JObj (order_event_fields length_accepted))) \<noteq>
      sha256 length_hashing (canonical_json (JObj (order_event_fields length_partial)))"
    by code_simp
  then show ?thesis
    using order_history_tamper_evident [OF h] h by (auto simp: inj_on_def)
qed

end
