(* ===== verification/Journal.thy ===== *)
theory Journal
  imports Hash_Chain
begin

text \<open>
  \<^verbatim>\<open>domain/journal.py\<close>: the balanced double-entry journal. A posting debits or credits one ledger
  account in one commodity; a transaction groups postings that balance per commodity; transactions
  form a hash chain per trading account.
\<close>

section \<open>Postings\<close>

datatype journal_side = DEBIT | CREDIT

fun journal_side_value :: "journal_side \<Rightarrow> string" where
  "journal_side_value DEBIT = ''debit''"
| "journal_side_value CREDIT = ''credit''"

text \<open>The account pattern \<^verbatim>\<open>^(asset|inventory|fee|pnl|clearing):[A-Za-z0-9_.:-]{1,191}$\<close>.\<close>

definition account_char :: "char \<Rightarrow> bool" where
  "account_char c \<longleftrightarrow>
     upper_char c \<or> char_between CHR ''a'' c CHR ''z'' \<or> char_between CHR ''0'' c CHR ''9'' \<or>
     c \<in> {CHR ''_'', CHR ''.'', CHR '':'', CHR ''-''}"

definition ledger_account_ok :: "string \<Rightarrow> bool" where
  "ledger_account_ok s \<longleftrightarrow>
     list_ex (\<lambda>p. take (length p) s = p \<and>
        (let rest = drop (length p) s in
         1 \<le> length rest \<and> length rest \<le> 191 \<and> list_all account_char rest))
       [''asset:'', ''inventory:'', ''fee:'', ''pnl:'', ''clearing:'']"

record posting =
  jp_posting_id :: uuid
  jp_ledger_account :: string
  jp_commodity :: string
  jp_side :: journal_side
  jp_amount :: dec
  jp_quantum :: dec
  jp_memo :: "string option"

definition validate_posting :: "posting \<Rightarrow> posting result" where
  "validate_posting p = check_all
     [(ledger_account_ok (jp_ledger_account p) \<and> nonempty_ok (jp_commodity p) \<and>
       positive_ok (jp_amount p) \<and> positive_ok (jp_quantum p) \<and>
       opt_ok (\<lambda>m. length m \<le> 512) (jp_memo p), ''field''),
      (is_quantized (jp_amount p) (jp_quantum p),
       ''posting amount must already match commodity quantum'')] p"

definition signed_amount :: "posting \<Rightarrow> dec" where
  "signed_amount p = (if jp_side p = DEBIT then jp_amount p else - jp_amount p)"

definition posting_json :: "posting \<Rightarrow> json" where
  "posting_json p = JObj
     [(''posting_id'', JStr (jp_posting_id p)), (''ledger_account'', JStr (jp_ledger_account p)),
      (''commodity'', JStr (jp_commodity p)), (''side'', JStr (journal_side_value (jp_side p))),
      (''amount'', jdec (jp_amount p)), (''quantum'', jdec (jp_quantum p)),
      (''memo'', jopt JStr (jp_memo p))]"

section \<open>Transactions\<close>

record transaction =
  jt_transaction_id :: uuid
  jt_account_id :: string
  jt_sequence :: int
  jt_occurred_at :: utc
  jt_previous_hash :: "hash option"
  jt_source_order_intent_id :: uuid
  jt_source_fill_id :: uuid
  jt_postings :: "posting list"
  jt_transaction_hash :: hash

definition transaction_fields :: "transaction \<Rightarrow> (string \<times> json) list" where
  "transaction_fields t =
     [(''transaction_id'', JStr (jt_transaction_id t)), (''account_id'', JStr (jt_account_id t)),
      (''sequence'', JInt (jt_sequence t)), (''occurred_at'', jtime (jt_occurred_at t)),
      (''previous_hash'', jopt JStr (jt_previous_hash t)),
      (''source_order_intent_id'', JStr (jt_source_order_intent_id t)),
      (''source_fill_id'', JStr (jt_source_fill_id t)),
      (''postings'', JList (map posting_json (jt_postings t)))]"

definition expected_transaction_hash :: "hashing \<Rightarrow> transaction \<Rightarrow> hash" where
  "expected_transaction_hash H t = stable_payload_hash H (JObj (transaction_fields t))"

text \<open>The two loops over the postings: first quantum per commodity, and running balances.\<close>

fun quantums_consistent :: "(string \<times> dec) list \<Rightarrow> posting list \<Rightarrow> bool" where
  "quantums_consistent quantums [] = True"
| "quantums_consistent quantums (p # ps) =
     (case map_of quantums (jp_commodity p) of
        None \<Rightarrow> quantums_consistent (dict_set (jp_commodity p) (jp_quantum p) quantums) ps
      | Some existing \<Rightarrow> deq existing (jp_quantum p) \<and> quantums_consistent quantums ps)"

definition add_balance :: "string \<Rightarrow> dec \<Rightarrow> (string \<times> dec) list \<Rightarrow> (string \<times> dec) list" where
  "add_balance c d balances =
     dict_set c ((case map_of balances c of None \<Rightarrow> 0 | Some b \<Rightarrow> b) + d) balances"

definition posting_balances :: "posting list \<Rightarrow> (string \<times> dec) list" where
  "posting_balances ps = fold (\<lambda>p. add_balance (jp_commodity p) (signed_amount p)) ps []"

definition is_balanced :: "transaction \<Rightarrow> bool" where
  "is_balanced t \<longleftrightarrow>
     jt_postings t \<noteq> [] \<and> list_all (\<lambda>(c, b). deq b 0) (posting_balances (jt_postings t))"

definition validate_transaction :: "hashing \<Rightarrow> transaction \<Rightarrow> transaction result" where
  "validate_transaction H t = check_all
     [(nonempty_ok (jt_account_id t) \<and> 1 \<le> jt_sequence t \<and>
       opt_ok sha256_ok (jt_previous_hash t) \<and> 2 \<le> length (jt_postings t) \<and>
       length (jt_postings t) \<le> 10000 \<and> sha256_ok (jt_transaction_hash t), ''field''),
      ((jt_sequence t = 1) = (jt_previous_hash t = None),
       ''only genesis journal transaction may omit previous hash''),
      (distinct (map jp_posting_id (jt_postings t)), ''journal posting ids must be unique''),
      (sorted (map jp_posting_id (jt_postings t)),
       ''journal postings must be stably sorted by id''),
      (quantums_consistent [] (jt_postings t), ''one commodity cannot use mixed quantums''),
      (list_all (\<lambda>(c, b). deq b 0) (posting_balances (jt_postings t)),
       ''unbalanced journal commodities''),
      (jt_transaction_hash t = expected_transaction_hash H t,
       ''journal transaction hash does not match payload'')] t"

definition create_transaction ::
  "hashing \<Rightarrow> uuid \<Rightarrow> string \<Rightarrow> int \<Rightarrow> utc \<Rightarrow> hash option \<Rightarrow> uuid \<Rightarrow> uuid \<Rightarrow> posting list \<Rightarrow>
   transaction result" where
  "create_transaction H transaction_id account_id sequence occurred_at previous_hash
     source_order_intent_id source_fill_id postings =
     (let provisional =
        \<lparr>jt_transaction_id = transaction_id, jt_account_id = account_id, jt_sequence = sequence,
         jt_occurred_at = occurred_at, jt_previous_hash = previous_hash,
         jt_source_order_intent_id = source_order_intent_id,
         jt_source_fill_id = source_fill_id, jt_postings = postings,
         jt_transaction_hash = PLACEHOLDER_HASH\<rparr>
      in validate_transaction H
           (provisional\<lparr>jt_transaction_hash := expected_transaction_hash H provisional\<rparr>))"

text \<open>\<^verbatim>\<open>verify_journal_chain\<close>: the loop carries the index and the hash of the transaction before.\<close>

fun verify_chain_from :: "hashing \<Rightarrow> string \<Rightarrow> int \<Rightarrow> hash option \<Rightarrow> transaction list \<Rightarrow> bool" where
  "verify_chain_from H account_id index previous [] = True"
| "verify_chain_from H account_id index previous (t # ts) =
     (if jt_account_id t \<noteq> account_id \<or> jt_sequence t \<noteq> index \<or>
         jt_previous_hash t \<noteq> previous \<or>
         jt_transaction_hash t \<noteq> expected_transaction_hash H t \<or> \<not> is_balanced t
      then False
      else verify_chain_from H account_id (index + 1) (Some (jt_transaction_hash t)) ts)"

definition verify_journal_chain :: "hashing \<Rightarrow> transaction list \<Rightarrow> bool" where
  "verify_journal_chain H ts =
     (case ts of [] \<Rightarrow> False | t # _ \<Rightarrow> verify_chain_from H (jt_account_id t) 1 None ts)"

end
