(* ===== verification/Ledger.thy ===== *)
theory Ledger
  imports Journal Portfolio
begin

text \<open>
  \<^verbatim>\<open>domain/ledger.py\<close> and \<^verbatim>\<open>application/ledger/replay.py\<close>: the ledger head, the account projection
  derived from the journal, the deterministic replay that rebuilds it, and the comparison of a
  replayed projection with the stored one (\<^verbatim>\<open>compare_ledger_projection\<close> of
  \<^verbatim>\<open>application/ledger/reconcile.py\<close>).
\<close>

section \<open>Models\<close>

record ledger_head =
  lh_account_id :: string
  lh_sequence :: int
  lh_transaction_hash :: "hash option"

definition validate_ledger_head :: "ledger_head \<Rightarrow> ledger_head result" where
  "validate_ledger_head h = check_all
     [(nonempty_ok (lh_account_id h) \<and> 0 \<le> lh_sequence h \<and>
       opt_ok sha256_ok (lh_transaction_hash h), ''field''),
      ((lh_sequence h = 0) = (lh_transaction_hash h = None),
       ''only genesis ledger head may omit transaction hash'')] h"

record account_balance =
  lb_ledger_account :: string
  lb_commodity :: string
  lb_quantum :: dec
  lb_debit_total :: dec
  lb_credit_total :: dec

definition validate_account_balance :: "account_balance \<Rightarrow> account_balance result" where
  "validate_account_balance b = check_all
     [(ledger_account_ok (lb_ledger_account b) \<and> nonempty_ok (lb_commodity b) \<and>
       positive_ok (lb_quantum b) \<and> non_negative_ok (lb_debit_total b) \<and>
       non_negative_ok (lb_credit_total b), ''field''),
      (is_quantized (lb_debit_total b) (lb_quantum b) \<and>
       is_quantized (lb_credit_total b) (lb_quantum b),
       ''ledger totals must match commodity quantum'')] b"

definition balance :: "account_balance \<Rightarrow> dec" where
  "balance b = lb_debit_total b - lb_credit_total b"

definition account_balance_json :: "account_balance \<Rightarrow> json" where
  "account_balance_json b = JObj
     [(''ledger_account'', JStr (lb_ledger_account b)), (''commodity'', JStr (lb_commodity b)),
      (''quantum'', jdec (lb_quantum b)), (''debit_total'', jdec (lb_debit_total b)),
      (''credit_total'', jdec (lb_credit_total b))]"

record projection =
  lp_account_id :: string
  lp_opening_snapshot_hash :: hash
  lp_ledger_sequence :: int
  lp_ledger_hash :: "hash option"
  lp_last_occurred_at :: utc
  lp_balances :: "account_balance list"
  lp_unvalued_instrument_ids :: "uuid list"
  lp_projection_hash :: hash

definition projection_fields :: "projection \<Rightarrow> (string \<times> json) list" where
  "projection_fields p =
     [(''account_id'', JStr (lp_account_id p)),
      (''opening_snapshot_hash'', JStr (lp_opening_snapshot_hash p)),
      (''ledger_sequence'', JInt (lp_ledger_sequence p)),
      (''ledger_hash'', jopt JStr (lp_ledger_hash p)),
      (''last_occurred_at'', jtime (lp_last_occurred_at p)),
      (''balances'', JList (map account_balance_json (lp_balances p))),
      (''unvalued_instrument_ids'', JList (map JStr (lp_unvalued_instrument_ids p)))]"

definition expected_projection_hash :: "hashing \<Rightarrow> projection \<Rightarrow> hash" where
  "expected_projection_hash H p = stable_payload_hash H (JObj (projection_fields p))"

definition validate_projection :: "hashing \<Rightarrow> projection \<Rightarrow> projection result" where
  "validate_projection H p = check_all
     [(nonempty_ok (lp_account_id p) \<and> sha256_ok (lp_opening_snapshot_hash p) \<and>
       0 \<le> lp_ledger_sequence p \<and> opt_ok sha256_ok (lp_ledger_hash p) \<and>
       length (lp_balances p) \<le> 1000000 \<and> length (lp_unvalued_instrument_ids p) \<le> 100000 \<and>
       sha256_ok (lp_projection_hash p), ''field''),
      ((lp_ledger_sequence p = 0) = (lp_ledger_hash p = None),
       ''only genesis ledger projection may omit hash''),
      (sorted_unique (map (\<lambda>b. (lb_ledger_account b, lb_commodity b)) (lp_balances p)),
       ''ledger balances must be unique and stably sorted''),
      (sorted_unique (lp_unvalued_instrument_ids p),
       ''unvalued instruments must be unique and sorted''),
      (lp_projection_hash p = expected_projection_hash H p,
       ''ledger projection hash does not match payload'')] p"

definition create_projection ::
  "hashing \<Rightarrow> string \<Rightarrow> hash \<Rightarrow> int \<Rightarrow> hash option \<Rightarrow> utc \<Rightarrow> account_balance list \<Rightarrow> uuid list \<Rightarrow>
   projection result" where
  "create_projection H account_id opening_snapshot_hash ledger_sequence ledger_hash
     last_occurred_at balances unvalued =
     (let provisional =
        \<lparr>lp_account_id = account_id, lp_opening_snapshot_hash = opening_snapshot_hash,
         lp_ledger_sequence = ledger_sequence, lp_ledger_hash = ledger_hash,
         lp_last_occurred_at = last_occurred_at, lp_balances = balances,
         lp_unvalued_instrument_ids = unvalued, lp_projection_hash = PLACEHOLDER_HASH\<rparr>
      in validate_projection H
           (provisional\<lparr>lp_projection_hash := expected_projection_hash H provisional\<rparr>))"

definition projection_account_balance :: "projection \<Rightarrow> string \<Rightarrow> string \<Rightarrow> dec" where
  "projection_account_balance p account commodity =
     (case List.find (\<lambda>b. lb_ledger_account b = account \<and> lb_commodity b = commodity)
             (lp_balances p) of
        None \<Rightarrow> 0 | Some b \<Rightarrow> balance b)"

definition projection_cash :: "projection \<Rightarrow> string \<Rightarrow> dec" where
  "projection_cash p currency = projection_account_balance p (''asset:cash:'' @ currency) currency"

definition projection_position :: "projection \<Rightarrow> uuid \<Rightarrow> dec" where
  "projection_position p instrument =
     projection_account_balance p (''inventory:units:'' @ instrument) instrument"

definition projection_inventory_value :: "projection \<Rightarrow> uuid \<Rightarrow> string \<Rightarrow> dec" where
  "projection_inventory_value p instrument currency =
     projection_account_balance p (''inventory:value:'' @ instrument @ '':'' @ currency) currency"

definition projection_fees :: "projection \<Rightarrow> string \<Rightarrow> dec" where
  "projection_fees p currency =
     projection_account_balance p (''fee:execution:'' @ currency) currency"

definition projection_realized_pnl :: "projection \<Rightarrow> string \<Rightarrow> dec" where
  "projection_realized_pnl p currency =
     - projection_account_balance p (''pnl:realized:'' @ currency) currency"

section \<open>Recognised ledger accounts\<close>

fun split_colon :: "string \<Rightarrow> string list" where
  "split_colon [] = [[]]"
| "split_colon (c # cs) =
     (if c = CHR '':'' then [] # split_colon cs
      else case split_colon cs of [] \<Rightarrow> [[c]] | w # ws \<Rightarrow> (c # w) # ws)"

text \<open>\<^verbatim>\<open>commodity.isupper() and len(commodity) == 3\<close> on ASCII text.\<close>

definition upper3 :: "string \<Rightarrow> bool" where
  "upper3 s \<longleftrightarrow>
     list_ex upper_char s \<and> \<not> list_ex (\<lambda>c. char_between CHR ''a'' c CHR ''z'') s \<and> length s = 3"

definition uuid_matches :: "string \<Rightarrow> string \<Rightarrow> bool" where
  "uuid_matches value commodity \<longleftrightarrow> uuid_canonical value \<and> value = commodity"

definition recognized :: "string \<Rightarrow> string \<Rightarrow> bool" where
  "recognized account commodity =
     (case split_colon account of
        [a, b, c] \<Rightarrow>
          if (a, b) \<in> {(''asset'', ''cash''), (''fee'', ''execution''), (''pnl'', ''realized''),
                       (''clearing'', ''cash'')}
          then c = commodity \<and> upper3 commodity
          else if (a, b) \<in> {(''inventory'', ''units''), (''clearing'', ''units'')}
          then uuid_matches c commodity
          else False
      | [a, b, c, d] \<Rightarrow>
          if (a, b) = (''inventory'', ''value'')
          then uuid_matches c c \<and> d = commodity \<and> upper3 commodity
          else False
      | _ \<Rightarrow> False)"

section \<open>Replay\<close>

type_synonym balance_key = "string \<times> string"
type_synonym totals = "(balance_key \<times> (dec \<times> dec \<times> dec)) list"

definition opening_totals :: "account_snapshot \<Rightarrow> totals" where
  "opening_totals opening =
     fold (\<lambda>p. dict_set (''inventory:units:'' @ pb_instrument_id p, pb_instrument_id p)
                 (pb_quantity p, 0, pb_quantum p)) (sn_positions opening)
       (fold (\<lambda>c. dict_set (''asset:cash:'' @ cb_currency c, cb_currency c)
                    (cb_settled_amount c, 0, cb_quantum c)) (sn_cash opening) [])"

definition transaction_error ::
  "hashing \<Rightarrow> transaction \<Rightarrow> string \<Rightarrow> int \<Rightarrow> hash option \<Rightarrow> utc \<Rightarrow> bool" where
  "transaction_error H t account_id expected_sequence previous_hash last_occurred_at \<longleftrightarrow>
     jt_account_id t \<noteq> account_id \<or> jt_sequence t \<noteq> expected_sequence \<or>
     jt_previous_hash t \<noteq> previous_hash \<or> jt_occurred_at t < last_occurred_at \<or>
     jt_transaction_hash t \<noteq> expected_transaction_hash H t \<or> \<not> is_balanced t"

text \<open>One posting: \<^verbatim>\<open>setdefault\<close>, the quantum check, and the debit or credit addition.\<close>

definition replay_posting :: "totals \<Rightarrow> posting \<Rightarrow> totals result" where
  "replay_posting totals p =
     (if \<not> recognized (jp_ledger_account p) (jp_commodity p)
      then Failure CONFLICT ''Unknown canonical ledger account''
      else
        let key = (jp_ledger_account p, jp_commodity p) in
        case (case map_of totals key of None \<Rightarrow> (0, 0, jp_quantum p) | Some v \<Rightarrow> v) of
          (debit, credit, quantum) \<Rightarrow>
            if \<not> deq quantum (jp_quantum p)
            then Failure CONFLICT ''Ledger commodity quantum changed''
            else Success (dict_set key
              (if jp_side p = DEBIT then (debit + jp_amount p, credit, quantum)
               else (debit, credit + jp_amount p, quantum)) totals))"

fun replay_postings :: "totals \<Rightarrow> posting list \<Rightarrow> totals result" where
  "replay_postings totals [] = Success totals"
| "replay_postings totals (p # ps) =
     bind (replay_posting totals p) (\<lambda>totals'. replay_postings totals' ps)"

definition totals_balance :: "balance_key \<times> (dec \<times> dec \<times> dec) \<Rightarrow> account_balance" where
  "totals_balance kv = (case kv of ((account, commodity), (debit, credit, quantum)) \<Rightarrow>
     \<lparr>lb_ledger_account = account, lb_commodity = commodity, lb_quantum = quantum,
      lb_debit_total = debit, lb_credit_total = credit\<rparr>)"

definition make_projection ::
  "hashing \<Rightarrow> account_snapshot \<Rightarrow> totals \<Rightarrow> int \<Rightarrow> hash option \<Rightarrow> utc \<Rightarrow> projection result" where
  "make_projection H opening totals ledger_sequence ledger_hash last_occurred_at =
     bind (run_all (\<lambda>kv. validate_account_balance (totals_balance kv)) (sort_key fst totals))
       (\<lambda>balances.
     create_projection H (sn_account_id opening) (snapshot_hash H opening) ledger_sequence
       ledger_hash last_occurred_at balances
       (sort (map pb_instrument_id (filter (\<lambda>p. pb_quantity p > 0) (sn_positions opening)))))"

definition starts_with :: "string \<Rightarrow> string \<Rightarrow> bool" where
  "starts_with p s \<longleftrightarrow> take (length p) s = p"

definition has_negative_asset :: "projection \<Rightarrow> bool" where
  "has_negative_asset p \<longleftrightarrow> list_ex (\<lambda>b.
     (starts_with ''asset:cash:'' (lb_ledger_account b) \<or>
      starts_with ''inventory:'' (lb_ledger_account b)) \<and> balance b < 0) (lp_balances p)"

fun replay_loop ::
  "hashing \<Rightarrow> account_snapshot \<Rightarrow> totals \<Rightarrow> int \<Rightarrow> hash option \<Rightarrow> utc \<Rightarrow> transaction list \<Rightarrow>
   (totals \<times> hash option \<times> utc) result" where
  "replay_loop H opening totals expected_sequence previous_hash last_occurred_at [] =
     Success (totals, previous_hash, last_occurred_at)"
| "replay_loop H opening totals expected_sequence previous_hash last_occurred_at (t # ts) =
     (if transaction_error H t (sn_account_id opening) expected_sequence previous_hash
           last_occurred_at
      then Failure CONFLICT ''Ledger journal chain is invalid''
      else bind (replay_postings totals (jt_postings t)) (\<lambda>totals'.
        bind (make_projection H opening totals' (jt_sequence t) (Some (jt_transaction_hash t))
                (jt_occurred_at t)) (\<lambda>p.
        if has_negative_asset p
        then Failure CONFLICT ''Ledger replay produced negative assets''
        else replay_loop H opening totals' (expected_sequence + 1)
               (Some (jt_transaction_hash t)) (jt_occurred_at t) ts)))"

definition replay_journal ::
  "hashing \<Rightarrow> account_snapshot \<Rightarrow> transaction list \<Rightarrow> projection result" where
  "replay_journal H opening transactions =
     (if sn_ledger_sequence opening \<noteq> 0 \<or> sn_ledger_hash opening \<noteq> None
      then Failure INVALID_INPUT ''Ledger opening must be genesis''
      else bind (replay_loop H opening (opening_totals opening) 1 None (sn_as_of opening)
                   transactions) (\<lambda>(totals, previous_hash, last_occurred_at).
        make_projection H opening totals (int (length transactions)) previous_hash
          last_occurred_at))"

section \<open>Reconciliation of a stored projection\<close>

record reconciliation_report =
  lr_account_id :: string
  lr_as_of :: utc
  lr_ledger_sequence :: int
  lr_replay_projection_hash :: hash
  lr_database_projection_hash :: hash
  lr_matched :: bool
  lr_mismatch_reasons :: "string list"

definition validate_report :: "reconciliation_report \<Rightarrow> reconciliation_report result" where
  "validate_report r = check_all
     [(nonempty_ok (lr_account_id r) \<and> 0 \<le> lr_ledger_sequence r \<and>
       sha256_ok (lr_replay_projection_hash r) \<and> sha256_ok (lr_database_projection_hash r) \<and>
       list_all nonempty_ok (lr_mismatch_reasons r) \<and>
       length (lr_mismatch_reasons r) \<le> 1000000, ''field''),
      (sorted_unique (lr_mismatch_reasons r), ''reconciliation reasons must be unique and sorted''),
      (lr_matched r = (lr_replay_projection_hash r = lr_database_projection_hash r \<and>
         lr_mismatch_reasons r = []), ''reconciliation result is inconsistent'')] r"

definition compare_ledger_projection ::
  "hashing \<Rightarrow> account_snapshot \<Rightarrow> transaction list \<Rightarrow> projection \<Rightarrow> pytime \<Rightarrow>
   reconciliation_report result" where
  "compare_ledger_projection H opening transactions stored as_of =
     bind (replay_journal H opening transactions) (\<lambda>replayed.
     let reasons =
       (if lp_ledger_sequence replayed \<noteq> lp_ledger_sequence stored
        then [''ledger_sequence_mismatch''] else []) @
       (if lp_ledger_hash replayed \<noteq> lp_ledger_hash stored
        then [''ledger_hash_mismatch''] else []) @
       (if lp_projection_hash replayed \<noteq> lp_projection_hash stored
        then [''projection_hash_mismatch''] else [])
     in catch_value_error
       (bind (normalize_utc as_of) (\<lambda>t. validate_report
         \<lparr>lr_account_id = sn_account_id opening, lr_as_of = t,
          lr_ledger_sequence = lp_ledger_sequence replayed,
          lr_replay_projection_hash = lp_projection_hash replayed,
          lr_database_projection_hash = lp_projection_hash stored,
          lr_matched = (reasons = []), lr_mismatch_reasons = sort reasons\<rparr>))
       (Failure CONFLICT ''Ledger reconciliation report is invalid''))"

end
