(* ===== verification/Fills.thy ===== *)
theory Fills
  imports Orders
begin

text \<open>
  \<^verbatim>\<open>domain/fills.py\<close>: canonical paper fills and the immutable execution receipt that ties a
  command, the latest order event and all fills of the order together.
\<close>

record fill =
  fl_fill_id :: uuid
  fl_command_id :: uuid
  fl_order_intent_id :: uuid
  fl_account_id :: string
  fl_instrument_id :: uuid
  fl_side :: order_side
  fl_quantity :: dec
  fl_quantity_quantum :: dec
  fl_price :: dec
  fl_price_quantum :: dec
  fl_fee_currency :: string
  fl_fees :: dec
  fl_fee_quantum :: dec
  fl_slippage :: dec
  fl_occurred_at :: utc
  fl_simulator_ref :: "string option"
  fl_external_ref :: "string option"

definition validate_fill :: "fill \<Rightarrow> fill result" where
  "validate_fill f = check_all
     [(nonempty_ok (fl_account_id f) \<and> positive_ok (fl_quantity f) \<and>
       positive_ok (fl_quantity_quantum f) \<and> positive_ok (fl_price f) \<and>
       positive_ok (fl_price_quantum f) \<and> currency_ok (fl_fee_currency f) \<and>
       non_negative_ok (fl_fees f) \<and> positive_ok (fl_fee_quantum f) \<and>
       decimal_ok (fl_slippage f) \<and> opt_ok (\<lambda>r. length r \<le> 512) (fl_simulator_ref f) \<and>
       opt_ok (\<lambda>r. length r \<le> 512) (fl_external_ref f), ''field''),
      (is_quantized (fl_quantity f) (fl_quantity_quantum f),
       ''fill quantity must match instrument quantum''),
      (is_quantized (fl_price f) (fl_price_quantum f), ''fill price must match price quantum''),
      (is_quantized (fl_fees f) (fl_fee_quantum f), ''fill fees must match fee currency quantum''),
      (is_quantized (fl_slippage f) (fl_price_quantum f),
       ''fill slippage must match price quantum'')] f"

definition fill_json :: "fill \<Rightarrow> json" where
  "fill_json f = JObj
     [(''fill_id'', JStr (fl_fill_id f)), (''command_id'', JStr (fl_command_id f)),
      (''order_intent_id'', JStr (fl_order_intent_id f)),
      (''account_id'', JStr (fl_account_id f)), (''instrument_id'', JStr (fl_instrument_id f)),
      (''side'', JStr (side_value (fl_side f))), (''quantity'', jdec (fl_quantity f)),
      (''quantity_quantum'', jdec (fl_quantity_quantum f)), (''price'', jdec (fl_price f)),
      (''price_quantum'', jdec (fl_price_quantum f)),
      (''fee_currency'', JStr (fl_fee_currency f)), (''fees'', jdec (fl_fees f)),
      (''fee_quantum'', jdec (fl_fee_quantum f)), (''slippage'', jdec (fl_slippage f)),
      (''occurred_at'', jtime (fl_occurred_at f)),
      (''simulator_ref'', jopt JStr (fl_simulator_ref f)),
      (''external_ref'', jopt JStr (fl_external_ref f))]"

record execution_receipt =
  er_receipt_id :: uuid
  er_command_id :: uuid
  er_order_intent_id :: uuid
  er_intent_hash :: hash
  er_account_id :: string
  er_instrument_id :: uuid
  er_side :: order_side
  er_command_quantity :: dec
  er_quantity_quantum :: dec
  er_status :: order_status
  er_event :: order_event
  er_fills :: "fill list"
  er_filled_quantity :: dec
  er_remaining_quantity :: dec
  er_occurred_at :: utc
  er_receipt_hash :: hash

definition receipt_fields :: "execution_receipt \<Rightarrow> (string \<times> json) list" where
  "receipt_fields r =
     [(''receipt_id'', JStr (er_receipt_id r)), (''command_id'', JStr (er_command_id r)),
      (''order_intent_id'', JStr (er_order_intent_id r)),
      (''intent_hash'', JStr (er_intent_hash r)), (''account_id'', JStr (er_account_id r)),
      (''instrument_id'', JStr (er_instrument_id r)), (''side'', JStr (side_value (er_side r))),
      (''command_quantity'', jdec (er_command_quantity r)),
      (''quantity_quantum'', jdec (er_quantity_quantum r)),
      (''status'', JStr (status_value (er_status r))), (''event'', order_event_json (er_event r)),
      (''fills'', JList (map fill_json (er_fills r))),
      (''filled_quantity'', jdec (er_filled_quantity r)),
      (''remaining_quantity'', jdec (er_remaining_quantity r)),
      (''occurred_at'', jtime (er_occurred_at r))]"

definition expected_receipt_hash :: "hashing \<Rightarrow> execution_receipt \<Rightarrow> hash" where
  "expected_receipt_hash H r = stable_payload_hash H (JObj (receipt_fields r))"

definition receipt_json :: "execution_receipt \<Rightarrow> json" where
  "receipt_json r = JObj ((''receipt_hash'', JStr (er_receipt_hash r)) # receipt_fields r)"

definition fill_matches :: "execution_receipt \<Rightarrow> fill \<Rightarrow> bool" where
  "fill_matches r f \<longleftrightarrow>
     fl_command_id f = er_command_id r \<and> fl_order_intent_id f = er_order_intent_id r \<and>
     fl_account_id f = er_account_id r \<and> fl_instrument_id f = er_instrument_id r \<and>
     fl_side f = er_side r \<and> deq (fl_quantity_quantum f) (er_quantity_quantum r)"

definition validate_receipt :: "hashing \<Rightarrow> execution_receipt \<Rightarrow> execution_receipt result" where
  "validate_receipt H r = check_all
     [(sha256_ok (er_intent_hash r) \<and> nonempty_ok (er_account_id r) \<and>
       positive_ok (er_command_quantity r) \<and> positive_ok (er_quantity_quantum r) \<and>
       length (er_fills r) \<le> 100000 \<and> non_negative_ok (er_filled_quantity r) \<and>
       non_negative_ok (er_remaining_quantity r) \<and> sha256_ok (er_receipt_hash r), ''field''),
      (er_order_intent_id r = oe_order_intent_id (er_event r) \<and>
       er_status r = oe_to_status (er_event r) \<and>
       deq (er_filled_quantity r) (oe_cumulative_filled_quantity (er_event r)) \<and>
       deq (er_remaining_quantity r) (oe_remaining_quantity (er_event r)),
       ''execution receipt does not match order event''),
      (deq (er_filled_quantity r + er_remaining_quantity r) (er_command_quantity r),
       ''receipt quantities must sum to command quantity''),
      (list_all (\<lambda>v. is_quantized v (er_quantity_quantum r))
         [er_command_quantity r, er_filled_quantity r, er_remaining_quantity r],
       ''receipt quantities must match instrument quantum''),
      (\<not> er_occurred_at r < oe_occurred_at (er_event r), ''receipt cannot precede order event''),
      (sorted_unique (map fl_fill_id (er_fills r)), ''fills must be unique and stably sorted''),
      (list_all (fill_matches r) (er_fills r), ''fill does not match receipt identity''),
      (\<not> list_ex (\<lambda>f. fl_occurred_at f > er_occurred_at r) (er_fills r),
       ''fill cannot occur after receipt''),
      (deq (dec_sum (map fl_quantity (er_fills r)) 0) (er_filled_quantity r),
       ''fill quantities must equal cumulative filled quantity''),
      (\<not> (er_status r = FILLED \<and> er_fills r = []), ''filled receipt requires at least one fill''),
      (er_receipt_hash r = expected_receipt_hash H r,
       ''execution receipt hash does not match payload'')] r"

definition create_receipt ::
  "hashing \<Rightarrow> uuid \<Rightarrow> uuid \<Rightarrow> order_intent \<Rightarrow> order_event \<Rightarrow> fill list \<Rightarrow> utc \<Rightarrow>
   execution_receipt result" where
  "create_receipt H receipt_id command_id intent event fills occurred_at =
     (let provisional =
        \<lparr>er_receipt_id = receipt_id, er_command_id = command_id,
         er_order_intent_id = oi_intent_id intent, er_intent_hash = oi_intent_hash intent,
         er_account_id = oi_account_id intent, er_instrument_id = oi_instrument_id intent,
         er_side = oi_side intent, er_command_quantity = oi_quantity intent,
         er_quantity_quantum = oi_quantity_quantum intent, er_status = oe_to_status event,
         er_event = event, er_fills = fills,
         er_filled_quantity = oe_cumulative_filled_quantity event,
         er_remaining_quantity = oe_remaining_quantity event, er_occurred_at = occurred_at,
         er_receipt_hash = PLACEHOLDER_HASH\<rparr>
      in validate_receipt H
           (provisional\<lparr>er_receipt_hash := expected_receipt_hash H provisional\<rparr>))"

end
