(* ===== verification/Posting.thy ===== *)
theory Posting
  imports Ledger Fills
begin

text \<open>
  \<^verbatim>\<open>application/ledger/post.py\<close>: the economic postings of one paper fill. A buy debits inventory
  value and units and credits cash and clearing; a sell removes average cost from inventory and
  books the difference to realised profit and loss. The generated postings are sorted by id and
  validated as a journal transaction; postings themselves are validated outside that \<^verbatim>\<open>try\<close>.
\<close>

record posting_policy =
  lpp_policy_version :: string
  lpp_cost_basis_method :: string
  lpp_monetary_rounding :: string

definition posting_policy_hash :: "hashing \<Rightarrow> posting_policy \<Rightarrow> hash" where
  "posting_policy_hash H p = stable_payload_hash H (JObj
     [(''policy_version'', JStr (lpp_policy_version p)),
      (''cost_basis_method'', JStr (lpp_cost_basis_method p)),
      (''monetary_rounding'', JStr (lpp_monetary_rounding p))])"

type_synonym posting_spec = "string \<times> string \<times> string \<times> journal_side \<times> dec \<times> dec"

definition make_posting :: "hashing \<Rightarrow> fill \<Rightarrow> posting_policy \<Rightarrow> posting_spec \<Rightarrow> posting result" where
  "make_posting H f policy spec =
     (case spec of (role, ledger_account, commodity, side, amount, quantum) \<Rightarrow>
        validate_posting
          \<lparr>jp_posting_id = uuid5 H (''stonks:posting:'' @ fl_fill_id f @ '':''
             @ posting_policy_hash H policy @ '':'' @ role),
           jp_ledger_account = ledger_account, jp_commodity = commodity, jp_side = side,
           jp_amount = amount, jp_quantum = quantum,
           jp_memo = Some (''paper_fill:'' @ fl_fill_id f)\<rparr>)"

definition buy_values :: "fill \<Rightarrow> dec \<Rightarrow> posting_spec list" where
  "buy_values f gross =
     (let currency = fl_fee_currency f; instrument = fl_instrument_id f in
      [(''inventory_value'', ''inventory:value:'' @ instrument @ '':'' @ currency, currency,
        DEBIT, gross, fl_fee_quantum f),
       (''clearing_payable'', ''clearing:cash:'' @ currency, currency,
        CREDIT, gross, fl_fee_quantum f),
       (''clearing_settle'', ''clearing:cash:'' @ currency, currency,
        DEBIT, gross, fl_fee_quantum f),
       (''cash'', ''asset:cash:'' @ currency, currency,
        CREDIT, gross + fl_fees f, fl_fee_quantum f),
       (''inventory_units'', ''inventory:units:'' @ instrument, instrument,
        DEBIT, fl_quantity f, fl_quantity_quantum f),
       (''clearing_units'', ''clearing:units:'' @ instrument, instrument,
        CREDIT, fl_quantity f, fl_quantity_quantum f)]
      @ (if fl_fees f > 0
         then [(''fee'', ''fee:execution:'' @ currency, currency, DEBIT, fl_fees f,
                fl_fee_quantum f)]
         else []))"

definition buy_postings :: "hashing \<Rightarrow> fill \<Rightarrow> dec \<Rightarrow> posting_policy \<Rightarrow> posting list result" where
  "buy_postings H f gross policy = run_all (make_posting H f policy) (buy_values f gross)"

definition sell_values :: "fill \<Rightarrow> dec \<Rightarrow> dec \<Rightarrow> posting_spec list" where
  "sell_values f gross cost =
     (let currency = fl_fee_currency f; instrument = fl_instrument_id f;
          net = gross - fl_fees f in
      [(''clearing_units'', ''clearing:units:'' @ instrument, instrument,
        DEBIT, fl_quantity f, fl_quantity_quantum f),
       (''inventory_units'', ''inventory:units:'' @ instrument, instrument,
        CREDIT, fl_quantity f, fl_quantity_quantum f),
       (''clearing_receivable'', ''clearing:cash:'' @ currency, currency,
        DEBIT, gross, fl_fee_quantum f),
       (''sale_pnl'', ''pnl:realized:'' @ currency, currency, CREDIT, gross, fl_fee_quantum f),
       (''clearing_settle'', ''clearing:cash:'' @ currency, currency,
        CREDIT, gross, fl_fee_quantum f),
       (''cost_pnl'', ''pnl:realized:'' @ currency, currency, DEBIT, cost, fl_fee_quantum f),
       (''inventory_value'', ''inventory:value:'' @ instrument @ '':'' @ currency, currency,
        CREDIT, cost, fl_fee_quantum f)]
      @ (if net > 0
         then [(''cash'', ''asset:cash:'' @ currency, currency, DEBIT, net, fl_fee_quantum f)]
         else if net < 0
         then [(''cash'', ''asset:cash:'' @ currency, currency, CREDIT, - net, fl_fee_quantum f)]
         else [])
      @ (if fl_fees f > 0
         then [(''fee'', ''fee:execution:'' @ currency, currency, DEBIT, fl_fees f,
                fl_fee_quantum f)]
         else []))"

text \<open>The cost basis removed by a sale: everything when the position closes, else the average.\<close>

definition sell_cost :: "fill \<Rightarrow> dec \<Rightarrow> dec \<Rightarrow> dec result" where
  "sell_cost f quantity inventory_value =
     (if deq quantity (fl_quantity f) then Success inventory_value
      else bind (dec_div (inventory_value * fl_quantity f) quantity) (\<lambda>share.
        dec_quantize share (fl_fee_quantum f) ROUND_HALF_EVEN))"

definition sell_postings ::
  "hashing \<Rightarrow> fill \<Rightarrow> dec \<Rightarrow> projection \<Rightarrow> posting_policy \<Rightarrow> posting list result" where
  "sell_postings H f gross p policy =
     (let quantity = projection_position p (fl_instrument_id f);
          inventory_value = projection_inventory_value p (fl_instrument_id f) (fl_fee_currency f)
      in if fl_instrument_id f \<in> set (lp_unvalued_instrument_ids p) \<or>
            quantity < fl_quantity f \<or> inventory_value \<le> 0
         then Failure CONFLICT ''Sell cost basis is unavailable''
         else bind (sell_cost f quantity inventory_value) (\<lambda>cost.
           if cost \<le> 0 \<or> cost > inventory_value
           then Failure CONFLICT ''Sell cost basis is invalid''
           else run_all (make_posting H f policy) (sell_values f gross cost)))"

definition build_fill_journal ::
  "hashing \<Rightarrow> fill \<Rightarrow> projection \<Rightarrow> posting_policy \<Rightarrow> transaction result" where
  "build_fill_journal H f p policy =
     (if fl_account_id f \<noteq> lp_account_id p
      then Failure CONFLICT ''Fill belongs to another ledger account''
      else if fl_occurred_at f < lp_last_occurred_at p
      then Failure CONFLICT ''Fill predates current ledger head''
      else bind (dec_quantize (fl_quantity f * fl_price f) (fl_fee_quantum f) ROUND_HALF_EVEN)
        (\<lambda>gross.
        if gross \<le> 0 then Failure INVALID_INPUT ''Fill notional is invalid''
        else bind (if fl_side f = BUY then buy_postings H f gross policy
                   else sell_postings H f gross p policy) (\<lambda>postings.
          catch_value_error
            (create_transaction H
               (uuid5 H (''stonks:journal:'' @ fl_fill_id f @ '':'' @ posting_policy_hash H policy))
               (fl_account_id f) (lp_ledger_sequence p + 1) (fl_occurred_at f) (lp_ledger_hash p)
               (fl_order_intent_id f) (fl_fill_id f) (sort_key jp_posting_id postings))
            (Failure CONFLICT ''Generated journal is invalid''))))"

end
