(* ===== verification/Journal_Properties.thy ===== *)
theory Journal_Properties
  imports Journal Sample_Hashing
begin

text \<open>
  The journal of \<^verbatim>\<open>domain/journal.py\<close> as double-entry bookkeeping: what the Decimal sums of the
  validator say about exact sums, and the chain of transactions as a \<open>hash_chain\<close>.
\<close>

section \<open>Exact sums\<close>

text \<open>A Decimal sum of grid amounts is exact while the sum of their sizes is in range.\<close>

lemma fold_add_exact:
  assumes "\<forall>x \<in> set xs. on_grid q (val x)" "on_grid q (val acc)"
    and "in_range q (\<bar>val acc\<bar> + (\<Sum>x\<leftarrow>xs. \<bar>val x\<bar>))"
  shows "val (fold (\<lambda>x acc. acc + x) xs acc) = val acc + (\<Sum>x\<leftarrow>xs. val x)"
  using assms
proof (induction xs arbitrary: acc)
  case (Cons x xs)
  have pos: "0 \<le> (\<Sum>x\<leftarrow>xs. \<bar>val x\<bar>)"
    by (rule sum_list_nonneg) auto
  have "in_range q (val acc + val x)"
    using Cons.prems(3) pos abs_triangle_ineq [of "val acc" "val x"] by (simp add: in_range_def)
  then have eq: "val (acc + x) = val acc + val x"
    using Cons.prems by (intro val_plus_grid) auto
  have "in_range q (\<bar>val (acc + x)\<bar> + (\<Sum>x\<leftarrow>xs. \<bar>val x\<bar>))"
    using Cons.prems(3) pos abs_triangle_ineq [of "val acc" "val x"] by (simp add: in_range_def eq)
  moreover have "on_grid q (val (acc + x))"
    unfolding eq using Cons.prems by auto
  ultimately show ?case
    using Cons.IH [of "acc + x"] Cons.prems(1) eq by simp
qed simp

definition signed_value :: "posting \<Rightarrow> rat" where
  "signed_value p = (if jp_side p = DEBIT then val (jp_amount p) else - val (jp_amount p))"

definition of_commodity :: "string \<Rightarrow> posting list \<Rightarrow> posting list" where
  "of_commodity c ps = filter (\<lambda>p. jp_commodity p = c) ps"

text \<open>The amounts of every commodity add up to a number of at most 28 digits at its quantum.\<close>

definition postings_in_range :: "posting list \<Rightarrow> bool" where
  "postings_in_range ps \<longleftrightarrow> (\<forall>p \<in> set ps.
     in_range (jp_quantum p) (\<Sum>p'\<leftarrow>of_commodity (jp_commodity p) ps. val (jp_amount p')))"

definition valid_postings :: "posting list \<Rightarrow> bool" where
  "valid_postings ps \<longleftrightarrow> (\<forall>p \<in> set ps. validate_posting p = Success p)"

lemma valid_posting_amount:
  assumes "validate_posting p = Success p"
  shows "0 < val (jp_amount p)" "on_grid (jp_quantum p) (val (jp_amount p))" "0 < val (jp_quantum p)"
  using assms
  by (auto simp: validate_posting_def check_all_Success_iff is_quantized_grid dest: positive_ok_pos)

section \<open>Balances\<close>

definition balance_of :: "(string \<times> dec) list \<Rightarrow> string \<Rightarrow> dec" where
  "balance_of balances c = (case map_of balances c of None \<Rightarrow> 0 | Some b \<Rightarrow> b)"

lemma balance_of_fold:
  "balance_of (fold (\<lambda>p. add_balance (jp_commodity p) (signed_amount p)) ps balances) c =
     fold (\<lambda>x acc. acc + x) (map signed_amount (of_commodity c ps)) (balance_of balances c)"
  by (induction ps arbitrary: balances) (auto simp: balance_of_def add_balance_def of_commodity_def)

lemma quantums_consistent_known:
  "\<lbrakk>quantums_consistent quantums ps; p \<in> set ps; map_of quantums (jp_commodity p) = Some q\<rbrakk> \<Longrightarrow>
   val (jp_quantum p) = val q"
proof (induction ps arbitrary: quantums)
  case (Cons x ps)
  show ?case
  proof (cases "map_of quantums (jp_commodity x)")
    case None
    then have "jp_commodity p \<noteq> jp_commodity x"
      using Cons.prems(3) by auto
    with None show ?thesis
      using Cons.prems Cons.IH [of "dict_set (jp_commodity x) (jp_quantum x) quantums"] by auto
  next
    case (Some q')
    then show ?thesis
      using Cons.prems Cons.IH [of quantums] by (auto simp: deq_iff)
  qed
qed simp

lemma quantums_consistent_pair:
  "\<lbrakk>quantums_consistent quantums ps; p \<in> set ps; p' \<in> set ps; jp_commodity p = jp_commodity p'\<rbrakk> \<Longrightarrow>
   val (jp_quantum p) = val (jp_quantum p')"
proof (induction ps arbitrary: quantums)
  case (Cons x ps)
  have head: "val (jp_quantum y) = val (jp_quantum x)" if "y \<in> set ps" "jp_commodity y = jp_commodity x" for y
    using Cons.prems(1) that quantums_consistent_known [of _ ps y]
    by (fastforce simp: deq_iff split: option.splits)
  obtain qs where "quantums_consistent qs ps"
    using Cons.prems(1) by (auto split: option.splits)
  then show ?case
    using Cons.IH [of qs] Cons.prems(2-4) head [of p] head [of p'] by auto
qed simp

text \<open>The validator's Decimal balance of a commodity is the exact signed sum.\<close>

lemma signed_amount_exact:
  "\<lbrakk>on_grid q (val (jp_amount p)); in_range q (val (jp_amount p))\<rbrakk> \<Longrightarrow>
   val (signed_amount p) = signed_value p \<and> on_grid q (val (signed_amount p))"
  by (auto simp: signed_amount_def signed_value_def val_uminus on_grid_minus)

lemma posting_balance_exact:
  assumes valid: "valid_postings ps" and range: "postings_in_range ps"
    and same: "quantums_consistent [] ps" and p: "p \<in> set ps"
  shows "val (balance_of (posting_balances ps) (jp_commodity p)) =
    (\<Sum>p'\<leftarrow>of_commodity (jp_commodity p) ps. signed_value p')"
proof -
  let ?ps = "of_commodity (jp_commodity p) ps" and ?q = "jp_quantum p"
  have sum: "in_range ?q (\<Sum>p'\<leftarrow>?ps. val (jp_amount p'))"
    using range p by (simp add: postings_in_range_def)
  have each: "on_grid ?q (val (jp_amount p')) \<and> 0 < val (jp_amount p')" if "p' \<in> set ?ps" for p'
  proof -
    have "p' \<in> set ps" "jp_commodity p = jp_commodity p'"
      using that by (auto simp: of_commodity_def)
    then show ?thesis
      using valid valid_posting_amount [of p'] quantums_consistent_pair [OF same p, of p']
      by (simp add: valid_postings_def on_grid_def)
  qed
  have small: "in_range ?q (val (jp_amount p'))" if "p' \<in> set ?ps" for p'
  proof (rule in_range_between [OF in_range_0 sum])
    have "val (jp_amount p') \<in> set (map (\<lambda>p. val (jp_amount p)) ?ps)"
      using that by simp
    then show "val (jp_amount p') \<le> (\<Sum>p'\<leftarrow>?ps. val (jp_amount p'))"
      using each by (intro member_le_sum_list) (auto intro: less_imp_le)
  qed (use each that in \<open>auto intro: less_imp_le\<close>)
  have signed: "val (signed_amount p') = signed_value p' \<and> on_grid ?q (signed_value p') \<and>
      \<bar>signed_value p'\<bar> = val (jp_amount p')" if "p' \<in> set ?ps" for p'
    using signed_amount_exact [of ?q p'] each [OF that] small [OF that] by (auto simp: signed_value_def)
  have "val (balance_of (posting_balances ps) (jp_commodity p)) =
      val (fold (\<lambda>x acc. acc + x) (map signed_amount ?ps) 0)"
    by (simp add: posting_balances_def balance_of_fold) (simp add: balance_of_def)
  also have "\<dots> = val 0 + (\<Sum>x\<leftarrow>map signed_amount ?ps. val x)"
  proof (rule fold_add_exact)
    have abs: "map ((\<lambda>x. \<bar>val x\<bar>) \<circ> signed_amount) ?ps = map (\<lambda>p'. val (jp_amount p')) ?ps"
      using signed by simp
    show "in_range ?q (\<bar>val 0\<bar> + (\<Sum>x\<leftarrow>map signed_amount ?ps. \<bar>val x\<bar>))"
      using sum by (simp add: abs)
    show "on_grid ?q (val 0)"
      using valid p valid_posting_amount(3) by (simp add: valid_postings_def)
  qed (use signed in auto)
  also have "\<dots> = (\<Sum>p'\<leftarrow>?ps. signed_value p')"
    using signed by (simp add: comp_def cong: map_cong)
  finally show ?thesis .
qed

lemma commodity_keys:
  "fst ` set (fold (\<lambda>p. add_balance (jp_commodity p) (signed_amount p)) ps balances) =
     jp_commodity ` set ps \<union> fst ` set balances"
  by (induction ps arbitrary: balances) (auto simp: add_balance_def keys_dict_set)

lemma distinct_balances:
  "distinct (map fst balances) \<Longrightarrow>
   distinct (map fst (fold (\<lambda>p. add_balance (jp_commodity p) (signed_amount p)) ps balances))"
  by (induction ps arbitrary: balances) (auto simp: add_balance_def distinct_dict_set)

lemma balanced_commodity:
  assumes "list_all (\<lambda>(c, b). deq b 0) (posting_balances ps)"
  shows "val (balance_of (posting_balances ps) c) = 0"
proof (cases "map_of (posting_balances ps) c")
  case (Some b)
  then have "(c, b) \<in> set (posting_balances ps)"
    by (rule map_of_SomeD)
  with assms Some show ?thesis
    by (auto simp: balance_of_def list_all_iff deq_iff)
qed (simp add: balance_of_def)

lemma of_commodity_none: "\<forall>p \<in> set ps. jp_commodity p \<noteq> c \<Longrightarrow> of_commodity c ps = []"
  by (simp add: of_commodity_def filter_empty_conv)

lemma balanced_exact:
  assumes "valid_postings ps" "postings_in_range ps" "quantums_consistent [] ps"
    and "list_all (\<lambda>(c, b). deq b 0) (posting_balances ps)"
  shows "(\<Sum>p\<leftarrow>of_commodity c ps. signed_value p) = 0"
proof (cases "\<exists>p \<in> set ps. jp_commodity p = c")
  case True
  then obtain p where "p \<in> set ps" "jp_commodity p = c"
    by blast
  then show ?thesis
    using posting_balance_exact [OF assms(1-3)] balanced_commodity [OF assms(4)] by metis
next
  case False
  then show ?thesis
    by (simp add: of_commodity_none)
qed

section \<open>The chain\<close>

lemma jnorm_objects_eq:
  assumes "map fst xs = map fst ys" "distinct (map fst xs)"
    and "list_all2 (\<lambda>v w. jnorm v = jnorm w \<longrightarrow> v = w) (map snd xs) (map snd ys)"
    and "jnorm (JObj xs) = jnorm (JObj ys)"
  shows "JObj xs = JObj ys"
  using canonical_fields_eq [OF assms(1-3)] assms(4) by (simp only: canonical_json_eq_iff)

lemma posting_json_inj: "jnorm (posting_json p) = jnorm (posting_json p') \<Longrightarrow> posting_json p = posting_json p'"
  unfolding posting_json_def by (rule jnorm_objects_eq) (simp_all del: jnorm.simps)

lemma postings_json_inj:
  "map jnorm (map posting_json ps) = map jnorm (map posting_json ps') \<Longrightarrow>
   map posting_json ps = map posting_json ps'"
  by (induction ps ps' rule: list_induct2') (auto dest: posting_json_inj)

interpretation journal_chain:
  hash_chain jt_sequence jt_previous_hash jt_transaction_hash transaction_fields
proof
  fix a b
  show "transaction_fields a = transaction_fields b"
    if "canonical_json (JObj (transaction_fields a)) = canonical_json (JObj (transaction_fields b))"
    using _ _ _ that
    by (rule canonical_fields_eq)
       (auto simp: transaction_fields_def dest!: postings_json_inj simp del: map_map)
  show "jt_previous_hash a = jt_previous_hash b" if "transaction_fields a = transaction_fields b"
    using that by (simp add: transaction_fields_def)
qed

lemma verify_chain_from_iff:
  "verify_chain_from H acct n prev ts \<longleftrightarrow>
     journal_chain.linked n prev ts \<and>
     (\<forall>t \<in> set ts. jt_account_id t = acct \<and> journal_chain.intact H t \<and> is_balanced t)"
  by (induction ts arbitrary: n prev)
     (auto simp: journal_chain.intact_def expected_transaction_hash_def)

lemma verify_journal_chain_iff:
  "verify_journal_chain H ts \<longleftrightarrow> ts \<noteq> [] \<and> journal_chain.linked 1 None ts \<and>
     (\<forall>t \<in> set ts. jt_account_id t = jt_account_id (hd ts) \<and> journal_chain.intact H t \<and> is_balanced t)"
  by (auto simp: verify_journal_chain_def verify_chain_from_iff split: list.splits)

section \<open>Properties\<close>

definition side_total :: "journal_side \<Rightarrow> string \<Rightarrow> posting list \<Rightarrow> rat" where
  "side_total side c ps = (\<Sum>p\<leftarrow>filter (\<lambda>p. jp_side p = side) (of_commodity c ps). val (jp_amount p))"

lemma signed_sum: "(\<Sum>p\<leftarrow>of_commodity c ps. signed_value p) = side_total DEBIT c ps - side_total CREDIT c ps"
proof -
  have "(\<Sum>p\<leftarrow>qs. signed_value p) =
      (\<Sum>p\<leftarrow>filter (\<lambda>p. jp_side p = DEBIT) qs. val (jp_amount p)) -
      (\<Sum>p\<leftarrow>filter (\<lambda>p. jp_side p = CREDIT) qs. val (jp_amount p))" for qs
    by (induction qs) (auto simp: signed_value_def, metis journal_side.exhaust)
  then show ?thesis
    by (simp add: side_total_def)
qed

text \<open>A sample transaction: 12.50 of cash against a clearing account.\<close>

definition sample_posting :: "string \<Rightarrow> string \<Rightarrow> journal_side \<Rightarrow> posting" where
  "sample_posting pid account side =
     \<lparr>jp_posting_id = pid, jp_ledger_account = account, jp_commodity = ''USD'', jp_side = side,
      jp_amount = Dec 1250 (-2), jp_quantum = Dec 1 (-2), jp_memo = None\<rparr>"

definition sample_postings :: "posting list" where
  "sample_postings = [sample_posting ''1'' ''asset:cash:USD'' DEBIT,
     sample_posting ''2'' ''clearing:cash:USD'' CREDIT]"

definition sample_transaction :: transaction where
  "sample_transaction =
     \<lparr>jt_transaction_id = ''t'', jt_account_id = ''a'', jt_sequence = 1, jt_occurred_at = 0,
      jt_previous_hash = None, jt_source_order_intent_id = ''i'', jt_source_fill_id = ''f'',
      jt_postings = sample_postings, jt_transaction_hash = replicate 64 CHR ''a''\<rparr>"

lemma sample_postings_ok:
  "valid_postings sample_postings" "postings_in_range sample_postings"
proof -
  have "list_all (\<lambda>p. validate_posting p = Success p) sample_postings"
    by code_simp
  then show "valid_postings sample_postings"
    by (simp add: valid_postings_def list_all_iff)
  show "postings_in_range sample_postings"
    by (simp add: postings_in_range_def sample_postings_def sample_posting_def of_commodity_def
        in_range_def val_Dec pten_def)
qed

lemma sample_transaction_valid:
  "validate_transaction sample_hashing sample_transaction = Success sample_transaction"
proof -
  have "quantums_consistent [] (jt_postings sample_transaction)"
      "list_all (\<lambda>(c, b). deq b 0) (posting_balances (jt_postings sample_transaction))"
      "distinct (map jp_posting_id (jt_postings sample_transaction))"
      "sorted (map jp_posting_id (jt_postings sample_transaction))"
    by code_simp+
  then show ?thesis
    by (simp add: validate_transaction_def check_all_Success_iff expected_transaction_hash_def)
       (simp add: sample_transaction_def sample_postings_def nonempty_ok_def opt_ok_def)
qed

text \<open>
  C13: double entry. A transaction that the validator accepts, with valid postings whose amounts are
  in range, balances exactly: in every commodity the debits and the credits have the same total.
\<close>

theorem transaction_balances_exactly:
  assumes "validate_transaction H t = Success t"
    and "\<forall>p \<in> set (jt_postings t). validate_posting p = Success p"
    and "postings_in_range (jt_postings t)"
  shows "side_total DEBIT c (jt_postings t) = side_total CREDIT c (jt_postings t)"
  using balanced_exact [of "jt_postings t" c] signed_sum [of c "jt_postings t"] assms
  by (simp add: validate_transaction_def check_all_Success_iff valid_postings_def)

theorem transaction_balances_exactly_witness:
  "side_total DEBIT ''USD'' sample_postings = side_total CREDIT ''USD'' sample_postings \<and>
   side_total DEBIT ''USD'' sample_postings = 25 / 2"
  using transaction_balances_exactly [OF sample_transaction_valid, of "''USD''"] sample_postings_ok
  by (simp add: sample_transaction_def valid_postings_def)
     (simp add: side_total_def of_commodity_def sample_postings_def sample_posting_def val_Dec pten_def)

text \<open>
  C16: the ledger head fixes the journal. Two journals that both pass \<open>verify_journal_chain\<close> and
  end in the same transaction hash record the same transactions, postings included, unless the
  digest has a collision among them.
\<close>

theorem journal_head_determines_history:
  assumes "verify_journal_chain H as" "verify_journal_chain H bs"
    and "inj_on (sha256 H) ((\<lambda>t. canonical_json (JObj (transaction_fields t))) ` (set as \<union> set bs))"
    and "jt_transaction_hash (last as) = jt_transaction_hash (last bs)"
  shows "map transaction_fields as = map transaction_fields bs"
  using journal_chain.head_determines_chain [of 1 as 1 bs H] assms
  by (auto simp: verify_journal_chain_iff journal_chain.payloads_def)

theorem journal_head_determines_history_witness:
  "verify_journal_chain sample_hashing [sample_transaction] \<and>
   map transaction_fields [sample_transaction] = map transaction_fields [sample_transaction]"
proof -
  have "is_balanced sample_transaction"
    by code_simp
  then have "verify_journal_chain sample_hashing [sample_transaction]"
    by (simp add: verify_journal_chain_def expected_transaction_hash_def)
       (simp add: sample_transaction_def)
  then show ?thesis
    using journal_head_determines_history [of sample_hashing "[sample_transaction]" "[sample_transaction]"]
    by simp
qed

end
