(* ===== verification/Ledger_Properties.thy ===== *)
theory Ledger_Properties
  imports Ledger Journal_Properties
begin

text \<open>
  The replay of \<^verbatim>\<open>application/ledger/replay.py\<close>: it accepts only a verified chain, it can be
  resumed, and it conserves every commodity. The abstract view of the totals is the exact sum over
  all ledger accounts of a commodity; a posting moves it by its signed amount and a balanced
  transaction leaves it alone.
\<close>

section \<open>Sums over dictionaries\<close>

lemma sum_dict_set:
  fixes f :: "'k \<times> 'v \<Rightarrow> rat"
  assumes "distinct (map fst kvs)"
  shows "(\<Sum>kv\<leftarrow>dict_set k v kvs. f kv) =
    (\<Sum>kv\<leftarrow>kvs. f kv) - (case map_of kvs k of None \<Rightarrow> 0 | Some v0 \<Rightarrow> f (k, v0)) + f (k, v)"
  using assms
proof (induction kvs)
  case (Cons kv kvs)
  have "map_of kvs k = None" if "fst kv = k"
    using Cons.prems that by (auto simp: map_of_eq_None_iff)
  with Cons show ?case
    by (cases kv) auto
qed simp

lemma sum_fold_dict_set:
  fixes f :: "'k \<times> 'v \<Rightarrow> rat"
  assumes "distinct (map fst kvs)" "distinct (map key xs)" "\<forall>x \<in> set xs. key x \<notin> fst ` set kvs"
  shows "(\<Sum>kv\<leftarrow>fold (\<lambda>x. dict_set (key x) (value x)) xs kvs. f kv) =
    (\<Sum>kv\<leftarrow>kvs. f kv) + (\<Sum>x\<leftarrow>xs. f (key x, value x))"
  using assms
proof (induction xs arbitrary: kvs)
  case (Cons x xs)
  have "map_of kvs (key x) = None"
    using Cons.prems(3) by (auto simp: map_of_eq_None_iff)
  then have "(\<Sum>kv\<leftarrow>dict_set (key x) (value x) kvs. f kv) = (\<Sum>kv\<leftarrow>kvs. f kv) + f (key x, value x)"
    using sum_dict_set [OF Cons.prems(1), of f "key x" "value x"] by simp
  moreover have "(\<Sum>kv\<leftarrow>fold (\<lambda>x. dict_set (key x) (value x)) xs (dict_set (key x) (value x) kvs). f kv) =
      (\<Sum>kv\<leftarrow>dict_set (key x) (value x) kvs. f kv) + (\<Sum>x\<leftarrow>xs. f (key x, value x))"
  proof (rule Cons.IH)
    show "\<forall>y \<in> set xs. key y \<notin> fst ` set (dict_set (key x) (value x) kvs)"
      unfolding keys_dict_set using Cons.prems(2, 3) by (metis distinct.simps(2) imageI insertE list.set(2)
          list.set_map list.simps(9) insertI2)
  qed (use Cons.prems in \<open>auto simp: distinct_dict_set\<close>)
  ultimately show ?case
    by simp
qed simp

lemma sum_list_cong_mset: "mset xs = mset ys \<Longrightarrow> (\<Sum>x\<leftarrow>xs. f x) = (\<Sum>x\<leftarrow>ys. (f x :: rat))"
  by (metis mset_map sum_mset_sum_list)

section \<open>One posting\<close>

fun entry_ok :: "balance_key \<times> (dec \<times> dec \<times> dec) \<Rightarrow> bool" where
  "entry_ok (k, (d, c, q)) = (0 < val q \<and> 0 \<le> val d \<and> 0 \<le> val c)"

fun entry_grid :: "balance_key \<times> (dec \<times> dec \<times> dec) \<Rightarrow> bool" where
  "entry_grid (k, (d, c, q)) = (on_grid q (val d) \<and> on_grid q (val c))"

fun entry_range :: "balance_key \<times> (dec \<times> dec \<times> dec) \<Rightarrow> bool" where
  "entry_range (k, (d, c, q)) = (in_range q (val d) \<and> in_range q (val c))"

fun entry_value :: "string \<Rightarrow> balance_key \<times> (dec \<times> dec \<times> dec) \<Rightarrow> rat" where
  "entry_value commodity ((account, k), (d, c, q)) = (if k = commodity then val d - val c else 0)"

definition commodity_sum :: "string \<Rightarrow> totals \<Rightarrow> rat" where
  "commodity_sum commodity totals = (\<Sum>kv\<leftarrow>totals. entry_value commodity kv)"

lemma set_dict_set: "set (dict_set k v kvs) \<subseteq> insert (k, v) (set kvs)"
  by (induction kvs) (auto split: if_splits)

lemma dict_set_other: "kv \<in> set kvs \<Longrightarrow> fst kv \<noteq> k \<Longrightarrow> kv \<in> set (dict_set k v kvs)"
  by (induction kvs) auto

lemma dict_set_mem: "(k, v) \<in> set (dict_set k v kvs)"
  by (induction kvs) auto

text \<open>The entry a posting updates, before and after.\<close>

definition entry_of :: "totals \<Rightarrow> posting \<Rightarrow> dec \<times> dec \<times> dec" where
  "entry_of totals p =
     (case map_of totals (jp_ledger_account p, jp_commodity p) of
        None \<Rightarrow> (0, 0, jp_quantum p) | Some v \<Rightarrow> v)"

fun post_entry :: "posting \<Rightarrow> dec \<times> dec \<times> dec \<Rightarrow> dec \<times> dec \<times> dec" where
  "post_entry p (d, c, q) =
     (if jp_side p = DEBIT then (d + jp_amount p, c, q) else (d, c + jp_amount p, q))"

lemma replay_posting_Success:
  "replay_posting totals p = Success totals' \<longleftrightarrow>
     recognized (jp_ledger_account p) (jp_commodity p) \<and>
     deq (snd (snd (entry_of totals p))) (jp_quantum p) \<and>
     totals' = dict_set (jp_ledger_account p, jp_commodity p) (post_entry p (entry_of totals p)) totals"
  unfolding replay_posting_def entry_of_def [symmetric] Let_def
  by (cases "entry_of totals p") (auto simp: res_simps split: if_splits)

lemma range_before:
  assumes "0 \<le> val d" "0 \<le> val a" "in_range q (val (d + a))"
  shows "in_range q (val d + val a)"
proof (rule ccontr)
  let ?B = "10 ^ 28 * pten (dexp q)"
  assume "\<not> in_range q (val d + val a)"
  then have "?B \<le> val d + val a"
    using assms by (simp add: in_range_def)
  then have "rnd ?B \<le> val (d + a)"
    by (simp add: val_plus rnd_mono)
  moreover have "rnd ?B = ?B"
    by (rule rnd_exact [of "dexp q"]) (auto simp: fits_def intro!: exI [of _ "10 ^ 28"])
  ultimately show False
    using assms(3) by (simp add: in_range_def)
qed

lemma range_summand:
  "\<lbrakk>in_range q (val (d + a)); 0 \<le> val d; 0 < val a\<rbrakk> \<Longrightarrow> in_range q (val d)"
  using range_before [of d a q] in_range_between [OF in_range_0, of q "val d + val a" "val d"] by simp

lemma posting_sum:
  assumes p: "validate_posting p = Success p" and step: "replay_posting totals p = Success totals'"
    and ok: "distinct (map fst totals)" "\<forall>kv \<in> set totals. entry_ok kv"
    and grid: "\<forall>kv \<in> set totals. entry_grid kv" and range: "\<forall>kv \<in> set totals'. entry_range kv"
  shows "commodity_sum c totals' =
      commodity_sum c totals + (if jp_commodity p = c then signed_value p else 0)"
    "\<forall>kv \<in> set totals'. entry_grid kv"
proof -
  let ?k = "(jp_ledger_account p, jp_commodity p)"
  obtain d cr q where e: "entry_of totals p = (d, cr, q)"
    by (cases "entry_of totals p")
  note amount = valid_posting_amount [OF p]
  have q: "val q = val (jp_quantum p)" and totals': "totals' = dict_set ?k (post_entry p (d, cr, q)) totals"
    using step by (auto simp: replay_posting_Success e deq_iff)
  have entry: "0 \<le> val d \<and> 0 \<le> val cr \<and> on_grid q (val d) \<and> on_grid q (val cr)"
  proof (cases "map_of totals ?k")
    case None
    then show ?thesis
      using e amount by (auto simp: entry_of_def)
  next
    case (Some v)
    then have "(?k, (d, cr, q)) \<in> set totals"
      using e map_of_SomeD by (fastforce simp: entry_of_def)
    then show ?thesis
      using ok grid by fastforce
  qed
  have new: "entry_range (?k, post_entry p (d, cr, q))"
    using range dict_set_mem totals' by fastforce
  have grid_a: "on_grid q (val (jp_amount p))"
    using amount q by (simp add: on_grid_def)
  have debit: "val (d + jp_amount p) = val d + val (jp_amount p)" if "jp_side p = DEBIT"
    using new that entry amount grid_a
    by (intro val_plus_grid [of q] range_before) auto
  have credit: "val (cr + jp_amount p) = val cr + val (jp_amount p)" if "jp_side p \<noteq> DEBIT"
    using new that entry amount grid_a
    by (intro val_plus_grid [of q] range_before) auto
  have old: "(case map_of totals ?k of None \<Rightarrow> 0 | Some v0 \<Rightarrow> entry_value c (?k, v0)) = entry_value c (?k, (d, cr, q))"
    using e by (auto simp: entry_of_def split: option.splits)
  show "commodity_sum c totals' =
      commodity_sum c totals + (if jp_commodity p = c then signed_value p else 0)"
    unfolding commodity_sum_def totals' sum_dict_set [OF ok(1)] old
    by (simp add: signed_value_def debit credit)
  show "\<forall>kv \<in> set totals'. entry_grid kv"
  proof
    fix kv assume "kv \<in> set totals'"
    then have "kv = (?k, post_entry p (d, cr, q)) \<or> kv \<in> set totals"
      using set_dict_set [of ?k "post_entry p (d, cr, q)" totals] unfolding totals' by blast
    then show "entry_grid kv"
      using grid entry grid_a by (auto simp: debit credit)
  qed
qed

lemma posting_ok:
  assumes p: "validate_posting p = Success p" and step: "replay_posting totals p = Success totals'"
    and ok: "distinct (map fst totals)" "\<forall>kv \<in> set totals. entry_ok kv"
  shows "distinct (map fst totals')" "\<forall>kv \<in> set totals'. entry_ok kv"
    "\<forall>kv \<in> set totals'. entry_range kv \<Longrightarrow> \<forall>kv \<in> set totals. entry_range kv"
proof -
  let ?k = "(jp_ledger_account p, jp_commodity p)"
  obtain d cr q where e: "entry_of totals p = (d, cr, q)"
    by (cases "entry_of totals p")
  note amount = valid_posting_amount [OF p]
  have q: "val q = val (jp_quantum p)" and totals': "totals' = dict_set ?k (post_entry p (d, cr, q)) totals"
    using step by (auto simp: replay_posting_Success e deq_iff)
  have entry: "0 \<le> val d \<and> 0 \<le> val cr"
  proof (cases "map_of totals ?k")
    case None
    then show ?thesis
      using e by (auto simp: entry_of_def)
  next
    case (Some v)
    then have "(?k, (d, cr, q)) \<in> set totals"
      using e map_of_SomeD by (fastforce simp: entry_of_def)
    then show ?thesis
      using ok by fastforce
  qed
  show "distinct (map fst totals')"
    using ok(1) by (simp add: totals' distinct_dict_set)
  show "\<forall>kv \<in> set totals'. entry_ok kv"
  proof
    fix kv assume "kv \<in> set totals'"
    then have "kv = (?k, post_entry p (d, cr, q)) \<or> kv \<in> set totals"
      using set_dict_set [of ?k "post_entry p (d, cr, q)" totals] unfolding totals' by blast
    then show "entry_ok kv"
      using ok(2) entry amount q by (auto simp: val_plus)
  qed
  assume range: "\<forall>kv \<in> set totals'. entry_range kv"
  show "\<forall>kv \<in> set totals. entry_range kv"
  proof
    fix kv assume kv: "kv \<in> set totals"
    show "entry_range kv"
    proof (cases "fst kv = ?k")
      case False
      then show ?thesis
        using bspec [OF range] dict_set_other [OF kv False] unfolding totals' by blast
    next
      case True
      then have "map_of totals ?k = Some (snd kv)"
        using kv ok(1) by (metis map_of_eq_Some_iff prod.collapse)
      then have snd: "snd kv = (d, cr, q)"
        using e by (simp add: entry_of_def)
      have "entry_range (?k, post_entry p (d, cr, q))"
        using range dict_set_mem totals' by fastforce
      then have "in_range q (val d) \<and> in_range q (val cr)"
        using range_summand [of q d "jp_amount p"] range_summand [of q cr "jp_amount p"] entry amount
        by (cases "jp_side p = DEBIT") simp_all
      then show ?thesis
        using snd by (cases kv) auto
    qed
  qed
qed

section \<open>A transaction and the whole replay\<close>

lemma postings_sum:
  assumes "replay_postings totals ps = Success totals'" "\<forall>p \<in> set ps. validate_posting p = Success p"
    and "distinct (map fst totals)" "\<forall>kv \<in> set totals. entry_ok kv"
  shows "distinct (map fst totals') \<and> (\<forall>kv \<in> set totals'. entry_ok kv)"
    "\<forall>kv \<in> set totals'. entry_range kv \<Longrightarrow> \<forall>kv \<in> set totals. entry_range kv"
    "\<lbrakk>\<forall>kv \<in> set totals. entry_grid kv; \<forall>kv \<in> set totals'. entry_range kv\<rbrakk> \<Longrightarrow>
     (\<forall>kv \<in> set totals'. entry_grid kv) \<and>
     commodity_sum c totals' = commodity_sum c totals + (\<Sum>p\<leftarrow>of_commodity c ps. signed_value p)"
  using assms
proof (induction ps arbitrary: totals)
  case (Cons p ps)
  {
    case 1
    then obtain t1 where t1: "replay_posting totals p = Success t1" "replay_postings t1 ps = Success totals'"
      by (auto simp: bind_Success_iff)
    then show ?case
      using Cons.IH(1) [OF t1(2)] posting_ok [OF _ t1(1) 1(3, 4)] 1(2) by simp
  next
    case 2
    then obtain t1 where t1: "replay_posting totals p = Success t1" "replay_postings t1 ps = Success totals'"
      by (auto simp: bind_Success_iff)
    have p: "validate_posting p = Success p" and ps: "\<forall>p \<in> set ps. validate_posting p = Success p"
      using 2(3) by auto
    note ok = posting_ok [OF p t1(1) 2(4, 5)]
    show ?case
      by (rule ok(3), rule Cons.IH(2) [OF 2(1) t1(2) ps ok(1, 2)])
  next
    case 3
    then obtain t1 where t1: "replay_posting totals p = Success t1" "replay_postings t1 ps = Success totals'"
      by (auto simp: bind_Success_iff)
    have p: "validate_posting p = Success p" and ps: "\<forall>p \<in> set ps. validate_posting p = Success p"
      using 3(4) by auto
    note ok = posting_ok [OF p t1(1) 3(5, 6)]
    have range: "\<forall>kv \<in> set t1. entry_range kv"
      using Cons.IH(2) [OF 3(2) t1(2) ps ok(1, 2)] .
    note sum = posting_sum [OF p t1(1) 3(5, 6) 3(1) range]
    show ?case
      using Cons.IH(3) [OF sum(2) 3(2) t1(2) ps ok(1, 2)] sum(1) [of c]
      by (simp add: of_commodity_def)
  }
qed (simp_all add: of_commodity_def)

text \<open>A journal whose transactions and postings were accepted by their validators.\<close>

definition valid_journal :: "hashing \<Rightarrow> transaction list \<Rightarrow> bool" where
  "valid_journal H ts \<longleftrightarrow> (\<forall>t \<in> set ts. validate_transaction H t = Success t \<and>
     valid_postings (jt_postings t) \<and> postings_in_range (jt_postings t))"

lemma valid_journal_balanced:
  "\<lbrakk>valid_journal H ts; t \<in> set ts\<rbrakk> \<Longrightarrow> (\<Sum>p\<leftarrow>of_commodity c (jt_postings t). signed_value p) = 0"
  by (rule balanced_exact)
     (auto simp: valid_journal_def validate_transaction_def check_all_Success_iff)

text \<open>Unfolding one iteration of the replay loop.\<close>

lemma replay_loop_Cons:
  "replay_loop H opening totals n prev last_at (t # ts) = Success r \<longleftrightarrow>
     \<not> transaction_error H t (sn_account_id opening) n prev last_at \<and>
     (\<exists>totals'. replay_postings totals (jt_postings t) = Success totals' \<and>
       (\<exists>p. make_projection H opening totals' (jt_sequence t) (Some (jt_transaction_hash t))
              (jt_occurred_at t) = Success p \<and> \<not> has_negative_asset p) \<and>
       replay_loop H opening totals' (n + 1) (Some (jt_transaction_hash t)) (jt_occurred_at t) ts =
         Success r)"
  by (auto simp: bind_Success_iff split: if_splits)

declare replay_loop.simps(2) [simp del]

lemma loop_sum:
  assumes "replay_loop H opening totals n prev last_at ts = Success (totals', h, l)" "valid_journal H ts"
    and "distinct (map fst totals)" "\<forall>kv \<in> set totals. entry_ok kv"
  shows "\<forall>kv \<in> set totals'. entry_range kv \<Longrightarrow> \<forall>kv \<in> set totals. entry_range kv"
    "\<lbrakk>\<forall>kv \<in> set totals. entry_grid kv; \<forall>kv \<in> set totals'. entry_range kv\<rbrakk> \<Longrightarrow>
     commodity_sum c totals' = commodity_sum c totals"
  using assms
proof (induction ts arbitrary: totals n prev last_at)
  case (Cons t ts)
  have journal: "valid_journal H ts" and ps: "\<forall>p \<in> set (jt_postings t). validate_posting p = Success p"
    if "valid_journal H (t # ts)"
    using that by (auto simp: valid_journal_def valid_postings_def)
  {
    case 1
    then obtain t1 where t1: "replay_postings totals (jt_postings t) = Success t1"
        "replay_loop H opening t1 (n + 1) (Some (jt_transaction_hash t)) (jt_occurred_at t) ts = Success (totals', h, l)"
      by (auto simp: replay_loop_Cons)
    note ok = postings_sum [OF t1(1) ps [OF 1(3)] 1(4, 5)]
    show ?case
      by (rule ok(2), rule Cons.IH(1) [OF 1(1) t1(2) journal [OF 1(3)]]) (use ok(1) in auto)
  next
    case 2
    then obtain t1 where t1: "replay_postings totals (jt_postings t) = Success t1"
        "replay_loop H opening t1 (n + 1) (Some (jt_transaction_hash t)) (jt_occurred_at t) ts = Success (totals', h, l)"
      by (auto simp: replay_loop_Cons)
    note ok = postings_sum [OF t1(1) ps [OF 2(4)] 2(5, 6)]
    have d: "distinct (map fst t1)" and e: "\<forall>kv \<in> set t1. entry_ok kv"
      using ok(1) by auto
    have range: "\<forall>kv \<in> set t1. entry_range kv"
      using Cons.IH(1) [OF 2(2) t1(2) journal [OF 2(4)] d e] .
    have sum: "(\<forall>kv \<in> set t1. entry_grid kv) \<and> commodity_sum c t1 = commodity_sum c totals"
      using ok(3) [OF 2(1) range, of c] valid_journal_balanced [OF 2(4), of t c] by simp
    show ?case
      using Cons.IH(2) [OF conjunct1 [OF sum] 2(2) t1(2) journal [OF 2(4)] d e] sum by simp
  }
qed simp_all

text \<open>The replay accepts a chain only when every link is right.\<close>

lemma loop_chain:
  assumes "replay_loop H opening totals n prev last_at ts = Success (totals', h, l)"
  shows "journal_chain.linked n prev ts"
    "\<forall>t \<in> set ts. jt_account_id t = sn_account_id opening \<and> journal_chain.intact H t \<and> is_balanced t"
    "sorted (last_at # map jt_occurred_at ts)"
    "h = (if ts = [] then prev else Some (jt_transaction_hash (last ts)))"
    "l = last (last_at # map jt_occurred_at ts)"
    "ts \<noteq> [] \<longrightarrow> (\<exists>p. make_projection H opening totals' (n + int (length ts) - 1) h l = Success p \<and>
       \<not> has_negative_asset p)"
  using assms
proof (induction ts arbitrary: totals n prev last_at)
  case (Cons t ts)
  {
    case 1 then show ?case
      using Cons.IH(1) by (auto simp: replay_loop_Cons transaction_error_def)
  next
    case 2 then show ?case
      using Cons.IH(2) by (fastforce simp: replay_loop_Cons transaction_error_def journal_chain.intact_def
          expected_transaction_hash_def)
  next
    case 3 then show ?case
      using Cons.IH(3) by (fastforce simp: replay_loop_Cons transaction_error_def)
  next
    case 4 then show ?case
      using Cons.IH(4) by (fastforce simp: replay_loop_Cons)
  next
    case 5 then show ?case
      using Cons.IH(5) by (fastforce simp: replay_loop_Cons)
  next
    case 6
    then show ?case
    proof (cases "ts = []")
      case True
      then show ?thesis
        using 6 by (auto simp: replay_loop_Cons transaction_error_def)
    next
      case False
      then show ?thesis
        using Cons.IH(6) 6 by (fastforce simp: replay_loop_Cons algebra_simps)
    qed
  }
qed simp_all

text \<open>The loop over two journals is the loop over the first followed by the loop over the second.\<close>

lemma replay_loop_append:
  "replay_loop H opening totals n prev last_at (ts @ us) =
     bind (replay_loop H opening totals n prev last_at ts) (\<lambda>(totals', h, l).
       replay_loop H opening totals' (n + int (length ts)) h l us)"
proof (induction ts arbitrary: totals n prev last_at)
  case (Cons t ts)
  have if_bind: "bind (if b then x else y) f = (if b then bind x f else bind y f)" for b x y f
    by simp
  show ?case
    by (simp add: replay_loop.simps(2) Cons.IH bind_assoc if_bind algebra_simps cong: if_cong)
qed simp

section \<open>Projections\<close>

lemma make_projection_Success:
  assumes "make_projection H opening totals n h l = Success p"
  shows "lp_balances p = map totals_balance (sort_key fst totals)" "lp_ledger_sequence p = n"
    "lp_ledger_hash p = h" "lp_last_occurred_at p = l" "lp_account_id p = sn_account_id opening"
    "lp_projection_hash p = expected_projection_hash H p"
    "\<forall>b \<in> set (lp_balances p). validate_account_balance b = Success b"
proof -
  obtain bs where bs: "run_all (\<lambda>kv. validate_account_balance (totals_balance kv)) (sort_key fst totals) = Success bs"
      and p: "create_projection H (sn_account_id opening) (snapshot_hash H opening) n h l bs
        (sort (map pb_instrument_id (filter (\<lambda>p. pb_quantity p > 0) (sn_positions opening)))) = Success p"
    using assms by (auto simp: make_projection_def bind_Success_iff)
  have all: "list_all2 (\<lambda>kv b. validate_account_balance (totals_balance kv) = Success b) (sort_key fst totals) bs"
    using bs by (simp add: run_all_Success)
  have same: "validate_account_balance b = Success b' \<Longrightarrow> b' = b" for b b'
    by (simp add: validate_account_balance_def check_all_Success_iff)
  have eq: "bs = map totals_balance (sort_key fst totals)"
    using all same by (intro nth_equalityI) (auto simp: list_all2_conv_all_nth)
  show "lp_balances p = map totals_balance (sort_key fst totals)" "lp_ledger_sequence p = n"
    "lp_ledger_hash p = h" "lp_last_occurred_at p = l" "lp_account_id p = sn_account_id opening"
    "lp_projection_hash p = expected_projection_hash H p"
    using p eq by (auto simp: create_projection_def validate_projection_def check_all_Success_iff Let_def)
  show "\<forall>b \<in> set (lp_balances p). validate_account_balance b = Success b"
    using all same p by (fastforce simp: list_all2_conv_all_nth in_set_conv_nth create_projection_def
        validate_projection_def check_all_Success_iff Let_def)
qed

section \<open>The opening balances\<close>

definition valid_opening :: "account_snapshot \<Rightarrow> bool" where
  "valid_opening s \<longleftrightarrow> validate_snapshot s = Success s \<and>
     (\<forall>c \<in> set (sn_cash s). validate_cash_balance c = Success c) \<and>
     (\<forall>p \<in> set (sn_positions s). validate_position_balance p = Success p)"

definition opening_amount :: "string \<Rightarrow> account_snapshot \<Rightarrow> rat" where
  "opening_amount commodity s =
     (\<Sum>c\<leftarrow>sn_cash s. if cb_currency c = commodity then val (cb_settled_amount c) else 0) +
     (\<Sum>p\<leftarrow>sn_positions s. if pb_instrument_id p = commodity then val (pb_quantity p) else 0)"

lemma set_fold_dict_set:
  "set (fold (\<lambda>x. dict_set (key x) (value x)) xs kvs) \<subseteq> set kvs \<union> (\<lambda>x. (key x, value x)) ` set xs"
proof (induction xs arbitrary: kvs)
  case (Cons x xs)
  then show ?case
    using set_dict_set [of "key x" "value x" kvs] by fastforce
qed simp

lemma opening_entries:
  assumes "valid_opening s"
  shows "distinct (map fst (opening_totals s))" "\<forall>kv \<in> set (opening_totals s). entry_ok kv \<and> entry_grid kv"
proof -
  show "distinct (map fst (opening_totals s))"
    by (simp add: opening_totals_def distinct_fold_dict_set)
  show "\<forall>kv \<in> set (opening_totals s). entry_ok kv \<and> entry_grid kv"
  proof
    fix kv assume "kv \<in> set (opening_totals s)"
    then consider c where "c \<in> set (sn_cash s)"
        "kv = ((''asset:cash:'' @ cb_currency c, cb_currency c), (cb_settled_amount c, 0, cb_quantum c))"
      | p where "p \<in> set (sn_positions s)"
        "kv = ((''inventory:units:'' @ pb_instrument_id p, pb_instrument_id p), (pb_quantity p, 0, pb_quantum p))"
      using set_fold_dict_set [of "\<lambda>p. (''inventory:units:'' @ pb_instrument_id p, pb_instrument_id p)"
          "\<lambda>p. (pb_quantity p, 0, pb_quantum p)" "sn_positions s"]
        set_fold_dict_set [of "\<lambda>c. (''asset:cash:'' @ cb_currency c, cb_currency c)"
          "\<lambda>c. (cb_settled_amount c, 0, cb_quantum c)" "sn_cash s" "[]"]
      unfolding opening_totals_def by fastforce
    then show "entry_ok kv \<and> entry_grid kv"
      using assms
      by cases (auto simp: valid_opening_def validate_cash_balance_def validate_position_balance_def
          check_all_Success_iff is_quantized_grid dest!: bspec dest: positive_ok_pos non_negative_ok_nonneg)
  qed
qed

lemma opening_sum:
  assumes "valid_opening s"
  shows "commodity_sum c (opening_totals s) = opening_amount c s"
proof -
  let ?ck = "\<lambda>b. (''asset:cash:'' @ cb_currency b, cb_currency b)"
  let ?cv = "\<lambda>b. (cb_settled_amount b, 0 :: dec, cb_quantum b)"
  let ?pk = "\<lambda>p. (''inventory:units:'' @ pb_instrument_id p, pb_instrument_id p)"
  let ?pv = "\<lambda>p. (pb_quantity p, 0 :: dec, pb_quantum p)"
  let ?cash = "fold (\<lambda>b. dict_set (?ck b) (?cv b)) (sn_cash s) []"
  have "distinct (map cb_currency (sn_cash s))" "distinct (map pb_instrument_id (sn_positions s))"
    using assms by (auto simp: valid_opening_def validate_snapshot_def check_all_Success_iff sorted_unique_def)
  then have d: "distinct (map ?ck (sn_cash s))" "distinct (map ?pk (sn_positions s))"
    by (auto simp: distinct_map inj_on_def)
  have new: "\<forall>p \<in> set (sn_positions s). ?pk p \<notin> fst ` set ?cash"
    by (auto simp: keys_fold_dict_set)
  have "(\<Sum>kv\<leftarrow>fold (\<lambda>p. dict_set (?pk p) (?pv p)) (sn_positions s) ?cash. entry_value c kv) =
      (\<Sum>kv\<leftarrow>?cash. entry_value c kv) + (\<Sum>p\<leftarrow>sn_positions s. entry_value c (?pk p, ?pv p))"
    by (rule sum_fold_dict_set [OF _ d(2) new]) (simp add: distinct_fold_dict_set)
  moreover have "(\<Sum>kv\<leftarrow>?cash. entry_value c kv) =
      (\<Sum>kv\<leftarrow>[]. entry_value c kv) + (\<Sum>b\<leftarrow>sn_cash s. entry_value c (?ck b, ?cv b))"
    by (rule sum_fold_dict_set [OF _ d(1)]) simp_all
  ultimately show ?thesis
    by (simp add: commodity_sum_def opening_totals_def opening_amount_def cong: if_cong)
qed

lemma replay_journal_Success:
  assumes "replay_journal H opening ts = Success p"
  obtains totals h l where
    "replay_loop H opening (opening_totals opening) 1 None (sn_as_of opening) ts = Success (totals, h, l)"
    "make_projection H opening totals (int (length ts)) h l = Success p"
  using assms by (auto simp: replay_journal_def bind_Success_iff split: if_splits)

text \<open>The exact total of a commodity over all accounts of a projection.\<close>

definition projection_total :: "string \<Rightarrow> projection \<Rightarrow> rat" where
  "projection_total c p = (\<Sum>b\<leftarrow>filter (\<lambda>b. lb_commodity b = c) (lp_balances p).
     val (lb_debit_total b) - val (lb_credit_total b))"

lemma projection_total_totals:
  assumes "lp_balances p = map totals_balance (sort_key fst totals)"
  shows "projection_total c p = commodity_sum c totals"
proof -
  have "projection_total c p = (\<Sum>kv\<leftarrow>sort_key fst totals. entry_value c kv)"
  proof -
    have "(\<Sum>b\<leftarrow>filter (\<lambda>b. lb_commodity b = c) (map totals_balance kvs).
        val (lb_debit_total b) - val (lb_credit_total b)) = (\<Sum>kv\<leftarrow>kvs. entry_value c kv)" for kvs
      by (induction kvs) (auto simp: totals_balance_def split: prod.splits)
    then show ?thesis
      by (simp add: projection_total_def assms)
  qed
  also have "\<dots> = (\<Sum>kv\<leftarrow>totals. entry_value c kv)"
    by (rule sum_list_cong_mset) simp
  finally show ?thesis
    by (simp add: commodity_sum_def)
qed

section \<open>Properties\<close>

definition sample_opening :: account_snapshot where
  "sample_opening =
     \<lparr>sn_snapshot_id = ''s'', sn_account_id = ''a'', sn_as_of = 0,
      sn_account_aggregate_sequence = 0, sn_portfolio_sequence = 0, sn_ledger_sequence = 0,
      sn_ledger_hash = None,
      sn_cash = [\<lparr>cb_currency = ''USD'', cb_settled_amount = Dec 100000 (-2),
        cb_reserved_amount = Dec 0 0, cb_quantum = Dec 1 (-2)\<rparr>],
      sn_positions = [], sn_pending_order_ids = []\<rparr>"

definition sample_replay :: projection where
  "sample_replay =
     \<lparr>lp_account_id = ''a'', lp_opening_snapshot_hash = replicate 64 CHR ''a'',
      lp_ledger_sequence = 1, lp_ledger_hash = Some (replicate 64 CHR ''a''),
      lp_last_occurred_at = 0,
      lp_balances =
        [\<lparr>lb_ledger_account = ''asset:cash:USD'', lb_commodity = ''USD'', lb_quantum = Dec 1 (-2),
          lb_debit_total = Dec 101250 (-2), lb_credit_total = Dec 0 0\<rparr>,
         \<lparr>lb_ledger_account = ''clearing:cash:USD'', lb_commodity = ''USD'', lb_quantum = Dec 1 (-2),
          lb_debit_total = Dec 0 0, lb_credit_total = Dec 1250 (-2)\<rparr>],
      lp_unvalued_instrument_ids = [], lp_projection_hash = replicate 64 CHR ''a''\<rparr>"

definition sample_totals :: totals where
  "sample_totals =
     [((''asset:cash:USD'', ''USD''), (Dec 101250 (-2), Dec 0 0, Dec 1 (-2))),
      ((''clearing:cash:USD'', ''USD''), (Dec 0 0, Dec 1250 (-2), Dec 1 (-2)))]"

lemma sample_projection:
  "make_projection sample_hashing sample_opening sample_totals 1 (Some (replicate 64 CHR ''a'')) 0 =
     Success sample_replay"
proof -
  have b: "run_all (\<lambda>kv. validate_account_balance (totals_balance kv)) (sort_key fst sample_totals) =
      Success (lp_balances sample_replay)"
    by code_simp
  have s: "sorted_unique (map (\<lambda>b. (lb_ledger_account b, lb_commodity b)) (lp_balances sample_replay))"
    by code_simp
  show ?thesis
    using s unfolding make_projection_def b bind.simps create_projection_def validate_projection_def
    by (simp add: check_all_Success_iff Let_def expected_projection_hash_def snapshot_hash_def
        sample_opening_def opt_ok_def nonempty_ok_def) (simp add: sample_replay_def)
qed

lemma sample_replay_eq:
  "replay_journal sample_hashing sample_opening [sample_transaction] = Success sample_replay"
proof -
  have p: "replay_postings (opening_totals sample_opening) (jt_postings sample_transaction) = Success sample_totals"
    by code_simp
  have n: "\<not> has_negative_asset sample_replay" and b: "is_balanced sample_transaction"
    by code_simp+
  have sel: "jt_sequence sample_transaction = 1" "jt_transaction_hash sample_transaction = replicate 64 CHR ''a''"
      "jt_occurred_at sample_transaction = 0" "jt_account_id sample_transaction = sn_account_id sample_opening"
      "jt_previous_hash sample_transaction = None" "sn_as_of sample_opening = 0"
      "sn_ledger_sequence sample_opening = 0" "sn_ledger_hash sample_opening = None"
    by (simp_all add: sample_transaction_def sample_opening_def)
  show ?thesis
    by (simp add: replay_journal_def replay_loop.simps(2) p n b sel transaction_error_def
        expected_transaction_hash_def sample_projection)
qed

lemma sample_opening_valid: "valid_opening sample_opening"
proof -
  have "list_all (\<lambda>c. validate_cash_balance c = Success c) (sn_cash sample_opening)"
    by code_simp
  then show ?thesis
    by (simp add: valid_opening_def list_all_iff validate_snapshot_def check_all_Success_iff)
       (simp add: sample_opening_def nonempty_ok_def opt_ok_def)
qed

lemma sample_journal_valid: "valid_journal sample_hashing [sample_transaction]"
  using sample_transaction_valid sample_postings_ok
  by (simp add: valid_journal_def) (simp add: sample_transaction_def)

text \<open>
  C4: the ledger conserves every commodity. When a journal of valid transactions is replayed over
  valid opening balances and the resulting totals are in range, the debits minus the credits of a
  commodity over all accounts, assets, inventory, fees, profit and clearing together, are exactly
  the amount of it in the opening snapshot.
\<close>

theorem replay_conserves_commodities:
  assumes "replay_journal H opening ts = Success p" "valid_opening opening" "valid_journal H ts"
    and "\<forall>b \<in> set (lp_balances p). in_range (lb_quantum b) (val (lb_debit_total b)) \<and>
      in_range (lb_quantum b) (val (lb_credit_total b))"
  shows "projection_total c p = opening_amount c opening"
proof -
  obtain totals h l where loop: "replay_loop H opening (opening_totals opening) 1 None (sn_as_of opening) ts =
        Success (totals, h, l)" and proj: "make_projection H opening totals (int (length ts)) h l = Success p"
    using assms(1) by (rule replay_journal_Success)
  note bal = make_projection_Success(1) [OF proj]
  have "\<forall>kv \<in> set totals. entry_range kv"
  proof
    fix kv assume "kv \<in> set totals"
    then have "totals_balance kv \<in> set (lp_balances p)"
      by (simp add: bal)
    then show "entry_range kv"
      using assms(4) by (cases kv) (fastforce simp: totals_balance_def)
  qed
  then have "commodity_sum c totals = commodity_sum c (opening_totals opening)"
    using opening_entries [OF assms(2)] by (intro loop_sum(2) [OF loop assms(3)]) auto
  then show ?thesis
    using opening_sum [OF assms(2)] projection_total_totals [OF bal] by simp
qed

theorem replay_conserves_commodities_witness:
  "projection_total ''USD'' sample_replay = 1000"
proof -
  have "opening_amount ''USD'' sample_opening = 1000"
    by (simp add: opening_amount_def sample_opening_def val_Dec pten_def)
  then show ?thesis
    using replay_conserves_commodities [OF sample_replay_eq sample_opening_valid sample_journal_valid]
    by (simp add: sample_replay_def in_range_def val_Dec pten_def)
qed

text \<open>
  C17: what a successful replay guarantees. The journal is a verified chain of the opening's account
  with non-decreasing times, starting not before the opening; the projection carries the length of
  the journal, the hash of its last transaction and its own correct hash; no cash or inventory
  account is negative.
\<close>

theorem replay_accepts_only_verified:
  assumes "replay_journal H opening ts = Success p" "ts \<noteq> []"
  shows "verify_journal_chain H ts \<and> jt_account_id (hd ts) = sn_account_id opening \<and>
    sorted (sn_as_of opening # map jt_occurred_at ts) \<and>
    lp_ledger_sequence p = int (length ts) \<and>
    lp_ledger_hash p = Some (jt_transaction_hash (last ts)) \<and>
    lp_last_occurred_at p = jt_occurred_at (last ts) \<and>
    lp_projection_hash p = expected_projection_hash H p \<and> \<not> has_negative_asset p"
proof -
  obtain totals h l where loop: "replay_loop H opening (opening_totals opening) 1 None (sn_as_of opening) ts =
        Success (totals, h, l)" and proj: "make_projection H opening totals (int (length ts)) h l = Success p"
    using assms(1) by (rule replay_journal_Success)
  note chain = loop_chain [OF loop]
  have "hd ts \<in> set ts"
    using assms(2) by simp
  then show ?thesis
    using chain make_projection_Success [OF proj] assms(2) proj
    by (auto simp: verify_journal_chain_iff last_map)
qed

theorem replay_accepts_only_verified_witness:
  "verify_journal_chain sample_hashing [sample_transaction] \<and> \<not> has_negative_asset sample_replay"
  using replay_accepts_only_verified [OF sample_replay_eq] by simp

text \<open>
  Replay can be resumed. Replaying a journal and then the rest of it from the state reached
  gives the same result, failures included, as replaying it in one go.
\<close>

theorem replay_resumes:
  "replay_loop H opening totals n prev last_at (ts @ us) =
     bind (replay_loop H opening totals n prev last_at ts) (\<lambda>(totals', h, l).
       replay_loop H opening totals' (n + int (length ts)) h l us)"
  by (rule replay_loop_append)

section \<open>Reconciliation\<close>

lemma balance_json_inj:
  "jnorm (account_balance_json b) = jnorm (account_balance_json b') \<Longrightarrow>
   account_balance_json b = account_balance_json b'"
  unfolding account_balance_json_def by (rule jnorm_objects_eq) (simp_all del: jnorm.simps)

lemma balances_json_inj:
  "map jnorm (map account_balance_json bs) = map jnorm (map account_balance_json bs') \<Longrightarrow>
   map account_balance_json bs = map account_balance_json bs'"
  by (induction bs bs' rule: list_induct2') (auto dest: balance_json_inj)

lemma projection_fields_inj:
  assumes "canonical_json (JObj (projection_fields p)) = canonical_json (JObj (projection_fields p'))"
  shows "projection_fields p = projection_fields p'"
proof -
  have strs: "map jnorm (map JStr xs) = map JStr xs" for xs
    by simp
  show ?thesis
    using _ _ _ assms
    by (rule canonical_fields_eq)
       (auto simp: projection_fields_def strs dest!: balances_json_inj simp del: map_map)
qed

text \<open>
  C21: a reconciliation that reports a match is right. Given a stored projection whose hash is its
  own digest, a report that matches means that the journal replays, and that the replayed projection
  has the same balances, sequence, ledger hash and all other fields as the stored one, unless the
  two canonical texts collide; a report that does not match names at least one reason.
\<close>

theorem reconciliation_sound:
  assumes "compare_ledger_projection H opening ts stored as_of = Success report"
    and "lp_projection_hash stored = expected_projection_hash H stored"
    and "\<And>p. replay_journal H opening ts = Success p \<Longrightarrow>
      inj_on (sha256 H) {canonical_json (JObj (projection_fields p)), canonical_json (JObj (projection_fields stored))}"
  shows "if lr_matched report
    then \<exists>p. replay_journal H opening ts = Success p \<and> projection_fields p = projection_fields stored
    else lr_mismatch_reasons report \<noteq> []"
proof -
  obtain p where p: "replay_journal H opening ts = Success p"
    using assms(1) by (auto simp: compare_ledger_projection_def bind_Success_iff)
  have hash: "lp_projection_hash p = expected_projection_hash H p"
    using p by (elim replay_journal_Success) (rule make_projection_Success(6))
  have "lr_matched report \<longleftrightarrow> lp_ledger_sequence p = lp_ledger_sequence stored \<and>
      lp_ledger_hash p = lp_ledger_hash stored \<and> lp_projection_hash p = lp_projection_hash stored"
      "\<not> lr_matched report \<Longrightarrow> lr_mismatch_reasons report \<noteq> []"
    using assms(1)
    by (auto simp: compare_ledger_projection_def p Let_def res_simps validate_report_def split: if_splits)
  moreover have "projection_fields p = projection_fields stored"
    if "lp_projection_hash p = lp_projection_hash stored"
  proof (rule projection_fields_inj)
    show "canonical_json (JObj (projection_fields p)) = canonical_json (JObj (projection_fields stored))"
      using inj_onD [OF assms(3) [OF p]] that hash assms(2)
      by (auto simp: expected_projection_hash_def stable_payload_hash_def)
  qed
  ultimately show ?thesis
    using p by auto
qed

theorem reconciliation_sound_witness:
  "\<exists>report. compare_ledger_projection sample_hashing sample_opening [sample_transaction] sample_replay (Utc 9) =
      Success report \<and> lr_matched report \<and>
      (\<exists>p. replay_journal sample_hashing sample_opening [sample_transaction] = Success p \<and>
         projection_fields p = projection_fields sample_replay)"
proof -
  have hash: "lp_projection_hash sample_replay = replicate 64 CHR ''a''" "0 \<le> lp_ledger_sequence sample_replay"
      "sn_account_id sample_opening = ''a''"
    by (simp_all add: sample_replay_def sample_opening_def)
  obtain report where r: "compare_ledger_projection sample_hashing sample_opening [sample_transaction]
      sample_replay (Utc 9) = Success report" "lr_matched report"
    by (simp add: compare_ledger_projection_def sample_replay_eq res_simps validate_report_def hash
        nonempty_ok_def)
  then show ?thesis
    using reconciliation_sound [OF r(1)] hash by (auto simp: expected_projection_hash_def sample_replay_eq)
qed

end
