(* ===== verification/Posting_Properties.thy ===== *)
theory Posting_Properties
  imports Posting Ledger_Properties
begin


section \<open>From specifications to postings\<close>

text \<open>The signed effect of a list of postings on one ledger account.\<close>

definition account_effect :: "string \<Rightarrow> posting list \<Rightarrow> rat" where
  "account_effect account ps = (\<Sum>p\<leftarrow>ps. if jp_ledger_account p = account then signed_value p else 0)"

definition spec_effect :: "string \<Rightarrow> posting_spec list \<Rightarrow> rat" where
  "spec_effect account specs = (\<Sum>(role, acct, commodity, side, amount, quantum)\<leftarrow>specs.
     if acct = account then (if side = DEBIT then val amount else - val amount) else 0)"

lemma make_posting_Success:
  "make_posting H f policy (role, acct, commodity, side, amount, quantum) = Success p \<Longrightarrow>
   jp_ledger_account p = acct \<and> jp_side p = side \<and> jp_amount p = amount \<and> jp_commodity p = commodity \<and>
   validate_posting p = Success p"
  by (auto simp: make_posting_def validate_posting_def check_all_Success_iff)

lemma run_all_effect:
  assumes "run_all (make_posting H f policy) specs = Success ps"
  shows "account_effect account ps = spec_effect account specs" "valid_postings ps"
proof -
  have "list_all2 (\<lambda>spec p. make_posting H f policy spec = Success p) specs ps"
    using assms by (simp add: run_all_Success)
  then have "account_effect account ps = spec_effect account specs \<and> valid_postings ps"
    by (induction rule: list_all2_induct)
       (auto simp: account_effect_def spec_effect_def signed_value_def valid_postings_def
          dest!: make_posting_Success)
  then show "account_effect account ps = spec_effect account specs" "valid_postings ps"
    by auto
qed

lemma account_effect_sort: "account_effect account (sort_key g ps) = account_effect account ps"
  unfolding account_effect_def by (rule sum_list_cong_mset) simp

lemma create_transaction_Success:
  assumes "create_transaction H tid acct n t h intent fid ps = Success x"
  shows "jt_postings x = ps" "jt_account_id x = acct" "jt_sequence x = n" "jt_occurred_at x = t"
    "jt_previous_hash x = h" "jt_source_fill_id x = fid" "jt_source_order_intent_id x = intent"
    "validate_transaction H x = Success x"
  using assms by (auto simp: create_transaction_def validate_transaction_def check_all_Success_iff Let_def)

lemma build_fill_journal_Success:
  assumes "build_fill_journal H f p policy = Success t"
  obtains gross ps where
    "dec_quantize (fl_quantity f * fl_price f) (fl_fee_quantum f) ROUND_HALF_EVEN = Success gross"
    "0 < val gross"
    "(if fl_side f = BUY then buy_postings H f gross policy else sell_postings H f gross p policy) = Success ps"
    "jt_postings t = sort_key jp_posting_id ps"
    "fl_account_id f = lp_account_id p" "lp_last_occurred_at p \<le> fl_occurred_at f"
    "jt_account_id t = fl_account_id f" "jt_sequence t = lp_ledger_sequence p + 1"
    "jt_occurred_at t = fl_occurred_at f" "jt_previous_hash t = lp_ledger_hash p"
    "jt_source_fill_id t = fl_fill_id f" "validate_transaction H t = Success t"
  using assms create_transaction_Success
  by (auto simp: build_fill_journal_def bind_Success_iff catch_Success_iff dec_le_iff not_le not_less
      split: if_splits intro!: that)

lemma spec_effect_simps [simp]:
  "spec_effect account [] = 0"
  "spec_effect account ((role, acct, commodity, side, amount, quantum) # specs) =
     (if acct = account then (if side = DEBIT then val amount else - val amount) else 0) +
     spec_effect account specs"
  "spec_effect account (specs @ specs') = spec_effect account specs + spec_effect account specs'"
  by (simp_all add: spec_effect_def)

text \<open>The economic amounts of a buy and of a sell.\<close>

lemma buy_effects:
  assumes "0 \<le> val (fl_fees f)"
  shows "spec_effect (''asset:cash:'' @ fl_fee_currency f) (buy_values f gross) = - val (gross + fl_fees f)"
    "spec_effect (''inventory:units:'' @ fl_instrument_id f) (buy_values f gross) = val (fl_quantity f)"
    "spec_effect (''inventory:value:'' @ fl_instrument_id f @ '':'' @ fl_fee_currency f) (buy_values f gross) =
       val gross"
    "spec_effect (''fee:execution:'' @ fl_fee_currency f) (buy_values f gross) = val (fl_fees f)"
    "spec_effect (''clearing:cash:'' @ fl_fee_currency f) (buy_values f gross) = 0"
  using assms by (simp_all add: buy_values_def Let_def dec_less_iff)


section \<open>Properties\<close>

text \<open>A sample buy of 4 units at 25.00 with a fee of 0.50, booked on the opening balances.\<close>

definition sample_uuid :: string where
  "sample_uuid = ''00000000-0000-5000-8000-000000000000''"

definition sample_fill :: fill where
  "sample_fill =
     \<lparr>fl_fill_id = ''f'', fl_command_id = ''c'', fl_order_intent_id = ''i'', fl_account_id = ''a'',
      fl_instrument_id = sample_uuid, fl_side = BUY, fl_quantity = Dec 4 0,
      fl_quantity_quantum = Dec 1 0, fl_price = Dec 2500 (-2), fl_price_quantum = Dec 1 (-2),
      fl_fee_currency = ''USD'', fl_fees = Dec 50 (-2), fl_fee_quantum = Dec 1 (-2),
      fl_slippage = Dec 0 0, fl_occurred_at = 5, fl_simulator_ref = None, fl_external_ref = None\<rparr>"

definition sample_policy :: posting_policy where
  "sample_policy = \<lparr>lpp_policy_version = ''1.0.0'', lpp_cost_basis_method = ''average_cost'',
     lpp_monetary_rounding = ''half_even''\<rparr>"

text \<open>Posting ids have to differ, so the sample identifier here is the reversed text.\<close>

definition text_hashing :: hashing where
  "text_hashing = \<lparr>sha256 = (\<lambda>s. replicate 64 CHR ''a''), uuid5 = rev\<rparr>"

lemma text_hash [simp]: "stable_payload_hash text_hashing j = replicate 64 CHR ''a''"
  by (simp add: text_hashing_def stable_payload_hash_def)

definition sample_projection0 :: projection where
  "sample_projection0 =
     \<lparr>lp_account_id = ''a'', lp_opening_snapshot_hash = replicate 64 CHR ''a'',
      lp_ledger_sequence = 0, lp_ledger_hash = None, lp_last_occurred_at = 0,
      lp_balances =
        [\<lparr>lb_ledger_account = ''asset:cash:USD'', lb_commodity = ''USD'', lb_quantum = Dec 1 (-2),
          lb_debit_total = Dec 100000 (-2), lb_credit_total = Dec 0 0\<rparr>],
      lp_unvalued_instrument_ids = [], lp_projection_hash = replicate 64 CHR ''a''\<rparr>"


text \<open>When the generated postings are in order, the transaction is built.\<close>

lemma build_fill_journal_text:
  assumes "fl_account_id f = lp_account_id p" "lp_last_occurred_at p \<le> fl_occurred_at f"
    and "dec_quantize (fl_quantity f * fl_price f) (fl_fee_quantum f) ROUND_HALF_EVEN = Success gross" "0 < gross"
    and ps: "(if fl_side f = BUY then buy_postings text_hashing f gross policy
      else sell_postings text_hashing f gross p policy) = Success ps"
    and "distinct (map jp_posting_id ps)" "quantums_consistent [] (sort_key jp_posting_id ps)"
      "list_all (\<lambda>(c, b). deq b 0) (posting_balances (sort_key jp_posting_id ps))"
      "2 \<le> length ps" "length ps \<le> 10000"
    and "fl_account_id f \<noteq> []" "0 \<le> lp_ledger_sequence p" "opt_ok sha256_ok (lp_ledger_hash p)"
      "(lp_ledger_sequence p = 0) = (lp_ledger_hash p = None)"
  shows "is_success (build_fill_journal text_hashing f p policy)"
proof -
  have sorted: "sorted (map jp_posting_id (sort_key jp_posting_id ps))"
      "distinct (map jp_posting_id (sort_key jp_posting_id ps))"
    using assms(6) by (simp_all only: sorted_map_sort_key distinct_map_sort_key)
  have "\<not> gross \<le> 0"
    using assms(4) by (simp add: dec_simps)
  moreover have "is_success (create_transaction text_hashing tid (fl_account_id f) (lp_ledger_sequence p + 1)
      (fl_occurred_at f) (lp_ledger_hash p) intent fid (sort_key jp_posting_id ps))" for tid intent fid
    using assms(7-14) sorted
    by (simp add: is_success_iff create_transaction_def validate_transaction_def check_all_Success_iff Let_def
        expected_transaction_hash_def nonempty_ok_def)
  ultimately show ?thesis
    using assms(1-3) ps by (auto simp: build_fill_journal_def is_success_iff catch_Success_iff)
qed

definition sample_buy_postings :: "posting list" where
  "sample_buy_postings = (case buy_postings text_hashing sample_fill (Dec 10000 (-2)) sample_policy of
     Success ps \<Rightarrow> ps | _ \<Rightarrow> [])"

lemma sample_gross:
  "dec_quantize (fl_quantity sample_fill * fl_price sample_fill) (fl_fee_quantum sample_fill) ROUND_HALF_EVEN =
     Success (Dec 10000 (-2))"
  by code_simp

lemma sample_buy:
  obtains t where "build_fill_journal text_hashing sample_fill sample_projection0 sample_policy = Success t"
proof -
  have "is_success (build_fill_journal text_hashing sample_fill sample_projection0 sample_policy)"
  proof (rule build_fill_journal_text [OF _ _ sample_gross])
    have "is_success (buy_postings text_hashing sample_fill (Dec 10000 (-2)) sample_policy)"
      by code_simp
    moreover have "fl_side sample_fill = BUY"
      by code_simp
    ultimately show "(if fl_side sample_fill = BUY
        then buy_postings text_hashing sample_fill (Dec 10000 (-2)) sample_policy
        else sell_postings text_hashing sample_fill (Dec 10000 (-2)) sample_projection0 sample_policy) =
        Success sample_buy_postings"
      by (auto simp: is_success_iff sample_buy_postings_def)
    have len: "length sample_buy_postings = 7"
      by code_simp
    show "2 \<le> length sample_buy_postings" "length sample_buy_postings \<le> 10000"
      unfolding len by simp_all
    show "distinct (map jp_posting_id sample_buy_postings)"
        "quantums_consistent [] (sort_key jp_posting_id sample_buy_postings)"
        "list_all (\<lambda>(c, b). deq b 0) (posting_balances (sort_key jp_posting_id sample_buy_postings))"
        "0 < Dec 10000 (-2)"
      by code_simp+
  qed (simp_all add: sample_fill_def sample_projection0_def opt_ok_def)
  then show ?thesis
    using that by (auto simp: is_success_iff)
qed



text \<open>
  C18: the economics of a buy. The booked transaction credits cash with the rounded notional plus
  fees, debits the inventory units with the quantity, the inventory value with the notional and
  the fee account with the fees, and leaves the cash clearing account unchanged.
\<close>

theorem buy_journal_economics:
  assumes "build_fill_journal H f p policy = Success t" "fl_side f = BUY" "0 \<le> val (fl_fees f)"
  shows "\<exists>gross. dec_quantize (fl_quantity f * fl_price f) (fl_fee_quantum f) ROUND_HALF_EVEN = Success gross \<and>
    0 < val gross \<and>
    account_effect (''asset:cash:'' @ fl_fee_currency f) (jt_postings t) = - val (gross + fl_fees f) \<and>
    account_effect (''inventory:units:'' @ fl_instrument_id f) (jt_postings t) = val (fl_quantity f) \<and>
    account_effect (''inventory:value:'' @ fl_instrument_id f @ '':'' @ fl_fee_currency f) (jt_postings t) =
      val gross \<and>
    account_effect (''fee:execution:'' @ fl_fee_currency f) (jt_postings t) = val (fl_fees f) \<and>
    account_effect (''clearing:cash:'' @ fl_fee_currency f) (jt_postings t) = 0"
proof -
  obtain gross ps where g: "dec_quantize (fl_quantity f * fl_price f) (fl_fee_quantum f) ROUND_HALF_EVEN =
        Success gross" "0 < val gross"
      "(if fl_side f = BUY then buy_postings H f gross policy else sell_postings H f gross p policy) = Success ps"
      "jt_postings t = sort_key jp_posting_id ps"
    using assms(1) by (rule build_fill_journal_Success)
  then have "run_all (make_posting H f policy) (buy_values f gross) = Success ps"
    using assms(2) by (simp add: buy_postings_def)
  then have "account_effect account (jt_postings t) = spec_effect account (buy_values f gross)" for account
    by (simp add: g(4) account_effect_sort run_all_effect(1))
  then show ?thesis
    using g(1, 2) buy_effects [OF assms(3), of gross] by (intro exI [of _ gross] conjI) simp_all
qed

theorem buy_journal_economics_witness:
  "\<exists>t. build_fill_journal text_hashing sample_fill sample_projection0 sample_policy = Success t \<and>
     account_effect ''asset:cash:USD'' (jt_postings t) = - 201 / 2"
proof -
  obtain t where t: "build_fill_journal text_hashing sample_fill sample_projection0 sample_policy = Success t"
    by (rule sample_buy)
  have cost: "Dec 10000 (-2) + fl_fees sample_fill = Dec 10050 (-2)"
    by code_simp
  have sel: "fl_side sample_fill = BUY" "val (fl_fees sample_fill) = 1 / 2" "fl_fee_currency sample_fill = ''USD''"
    by (simp_all add: sample_fill_def val_Dec pten_def)
  show ?thesis
    using buy_journal_economics [OF t sel(1)] t cost by (auto simp: sample_gross sel val_Dec pten_def)
qed








end
