(* ===== verification/Execution_Model.thy ===== *)
theory Execution_Model
  imports Fills
begin

text \<open>
  \<^verbatim>\<open>domain/execution_model.py\<close>: policy, market bar, request and outcome of the deterministic
  next-bar paper execution.
\<close>

section \<open>Policy\<close>

text \<open>The pattern \<^verbatim>\<open>^paper-v[0-9]+$\<close>.\<close>

definition paper_version_ok :: "string \<Rightarrow> bool" where
  "paper_version_ok s \<longleftrightarrow> take 7 s = ''paper-v'' \<and> digit_text (drop 7 s)"

record execution_policy =
  xp_policy_version :: string
  xp_execution_model_version :: string
  xp_model_kind :: string
  xp_realism_claim :: string
  xp_supported_order_types :: "order_type list"
  xp_supported_time_in_force :: "time_in_force list"
  xp_max_volume_participation :: dec
  xp_half_spread_bps :: dec
  xp_base_slippage_bps :: dec
  xp_market_impact_bps_at_max_participation :: dec
  xp_fee_bps :: dec
  xp_per_unit_fee :: dec
  xp_minimum_fee :: dec
  xp_fee_quantum :: dec

definition validate_execution_policy :: "execution_policy \<Rightarrow> execution_policy result" where
  "validate_execution_policy p = check_all
     [(version_ok (xp_policy_version p) \<and> paper_version_ok (xp_execution_model_version p) \<and>
       xp_model_kind p = ''deterministic_next_bar'' \<and>
       xp_realism_claim p = ''reference_model_not_market_replay'' \<and>
       xp_supported_order_types p \<noteq> [] \<and> xp_supported_time_in_force p \<noteq> [] \<and>
       unit_ok (xp_max_volume_participation p) \<and> non_negative_ok (xp_half_spread_bps p) \<and>
       non_negative_ok (xp_base_slippage_bps p) \<and>
       non_negative_ok (xp_market_impact_bps_at_max_participation p) \<and>
       non_negative_ok (xp_fee_bps p) \<and> non_negative_ok (xp_per_unit_fee p) \<and>
       non_negative_ok (xp_minimum_fee p) \<and> positive_ok (xp_fee_quantum p), ''field''),
      (sorted_unique (map order_type_value (xp_supported_order_types p)),
       ''supported order types must be unique and sorted''),
      (sorted_unique (map tif_value (xp_supported_time_in_force p)),
       ''supported time-in-force values must be unique and sorted''),
      (\<not> xp_max_volume_participation p \<le> 0, ''volume participation must be positive''),
      (\<not> list_ex (\<lambda>v. v > Dec 10000 0)
         [xp_half_spread_bps p, xp_base_slippage_bps p,
          xp_market_impact_bps_at_max_participation p, xp_fee_bps p],
       ''execution basis points cannot exceed 10000''),
      (is_quantized (xp_minimum_fee p) (xp_fee_quantum p),
       ''minimum fee must match fee quantum'')] p"

definition execution_policy_hash :: "hashing \<Rightarrow> execution_policy \<Rightarrow> hash" where
  "execution_policy_hash H p = stable_payload_hash H (JObj
     [(''policy_version'', JStr (xp_policy_version p)),
      (''execution_model_version'', JStr (xp_execution_model_version p)),
      (''model_kind'', JStr (xp_model_kind p)), (''realism_claim'', JStr (xp_realism_claim p)),
      (''supported_order_types'',
       JList (map (\<lambda>t. JStr (order_type_value t)) (xp_supported_order_types p))),
      (''supported_time_in_force'',
       JList (map (\<lambda>t. JStr (tif_value t)) (xp_supported_time_in_force p))),
      (''max_volume_participation'', jdec (xp_max_volume_participation p)),
      (''half_spread_bps'', jdec (xp_half_spread_bps p)),
      (''base_slippage_bps'', jdec (xp_base_slippage_bps p)),
      (''market_impact_bps_at_max_participation'',
       jdec (xp_market_impact_bps_at_max_participation p)),
      (''fee_bps'', jdec (xp_fee_bps p)), (''per_unit_fee'', jdec (xp_per_unit_fee p)),
      (''minimum_fee'', jdec (xp_minimum_fee p)), (''fee_quantum'', jdec (xp_fee_quantum p))])"

section \<open>Bars and requests\<close>

record execution_bar =
  xb_instrument_id :: uuid
  xb_mic :: string
  xb_opens_at :: utc
  xb_closes_at :: utc
  xb_available_at :: utc
  xb_open :: dec
  xb_high :: dec
  xb_low :: dec
  xb_close :: dec
  xb_volume :: dec
  xb_currency :: string
  xb_price_quantum :: dec
  xb_quantity_quantum :: dec
  xb_source_ref :: string
  xb_source_hash :: hash
  xb_tradable :: bool

definition validate_bar :: "execution_bar \<Rightarrow> execution_bar result" where
  "validate_bar b = check_all
     [(mic_ok (xb_mic b) \<and> positive_ok (xb_open b) \<and> positive_ok (xb_high b) \<and>
       positive_ok (xb_low b) \<and> positive_ok (xb_close b) \<and> non_negative_ok (xb_volume b) \<and>
       currency_ok (xb_currency b) \<and> positive_ok (xb_price_quantum b) \<and>
       positive_ok (xb_quantity_quantum b) \<and> nonempty_ok (xb_source_ref b) \<and>
       sha256_ok (xb_source_hash b), ''field''),
      (xb_opens_at b < xb_closes_at b \<and> xb_closes_at b \<le> xb_available_at b,
       ''execution bar timeline is invalid''),
      (\<not> (xb_high b < xb_low b \<or>
          \<not> (xb_low b \<le> xb_open b \<and> xb_open b \<le> xb_high b \<and>
             xb_low b \<le> xb_close b \<and> xb_close b \<le> xb_high b)),
       ''execution bar OHLC is invalid''),
      (list_all (\<lambda>v. is_quantized v (xb_price_quantum b))
         [xb_open b, xb_high b, xb_low b, xb_close b],
       ''execution bar prices must match price quantum''),
      (is_quantized (xb_volume b) (xb_quantity_quantum b),
       ''execution bar volume must match quantity quantum'')] b"

definition bar_json :: "execution_bar \<Rightarrow> json" where
  "bar_json b = JObj
     [(''instrument_id'', JStr (xb_instrument_id b)), (''mic'', JStr (xb_mic b)),
      (''opens_at'', jtime (xb_opens_at b)), (''closes_at'', jtime (xb_closes_at b)),
      (''available_at'', jtime (xb_available_at b)), (''open'', jdec (xb_open b)),
      (''high'', jdec (xb_high b)), (''low'', jdec (xb_low b)), (''close'', jdec (xb_close b)),
      (''volume'', jdec (xb_volume b)), (''currency'', JStr (xb_currency b)),
      (''price_quantum'', jdec (xb_price_quantum b)),
      (''quantity_quantum'', jdec (xb_quantity_quantum b)),
      (''source_ref'', JStr (xb_source_ref b)), (''source_hash'', JStr (xb_source_hash b)),
      (''tradable'', JBool (xb_tradable b))]"

record execution_request =
  xr_command :: execution_command
  xr_reservation :: reservation
  xr_prior_events :: "order_event list"
  xr_prior_fills :: "fill list"
  xr_bars :: "execution_bar list"
  xr_as_of :: utc

definition terminal_order_states :: "order_status set" where
  "terminal_order_states = {FILLED, REJECTED, CANCELLED, ORDER_EXPIRED}"

definition request_binding :: "execution_request \<Rightarrow> bool" where
  "request_binding q \<longleftrightarrow>
     (let intent = xc_intent (xr_command q); r = xr_reservation q in
      rv_reservation_id r = oi_reservation_id intent \<and>
      rv_order_intent_id r = oi_intent_id intent \<and>
      rv_account_id r = oi_account_id intent \<and>
      rv_instrument_id r = Some (oi_instrument_id intent) \<and>
      rv_event_hash r = xc_reservation_hash (xr_command q) \<and>
      rv_event_hash r = oi_reservation_hash intent \<and>
      rv_account_aggregate_sequence r = xc_account_aggregate_sequence (xr_command q))"

definition validate_request :: "execution_request \<Rightarrow> execution_request result" where
  "validate_request q = check_all
     [(length (xr_prior_events q) \<le> 100000 \<and> length (xr_prior_fills q) \<le> 100000 \<and>
       length (xr_bars q) \<le> 100000, ''field''),
      (request_binding q, ''execution reservation binding is stale''),
      (active_state (rv_state (xr_reservation q)), ''execution reservation is not active''),
      (\<not> xr_as_of q < xc_issued_at (xr_command q), ''execution as-of precedes command''),
      (xr_prior_events q \<noteq> [] \<longrightarrow>
         oe_to_status (last (xr_prior_events q)) \<notin> terminal_order_states,
       ''terminal order cannot execute again''),
      (list_all (\<lambda>e. oe_order_intent_id e = oi_intent_id (xc_intent (xr_command q)))
         (xr_prior_events q), ''prior order event belongs elsewhere''),
      (list_all (\<lambda>f. fl_command_id f = xc_command_id (xr_command q) \<and>
           fl_order_intent_id f = oi_intent_id (xc_intent (xr_command q)))
         (xr_prior_fills q), ''prior fill belongs elsewhere'')] q"

definition request_json :: "execution_request \<Rightarrow> json" where
  "request_json q = JObj
     [(''command'', command_json (xr_command q)),
      (''reservation'', reservation_json (xr_reservation q)),
      (''prior_events'', JList (map order_event_json (xr_prior_events q))),
      (''prior_fills'', JList (map fill_json (xr_prior_fills q))),
      (''bars'', JList (map bar_json (xr_bars q))), (''as_of'', jtime (xr_as_of q))]"

section \<open>Outcomes\<close>

record execution_outcome =
  xo_receipt :: execution_receipt
  xo_order_events :: "order_event list"
  xo_reservation_mutations :: "reservation_mutation list"
  xo_final_reservation :: reservation
  xo_reservation_consumed :: dec
  xo_reservation_released :: dec
  xo_input_hash :: hash
  xo_outcome_hash :: hash

definition outcome_fields :: "execution_outcome \<Rightarrow> (string \<times> json) list" where
  "outcome_fields x =
     [(''receipt'', receipt_json (xo_receipt x)),
      (''order_events'', JList (map order_event_json (xo_order_events x))),
      (''reservation_mutations'', JList (map mutation_json (xo_reservation_mutations x))),
      (''final_reservation'', reservation_json (xo_final_reservation x)),
      (''reservation_consumed'', jdec (xo_reservation_consumed x)),
      (''reservation_released'', jdec (xo_reservation_released x)),
      (''input_hash'', JStr (xo_input_hash x))]"

definition expected_outcome_hash :: "hashing \<Rightarrow> execution_outcome \<Rightarrow> hash" where
  "expected_outcome_hash H x = stable_payload_hash H (JObj (outcome_fields x))"

definition validate_outcome :: "hashing \<Rightarrow> execution_outcome \<Rightarrow> execution_outcome result" where
  "validate_outcome H x = check_all
     [(xo_order_events x \<noteq> [] \<and> length (xo_order_events x) \<le> 100000 \<and>
       length (xo_reservation_mutations x) \<le> 100000 \<and> decimal_ok (xo_reservation_consumed x) \<and>
       decimal_ok (xo_reservation_released x) \<and> sha256_ok (xo_input_hash x) \<and>
       sha256_ok (xo_outcome_hash x), ''field''),
      (order_event_eq (er_event (xo_receipt x)) (last (xo_order_events x)),
       ''execution receipt must reference latest order event''),
      (rv_order_intent_id (xo_final_reservation x) =
         oe_order_intent_id (er_event (xo_receipt x)), ''execution reservation belongs elsewhere''),
      (xo_reservation_mutations x \<noteq> [] \<longrightarrow>
         reservation_eq (rm_reservation (last (xo_reservation_mutations x)))
           (xo_final_reservation x),
       ''final reservation does not match mutation chain''),
      (\<not> (xo_reservation_consumed x < 0 \<or> xo_reservation_released x < 0),
       ''reservation accounting cannot be negative''),
      (xo_outcome_hash x = expected_outcome_hash H x,
       ''paper execution outcome hash does not match payload'')] x"

definition create_outcome ::
  "hashing \<Rightarrow> execution_receipt \<Rightarrow> order_event list \<Rightarrow> reservation_mutation list \<Rightarrow> reservation \<Rightarrow>
   dec \<Rightarrow> dec \<Rightarrow> hash \<Rightarrow> execution_outcome result" where
  "create_outcome H receipt events mutations final consumed released input_hash =
     (let provisional =
        \<lparr>xo_receipt = receipt, xo_order_events = events, xo_reservation_mutations = mutations,
         xo_final_reservation = final, xo_reservation_consumed = consumed,
         xo_reservation_released = released, xo_input_hash = input_hash,
         xo_outcome_hash = PLACEHOLDER_HASH\<rparr>
      in validate_outcome H
           (provisional\<lparr>xo_outcome_hash := expected_outcome_hash H provisional\<rparr>))"

definition outcome_fill :: "execution_outcome \<Rightarrow> fill option" where
  "outcome_fill x =
     (if er_fills (xo_receipt x) = [] then None else Some (last (er_fills (xo_receipt x))))"

end
