(* ===== verification/Paper_Broker.thy ===== *)
theory Paper_Broker
  imports Execution_Model
begin

text \<open>
  \<^verbatim>\<open>adapters/execution/paper.py\<close>: the deterministic next-bar reference broker. \<open>execute\<close> is the
  whole \<^verbatim>\<open>ReferencePaperBroker.execute\<close>: request checks, rejection of unsupported orders,
  acceptance, choice of the bar, fill price, fill quantity, and the order events, fills,
  reservation mutations, receipt and outcome that follow. The loop of \<^verbatim>\<open>_affordable_quantity\<close>
  is a partial function: an endless loop is the exception \<open>NoReturn\<close> of the model.
\<close>

section \<open>Rounding to a quantum\<close>

definition BPS :: dec where
  "BPS = Dec 10000 0"

definition quantize_with :: "rounding \<Rightarrow> dec \<Rightarrow> dec \<Rightarrow> dec result" where
  "quantize_with r value quantum =
     bind (dec_div value quantum) (\<lambda>q. Success (to_integral_value r q * quantum))"

definition adverse_quantize :: "dec \<Rightarrow> dec \<Rightarrow> order_side \<Rightarrow> dec result" where
  "adverse_quantize value quantum side =
     quantize_with (if side = BUY then ROUND_CEILING else ROUND_FLOOR) value quantum"

definition floor_quantum :: "dec \<Rightarrow> dec \<Rightarrow> dec result" where
  "floor_quantum value quantum = quantize_with ROUND_FLOOR value quantum"

definition ceil_quantum :: "dec \<Rightarrow> dec \<Rightarrow> dec result" where
  "ceil_quantum value quantum = quantize_with ROUND_CEILING value quantum"

definition paper_fee :: "dec \<Rightarrow> dec \<Rightarrow> execution_policy \<Rightarrow> dec result" where
  "paper_fee quantity price policy =
     bind (dec_div (quantity * price * xp_fee_bps policy) BPS) (\<lambda>v.
       let raw = v + quantity * xp_per_unit_fee policy
       in ceil_quantum (py_max raw (xp_minimum_fee policy)) (xp_fee_quantum policy))"

definition cash_consumption :: "dec \<Rightarrow> dec \<Rightarrow> execution_policy \<Rightarrow> dec result" where
  "cash_consumption quantity price policy =
     bind (paper_fee quantity price policy) (\<lambda>fee. Success (quantity * price + fee))"

section \<open>Checks on the request\<close>

text \<open>\<^verbatim>\<open>_event_chain_error\<close>: one pass over the prior events, then the sum of the prior fills.\<close>

fun event_chain_loop ::
  "order_event list \<Rightarrow> int \<Rightarrow> hash option \<Rightarrow> order_status \<Rightarrow> dec \<Rightarrow> dec option" where
  "event_chain_loop [] sequence previous_hash previous_status cumulative = Some cumulative"
| "event_chain_loop (e # es) sequence previous_hash previous_status cumulative =
     (if oe_sequence e = sequence \<and> oe_previous_event_hash e = previous_hash \<and>
         oe_from_status e = previous_status \<and> oe_cumulative_filled_quantity e \<ge> cumulative
      then event_chain_loop es (sequence + 1) (Some (oe_event_hash e)) (oe_to_status e)
             (oe_cumulative_filled_quantity e)
      else None)"

definition event_chain_error :: "execution_request \<Rightarrow> unit result" where
  "event_chain_error q =
     (case event_chain_loop (xr_prior_events q) 1 None CREATED 0 of
        None \<Rightarrow> Failure CONFLICT ''Prior order event chain is invalid''
      | Some cumulative \<Rightarrow>
          if \<not> deq (dec_sum (map fl_quantity (xr_prior_fills q)) 0) cumulative
          then Failure CONFLICT ''Prior fills do not match order events''
          else Success ())"

definition request_error :: "execution_request \<Rightarrow> execution_policy \<Rightarrow> unit result" where
  "request_error q policy =
     (let intent = xc_intent (xr_command q) in
      if oi_execution_model_version intent \<noteq> xp_execution_model_version policy
      then Failure CONFLICT ''Execution model version does not match''
      else if \<not> sorted_unique (map xb_opens_at (xr_bars q))
      then Failure INVALID_INPUT ''Execution bars must be unique and sorted''
      else if list_ex (\<lambda>b. xb_available_at b > xr_as_of q) (xr_bars q)
      then Failure INVALID_INPUT ''Execution bar is unavailable at as-of''
      else if list_ex (\<lambda>b. xb_instrument_id b \<noteq> oi_instrument_id intent) (xr_bars q)
      then Failure CONFLICT ''Execution bar instrument does not match''
      else if list_ex (\<lambda>b. \<not> deq (xb_quantity_quantum b) (oi_quantity_quantum intent)) (xr_bars q)
      then Failure CONFLICT ''Execution bar quantity quantum differs''
      else event_chain_error q)"

section \<open>Bar, price and quantity\<close>

definition last_event_time :: "execution_request \<Rightarrow> utc" where
  "last_event_time q =
     (if xr_prior_events q = [] then xc_issued_at (xr_command q)
      else oe_occurred_at (last (xr_prior_events q)))"

definition next_bar :: "execution_request \<Rightarrow> execution_bar option" where
  "next_bar q = List.find
     (\<lambda>b. xb_tradable b \<and> xb_opens_at b > last_event_time q \<and>
          xb_opens_at b < oi_valid_until (xc_intent (xr_command q))) (xr_bars q)"

definition adjusted_price ::
  "order_intent \<Rightarrow> execution_bar \<Rightarrow> execution_policy \<Rightarrow> dec result" where
  "adjusted_price intent bar policy =
     bind (if deq (xb_volume bar) 0 then Success 0
           else dec_div (oi_quantity intent) (xb_volume bar)) (\<lambda>share.
     let participation = py_min (xp_max_volume_participation policy) share in
     bind (dec_div (xp_market_impact_bps_at_max_participation policy * participation)
             (xp_max_volume_participation policy)) (\<lambda>impact.
     let adverse_bps = xp_half_spread_bps policy + xp_base_slippage_bps policy + impact;
         direction = (if oi_side intent = BUY then Dec 1 0 else Dec (-1) 0) in
     bind (dec_div (direction * adverse_bps) BPS) (\<lambda>shift.
     adverse_quantize (xb_open bar * (Dec 1 0 + shift)) (xb_price_quantum bar)
       (oi_side intent))))"

definition limit_fill_price ::
  "order_intent \<Rightarrow> execution_bar \<Rightarrow> dec \<Rightarrow> dec option" where
  "limit_fill_price intent bar adjusted =
     (if oi_order_type intent = MARKET then Some adjusted
      else case oi_limit_price intent of
        None \<Rightarrow> None
      | Some limit \<Rightarrow>
          if oi_order_type intent \<noteq> LIMIT then None
          else if \<not> is_quantized limit (xb_price_quantum bar) then None
          else if oi_side intent = BUY then
            if xb_open bar \<le> limit then Some (py_min adjusted limit)
            else if xb_low bar \<le> limit then Some limit else None
          else if xb_open bar \<ge> limit then Some (py_max adjusted limit)
          else if xb_high bar \<ge> limit then Some limit else None)"

definition fill_price ::
  "execution_request \<Rightarrow> execution_bar \<Rightarrow> execution_policy \<Rightarrow> dec option result" where
  "fill_price q bar policy =
     bind (adjusted_price (xc_intent (xr_command q)) bar policy) (\<lambda>adjusted.
       Success (limit_fill_price (xc_intent (xr_command q)) bar adjusted))"

partial_function (option) affordable_loop ::
  "dec \<Rightarrow> dec \<Rightarrow> dec \<Rightarrow> execution_policy \<Rightarrow> dec \<Rightarrow> dec result option" where
  "affordable_loop price quantum available policy candidate =
     (if candidate > 0
      then (case cash_consumption candidate price policy of
         Success cost \<Rightarrow>
           if cost > available
           then affordable_loop price quantum available policy (candidate - quantum)
           else Some (Success candidate)
       | Failure c m \<Rightarrow> Some (Failure c m)
       | Raised e \<Rightarrow> Some (Raised e))
      else Some (Success candidate))"

declare affordable_loop.simps [code]

definition returning :: "'a result option \<Rightarrow> 'a result" where
  "returning r = (case r of None \<Rightarrow> Raised NoReturn | Some x \<Rightarrow> x)"

definition affordable_quantity ::
  "dec \<Rightarrow> dec \<Rightarrow> dec \<Rightarrow> dec \<Rightarrow> execution_policy \<Rightarrow> dec result" where
  "affordable_quantity quantity price quantum available policy =
     bind (dec_div (xp_fee_bps policy) BPS) (\<lambda>rate.
     let approximate_unit = price * (Dec 1 0 + rate) + xp_per_unit_fee policy;
         conservative = py_max 0 (available - xp_minimum_fee policy) in
     bind (dec_div conservative approximate_unit) (\<lambda>units.
     bind (floor_quantum units quantum) (\<lambda>affordable.
     bind (returning (affordable_loop price quantum available policy
             (py_min quantity affordable))) (\<lambda>candidate.
     Success (py_max 0 candidate)))))"

definition already_filled :: "order_event list \<Rightarrow> dec" where
  "already_filled events =
     (if events = [] then 0 else oe_cumulative_filled_quantity (last events))"

definition fill_quantity ::
  "execution_request \<Rightarrow> execution_bar \<Rightarrow> dec \<Rightarrow> execution_policy \<Rightarrow> dec result" where
  "fill_quantity q bar price policy =
     (let intent = xc_intent (xr_command q);
          remaining = oi_quantity intent - already_filled (xr_prior_events q) in
      bind (floor_quantum (xb_volume bar * xp_max_volume_participation policy)
              (oi_quantity_quantum intent)) (\<lambda>volume_cap.
      let quantity = py_min remaining volume_cap in
      if rv_kind (xr_reservation q) = POSITION
      then Success (py_min quantity (rv_remaining_amount (xr_reservation q)))
      else affordable_quantity quantity price (oi_quantity_quantum intent)
             (rv_remaining_amount (xr_reservation q)) policy))"

section \<open>Reservation mutations of an execution\<close>

text \<open>A failure of a domain operation that the broker turns into an exception.\<close>

fun or_raise :: "'a result \<Rightarrow> string \<Rightarrow> 'a result" where
  "or_raise (Success x) m = Success x"
| "or_raise (Failure c k) m = Raised (ValueError m)"
| "or_raise (Raised e) m = Raised e"

definition release_remaining ::
  "hashing \<Rightarrow> reservation \<Rightarrow> utc \<Rightarrow> string \<Rightarrow>
   (reservation_mutation list \<times> reservation \<times> dec) result" where
  "release_remaining H r when reason =
     bind (or_raise
       (if when \<ge> rv_expires_at r then expire_reservation H r (Utc when)
        else release_reservation H r (Utc when) reason)
       ''validated order could not release reservation'') (\<lambda>m.
     Success ([m], rm_reservation m, rv_remaining_amount r))"

definition fill_amount :: "reservation \<Rightarrow> dec \<Rightarrow> dec \<Rightarrow> dec \<Rightarrow> dec result" where
  "fill_amount r quantity price fee =
     (if rv_kind r = CASH then ceil_quantum (quantity * price + fee) (rv_quantum r)
      else Success quantity)"

definition reservation_after_fill ::
  "hashing \<Rightarrow> reservation \<Rightarrow> dec \<Rightarrow> dec \<Rightarrow> dec \<Rightarrow> utc \<Rightarrow> bool \<Rightarrow>
   (reservation_mutation list \<times> reservation \<times> dec \<times> dec) result" where
  "reservation_after_fill H r quantity price fee when terminal =
     bind (fill_amount r quantity price fee) (\<lambda>amount.
     bind (or_raise (consume_reservation H r amount (Utc when))
             ''validated fill could not consume reservation'') (\<lambda>consumed.
     let final = rm_reservation consumed in
     if terminal \<and> rv_remaining_amount final > 0
     then bind (release_remaining H final when ''filled_order_surplus_released'')
            (\<lambda>(extra, final', released). Success (consumed # extra, final', amount, released))
     else Success ([consumed], final, amount, 0)))"

section \<open>Fills, receipts and outcomes\<close>

definition paper_fill_id :: "hashing \<Rightarrow> execution_command \<Rightarrow> execution_bar \<Rightarrow> int \<Rightarrow> uuid" where
  "paper_fill_id H command bar sequence = uuid5 H
     (''paper-fill:'' @ xc_command_id command @ '':'' @ show_int sequence @ '':'' @
      xb_source_hash bar @ '':'' @ isoformat ''+00:00'' (xb_opens_at bar))"

definition paper_fill ::
  "hashing \<Rightarrow> execution_request \<Rightarrow> execution_policy \<Rightarrow> execution_bar \<Rightarrow> dec \<Rightarrow> dec \<Rightarrow> dec \<Rightarrow> int \<Rightarrow>
   fill result" where
  "paper_fill H q policy bar quantity price fee sequence =
     (let command = xr_command q; intent = xc_intent command in validate_fill
       \<lparr>fl_fill_id = paper_fill_id H command bar sequence,
        fl_command_id = xc_command_id command, fl_order_intent_id = oi_intent_id intent,
        fl_account_id = oi_account_id intent, fl_instrument_id = oi_instrument_id intent,
        fl_side = oi_side intent, fl_quantity = quantity,
        fl_quantity_quantum = oi_quantity_quantum intent, fl_price = price,
        fl_price_quantum = xb_price_quantum bar, fl_fee_currency = xb_currency bar,
        fl_fees = fee, fl_fee_quantum = xp_fee_quantum policy,
        fl_slippage = price - xb_open bar, fl_occurred_at = xb_opens_at bar,
        fl_simulator_ref = Some (xp_execution_model_version policy @ '':'' @
          xb_source_ref bar @ '':'' @ xb_source_hash bar),
        fl_external_ref = None\<rparr>)"

definition paper_outcome ::
  "hashing \<Rightarrow> execution_request \<Rightarrow> execution_policy \<Rightarrow> order_event list \<Rightarrow> fill list \<Rightarrow>
   reservation_mutation list \<Rightarrow> reservation \<Rightarrow> dec \<Rightarrow> dec \<Rightarrow> execution_outcome result" where
  "paper_outcome H q policy events fills mutations final consumed released =
     (let latest = last events; command = xr_command q in
      bind (create_receipt H
        (uuid5 H (''paper-receipt:'' @ xc_command_id command @ '':'' @ oe_event_hash latest))
        (xc_command_id command) (xc_intent command) latest fills
        (max (xr_as_of q) (oe_occurred_at latest))) (\<lambda>receipt.
      create_outcome H receipt events mutations final consumed released
        (stable_payload_hash H (JObj
           [(''request'', request_json q),
            (''policy_hash'', JStr (execution_policy_hash H policy))]))))"

definition terminal_without_fill ::
  "hashing \<Rightarrow> execution_request \<Rightarrow> execution_policy \<Rightarrow> order_status \<Rightarrow> string \<Rightarrow> utc \<Rightarrow>
   execution_outcome result" where
  "terminal_without_fill H q policy status reason occurred_at =
     bind (append_order_event H (xc_intent (xr_command q)) None status 0 (Utc occurred_at)
             (Some reason)) (\<lambda>event.
     bind (release_remaining H (xr_reservation q) (oe_occurred_at event)
             (reason @ ''_released'')) (\<lambda>(mutations, final, released).
     paper_outcome H q policy [event] [] mutations final 0 released))"

definition pending_or_expired ::
  "hashing \<Rightarrow> execution_request \<Rightarrow> execution_policy \<Rightarrow> order_event list \<Rightarrow>
   execution_outcome result" where
  "pending_or_expired H q policy events =
     (let intent = xc_intent (xr_command q) in
      if xr_as_of q < oi_valid_until intent
      then paper_outcome H q policy events (xr_prior_fills q) [] (xr_reservation q) 0 0
      else bind (append_order_event H intent (Some (last events)) ORDER_EXPIRED
             (oe_cumulative_filled_quantity (last events)) (Utc (oi_valid_until intent))
             (Some ''order_validity_expired'')) (\<lambda>expired.
        bind (release_remaining H (xr_reservation q) (oi_valid_until intent)
               ''expired_order_released'') (\<lambda>(mutations, final, released).
        paper_outcome H q policy (events @ [expired]) (xr_prior_fills q) mutations final 0
          released)))"

text \<open>The cancelled remainder of an immediate-or-cancel order.\<close>

definition ioc_remainder ::
  "hashing \<Rightarrow> execution_request \<Rightarrow> execution_policy \<Rightarrow> order_event list \<Rightarrow> fill list \<Rightarrow> dec \<Rightarrow>
   utc \<Rightarrow> reservation_mutation list \<Rightarrow> reservation \<Rightarrow> dec \<Rightarrow> dec \<Rightarrow> execution_outcome result" where
  "ioc_remainder H q policy events fills cumulative when mutations final consumed released =
     bind (append_order_event H (xc_intent (xr_command q)) (Some (last events)) CANCELLED
             cumulative (Utc when) (Some ''ioc_remainder_cancelled'')) (\<lambda>cancelled.
     bind (release_remaining H final when ''ioc_remainder_released'')
       (\<lambda>(terminal_mutations, final', terminal_release).
     paper_outcome H q policy (events @ [cancelled]) fills (mutations @ terminal_mutations)
       final' consumed (released + terminal_release)))"

definition filled_outcome ::
  "hashing \<Rightarrow> execution_request \<Rightarrow> execution_policy \<Rightarrow> order_event list \<Rightarrow> execution_bar \<Rightarrow> dec \<Rightarrow>
   dec \<Rightarrow> execution_outcome result" where
  "filled_outcome H q policy events bar price quantity =
     (let intent = xc_intent (xr_command q);
          cumulative = oe_cumulative_filled_quantity (last events) + quantity;
          status = (if deq cumulative (oi_quantity intent) then FILLED else PARTIALLY_FILLED) in
      bind (append_order_event H intent (Some (last events)) status cumulative
              (Utc (xb_opens_at bar)) (Some ''paper_next_bar_fill'')) (\<lambda>event.
      bind (paper_fee quantity price policy) (\<lambda>fee.
      bind (paper_fill H q policy bar quantity price fee (oe_sequence event)) (\<lambda>new_fill.
      let fills = sort_key fl_fill_id (xr_prior_fills q @ [new_fill]) in
      bind (reservation_after_fill H (xr_reservation q) quantity price fee (xb_opens_at bar)
              (status = FILLED)) (\<lambda>(mutations, final, consumed, released).
      if oi_time_in_force intent = IOC \<and> status = PARTIALLY_FILLED
      then ioc_remainder H q policy (events @ [event]) fills cumulative (xb_opens_at bar)
             mutations final consumed released
      else paper_outcome H q policy (events @ [event]) fills mutations final consumed
             released)))))"

section \<open>The broker\<close>

definition accepted_events :: "hashing \<Rightarrow> execution_request \<Rightarrow> order_event list result" where
  "accepted_events H q =
     (if xr_prior_events q \<noteq> [] then Success (xr_prior_events q)
      else bind (append_order_event H (xc_intent (xr_command q)) None ACCEPTED 0
             (Utc (xc_issued_at (xr_command q))) (Some ''paper_command_accepted''))
             (\<lambda>accepted. Success [accepted]))"

definition execute ::
  "hashing \<Rightarrow> execution_policy \<Rightarrow> execution_request \<Rightarrow> execution_outcome result" where
  "execute H policy q =
     bind (request_error q policy) (\<lambda>_.
     let intent = xc_intent (xr_command q); issued = xc_issued_at (xr_command q) in
     if oi_order_type intent \<notin> set (xp_supported_order_types policy)
     then terminal_without_fill H q policy REJECTED ''unsupported_order_type'' issued
     else if oi_time_in_force intent \<notin> set (xp_supported_time_in_force policy)
     then terminal_without_fill H q policy REJECTED ''unsupported_time_in_force'' issued
     else bind (accepted_events H q) (\<lambda>events.
     case next_bar q of
       None \<Rightarrow> pending_or_expired H q policy events
     | Some bar \<Rightarrow>
         bind (fill_price q bar policy) (\<lambda>price_option.
         case price_option of
           None \<Rightarrow> pending_or_expired H q policy events
         | Some price \<Rightarrow>
             bind (fill_quantity q bar price policy) (\<lambda>quantity.
             if quantity \<le> 0
             then terminal_without_fill H q policy REJECTED ''reservation_insufficient'' issued
             else filled_outcome H q policy events bar price quantity))))"

end
