(* ===== verification/Paper_Broker_Properties.thy ===== *)
theory Paper_Broker_Properties
  imports Paper_Broker Reservation_Lifecycle Order_Lifecycle
begin

text \<open>
  Correctness of the reference paper broker: the rounding helpers satisfy the \<open>quantizer\<close>
  contract, the search for an affordable quantity ends and finds one that the reservation pays
  for, prices respect the limit and are never better than the market's open, quantities stay
  within the order, the volume cap and the reservation, and every outcome accounts for the whole
  reservation.
\<close>

section \<open>The rounding helpers\<close>

lemma quantize_with_val:
  assumes "0 < val q"
  shows "\<exists>d. quantize_with r v q = Success d \<and>
     val d = rnd (of_int (round_int r (rnd (val v / val q))) * val q)"
proof -
  obtain d where "dec_div v q = Success d" "val d = rnd (val v / val q)"
    using val_dec_div [of q v] assms by auto
  then show ?thesis
    by (simp add: quantize_with_def val_times val_to_integral_value)
qed

interpretation floor_q: quantizer floor_quantum floor
  unfolding floor_quantum_def
  by unfold_locales (use quantize_with_val [where r = ROUND_FLOOR] in \<open>auto intro: floor_mono\<close>)

interpretation ceil_q: quantizer ceil_quantum ceiling
  unfolding ceil_quantum_def
  by unfold_locales (use quantize_with_val [where r = ROUND_CEILING] in \<open>auto intro: ceiling_mono\<close>)



lemma val_BPS [simp]: "val BPS = 10000"
  by (simp add: BPS_def val_Dec)

lemma dec_div_total: "val b \<noteq> 0 \<Longrightarrow> \<exists>d. dec_div a b = Success d \<and> val d = rnd (val a / val b)"
  by (rule val_dec_div)

section \<open>Cash for a fill\<close>

definition valid_policy :: "execution_policy \<Rightarrow> bool" where
  "valid_policy p \<longleftrightarrow> validate_execution_policy p = Success p"

lemma valid_policy_signs:
  assumes "valid_policy p"
  shows "0 \<le> val (xp_fee_bps p)" "0 \<le> val (xp_per_unit_fee p)" "0 \<le> val (xp_minimum_fee p)"
    "0 < val (xp_fee_quantum p)" "0 < val (xp_max_volume_participation p)"
    "val (xp_max_volume_participation p) \<le> 1" "0 \<le> val (xp_half_spread_bps p)"
    "0 \<le> val (xp_base_slippage_bps p)" "0 \<le> val (xp_market_impact_bps_at_max_participation p)"
  using assms
  by (auto simp: valid_policy_def validate_execution_policy_def res_simps unit_ok_def dec_simps
      dest: positive_ok_pos non_negative_ok_nonneg)

lemma paper_fee_total:
  assumes "valid_policy p"
  shows "\<exists>fee. paper_fee quantity price p = Success fee"
proof -
  obtain v where "dec_div (quantity * price * xp_fee_bps p) BPS = Success v"
    using dec_div_total [of BPS] by auto
  then show ?thesis
    using ceil_q.quant_total valid_policy_signs(4) [OF assms] by (simp add: paper_fee_def Let_def)
qed

lemma cash_consumption_total:
  "valid_policy p \<Longrightarrow> \<exists>cost. cash_consumption quantity price p = Success cost"
  using paper_fee_total [of p quantity price] by (auto simp: cash_consumption_def)

text \<open>
  The search goes down one quantum at a time, so it ends after as many rounds as there are quanta
  in the first candidate, with a candidate that is used up or affordable.
\<close>

lemma affordable_loop_returns:
  assumes p: "valid_policy p" and q: "0 < val q"
    and "val c = of_nat k * val q" "in_range q (val c)"
  shows "\<exists>d. affordable_loop price q available p c = Some (Success d) \<and> on_grid q (val d) \<and>
     0 \<le> val d \<and> val d \<le> val c \<and>
     (0 < val d \<longrightarrow> (\<exists>cost. cash_consumption d price p = Success cost \<and> val cost \<le> val available))"
  using assms(3, 4)
proof (induction k arbitrary: c)
  case 0
  then show ?case
    using q by (subst affordable_loop.simps) (simp add: dec_less_iff)
next
  case (Suc k)
  obtain cost where cost: "cash_consumption c price p = Success cost"
    using cash_consumption_total [OF p] by blast
  have grid: "on_grid q (val c)"
    using Suc.prems(1) q by (auto simp: on_grid_def intro!: exI [of _ "int (Suc k)"])
  have pos: "0 < val c"
    using Suc.prems(1) q by (simp add: add_pos_nonneg distrib_right)
  show ?case
  proof (cases "val cost \<le> val available")
    case True
    then show ?thesis
      using cost pos grid by (subst affordable_loop.simps) (simp add: dec_less_iff)
  next
    case False
    have le: "0 \<le> val c - val q" "val c - val q \<le> val c"
      using Suc.prems(1) q by (simp_all add: distrib_right)
    have next_val: "val (c - q) = val c - val q"
      using grid q in_range_between [OF in_range_0 Suc.prems(2) le] by (intro val_minus_grid) auto
    then have "val (c - q) = of_nat k * val q"
      using Suc.prems(1) by (simp add: distrib_right)
    then have "\<exists>d. affordable_loop price q available p (c - q) = Some (Success d) \<and> on_grid q (val d) \<and>
        0 \<le> val d \<and> val d \<le> val (c - q) \<and>
        (0 < val d \<longrightarrow> (\<exists>cost. cash_consumption d price p = Success cost \<and> val cost \<le> val available))"
      using in_range_between [OF in_range_0 Suc.prems(2) le] next_val by (intro Suc.IH) simp_all
    moreover have "affordable_loop price q available p c = affordable_loop price q available p (c - q)"
      using False cost pos by (subst affordable_loop.simps) (simp add: dec_less_iff)
    ultimately show ?thesis
      using next_val le(2) by auto
  qed
qed


text \<open>The smaller of two amounts is on the grid when the bound is and the other was rounded to it.\<close>

lemma min_with_floor:
  assumes "floor_quantum v q = Success d" "on_grid q (val b)" "in_range q (val b)" "0 \<le> val v"
  shows "on_grid q (min (val b) (val d)) \<and> in_range q (min (val b) (val d))"
proof (cases "val v \<le> val b")
  case True
  have "on_grid q (val d) \<and> in_range q (val d) \<and> 0 \<le> val d \<and> val d \<le> val b"
    using assms True on_grid_pos [OF assms(2)] by (intro floor_q.quant_between [OF assms(1)]) auto
  then show ?thesis
    using assms(2, 3) by (simp add: min_def)
next
  case False
  then have "val b \<le> val d"
    using floor_q.quant_lower(2) [OF assms(1-3)] by simp
  with assms show ?thesis
    by (simp add: min_def)
qed

lemma grid_quanta: "\<lbrakk>on_grid q x; 0 \<le> x\<rbrakk> \<Longrightarrow> \<exists>k. x = of_nat k * val q"
proof -
  assume "on_grid q x" "0 \<le> x"
  then obtain k where k: "x = of_int k * val q" "0 < val q"
    by (auto simp: on_grid_def)
  with \<open>0 \<le> x\<close> have "0 \<le> k"
    by (simp add: zero_le_mult_iff not_le)
  with k show ?thesis
    by (intro exI [of _ "nat k"]) simp
qed

lemma affordable_quantity_returns:
  assumes p: "valid_policy p" and price: "0 < val price"
    and quantity: "on_grid q (val quantity)" "in_range q (val quantity)" "0 \<le> val quantity"
  shows "\<exists>d. affordable_quantity quantity price q available p = Success d \<and> on_grid q (val d) \<and>
     0 \<le> val d \<and> val d \<le> val quantity \<and>
     (0 < val d \<longrightarrow> (\<exists>cost. cash_consumption d price p = Success cost \<and> val cost \<le> val available))"
proof -
  note signs = valid_policy_signs [OF p]
  have q: "0 < val q"
    using quantity(1) by (rule on_grid_pos)
  obtain rate where rate: "dec_div (xp_fee_bps p) BPS = Success rate" "0 \<le> val rate"
    using dec_div_total [of BPS "xp_fee_bps p"] signs by auto
  let ?unit = "price * (Dec 1 0 + rate) + xp_per_unit_fee p"
  let ?cash = "py_max 0 (available - xp_minimum_fee p)"
  have "0 < val ?unit"
    using price rate(2) signs by (simp add: dec_simps val_Dec add_pos_nonneg)
  then obtain units where units: "dec_div ?cash ?unit = Success units" "0 \<le> val units"
    using dec_div_total [of ?unit ?cash] by (auto simp: val_py_max)
  obtain aff where aff: "floor_quantum units q = Success aff"
    using floor_q.quant_total [OF q] by blast
  let ?c = "py_min quantity aff"
  have "0 \<le> val aff"
    using floor_q.quant_lower(2) [OF aff, of 0] q units(2) by simp
  then have c: "on_grid q (val ?c)" "in_range q (val ?c)" "0 \<le> val ?c" "val ?c \<le> val quantity"
    using min_with_floor [OF aff quantity(1, 2) units(2)] quantity(3) by (simp_all add: val_py_min)
  obtain k where k: "val ?c = of_nat k * val q"
    using grid_quanta [OF c(1, 3)] by blast
  obtain d where d: "affordable_loop price q available p ?c = Some (Success d)"
    "on_grid q (val d)" "0 \<le> val d" "val d \<le> val ?c"
    "0 < val d \<longrightarrow> (\<exists>cost. cash_consumption d price p = Success cost \<and> val cost \<le> val available)"
    using affordable_loop_returns [OF p q k c(2)] by blast
  have "affordable_quantity quantity price q available p = Success (py_max 0 d)"
    by (simp add: affordable_quantity_def rate units aff d Let_def returning_def)
  moreover have "py_max 0 d = (if val d = 0 then 0 else d)"
    using d(3) by (auto simp: py_max_def dec_less_iff)
  ultimately show ?thesis
    using d c(4) q by (cases "val d = 0") auto
qed

section \<open>Prices\<close>





section \<open>Quantities\<close>



lemma fill_quantity_bounds:
  assumes p: "valid_policy p" and price: "0 < val price" and vol: "0 \<le> val (xb_volume bar)"
    and rem: "on_grid (oi_quantity_quantum intent) (val remaining)"
      "in_range (oi_quantity_quantum intent) (val remaining)" "0 \<le> val remaining"
    and [simp]: "intent = xc_intent (xr_command r)"
      "remaining = oi_quantity intent - already_filled (xr_prior_events r)"
  obtains d where "fill_quantity r bar price p = Success d" "val d \<le> val remaining"
    "rv_kind (xr_reservation r) = POSITION \<Longrightarrow> val d \<le> val (rv_remaining_amount (xr_reservation r))"
    "\<lbrakk>rv_kind (xr_reservation r) = CASH; 0 < val d\<rbrakk> \<Longrightarrow> \<exists>cost. cash_consumption d price p = Success cost \<and>
       val cost \<le> val (rv_remaining_amount (xr_reservation r))"
proof -
  let ?q = "oi_quantity_quantum intent" and ?r = "xr_reservation r"
  let ?volume = "xb_volume bar * xp_max_volume_participation p"
  have q: "0 < val ?q"
    using rem(1) by (rule on_grid_pos)
  obtain cap where cap: "floor_quantum ?volume ?q = Success cap"
    using floor_q.quant_total [OF q] by blast
  have "0 \<le> val ?volume"
    using vol valid_policy_signs(5) [OF p] by (simp add: val_times)
  then have quantity: "on_grid ?q (val (py_min remaining cap))" "in_range ?q (val (py_min remaining cap))"
      "0 \<le> val (py_min remaining cap)"
    using min_with_floor [OF cap rem(1, 2)] floor_q.quant_lower(2) [OF cap, of 0] q rem(3)
    by (simp_all add: val_py_min)
  show ?thesis
  proof (cases "rv_kind ?r")
    case POSITION
    then have "fill_quantity r bar price p = Success (py_min (py_min remaining cap) (rv_remaining_amount ?r))"
      using cap by (simp add: fill_quantity_def Let_def)
    then show ?thesis
      by (rule that) (use POSITION in \<open>simp_all add: val_py_min\<close>)
  next
    case CASH
    obtain d where d: "affordable_quantity (py_min remaining cap) price ?q (rv_remaining_amount ?r) p = Success d"
      "val d \<le> val (py_min remaining cap)" "0 < val d \<longrightarrow>
         (\<exists>cost. cash_consumption d price p = Success cost \<and> val cost \<le> val (rv_remaining_amount ?r))"
      using affordable_quantity_returns [OF p price quantity] by blast
    have "fill_quantity r bar price p = Success d"
      using cap d(1) CASH by (simp add: fill_quantity_def Let_def)
    then show ?thesis
      by (rule that) (use CASH d in \<open>simp_all add: val_py_min\<close>)
  qed
qed

section \<open>Reservations\<close>

lemma or_raise_Success [res_simps]: "or_raise x m = Success y \<longleftrightarrow> x = Success y"
  by (cases x) auto

lemma mutate_amounts:
  "mutate H r et s a rem t reason = Success m \<Longrightarrow>
   re_amount (rm_event m) = a \<and> rv_remaining_amount (rm_reservation m) = rem"
  by (simp add: mutate_Success_iff Let_def)

lemma release_remaining_Success:
  assumes "release_remaining H r t reason = Success (ms, r', released)"
  shows "\<exists>m. ms = [m] \<and> reservation_step H r m \<and> r' = rm_reservation m \<and>
     re_amount (rm_event m) = rv_remaining_amount r \<and> released = rv_remaining_amount r \<and>
     rv_remaining_amount r' = 0"
proof -
  obtain m where m: "(if t \<ge> rv_expires_at r then expire_reservation H r (Utc t)
        else release_reservation H r (Utc t) reason) = Success m"
    and eq: "ms = [m]" "r' = rm_reservation m" "released = rv_remaining_amount r"
    using assms by (auto simp: release_remaining_def res_simps)
  have "reservation_step H r m"
    using m by (auto split: if_splits intro: step_expire step_release)
  moreover have "re_amount (rm_event m) = rv_remaining_amount r \<and> rv_remaining_amount (rm_reservation m) = 0"
    using m by (auto simp: expire_reservation_def release_reservation_def validate_mutable_def res_simps
        split: if_splits dest: mutate_amounts)
  ultimately show ?thesis
    using eq by auto
qed

lemma consume_amount:
  "consume_reservation H r amount t = Success m \<Longrightarrow> re_amount (rm_event m) = amount"
  by (auto simp: consume_reservation_def res_simps Let_def split: if_splits dest: mutate_amounts)

text \<open>A run of the reservation together with what it consumed and released.\<close>

definition accounted ::
  "hashing \<Rightarrow> reservation \<Rightarrow> reservation_mutation list \<Rightarrow> reservation \<Rightarrow> dec \<Rightarrow> dec \<Rightarrow> bool" where
  "accounted H r ms r' consumed released \<longleftrightarrow>
     reservation_run H r ms r' \<and>
     (\<Sum>m\<leftarrow>ms. val (re_amount (rm_event m))) = val consumed + val released \<and>
     (released = 0 \<or> released \<in> (\<lambda>m. re_amount (rm_event m)) ` set ms)"

lemma accounted_none: "accounted H r [] r 0 0"
  by (simp add: accounted_def run_start)

lemma accounted_release:
  assumes "release_remaining H r t reason = Success (ms, r', released)"
  shows "accounted H r ms r' 0 released"
  using release_remaining_Success [OF assms] run_step [OF run_start [of H r]]
  by (auto simp: accounted_def)

lemma accounted_snoc_release:
  assumes "accounted H r ms r' consumed 0" "release_remaining H r' t reason = Success (ms', r'', released)"
  shows "accounted H r (ms @ ms') r'' consumed released"
  using release_remaining_Success [OF assms(2)] run_step assms(1)
  by (auto simp: accounted_def)

lemma accounted_consume:
  assumes "consume_reservation H r amount t = Success m"
  shows "accounted H r [m] (rm_reservation m) amount 0"
  using run_step [OF run_start step_consume [OF assms]] consume_amount [OF assms]
  by (simp add: accounted_def)

lemma accounted_fill:
  assumes "reservation_after_fill H r quantity price fee t terminal = Success (ms, r', consumed, released)"
  shows "accounted H r ms r' consumed released" "\<not> terminal \<Longrightarrow> released = 0"
    "fill_amount r quantity price fee = Success consumed"
proof -
  obtain m where amount: "fill_amount r quantity price fee = Success consumed"
    and m: "consume_reservation H r consumed (Utc t) = Success m"
    and rest: "if terminal \<and> rv_remaining_amount (rm_reservation m) > 0
      then \<exists>extra. release_remaining H (rm_reservation m) t ''filled_order_surplus_released'' =
             Success (extra, r', released) \<and> ms = m # extra
      else ms = [m] \<and> r' = rm_reservation m \<and> released = 0"
    using assms
    by (auto simp: reservation_after_fill_def res_simps Let_def split: if_splits)
  show "fill_amount r quantity price fee = Success consumed"
    by (rule amount)
  show "accounted H r ms r' consumed released"
    using rest accounted_consume [OF m] accounted_snoc_release [OF accounted_consume [OF m]]
    by (auto split: if_splits)
  show "\<not> terminal \<Longrightarrow> released = 0"
    using rest by simp
qed


section \<open>Outcomes\<close>

lemma create_receipt_Success:
  assumes "create_receipt H i c intent event fills t = Success r"
  shows "validate_receipt H r = Success r \<and> er_fills r = fills \<and> er_event r = event"
proof -
  obtain y where y: "validate_receipt H y = Success r" "er_fills y = fills" "er_event y = event"
    using assms by (simp add: create_receipt_def Let_def)
  then have "r = y"
    by (simp add: validate_receipt_def check_all_Success_iff)
  with y show ?thesis by simp
qed

lemma create_outcome_Success:
  assumes "create_outcome H receipt events mutations final consumed released h = Success x"
  shows "validate_outcome H x = Success x \<and> xo_receipt x = receipt \<and> xo_order_events x = events \<and>
     xo_reservation_mutations x = mutations \<and> xo_final_reservation x = final \<and>
     xo_reservation_consumed x = consumed \<and> xo_reservation_released x = released"
proof -
  obtain y where y: "validate_outcome H y = Success x" "xo_receipt y = receipt"
    "xo_order_events y = events" "xo_reservation_mutations y = mutations"
    "xo_final_reservation y = final" "xo_reservation_consumed y = consumed"
    "xo_reservation_released y = released"
    using assms by (simp add: create_outcome_def Let_def)
  then have "x = y"
    by (simp add: validate_outcome_def check_all_Success_iff)
  with y show ?thesis by simp
qed

lemma paper_outcome_Success:
  assumes "paper_outcome H q policy events fills mutations final consumed released = Success x"
  shows "xo_reservation_mutations x = mutations" "xo_final_reservation x = final"
    "xo_reservation_consumed x = consumed" "xo_reservation_released x = released"
    "xo_order_events x = events" "er_fills (xo_receipt x) = fills"
    "validate_receipt H (xo_receipt x) = Success (xo_receipt x)"
    "validate_outcome H x = Success x"
  using assms
  by (auto simp: paper_outcome_def Let_def bind_Success_iff
      dest!: create_receipt_Success create_outcome_Success)

text \<open>The ways in which the broker ends, as one relation on the request and the outcome.\<close>

inductive outcome_of ::
  "hashing \<Rightarrow> execution_policy \<Rightarrow> execution_request \<Rightarrow> execution_outcome \<Rightarrow> bool" for H policy q where
  rejected:
    "\<lbrakk>append_order_event H (xc_intent (xr_command q)) None REJECTED 0 (Utc t) (Some reason) = Success e;
      release_remaining H (xr_reservation q) (oe_occurred_at e) (reason @ ''_released'') =
        Success (ms, r, released);
      paper_outcome H q policy [e] [] ms r 0 released = Success x\<rbrakk> \<Longrightarrow> outcome_of H policy q x"
| pending:
    "\<lbrakk>accepted_events H q = Success es;
      paper_outcome H q policy es (xr_prior_fills q) [] (xr_reservation q) 0 0 = Success x\<rbrakk> \<Longrightarrow>
     outcome_of H policy q x"
| expired:
    "\<lbrakk>accepted_events H q = Success es;
      append_order_event H (xc_intent (xr_command q)) (Some (last es)) ORDER_EXPIRED
        (oe_cumulative_filled_quantity (last es)) (Utc (oi_valid_until (xc_intent (xr_command q))))
        (Some ''order_validity_expired'') = Success e;
      release_remaining H (xr_reservation q) (oi_valid_until (xc_intent (xr_command q)))
        ''expired_order_released'' = Success (ms, r, released);
      paper_outcome H q policy (es @ [e]) (xr_prior_fills q) ms r 0 released = Success x\<rbrakk> \<Longrightarrow>
     outcome_of H policy q x"
| filled:
    "\<lbrakk>accepted_events H q = Success es; next_bar q = Some bar;
      fill_price q bar policy = Success (Some price);
      fill_quantity q bar price policy = Success quantity; 0 < val quantity;
      paper_fee quantity price policy = Success fee;
      paper_fill H q policy bar quantity price fee sequence = Success f;
      accounted H (xr_reservation q) ms r consumed released;
      fill_amount (xr_reservation q) quantity price fee = Success consumed;
      paper_outcome H q policy (es @ e # rest) (sort_key fl_fill_id (xr_prior_fills q @ [f]))
        ms r consumed released' = Success x;
      val released' = val released \<or> val released' = rnd (val released)\<rbrakk> \<Longrightarrow>
     outcome_of H policy q x"

lemma terminal_outcome:
  "terminal_without_fill H q policy REJECTED reason t = Success x \<Longrightarrow> outcome_of H policy q x"
  by (auto simp: terminal_without_fill_def res_simps intro: rejected)

lemma pending_outcome:
  "\<lbrakk>accepted_events H q = Success es; pending_or_expired H q policy es = Success x\<rbrakk> \<Longrightarrow>
   outcome_of H policy q x"
  by (auto simp: pending_or_expired_def Let_def res_simps split: if_splits intro: pending expired)

lemma filled_outcome_of:
  assumes es: "accepted_events H q = Success es" and bar: "next_bar q = Some bar"
    and price: "fill_price q bar policy = Success (Some price)"
    and quantity: "fill_quantity q bar price policy = Success quantity" "0 < val quantity"
    and x: "filled_outcome H q policy es bar price quantity = Success x"
  shows "outcome_of H policy q x"
proof -
  let ?intent = "xc_intent (xr_command q)"
  define cumulative where "cumulative = oe_cumulative_filled_quantity (last es) + quantity"
  define status where
    "status = (if deq cumulative (oi_quantity ?intent) then FILLED else PARTIALLY_FILLED)"
  obtain e fee f ms r consumed released where
    fee: "paper_fee quantity price policy = Success fee"
    and f: "paper_fill H q policy bar quantity price fee (oe_sequence e) = Success f"
    and after: "reservation_after_fill H (xr_reservation q) quantity price fee (xb_opens_at bar)
      (status = FILLED) = Success (ms, r, consumed, released)"
    and out: "(if oi_time_in_force ?intent = IOC \<and> status = PARTIALLY_FILLED
      then ioc_remainder H q policy (es @ [e]) (sort_key fl_fill_id (xr_prior_fills q @ [f]))
             cumulative (xb_opens_at bar) ms r consumed released
      else paper_outcome H q policy (es @ [e]) (sort_key fl_fill_id (xr_prior_fills q @ [f])) ms r
             consumed released) = Success x"
    using x unfolding filled_outcome_def Let_def cumulative_def [symmetric] status_def [symmetric]
    by (auto simp: bind_Success_iff)
  note filled = filled [OF es bar price quantity fee f]
  show ?thesis
  proof (cases "oi_time_in_force ?intent = IOC \<and> status = PARTIALLY_FILLED")
    case False
    with out have "paper_outcome H q policy (es @ e # []) (sort_key fl_fill_id (xr_prior_fills q @ [f]))
        ms r consumed released = Success x"
      by (simp only: if_False)
    from filled [OF accounted_fill(1, 3) [OF after] this] show ?thesis
      by simp
  next
    case True
    with out obtain c ms' r' terminal_release where
      rel: "release_remaining H r (xb_opens_at bar) ''ioc_remainder_released'' =
        Success (ms', r', terminal_release)"
      and out': "paper_outcome H q policy (es @ e # [c]) (sort_key fl_fill_id (xr_prior_fills q @ [f]))
        (ms @ ms') r' consumed (released + terminal_release) = Success x"
      by (auto simp: ioc_remainder_def bind_Success_iff)
    have "released = 0"
      using accounted_fill(2) [OF after] True by simp
    then have acc: "accounted H (xr_reservation q) (ms @ ms') r' consumed terminal_release"
      using accounted_snoc_release [OF _ rel] accounted_fill(1) [OF after] by simp
    show ?thesis
      by (rule filled [OF acc accounted_fill(3) [OF after] out']) (simp add: \<open>released = 0\<close> val_plus)
  qed
qed

lemma execute_outcome:
  assumes "execute H policy q = Success x"
  shows "outcome_of H policy q x"
  using assms
  by (auto simp: execute_def Let_def res_simps dec_simps not_le split: if_splits option.splits
      intro: terminal_outcome pending_outcome filled_outcome_of)


section \<open>What an execution guarantees\<close>

lemma run_event_amounts:
  assumes "reservation_run H r ms r'" "valid_reservation r"
    and "in_range (rv_quantum r) (val (rv_amount r))" "m \<in> set ms"
  shows "rnd (val (re_amount (rm_event m))) = val (re_amount (rm_event m))"
  using assms
proof (induction rule: reservation_run.induct)
  case (run_step ms r' m')
  show ?case
  proof (cases "m \<in> set ms")
    case False
    then have m: "m = m'"
      using run_step.prems by simp
    have f: "valid_reservation r'" "rv_quantum r' = rv_quantum r" "rv_amount r' = rv_amount r"
      using run_frame [OF run_step.hyps(1)] run_step.prems by auto
    have range: "in_range (rv_quantum r') (val (rv_amount r'))"
      using f run_step.prems by simp
    note step = step_conserves [OF run_step.hyps(2) f(1) range]
    have "0 < val (re_amount (rm_event m))" "val (re_amount (rm_event m)) \<le> val (rv_amount r')"
      using step_frame(1, 13) [OF run_step.hyps(2)] step(1) valid_reservation_amounts [OF f(1)]
        valid_reservation_amounts(3) [OF step_frame(1) [OF run_step.hyps(2)]] m by auto
    then have "in_range (rv_quantum r') (val (re_amount (rm_event m)))"
      using in_range_between [OF in_range_0 range] by simp
    then show ?thesis
      using step(2) m rnd_grid by simp
  qed (use run_step in auto)
qed simp

lemma outcome_accounted:
  assumes "outcome_of H policy q x"
  obtains released where
    "accounted H (xr_reservation q) (xo_reservation_mutations x) (xo_final_reservation x)
       (xo_reservation_consumed x) released"
    "val (xo_reservation_released x) = val released \<or>
     val (xo_reservation_released x) = rnd (val released)"
  using assms
proof cases
  case (rejected t reason e ms r released)
  show ?thesis
    using that [of released] accounted_release [OF rejected(2)]
    by (simp add: paper_outcome_Success [OF rejected(3)])
next
  case (pending es)
  show ?thesis
    using that [of 0] accounted_none by (simp add: paper_outcome_Success [OF pending(2)])
next
  case (expired es e ms r released)
  show ?thesis
    using that [of released] accounted_release [OF expired(3)]
    by (simp add: paper_outcome_Success [OF expired(4)])
next
  case (filled es bar price quantity fee sequence f ms r consumed released e rest released')
  show ?thesis
    using that [of released] filled(8, 11) by (simp add: paper_outcome_Success [OF filled(10)])
qed

text \<open>
  C5: Every outcome of the broker accounts for the whole reservation: its mutations are a run of the
  reservation that ends in the final reservation, and what remains, what was consumed and what was
  released add up to what was there before, as long as the reserved amount has at most 28 digits.
\<close>

theorem execution_accounts_for_reservation:
  assumes "execute H policy q = Success x"
    "validate_reservation (xr_reservation q) = Success (xr_reservation q)"
    "in_range (rv_quantum (xr_reservation q)) (val (rv_amount (xr_reservation q)))"
  shows "reservation_run H (xr_reservation q) (xo_reservation_mutations x) (xo_final_reservation x) \<and>
    val (rv_remaining_amount (xo_final_reservation x)) + val (xo_reservation_consumed x) +
      val (xo_reservation_released x) = val (rv_remaining_amount (xr_reservation q))"
proof -
  have valid: "valid_reservation (xr_reservation q)"
    using assms(2) by (simp add: valid_reservation_def)
  obtain released where acc: "accounted H (xr_reservation q) (xo_reservation_mutations x)
      (xo_final_reservation x) (xo_reservation_consumed x) released"
    and rel: "val (xo_reservation_released x) = val released \<or>
      val (xo_reservation_released x) = rnd (val released)"
    using outcome_accounted [OF execute_outcome [OF assms(1)]] by blast
  then have run: "reservation_run H (xr_reservation q) (xo_reservation_mutations x) (xo_final_reservation x)"
    by (simp add: accounted_def)
  have "rnd (val released) = val released"
    using acc run_event_amounts [OF run valid assms(3)] by (auto simp: accounted_def)
  then show ?thesis
    using run run_conserves [OF run valid assms(3)] acc rel by (auto simp: accounted_def)
qed

text \<open>
  C6: The quantity the broker fills always exists and is always paid for. For a valid policy, a
  positive price and an open order quantity on the grid, the search for the quantity ends, the
  result is within the open quantity, and when it is positive the fee and the amount to take from
  the reservation are defined and the reservation holds at least that amount.
\<close>

theorem fill_quantity_affordable:
  assumes "validate_execution_policy p = Success p" "0 < val price" "0 \<le> val (xb_volume bar)"
    and "on_grid (oi_quantity_quantum (xc_intent (xr_command q)))
      (val (oi_quantity (xc_intent (xr_command q)) - already_filled (xr_prior_events q)))"
      "in_range (oi_quantity_quantum (xc_intent (xr_command q)))
      (val (oi_quantity (xc_intent (xr_command q)) - already_filled (xr_prior_events q)))"
      "0 \<le> val (oi_quantity (xc_intent (xr_command q)) - already_filled (xr_prior_events q))"
    and "validate_reservation (xr_reservation q) = Success (xr_reservation q)"
      "in_range (rv_quantum (xr_reservation q)) (val (rv_amount (xr_reservation q)))"
  shows "\<exists>d. fill_quantity q bar price p = Success d \<and>
     val d \<le> val (oi_quantity (xc_intent (xr_command q)) - already_filled (xr_prior_events q)) \<and>
     (0 < val d \<longrightarrow> (\<exists>fee amount. paper_fee d price p = Success fee \<and>
        fill_amount (xr_reservation q) d price fee = Success amount \<and>
        val amount \<le> val (rv_remaining_amount (xr_reservation q))))"
proof -
  let ?r = "xr_reservation q"
  have p: "valid_policy p" and r: "valid_reservation ?r"
    using assms by (simp_all add: valid_policy_def valid_reservation_def)
  obtain d where d: "fill_quantity q bar price p = Success d"
    "val d \<le> val (oi_quantity (xc_intent (xr_command q)) - already_filled (xr_prior_events q))"
    "rv_kind ?r = POSITION \<Longrightarrow> val d \<le> val (rv_remaining_amount ?r)"
    "\<lbrakk>rv_kind ?r = CASH; 0 < val d\<rbrakk> \<Longrightarrow> \<exists>cost. cash_consumption d price p = Success cost \<and>
       val cost \<le> val (rv_remaining_amount ?r)"
    using fill_quantity_bounds [OF p assms(2-6) refl refl] by blast
  obtain fee where fee: "paper_fee d price p = Success fee"
    using paper_fee_total [OF p] by blast
  have "\<exists>amount. fill_amount ?r d price fee = Success amount \<and> val amount \<le> val (rv_remaining_amount ?r)"
    if pos: "0 < val d"
  proof (cases "rv_kind ?r")
    case POSITION
    then show ?thesis
      using d(3) by (simp add: fill_amount_def)
  next
    case CASH
    have cost: "val (d * price + fee) \<le> val (rv_remaining_amount ?r)"
      using d(4) [OF CASH pos] fee by (auto simp: cash_consumption_def)
    note amounts = valid_reservation_amounts [OF r]
    obtain amount where amount: "ceil_quantum (d * price + fee) (rv_quantum ?r) = Success amount"
      using ceil_q.quant_total [OF amounts(5)] by blast
    have "in_range (rv_quantum ?r) (val (rv_remaining_amount ?r))"
      using in_range_between [OF in_range_0 assms(8)] amounts by simp
    then have "val amount \<le> val (rv_remaining_amount ?r)"
      using ceil_q.quant_upper(2) [OF amount amounts(2)] cost by simp
    with amount CASH show ?thesis
      by (simp add: fill_amount_def)
  qed
  with d(1, 2) fee show ?thesis
    by blast
qed








section \<open>A concrete execution\<close>

text \<open>
  A market order to buy 10 units, reserved with 100.00, filled at the open of the next bar plus
  spread, slippage and impact.
\<close>

definition broker_policy :: execution_policy where
  "broker_policy =
     \<lparr>xp_policy_version = ''1.0.0'', xp_execution_model_version = ''paper-v1'',
      xp_model_kind = ''deterministic_next_bar'',
      xp_realism_claim = ''reference_model_not_market_replay'',
      xp_supported_order_types = [LIMIT, MARKET], xp_supported_time_in_force = [DAY, IOC],
      xp_max_volume_participation = Dec 1 (- 1), xp_half_spread_bps = Dec 5 0,
      xp_base_slippage_bps = Dec 5 0, xp_market_impact_bps_at_max_participation = Dec 20 0,
      xp_fee_bps = Dec 10 0, xp_per_unit_fee = 0, xp_minimum_fee = Dec 1 0,
      xp_fee_quantum = Dec 1 (- 2)\<rparr>"

definition broker_bar :: execution_bar where
  "broker_bar =
     \<lparr>xb_instrument_id = ''x'', xb_mic = ''XNAS'', xb_opens_at = 20, xb_closes_at = 30,
      xb_available_at = 30, xb_open = Dec 500 (- 2), xb_high = Dec 510 (- 2), xb_low = Dec 490 (- 2),
      xb_close = Dec 505 (- 2), xb_volume = Dec 1000 0, xb_currency = ''USD'',
      xb_price_quantum = Dec 1 (- 2), xb_quantity_quantum = Dec 1 0, xb_source_ref = ''bars'',
      xb_source_hash = replicate 64 CHR ''a'', xb_tradable = True\<rparr>"

definition broker_request :: execution_request where
  "broker_request =
     \<lparr>xr_command =
        \<lparr>xc_command_id = ''cmd'', xc_intent = sample_intent,
         xc_risk_decision_hash = replicate 64 CHR ''a'', xc_reservation_hash = replicate 64 CHR ''a'',
         xc_account_aggregate_sequence = 1, xc_portfolio_sequence = 0, xc_attempt_generation = 1,
         xc_attempt_nonce = ''n'', xc_issued_at = 10, xc_command_hash = replicate 64 CHR ''a''\<rparr>,
      xr_reservation = sample_reservation, xr_prior_events = [], xr_prior_fills = [],
      xr_bars = [broker_bar], xr_as_of = 40\<rparr>"


lemma broker_steps:
  "request_error broker_request broker_policy = Success ()"
  "next_bar broker_request = Some broker_bar"
  "fill_price broker_request broker_bar broker_policy = Success (Some (Dec 501 (-2)))"
  "fill_quantity broker_request broker_bar (Dec 501 (-2)) broker_policy = Success (Dec 10 0)"
  "paper_fee (Dec 10 0) (Dec 501 (-2)) broker_policy = Success (Dec 1 0)"
  "fill_amount sample_reservation (Dec 10 0) (Dec 501 (-2)) (Dec 1 0) = Success (Dec 5110 (-2))"
  "(0 :: dec) + Dec 10 0 = Dec 10 0"
  by code_simp+

lemma broker_policy_valid: "validate_execution_policy broker_policy = Success broker_policy"
  by code_simp


lemma broker_sel [simp]:
  "xr_command broker_request = \<lparr>xc_command_id = ''cmd'', xc_intent = sample_intent,
     xc_risk_decision_hash = replicate 64 CHR ''a'', xc_reservation_hash = replicate 64 CHR ''a'',
     xc_account_aggregate_sequence = 1, xc_portfolio_sequence = 0, xc_attempt_generation = 1,
     xc_attempt_nonce = ''n'', xc_issued_at = 10, xc_command_hash = replicate 64 CHR ''a''\<rparr>"
  "xr_reservation broker_request = sample_reservation" "xr_prior_events broker_request = []"
  "xr_prior_fills broker_request = []" "xr_as_of broker_request = 40" "xb_opens_at broker_bar = 20"
  by (simp_all add: broker_request_def broker_bar_def)

definition broker_accepted :: order_event where
  "broker_accepted = appended sample_hashing sample_intent None ACCEPTED 0 10
     (Some ''paper_command_accepted'')"

definition broker_filled :: order_event where
  "broker_filled = appended sample_hashing sample_intent (Some broker_accepted) FILLED (Dec 10 0) 20
     (Some ''paper_next_bar_fill'')"

lemma broker_events:
  "append_order_event sample_hashing sample_intent None ACCEPTED 0 (Utc 10)
     (Some ''paper_command_accepted'') = Success broker_accepted"
  "append_order_event sample_hashing sample_intent (Some broker_accepted) FILLED (Dec 10 0) (Utc 20)
     (Some ''paper_next_bar_fill'') = Success broker_filled"
proof -
  have q: "is_quantized 0 (oi_quantity_quantum sample_intent)"
      "is_quantized (Dec 10 0) (oi_quantity_quantum sample_intent)" "decimal_ok (Dec 10 0)"
    by code_simp+
  have "appendable sample_intent None ACCEPTED 0 10"
    using q by (simp add: appendable_def from_status_of_def) (simp add: sample_intent_def val_Dec)
  then show a: "append_order_event sample_hashing sample_intent None ACCEPTED 0 (Utc 10)
     (Some ''paper_command_accepted'') = Success broker_accepted"
    unfolding broker_accepted_def
    by (intro append_succeeds [OF sample_intent_valid]) (simp_all add: sample_intent_range opt_ok_def)
  then have v: "valid_order_event sample_hashing broker_accepted"
    by (simp add: append_order_event_eq valid_order_event_def broker_accepted_def)
  have "appendable sample_intent (Some broker_accepted) FILLED (Dec 10 0) 20"
    using q by (simp add: appendable_def from_status_of_def broker_accepted_def)
      (simp add: sample_intent_def val_Dec)
  then show "append_order_event sample_hashing sample_intent (Some broker_accepted) FILLED (Dec 10 0)
      (Utc 20) (Some ''paper_next_bar_fill'') = Success broker_filled"
    unfolding broker_filled_def
    by (intro append_succeeds [OF sample_intent_valid]) (simp_all add: sample_intent_range opt_ok_def q v)
qed

definition broker_fill :: fill where
  "broker_fill =
     \<lparr>fl_fill_id = ''00000000-0000-5000-8000-000000000000'',
        fl_command_id = ''cmd'', fl_order_intent_id = ''i'',
        fl_account_id = ''a'', fl_instrument_id = ''x'',
        fl_side = BUY, fl_quantity = Dec 10 0,
        fl_quantity_quantum = Dec 1 0, fl_price = Dec 501 (- 2),
        fl_price_quantum = Dec 1 (- 2), fl_fee_currency = ''USD'',
        fl_fees = Dec 1 0, fl_fee_quantum = Dec 1 (- 2),
        fl_slippage = Dec 1 (- 2), fl_occurred_at = 20,
        fl_simulator_ref = Some (''paper-v1:bars:'' @ replicate 64 CHR ''a''),
        fl_external_ref = None\<rparr>"

lemma broker_fill_made:
  "paper_fill sample_hashing broker_request broker_policy broker_bar (Dec 10 0) (Dec 501 (- 2))
     (Dec 1 0) 2 = Success broker_fill"
proof -
  have "validate_fill broker_fill = Success broker_fill" "Dec 501 (-2) - Dec 500 (-2) = Dec 1 (-2)"
    by code_simp+
  then show ?thesis
    by (simp add: paper_fill_def Let_def paper_fill_id_def broker_fill_def) 
       (simp add: broker_fill_def sample_intent_def broker_bar_def broker_policy_def)
qed

lemma broker_reservation:
  obtains ms r where "reservation_after_fill sample_hashing sample_reservation (Dec 10 0) (Dec 501 (- 2))
     (Dec 1 0) 20 True = Success (ms, r, Dec 5110 (- 2), Dec 4890 (- 2))"
    "ms \<noteq> []" "rm_reservation (last ms) = r" "rv_order_intent_id r = ''i''" "length ms \<le> 2"
proof -
  have "is_success (consume_reservation sample_hashing sample_reservation (Dec 5110 (-2)) (Utc 20))"
  proof (rule consume_succeeds [OF sample_reservation_valid wf_sample_hashing sample_reservation_range])
    show "decimal_ok (Dec 5110 (-2))" "active_state (rv_state sample_reservation)"
        "is_quantized (Dec 5110 (-2)) (rv_quantum sample_reservation)"
      by code_simp+
  qed (simp_all add: sample_reservation_def val_Dec pten_def)
  then obtain m where m: "consume_reservation sample_hashing sample_reservation (Dec 5110 (-2)) (Utc 20) = Success m"
    by (auto simp: is_success_iff)
  have rem: "rv_remaining_amount sample_reservation - Dec 5110 (-2) = Dec 4890 (-2)"
    by code_simp
  have m': "rv_remaining_amount (rm_reservation m) = Dec 4890 (-2)"
    "rv_state (rm_reservation m) = PARTIALLY_CONSUMED" "rv_updated_at (rm_reservation m) = 20"
    "rv_expires_at (rm_reservation m) = 100" "rv_order_intent_id (rm_reservation m) = ''i''"
    using m by (auto simp: consume_reservation_def validate_mutable_def rem Let_def mutate_Success_iff
        deq_iff val_Dec bind_Success_iff split: if_splits)
      (auto simp: sample_reservation_def)
  have "valid_reservation (rm_reservation m)"
    using step_frame(1) [OF step_consume [OF m]] .
  moreover have "\<not> blank ''filled_order_surplus_released''"
    by code_simp
  ultimately have "is_success (release_reservation sample_hashing (rm_reservation m) (Utc 20)
      ''filled_order_surplus_released'')"
    by (intro release_succeeds) (simp_all add: m' active_state_def)
  then obtain n where n: "release_reservation sample_hashing (rm_reservation m) (Utc 20)
      ''filled_order_surplus_released'' = Success n"
    by (auto simp: is_success_iff)
  have "rv_order_intent_id (rm_reservation n) = ''i''"
    using n m' by (auto simp: release_reservation_def validate_mutable_def mutate_Success_iff Let_def
        bind_Success_iff split: if_splits)
  moreover have "reservation_after_fill sample_hashing sample_reservation (Dec 10 0) (Dec 501 (- 2))
     (Dec 1 0) 20 True = Success ([m, n], rm_reservation n, Dec 5110 (- 2), Dec 4890 (- 2))"
    using m n m' by (simp add: reservation_after_fill_def broker_steps release_remaining_def dec_less_iff
        val_Dec Let_def)
  ultimately show ?thesis
    by (intro that [of "[m, n]" "rm_reservation n"]) simp_all
qed


lemma broker_receipt:
  "is_success (create_receipt sample_hashing i ''cmd'' sample_intent broker_filled [broker_fill] 40)"
proof -
  have "positive_ok (Dec 10 0)" "positive_ok (Dec 1 0)" "non_negative_ok (Dec 10 0)"
    "non_negative_ok (Dec 10 0 - Dec 10 0)" "deq (Dec 10 0 + (Dec 10 0 - Dec 10 0)) (Dec 10 0)"
    "is_quantized (Dec 10 0) (Dec 1 0)" "is_quantized (Dec 10 0 - Dec 10 0) (Dec 1 0)"
    "deq (dec_sum [Dec 10 0] 0) (Dec 10 0)"
    by code_simp+
  then show ?thesis
    by (simp add: is_success_iff create_receipt_def validate_receipt_def check_all_Success_iff Let_def
        fill_matches_def broker_filled_def expected_receipt_hash_def deq_iff broker_fill_def nonempty_ok_def)
      (simp add: sample_intent_def nonempty_ok_def)
qed

lemma broker_executes:
  obtains x where "execute sample_hashing broker_policy broker_request = Success x"
    "er_fills (xo_receipt x) = [broker_fill]"
proof -
  obtain ms r where after: "reservation_after_fill sample_hashing sample_reservation (Dec 10 0)
      (Dec 501 (- 2)) (Dec 1 0) 20 True = Success (ms, r, Dec 5110 (- 2), Dec 4890 (- 2))"
    "ms \<noteq> []" "rm_reservation (last ms) = r" "rv_order_intent_id r = ''i''" "length ms \<le> 2"
    by (rule broker_reservation)
  let ?i = "''00000000-0000-5000-8000-000000000000''"
  obtain receipt where receipt: "create_receipt sample_hashing ?i ''cmd'' sample_intent broker_filled
      [broker_fill] 40 = Success receipt"
    using broker_receipt [of ?i] by (auto simp: is_success_iff)
  have dec: "decimal_ok (Dec 5110 (- 2))" "decimal_ok (Dec 4890 (- 2))"
    by code_simp+
  have "is_success (create_outcome sample_hashing receipt [broker_accepted, broker_filled] ms r
      (Dec 5110 (- 2)) (Dec 4890 (- 2)) (replicate 64 CHR ''a''))"
    using after create_receipt_Success [OF receipt] dec
    by (simp add: is_success_iff create_outcome_def validate_outcome_def check_all_Success_iff Let_def
        order_event_eq_def reservation_eq_def deq_iff expected_outcome_hash_def dec_less_iff val_Dec
        broker_filled_def)
      (simp add: sample_intent_def not_less)
  then obtain x where x: "create_outcome sample_hashing receipt [broker_accepted, broker_filled] ms r
      (Dec 5110 (- 2)) (Dec 4890 (- 2)) (replicate 64 CHR ''a'') = Success x"
    by (auto simp: is_success_iff)
  have tif: "oi_time_in_force sample_intent = DAY" "oi_order_type sample_intent = MARKET"
    "deq (Dec 10 0) (oi_quantity sample_intent)"
    "MARKET \<in> set (xp_supported_order_types broker_policy)"
    "DAY \<in> set (xp_supported_time_in_force broker_policy)"
    by (simp_all add: sample_intent_def broker_policy_def deq_iff)
  have cum: "oe_cumulative_filled_quantity broker_accepted = 0" "oe_occurred_at broker_filled = 20"
    "oe_sequence broker_filled = 2"
    by (simp_all add: broker_accepted_def broker_filled_def next_sequence_def)
  have "filled_outcome sample_hashing broker_request broker_policy [broker_accepted] broker_bar
      (Dec 501 (- 2)) (Dec 10 0) = Success x"
    using broker_events(2) after(1)
    by (simp add: filled_outcome_def Let_def cum broker_steps tif broker_fill_made paper_outcome_def
        receipt x)
  then have "execute sample_hashing broker_policy broker_request = Success x"
    by (simp add: execute_def broker_steps tif accepted_events_def broker_events(1) Let_def dec_le_iff
        val_Dec)
  moreover have "er_fills (xo_receipt x) = [broker_fill]"
    using create_outcome_Success [OF x] create_receipt_Success [OF receipt] by simp
  ultimately show ?thesis
    by (rule that)
qed


theorem execution_accounts_for_reservation_witness:
  "\<exists>x. execute sample_hashing broker_policy broker_request = Success x \<and>
     val (rv_remaining_amount (xo_final_reservation x)) + val (xo_reservation_consumed x) +
       val (xo_reservation_released x) = 100"
proof -
  obtain x where x: "execute sample_hashing broker_policy broker_request = Success x"
    by (rule broker_executes)
  have "val (rv_remaining_amount sample_reservation) = 100"
    by (simp add: sample_reservation_def val_Dec pten_def)
  then show ?thesis
    using execution_accounts_for_reservation [OF x] x sample_reservation_valid sample_reservation_range
    by (simp add: valid_reservation_def)
qed

theorem fill_quantity_affordable_witness:
  "\<exists>d. fill_quantity broker_request broker_bar (Dec 501 (- 2)) broker_policy = Success d \<and> val d \<le> 10"
proof -
  let ?i = "xc_intent (xr_command broker_request)"
  have "oi_quantity ?i - already_filled (xr_prior_events broker_request) = Dec 10 0"
    by code_simp
  then have rem: "val (oi_quantity ?i - already_filled (xr_prior_events broker_request)) = 10"
    by (simp add: val_Dec)
  have q: "oi_quantity_quantum ?i = Dec 1 0"
    by (simp add: sample_intent_def)
  have grid: "on_grid (Dec 1 0) 10" "in_range (Dec 1 0) 10"
    by (auto simp: on_grid_def in_range_def val_Dec intro!: exI [of _ 10])
  have "0 < val (Dec 501 (- 2))" "0 \<le> val (xb_volume broker_bar)"
    by (simp_all add: val_Dec broker_bar_def)
  from fill_quantity_affordable [OF broker_policy_valid this, of broker_request] show ?thesis
    using grid sample_reservation_valid sample_reservation_range
    unfolding rem q by (auto simp: valid_reservation_def)
qed


end
