(* ===== verification/Strategy_Signals.thy ===== *)
theory Strategy_Signals
  imports Risk
begin

text \<open>
  \<^verbatim>\<open>domain/strategy.py\<close>, \<^verbatim>\<open>domain/evaluation.py\<close> and \<^verbatim>\<open>domain/signal.py\<close>: the content-addressed
  strategy manifest, the registry entry with its promotion state, the evaluation report that binds
  a verdict to exact strategy, data, runtime and policy hashes, and the alpha signal with the
  fail-closed test of whether it may carry portfolio weight.
\<close>

section \<open>Strategies\<close>

datatype strategy_kind = DETERMINISTIC_KIND | FORECAST_MAPPER | OPINION_MAPPER | QUANT_MODEL

fun strategy_kind_value :: "strategy_kind \<Rightarrow> string" where
  "strategy_kind_value DETERMINISTIC_KIND = ''deterministic''"
| "strategy_kind_value FORECAST_MAPPER = ''forecast_mapper''"
| "strategy_kind_value OPINION_MAPPER = ''opinion_mapper''"
| "strategy_kind_value QUANT_MODEL = ''quant_model''"

datatype promotion_state =
  DRAFT | EVALUATING | REJECTED_STATE | SHADOW | PAPER_ELIGIBLE | SUSPENDED | RETIRED

fun promotions :: "promotion_state \<Rightarrow> promotion_state list" where
  "promotions DRAFT = [EVALUATING]"
| "promotions EVALUATING = [REJECTED_STATE, SHADOW]"
| "promotions REJECTED_STATE = []"
| "promotions SHADOW = [PAPER_ELIGIBLE]"
| "promotions PAPER_ELIGIBLE = [SUSPENDED, RETIRED]"
| "promotions SUSPENDED = [EVALUATING, RETIRED]"
| "promotions RETIRED = []"

definition can_promote :: "promotion_state \<Rightarrow> promotion_state \<Rightarrow> bool" where
  "can_promote current target \<longleftrightarrow> target \<in> set (promotions current)"

record strategy_manifest =
  mf_manifest_id :: uuid
  mf_strategy_id :: string
  mf_strategy_version :: string
  mf_kind :: strategy_kind
  mf_source_artifact_ref :: string
  mf_runtime_hash :: hash
  mf_feature_spec_hash :: hash
  mf_label_spec_hash :: hash
  mf_universe_spec_hash :: hash
  mf_cost_model_hash :: hash
  mf_split_policy_hash :: hash
  mf_parameters_hash :: hash
  mf_owner :: string
  mf_deterministic :: bool
  mf_created_at :: utc

definition validate_manifest :: "strategy_manifest \<Rightarrow> strategy_manifest result" where
  "validate_manifest m = check_all
     [(code_ok (mf_strategy_id m) \<and> version_ok (mf_strategy_version m) \<and>
       artifact_ref_ok (mf_source_artifact_ref m) \<and> sha256_ok (mf_runtime_hash m) \<and>
       sha256_ok (mf_feature_spec_hash m) \<and> sha256_ok (mf_label_spec_hash m) \<and>
       sha256_ok (mf_universe_spec_hash m) \<and> sha256_ok (mf_cost_model_hash m) \<and>
       sha256_ok (mf_split_policy_hash m) \<and> sha256_ok (mf_parameters_hash m) \<and>
       code_ok (mf_owner m), ''field'')] m"

text \<open>The manifest hash leaves out the manifest id and the creation time.\<close>

definition manifest_fields :: "strategy_manifest \<Rightarrow> (string \<times> json) list" where
  "manifest_fields m =
     [(''strategy_id'', JStr (mf_strategy_id m)),
      (''strategy_version'', JStr (mf_strategy_version m)),
      (''kind'', JStr (strategy_kind_value (mf_kind m))),
      (''source_artifact_ref'', JStr (mf_source_artifact_ref m)),
      (''runtime_hash'', JStr (mf_runtime_hash m)),
      (''feature_spec_hash'', JStr (mf_feature_spec_hash m)),
      (''label_spec_hash'', JStr (mf_label_spec_hash m)),
      (''universe_spec_hash'', JStr (mf_universe_spec_hash m)),
      (''cost_model_hash'', JStr (mf_cost_model_hash m)),
      (''split_policy_hash'', JStr (mf_split_policy_hash m)),
      (''parameters_hash'', JStr (mf_parameters_hash m)), (''owner'', JStr (mf_owner m)),
      (''deterministic'', JBool (mf_deterministic m))]"

definition manifest_hash :: "hashing \<Rightarrow> strategy_manifest \<Rightarrow> hash" where
  "manifest_hash H m = stable_payload_hash H (JObj (manifest_fields m))"

text \<open>An evaluation report id and its hash come together or not at all.\<close>

definition bound_together :: "uuid option \<Rightarrow> hash option \<Rightarrow> bool" where
  "bound_together report_id report_hash \<longleftrightarrow> (report_id = None) = (report_hash = None)"

record strategy_entry =
  se_manifest :: strategy_manifest
  se_state :: promotion_state
  se_evaluation_report_id :: "uuid option"
  se_evaluation_hash :: "hash option"
  se_version :: int
  se_created_at :: utc
  se_updated_at :: utc

definition evaluated_states :: "promotion_state list" where
  "evaluated_states = [REJECTED_STATE, SHADOW, PAPER_ELIGIBLE, SUSPENDED, RETIRED]"

definition validate_strategy_entry :: "strategy_entry \<Rightarrow> strategy_entry result" where
  "validate_strategy_entry e = check_all
     [(opt_ok sha256_ok (se_evaluation_hash e) \<and> 1 \<le> se_version e, ''field''),
      (bound_together (se_evaluation_report_id e) (se_evaluation_hash e),
       ''evaluation report id and hash must be bound together''),
      (\<not> (se_state e \<in> set evaluated_states \<and> se_evaluation_report_id e = None),
       ''post-evaluation strategy state requires evaluation binding''),
      (\<not> se_updated_at e < se_created_at e, ''strategy update cannot precede creation'')] e"

text \<open>The actor pattern \<^verbatim>\<open>^[a-z][a-z0-9_.:@-]{0,127}$\<close> and \<^verbatim>\<open>^strategy\.[a-z_]{1,63}$\<close>.\<close>

fun actor_ok :: "string \<Rightarrow> bool" where
  "actor_ok [] = False"
| "actor_ok (c # cs) =
     (lower_char c \<and> length cs \<le> 127 \<and>
      list_all (\<lambda>x. code_char x \<or> x = CHR '':'' \<or> x = CHR ''@'') cs)"

definition strategy_event_type_ok :: "string \<Rightarrow> bool" where
  "strategy_event_type_ok s \<longleftrightarrow>
     take 9 s = ''strategy.'' \<and> drop 9 s \<noteq> [] \<and> length (drop 9 s) \<le> 63 \<and>
     list_all (\<lambda>x. lower_char x \<or> x = CHR ''_'') (drop 9 s)"

record transition_request =
  tr_strategy_id :: string
  tr_strategy_version :: string
  tr_expected_version :: int
  tr_current_state :: promotion_state
  tr_target_state :: promotion_state
  tr_evaluation_report_id :: "uuid option"
  tr_evaluation_hash :: "hash option"
  tr_reason_code :: string
  tr_actor :: string
  tr_requested_at :: utc

definition validate_transition_request :: "transition_request \<Rightarrow> transition_request result" where
  "validate_transition_request r = check_all
     [(nonempty_ok (tr_strategy_id r) \<and> nonempty_ok (tr_strategy_version r) \<and>
       1 \<le> tr_expected_version r \<and> opt_ok sha256_ok (tr_evaluation_hash r) \<and>
       code_ok (tr_reason_code r) \<and> actor_ok (tr_actor r), ''field''),
      (can_promote (tr_current_state r) (tr_target_state r),
       ''strategy promotion transition is not allowed''),
      (bound_together (tr_evaluation_report_id r) (tr_evaluation_hash r),
       ''evaluation report id and hash must be bound together''),
      (\<not> (tr_target_state r \<in> {REJECTED_STATE, SHADOW, PAPER_ELIGIBLE} \<and>
          tr_evaluation_report_id r = None),
       ''evaluation-gated transition requires evaluation binding'')] r"

record strategy_audit_event =
  sa_event_id :: uuid
  sa_strategy_id :: string
  sa_strategy_version :: string
  sa_sequence :: int
  sa_event_type :: string
  sa_from_state :: "promotion_state option"
  sa_to_state :: promotion_state
  sa_reason_code :: string
  sa_actor :: string
  sa_evaluation_report_id :: "uuid option"
  sa_evaluation_hash :: "hash option"
  sa_occurred_at :: utc
  sa_previous_hash :: "hash option"
  sa_event_hash :: hash

definition validate_audit_event :: "strategy_audit_event \<Rightarrow> strategy_audit_event result" where
  "validate_audit_event e = check_all
     [(nonempty_ok (sa_strategy_id e) \<and> nonempty_ok (sa_strategy_version e) \<and>
       1 \<le> sa_sequence e \<and> strategy_event_type_ok (sa_event_type e) \<and>
       code_ok (sa_reason_code e) \<and> actor_ok (sa_actor e) \<and>
       opt_ok sha256_ok (sa_evaluation_hash e) \<and> opt_ok sha256_ok (sa_previous_hash e) \<and>
       sha256_ok (sa_event_hash e), ''field''),
      ((sa_sequence e = 1) = (sa_previous_hash e = None),
       ''only the genesis strategy event may omit previous hash''),
      (bound_together (sa_evaluation_report_id e) (sa_evaluation_hash e),
       ''audit evaluation id and hash must be bound together'')] e"

section \<open>Evaluation reports\<close>

datatype confidence_calibration = UNCALIBRATED | CALIBRATED

fun calibration_value :: "confidence_calibration \<Rightarrow> string" where
  "calibration_value UNCALIBRATED = ''uncalibrated''"
| "calibration_value CALIBRATED = ''calibrated''"

datatype evaluation_check_kind =
    POINT_IN_TIME | LEAKAGE | SURVIVORSHIP | REPRODUCIBILITY | BASELINE_COMPARISON
  | COST_SENSITIVITY | DRAWDOWN | CALIBRATION | OVERFITTING

fun check_kind_value :: "evaluation_check_kind \<Rightarrow> string" where
  "check_kind_value POINT_IN_TIME = ''point_in_time''"
| "check_kind_value LEAKAGE = ''leakage''"
| "check_kind_value SURVIVORSHIP = ''survivorship''"
| "check_kind_value REPRODUCIBILITY = ''reproducibility''"
| "check_kind_value BASELINE_COMPARISON = ''baseline_comparison''"
| "check_kind_value COST_SENSITIVITY = ''cost_sensitivity''"
| "check_kind_value DRAWDOWN = ''drawdown''"
| "check_kind_value CALIBRATION = ''calibration''"
| "check_kind_value OVERFITTING = ''overfitting''"

definition MANDATORY_EVALUATION_CHECKS :: "evaluation_check_kind list" where
  "MANDATORY_EVALUATION_CHECKS =
     [POINT_IN_TIME, LEAKAGE, SURVIVORSHIP, REPRODUCIBILITY, BASELINE_COMPARISON,
      COST_SENSITIVITY, DRAWDOWN, CALIBRATION, OVERFITTING]"

datatype evaluation_check_status = CHECK_PASSED | CHECK_FAILED | NOT_APPLICABLE

fun check_status_value :: "evaluation_check_status \<Rightarrow> string" where
  "check_status_value CHECK_PASSED = ''passed''"
| "check_status_value CHECK_FAILED = ''failed''"
| "check_status_value NOT_APPLICABLE = ''not_applicable''"

record evaluation_check =
  ek_kind :: evaluation_check_kind
  ek_status :: evaluation_check_status
  ek_reason_codes :: "string list"
  ek_details_artifact_ref :: "string option"

definition validate_evaluation_check :: "evaluation_check \<Rightarrow> evaluation_check result" where
  "validate_evaluation_check c = check_all
     [(length (ek_reason_codes c) \<le> 64 \<and> opt_ok artifact_ref_ok (ek_details_artifact_ref c),
       ''field''),
      (distinct (ek_reason_codes c) \<and> \<not> list_ex blank (ek_reason_codes c),
       ''evaluation reason codes must be unique and non-blank'')] c"

text \<open>The unit pattern \<^verbatim>\<open>^[a-z][a-z0-9_.%/-]{0,63}$\<close>.\<close>

fun unit_text_ok :: "string \<Rightarrow> bool" where
  "unit_text_ok [] = False"
| "unit_text_ok (c # cs) =
     (lower_char c \<and> length cs \<le> 63 \<and>
      list_all (\<lambda>x. code_char x \<or> x = CHR ''%'' \<or> x = CHR ''/'') cs)"

record evaluation_metric =
  mt_name :: string
  mt_value :: dec
  mt_unit :: string
  mt_segment :: string

definition validate_metric :: "evaluation_metric \<Rightarrow> evaluation_metric result" where
  "validate_metric m = check_all
     [(code_ok (mt_name m) \<and> decimal_ok (mt_value m) \<and> unit_text_ok (mt_unit m) \<and>
       code_ok (mt_segment m), ''field'')] m"

record evaluation_request =
  eq_request_id :: uuid
  eq_manifest :: strategy_manifest
  eq_dataset_snapshot_id :: uuid
  eq_snapshot_artifact_ref :: string
  eq_data_hash :: hash
  eq_as_of :: utc
  eq_window_start :: utc
  eq_window_end :: utc
  eq_evaluation_policy_hash :: hash
  eq_requested_at :: utc
  eq_deadline_at :: utc

definition validate_evaluation_request :: "evaluation_request \<Rightarrow> evaluation_request result" where
  "validate_evaluation_request q = check_all
     [(artifact_ref_ok (eq_snapshot_artifact_ref q) \<and> sha256_ok (eq_data_hash q) \<and>
       sha256_ok (eq_evaluation_policy_hash q), ''field''),
      (\<not> eq_window_end q \<le> eq_window_start q, ''evaluation window end must be later than start''),
      (\<not> eq_window_end q > eq_as_of q, ''evaluation window cannot extend beyond as_of''),
      (\<not> eq_requested_at q < eq_as_of q, ''evaluation request cannot precede its as_of''),
      (\<not> eq_deadline_at q \<le> eq_requested_at q,
       ''evaluation deadline must be later than request time'')] q"

record evaluation_report =
  er_report_id :: uuid
  er_strategy_id :: string
  er_strategy_version :: string
  er_strategy_manifest_hash :: hash
  er_dataset_snapshot_id :: uuid
  er_data_hash :: hash
  er_runtime_hash :: hash
  er_evaluation_policy_hash :: hash
  er_as_of :: utc
  er_window_start :: utc
  er_window_end :: utc
  er_checks :: "evaluation_check list"
  er_metrics :: "evaluation_metric list"
  er_calibration :: confidence_calibration
  er_baseline_ids :: "string list"
  er_report_artifact_ref :: string
  er_valid_until :: utc
  er_created_at :: utc
  er_passed :: bool

text \<open>The field validators put the three sequences into canonical order.\<close>

definition normalize_checks :: "evaluation_check list \<Rightarrow> evaluation_check list result" where
  "normalize_checks cs =
     (if distinct (map ek_kind cs)
      then Success (sort_key (\<lambda>c. check_kind_value (ek_kind c)) cs)
      else Raised (ValueError ''evaluation checks must be unique''))"

definition normalize_metrics :: "evaluation_metric list \<Rightarrow> evaluation_metric list result" where
  "normalize_metrics ms =
     (if distinct (map (\<lambda>m. (mt_name m, mt_segment m)) ms)
      then Success (sort_key (\<lambda>m. (mt_name m, mt_segment m)) ms)
      else Raised (ValueError ''evaluation metrics must be unique per segment''))"

definition normalize_baselines :: "string list \<Rightarrow> string list result" where
  "normalize_baselines bs =
     (if distinct bs \<and> \<not> list_ex blank bs then Success (sort bs)
      else Raised (ValueError ''baseline ids must be unique and non-blank''))"

definition required_passed :: "evaluation_report \<Rightarrow> bool" where
  "required_passed r \<longleftrightarrow>
     list_all (\<lambda>c. ek_kind c \<in> set MANDATORY_EVALUATION_CHECKS \<longrightarrow> ek_status c = CHECK_PASSED)
       (er_checks r)"

definition validate_report_integrity :: "evaluation_report \<Rightarrow> evaluation_report result" where
  "validate_report_integrity r = check_all
     [(list_all (\<lambda>k. k \<in> set (map ek_kind (er_checks r))) MANDATORY_EVALUATION_CHECKS,
       ''mandatory evaluation checks are missing''),
      (\<not> (er_passed r \<and> (\<not> required_passed r \<or> er_calibration r \<noteq> CALIBRATED)),
       ''passed evaluation requires passed checks and calibration''),
      (\<not> (er_window_end r \<le> er_window_start r \<or> er_window_end r > er_as_of r),
       ''evaluation report has an invalid point-in-time window''),
      (\<not> (er_created_at r < er_as_of r \<or> er_valid_until r \<le> er_created_at r),
       ''evaluation report has an invalid validity timeline'')] r"

definition evaluation_fields_ok :: "evaluation_report \<Rightarrow> bool" where
  "evaluation_fields_ok r \<longleftrightarrow>
     code_ok (er_strategy_id r) \<and> version_ok (er_strategy_version r) \<and>
     sha256_ok (er_strategy_manifest_hash r) \<and> sha256_ok (er_data_hash r) \<and>
     sha256_ok (er_runtime_hash r) \<and> sha256_ok (er_evaluation_policy_hash r) \<and>
     er_checks r \<noteq> [] \<and> length (er_checks r) \<le> 64 \<and>
     er_metrics r \<noteq> [] \<and> length (er_metrics r) \<le> 512 \<and>
     er_baseline_ids r \<noteq> [] \<and> length (er_baseline_ids r) \<le> 64 \<and>
     artifact_ref_ok (er_report_artifact_ref r)"

definition make_evaluation_report :: "evaluation_report \<Rightarrow> evaluation_report result" where
  "make_evaluation_report r =
     bind (require (evaluation_fields_ok r) ''field'') (\<lambda>_.
     bind (normalize_checks (er_checks r)) (\<lambda>checks.
     bind (normalize_metrics (er_metrics r)) (\<lambda>metrics.
     bind (normalize_baselines (er_baseline_ids r)) (\<lambda>baselines.
     validate_report_integrity
       (r\<lparr>er_checks := checks, er_metrics := metrics, er_baseline_ids := baselines\<rparr>)))))"

definition evaluation_check_json :: "evaluation_check \<Rightarrow> json" where
  "evaluation_check_json c = JObj
     [(''kind'', JStr (check_kind_value (ek_kind c))),
      (''status'', JStr (check_status_value (ek_status c))),
      (''reason_codes'', JList (map JStr (ek_reason_codes c))),
      (''details_artifact_ref'', jopt JStr (ek_details_artifact_ref c))]"

definition metric_json :: "evaluation_metric \<Rightarrow> json" where
  "metric_json m = JObj
     [(''name'', JStr (mt_name m)), (''value'', jdec (mt_value m)), (''unit'', JStr (mt_unit m)),
      (''segment'', JStr (mt_segment m))]"

text \<open>The evaluation hash leaves out the report id, the artifact, the creation time and the expiry.\<close>

definition evaluation_fields :: "evaluation_report \<Rightarrow> (string \<times> json) list" where
  "evaluation_fields r =
     [(''strategy_id'', JStr (er_strategy_id r)),
      (''strategy_version'', JStr (er_strategy_version r)),
      (''strategy_manifest_hash'', JStr (er_strategy_manifest_hash r)),
      (''dataset_snapshot_id'', JStr (er_dataset_snapshot_id r)),
      (''data_hash'', JStr (er_data_hash r)), (''runtime_hash'', JStr (er_runtime_hash r)),
      (''evaluation_policy_hash'', JStr (er_evaluation_policy_hash r)),
      (''as_of'', jtime (er_as_of r)), (''window_start'', jtime (er_window_start r)),
      (''window_end'', jtime (er_window_end r)),
      (''checks'', JList (map evaluation_check_json (er_checks r))),
      (''metrics'', JList (map metric_json (er_metrics r))),
      (''calibration'', JStr (calibration_value (er_calibration r))),
      (''baseline_ids'', JList (map JStr (er_baseline_ids r))),
      (''passed'', JBool (er_passed r))]"

definition evaluation_hash :: "hashing \<Rightarrow> evaluation_report \<Rightarrow> hash" where
  "evaluation_hash H r = stable_payload_hash H (JObj (evaluation_fields r))"

section \<open>Alpha signals\<close>

datatype signal_direction = LONG | SHORT | NEUTRAL
datatype signal_source = DETERMINISTIC | FORECAST | OPINION

record alpha_signal =
  sg_signal_id :: uuid
  sg_strategy_id :: string
  sg_strategy_version :: string
  sg_instrument_id :: uuid
  sg_as_of :: utc
  sg_generated_at :: utc
  sg_stale_at :: utc
  sg_expires_at :: utc
  sg_horizon :: string
  sg_value :: dec
  sg_confidence :: dec
  sg_calibration :: confidence_calibration
  sg_direction :: signal_direction
  sg_source :: signal_source
  sg_strategy_manifest_hash :: hash
  sg_dataset_snapshot_id :: uuid
  sg_data_hash :: hash
  sg_runtime_hash :: hash
  sg_evaluation_policy_hash :: hash
  sg_raw_output_artifact_ref :: string
  sg_evaluation_report_id :: "uuid option"
  sg_evaluation_hash :: "hash option"
  sg_evidence_refs :: "uuid list"
  sg_forecast_refs :: "uuid list"
  sg_reason_codes :: "string list"

definition unique_values :: "alpha_signal \<Rightarrow> bool" where
  "unique_values s \<longleftrightarrow>
     distinct (sg_evidence_refs s) \<and> distinct (sg_forecast_refs s) \<and>
     distinct (sg_reason_codes s) \<and> \<not> list_ex blank (sg_reason_codes s)"

fun direction_matches :: "signal_direction \<Rightarrow> dec \<Rightarrow> bool" where
  "direction_matches LONG v = (v > 0)"
| "direction_matches SHORT v = (v < 0)"
| "direction_matches NEUTRAL v = deq v 0"

definition validate_signal :: "alpha_signal \<Rightarrow> alpha_signal result" where
  "validate_signal s = check_all
     [(code_ok (sg_strategy_id s) \<and> version_ok (sg_strategy_version s) \<and>
       1 \<le> length (sg_horizon s) \<and> length (sg_horizon s) \<le> 128 \<and>
       signed_unit_ok (sg_value s) \<and> unit_ok (sg_confidence s) \<and>
       sha256_ok (sg_strategy_manifest_hash s) \<and> sha256_ok (sg_data_hash s) \<and>
       sha256_ok (sg_runtime_hash s) \<and> sha256_ok (sg_evaluation_policy_hash s) \<and>
       artifact_ref_ok (sg_raw_output_artifact_ref s) \<and>
       opt_ok sha256_ok (sg_evaluation_hash s) \<and> length (sg_evidence_refs s) \<le> 256 \<and>
       length (sg_forecast_refs s) \<le> 256 \<and> length (sg_reason_codes s) \<le> 64, ''field''),
      (unique_values s, ''signal references and reason codes must be unique''),
      (sg_as_of s \<le> sg_generated_at s \<and> sg_generated_at s < sg_stale_at s \<and>
       sg_stale_at s < sg_expires_at s, ''signal freshness timeline is invalid''),
      (direction_matches (sg_direction s) (sg_value s),
       ''signal direction does not match signed value''),
      (bound_together (sg_evaluation_report_id s) (sg_evaluation_hash s),
       ''signal evaluation id and hash must be bound together''),
      (\<not> (sg_source s = FORECAST \<and> sg_forecast_refs s = []),
       ''forecast-derived alpha requires a forecast reference'')] s"

section \<open>Eligibility\<close>

record eligibility_decision =
  el_eligible :: bool
  el_weight :: dec
  el_reason_codes :: "string list"

definition validate_eligibility :: "eligibility_decision \<Rightarrow> eligibility_decision result" where
  "validate_eligibility d = check_all
     [(unit_ok (el_weight d) \<and> el_reason_codes d \<noteq> [] \<and> length (el_reason_codes d) \<le> 32,
       ''field''),
      (\<not> (\<not> el_eligible d \<and> \<not> deq (el_weight d) 0),
       ''ineligible signals must have zero weight'')] d"

definition strategy_binding_matches :: "hashing \<Rightarrow> alpha_signal \<Rightarrow> strategy_entry \<Rightarrow> bool" where
  "strategy_binding_matches H s entry \<longleftrightarrow>
     (let m = se_manifest entry in
      sg_strategy_id s = mf_strategy_id m \<and>
      sg_strategy_version s = mf_strategy_version m \<and>
      sg_strategy_manifest_hash s = manifest_hash H m \<and>
      sg_runtime_hash s = mf_runtime_hash m)"

definition evaluation_binding_matches ::
  "hashing \<Rightarrow> alpha_signal \<Rightarrow> strategy_entry \<Rightarrow> evaluation_report \<Rightarrow> bool" where
  "evaluation_binding_matches H s entry r \<longleftrightarrow>
     sg_evaluation_report_id s = Some (er_report_id r) \<and>
     sg_evaluation_hash s = Some (evaluation_hash H r) \<and>
     se_evaluation_report_id entry = Some (er_report_id r) \<and>
     se_evaluation_hash entry = Some (evaluation_hash H r) \<and>
     sg_strategy_id s = er_strategy_id r \<and>
     sg_strategy_version s = er_strategy_version r \<and>
     sg_strategy_manifest_hash s = er_strategy_manifest_hash r \<and>
     sg_runtime_hash s = er_runtime_hash r \<and>
     sg_evaluation_policy_hash s = er_evaluation_policy_hash r"

definition evaluation_reason ::
  "hashing \<Rightarrow> alpha_signal \<Rightarrow> strategy_entry \<Rightarrow> evaluation_report option \<Rightarrow> utc \<Rightarrow> string option" where
  "evaluation_reason H s entry evaluation t =
     (case evaluation of
        None \<Rightarrow> Some ''evaluation_not_passed''
      | Some r \<Rightarrow>
          if \<not> er_passed r then Some ''evaluation_not_passed''
          else if er_valid_until r \<le> t then Some ''evaluation_expired''
          else if \<not> evaluation_binding_matches H s entry r then Some ''evaluation_binding_mismatch''
          else None)"

definition ineligibility_reason ::
  "hashing \<Rightarrow> alpha_signal \<Rightarrow> strategy_entry option \<Rightarrow> evaluation_report option \<Rightarrow> utc \<Rightarrow>
   string option" where
  "ineligibility_reason H s registry evaluation t =
     (if sg_expires_at s \<le> t then Some ''signal_expired''
      else if sg_stale_at s \<le> t then Some ''signal_stale''
      else if sg_calibration s \<noteq> CALIBRATED then Some ''uncalibrated''
      else case registry of
        None \<Rightarrow> Some ''strategy_unregistered''
      | Some entry \<Rightarrow>
          if se_state entry \<noteq> PAPER_ELIGIBLE then Some ''strategy_not_paper_eligible''
          else if \<not> strategy_binding_matches H s entry then Some ''strategy_binding_mismatch''
          else evaluation_reason H s entry evaluation t)"

definition evaluate_signal_eligibility ::
  "hashing \<Rightarrow> alpha_signal \<Rightarrow> strategy_entry option \<Rightarrow> evaluation_report option \<Rightarrow> utc \<Rightarrow>
   eligibility_decision result" where
  "evaluate_signal_eligibility H s registry evaluation t =
     (case ineligibility_reason H s registry evaluation t of
        Some reason \<Rightarrow> validate_eligibility
          \<lparr>el_eligible = False, el_weight = 0, el_reason_codes = [reason]\<rparr>
      | None \<Rightarrow> validate_eligibility
          \<lparr>el_eligible = True, el_weight = sg_confidence s, el_reason_codes = [''eligible'']\<rparr>)"

end
