(* ===== verification/Market_Session.thy ===== *)
theory Market_Session
  imports Risk
begin

text \<open>
  The market session of \<^verbatim>\<open>domain/calendar.py\<close>: the UTC boundaries of one trading day and the test
  whether a moment falls into it. The break boundaries of the source are plain \<^verbatim>\<open>datetime\<close>s that no
  validator forces to be aware, so they are raw times here and comparing a naive one raises.
\<close>

record market_session =
  ms_mic :: string
  ms_session_date :: int
  ms_opens_at :: pytime
  ms_closes_at :: pytime
  ms_break_start :: "pytime option"
  ms_break_end :: "pytime option"

fun aware :: "pytime \<Rightarrow> bool" where
  "aware (Utc t) = True"
| "aware (Naive t) = False"

definition validate_session :: "market_session \<Rightarrow> market_session result" where
  "validate_session s =
     bind (require (mic_ok (ms_mic s)) ''field'') (\<lambda>_.
     bind (require (aware (ms_opens_at s) \<and> aware (ms_closes_at s))
       ''session boundaries must be timezone-aware'') (\<lambda>_.
     bind (time_less (ms_opens_at s) (ms_closes_at s)) (\<lambda>later.
     bind (require later ''session close must be after open'') (\<lambda>_. Success s))))"

text \<open>\<^verbatim>\<open>low <= moment < high\<close> on raw times; the second comparison runs only when the first holds.\<close>

definition time_between :: "pytime \<Rightarrow> pytime \<Rightarrow> pytime \<Rightarrow> bool result" where
  "time_between low moment high =
     bind (time_less moment low) (\<lambda>before.
       if before then Success False else time_less moment high)"

definition is_open_at :: "market_session \<Rightarrow> pytime \<Rightarrow> bool result" where
  "is_open_at s moment =
     (if \<not> aware moment then Raised (ValueError ''timestamp must be timezone-aware'')
      else bind (time_between (ms_opens_at s) moment (ms_closes_at s)) (\<lambda>inside.
        if \<not> inside then Success False
        else case (ms_break_start s, ms_break_end s) of
          (Some start, Some stop) \<Rightarrow>
            bind (time_between start moment stop) (\<lambda>paused. Success (\<not> paused))
        | _ \<Rightarrow> Success True))"

lemma time_between_Utc [simp]:
  "time_between (Utc a) (Utc t) (Utc b) = Success (a \<le> t \<and> t < b)"
  by (auto simp: time_between_def)

text \<open>An open session contains the moment.\<close>

lemma is_open_at_inside:
  assumes "is_open_at s (Utc t) = Success True" "ms_opens_at s = Utc a" "ms_closes_at s = Utc b"
  shows "a \<le> t \<and> t < b"
  using assms by (auto simp: is_open_at_def split: if_splits)

end
