(* ===== verification/Risk_Gate.thy ===== *)
theory Risk_Gate
  imports Strategy_Signals Market_Session Reservations Ledger
begin

text \<open>
  The hard risk gate: the policy and the point-in-time inputs of \<^verbatim>\<open>domain/risk_evaluation.py\<close> and
  the nineteen checks of \<^verbatim>\<open>application/risk/evaluate.py\<close>, in the order in which the source computes
  them. A dictionary is an association list in insertion order and \<^verbatim>\<open>defaultdict(Decimal)\<close> starts
  every key at zero. \<^verbatim>\<open>Decimal(str(td.total_seconds()))\<close> is exact for spans below thirty years, and
  \<open>seconds_decimal\<close> writes out that value with the exponent the text of the float gives it.
\<close>

section \<open>Policy and inputs\<close>

datatype asset_class = EQUITY | ETF | FUND | INDEX | FX | CRYPTO | FUTURE | OPTION

fun asset_class_value :: "asset_class \<Rightarrow> string" where
  "asset_class_value EQUITY = ''equity''"
| "asset_class_value ETF = ''etf''"
| "asset_class_value FUND = ''fund''"
| "asset_class_value INDEX = ''index''"
| "asset_class_value FX = ''fx''"
| "asset_class_value CRYPTO = ''crypto''"
| "asset_class_value FUTURE = ''future''"
| "asset_class_value OPTION = ''option''"

record risk_policy =
  hp_policy_version :: string
  hp_decision_valid_seconds :: int
  hp_max_data_age_seconds :: int
  hp_max_kill_switch_age_seconds :: int
  hp_allowed_asset_classes :: "asset_class list"
  hp_max_pending_orders :: int
  hp_max_single_position_weight :: dec
  hp_max_sector_weight :: dec
  hp_max_asset_class_weight :: dec
  hp_max_gross_exposure :: dec
  hp_min_net_exposure :: dec
  hp_max_net_exposure :: dec
  hp_max_turnover :: dec
  hp_max_adv_participation :: dec
  hp_max_drawdown :: dec
  hp_max_daily_loss :: dec
  hp_require_market_open :: bool

definition validate_risk_policy :: "risk_policy \<Rightarrow> risk_policy result" where
  "validate_risk_policy p = check_all
     [(version_ok (hp_policy_version p) \<and>
       1 \<le> hp_decision_valid_seconds p \<and> hp_decision_valid_seconds p \<le> 3600 \<and>
       0 \<le> hp_max_data_age_seconds p \<and> hp_max_data_age_seconds p \<le> 86400 \<and>
       0 \<le> hp_max_kill_switch_age_seconds p \<and> hp_max_kill_switch_age_seconds p \<le> 3600 \<and>
       hp_allowed_asset_classes p \<noteq> [] \<and>
       0 \<le> hp_max_pending_orders p \<and> hp_max_pending_orders p \<le> 100000 \<and>
       unit_ok (hp_max_single_position_weight p) \<and> unit_ok (hp_max_sector_weight p) \<and>
       unit_ok (hp_max_asset_class_weight p) \<and> non_negative_ok (hp_max_gross_exposure p) \<and>
       non_negative_ok (hp_min_net_exposure p) \<and> non_negative_ok (hp_max_net_exposure p) \<and>
       non_negative_ok (hp_max_turnover p) \<and> unit_ok (hp_max_adv_participation p) \<and>
       unit_ok (hp_max_drawdown p) \<and> unit_ok (hp_max_daily_loss p), ''field''),
      (sorted_unique (map asset_class_value (hp_allowed_asset_classes p)),
       ''allowed asset classes must be unique and sorted''),
      (\<not> list_ex (\<lambda>v. v \<le> 0)
         [hp_max_single_position_weight p, hp_max_sector_weight p, hp_max_asset_class_weight p,
          hp_max_gross_exposure p, hp_max_net_exposure p, hp_max_turnover p,
          hp_max_adv_participation p],
       ''hard risk upper limits must be positive''),
      (\<not> hp_min_net_exposure p > hp_max_net_exposure p,
       ''minimum net exposure cannot exceed maximum'')] p"

definition risk_policy_hash :: "hashing \<Rightarrow> risk_policy \<Rightarrow> hash" where
  "risk_policy_hash H p = stable_payload_hash H (JObj
     [(''policy_version'', JStr (hp_policy_version p)),
      (''decision_valid_seconds'', JInt (hp_decision_valid_seconds p)),
      (''max_data_age_seconds'', JInt (hp_max_data_age_seconds p)),
      (''max_kill_switch_age_seconds'', JInt (hp_max_kill_switch_age_seconds p)),
      (''allowed_asset_classes'',
       JList (map (\<lambda>a. JStr (asset_class_value a)) (hp_allowed_asset_classes p))),
      (''max_pending_orders'', JInt (hp_max_pending_orders p)),
      (''max_single_position_weight'', jdec (hp_max_single_position_weight p)),
      (''max_sector_weight'', jdec (hp_max_sector_weight p)),
      (''max_asset_class_weight'', jdec (hp_max_asset_class_weight p)),
      (''max_gross_exposure'', jdec (hp_max_gross_exposure p)),
      (''min_net_exposure'', jdec (hp_min_net_exposure p)),
      (''max_net_exposure'', jdec (hp_max_net_exposure p)),
      (''max_turnover'', jdec (hp_max_turnover p)),
      (''max_adv_participation'', jdec (hp_max_adv_participation p)),
      (''max_drawdown'', jdec (hp_max_drawdown p)),
      (''max_daily_loss'', jdec (hp_max_daily_loss p)),
      (''require_market_open'', JBool (hp_require_market_open p))])"

record risk_instrument =
  ri_instrument_id :: uuid
  ri_asset_class :: asset_class
  ri_sector :: string
  ri_mic :: string
  ri_currency :: string
  ri_mark_price :: dec
  ri_mark_as_of :: utc
  ri_quantity_quantum :: dec
  ri_average_daily_volume :: dec
  ri_session :: market_session

definition validate_risk_instrument :: "risk_instrument \<Rightarrow> risk_instrument result" where
  "validate_risk_instrument i = check_all
     [(nonempty_ok (ri_sector i) \<and> mic_ok (ri_mic i) \<and> currency_ok (ri_currency i) \<and>
       positive_ok (ri_mark_price i) \<and> positive_ok (ri_quantity_quantum i) \<and>
       positive_ok (ri_average_daily_volume i), ''field''),
      (ms_mic (ri_session i) = ri_mic i,
       ''risk instrument and market session MIC differ'')] i"

record kill_switch_state =
  ks_global_active :: bool
  ks_account_active :: bool
  ks_observed_at :: utc

record signal_candidate =
  sc_signal :: alpha_signal
  sc_registry :: strategy_entry
  sc_evaluation :: evaluation_report

record risk_command =
  rq_decision_id :: uuid
  rq_snapshot :: account_snapshot
  rq_target :: portfolio_target
  rq_instruments :: "risk_instrument list"
  rq_signal_candidates :: "signal_candidate list"
  rq_open_reservations :: "reservation list"
  rq_ledger_head :: ledger_head
  rq_high_watermark_nav :: dec
  rq_day_start_nav :: dec
  rq_kill_switch :: kill_switch_state
  rq_at :: utc

definition validate_risk_command :: "risk_command \<Rightarrow> risk_command result" where
  "validate_risk_command c = check_all
     [(length (rq_instruments c) \<le> 100000 \<and> length (rq_signal_candidates c) \<le> 100000 \<and>
       length (rq_open_reservations c) \<le> 100000 \<and> positive_ok (rq_high_watermark_nav c) \<and>
       positive_ok (rq_day_start_nav c), ''field'')] c"

abbreviation allocations :: "risk_command \<Rightarrow> target_allocation list" where
  "allocations c \<equiv> pt_allocations (rq_target c)"

section \<open>Helpers of the checks\<close>

definition CALCULATION_QUANTUM :: dec where
  "CALCULATION_QUANTUM = Dec 1 (- 12)"

definition quantize :: "dec \<Rightarrow> dec result" where
  "quantize d = dec_quantize d CALCULATION_QUANTUM ROUND_HALF_EVEN"

definition seconds_decimal :: "int \<Rightarrow> dec" where
  "seconds_decimal us =
     (if us mod 1000000 = 0 then Dec (us div 100000) (- 1) else strip_zeros us 6 (- 6))"

text \<open>\<^verbatim>\<open>max(xs, default=ZERO)\<close>: the first of the largest values.\<close>

fun max_default :: "dec list \<Rightarrow> dec" where
  "max_default [] = 0"
| "max_default (x # xs) = fold (\<lambda>y m. py_max m y) xs x"

text \<open>\<^verbatim>\<open>d[k] += v\<close> on a \<^verbatim>\<open>defaultdict(Decimal)\<close>.\<close>

definition dict_add :: "'k \<Rightarrow> dec \<Rightarrow> ('k \<times> dec) list \<Rightarrow> ('k \<times> dec) list" where
  "dict_add k v kvs =
     dict_set k ((case map_of kvs k of None \<Rightarrow> 0 | Some w \<Rightarrow> w) + v) kvs"

text \<open>Equality of two dictionaries with Decimal values.\<close>

definition dict_eq :: "('k \<times> dec) list \<Rightarrow> ('k \<times> dec) list \<Rightarrow> bool" where
  "dict_eq a b \<longleftrightarrow>
     length a = length b \<and>
     list_all (\<lambda>(k, v). case map_of b k of None \<Rightarrow> False | Some w \<Rightarrow> deq v w) a"

definition without_zeros :: "('k \<times> dec) list \<Rightarrow> ('k \<times> dec) list" where
  "without_zeros kvs = filter (\<lambda>(k, v). \<not> deq v 0) kvs"

definition make_check ::
  "string \<Rightarrow> bool \<Rightarrow> dec option \<Rightarrow> dec option \<Rightarrow> string option \<Rightarrow> risk_check result" where
  "make_check code passed actual limit reason = validate_risk_check
     \<lparr>rc_code = code, rc_passed = passed, rc_actual = actual, rc_limit = limit,
      rc_reason = (if passed then None else reason)\<rparr>"

section \<open>The evaluation state\<close>

record evaluation_state =
  st_command :: risk_command
  st_instruments :: "(uuid \<times> risk_instrument) list"
  st_duplicate_instruments :: bool
  st_positions :: "(uuid \<times> position_balance) list"
  st_cash :: "cash_balance option"
  st_nav :: "dec option"

definition make_state :: "risk_command \<Rightarrow> evaluation_state" where
  "make_state c =
     (let instruments = dict_of ri_instrument_id (\<lambda>i. i) (rq_instruments c);
          positions = dict_of pb_instrument_id (\<lambda>p. p) (sn_positions (rq_snapshot c));
          cash = List.find (\<lambda>b. cb_currency b = pt_cost_currency (rq_target c))
                   (sn_cash (rq_snapshot c));
          missing_marks = list_ex (\<lambda>p. map_of instruments (pb_instrument_id p) = None)
                            (map snd positions);
          nav = (case cash of
                   Some b \<Rightarrow> if missing_marks then None
                     else Some (cb_settled_amount b + dec_sum
                       (map (\<lambda>p. pb_quantity p *
                          ri_mark_price (the (map_of instruments (pb_instrument_id p))))
                        (map snd positions)) 0)
                 | None \<Rightarrow> None)
      in \<lparr>st_command = c, st_instruments = instruments,
          st_duplicate_instruments = (length instruments \<noteq> length (rq_instruments c)),
          st_positions = positions, st_cash = cash,
          st_nav = (case nav of Some v \<Rightarrow> if v > 0 then Some v else None | None \<Rightarrow> None)\<rparr>)"

section \<open>The checks\<close>

definition position_matches :: "account_snapshot \<Rightarrow> portfolio_target \<Rightarrow> bool" where
  "position_matches snapshot target \<longleftrightarrow>
     (let allocation_quantities =
            dict_of al_instrument_id al_current_quantity (pt_allocations target);
          position_quantities = dict_of pb_instrument_id pb_quantity (sn_positions snapshot)
      in list_all (\<lambda>(i, q). case map_of allocation_quantities i of
                     None \<Rightarrow> False | Some v \<Rightarrow> deq v q) position_quantities \<and>
         list_all (\<lambda>(i, q). map_of position_quantities i \<noteq> None \<or> deq q 0)
           allocation_quantities)"

definition target_binding_matches :: "hashing \<Rightarrow> risk_command \<Rightarrow> bool" where
  "target_binding_matches H c \<longleftrightarrow>
     (let snapshot = rq_snapshot c; target = rq_target c in
      pt_calculation_hash target = expected_calculation_hash H target \<and>
      pt_account_id target = sn_account_id snapshot \<and>
      pt_portfolio_snapshot_id target = sn_snapshot_id snapshot \<and>
      pt_account_aggregate_sequence target = sn_account_aggregate_sequence snapshot \<and>
      pt_portfolio_sequence target = sn_portfolio_sequence snapshot \<and>
      pt_as_of target = sn_as_of snapshot \<and> pt_as_of target \<le> rq_at c \<and>
      position_matches snapshot target)"

definition target_binding_check :: "hashing \<Rightarrow> risk_command \<Rightarrow> risk_check result" where
  "target_binding_check H c =
     make_check ''target_binding'' (target_binding_matches H c) None None
       (Some ''target does not match current account snapshot'')"

definition required_instruments :: "risk_command \<Rightarrow> uuid list" where
  "required_instruments c =
     remdups (map al_instrument_id (allocations c) @
              map pb_instrument_id (sn_positions (rq_snapshot c)))"

text \<open>What makes one known, required instrument unusable.\<close>

definition instrument_invalid ::
  "risk_policy \<Rightarrow> risk_command \<Rightarrow> uuid \<Rightarrow> risk_instrument \<Rightarrow> bool" where
  "instrument_invalid p c i instrument \<longleftrightarrow>
     (let age = seconds_decimal (rq_at c - ri_mark_as_of instrument) in
      age < 0 \<or> age > Dec (hp_max_data_age_seconds p) 0 \<or>
      ri_currency instrument \<noteq> pt_cost_currency (rq_target c) \<or>
      (case map_of (dict_of al_instrument_id (\<lambda>a. a) (allocations c)) i of
         None \<Rightarrow> False
       | Some a \<Rightarrow> \<not> deq (ri_quantity_quantum instrument) (al_quantity_quantum a)))"

definition data_invalid :: "evaluation_state \<Rightarrow> risk_policy \<Rightarrow> bool" where
  "data_invalid st p \<longleftrightarrow>
     (let c = st_command st in
      st_duplicate_instruments st \<or>
      list_ex (\<lambda>i. case map_of (st_instruments st) i of
          None \<Rightarrow> True | Some instrument \<Rightarrow> instrument_invalid p c i instrument)
        (required_instruments c))"

definition data_check :: "evaluation_state \<Rightarrow> risk_policy \<Rightarrow> risk_check result" where
  "data_check st p =
     (let c = st_command st;
          ages = map (\<lambda>instrument. seconds_decimal (rq_at c - ri_mark_as_of instrument))
            (List.map_filter (map_of (st_instruments st)) (required_instruments c))
      in make_check ''data_freshness'' (\<not> data_invalid st p) (Some (max_default ages))
           (Some (Dec (hp_max_data_age_seconds p) 0))
           (Some ''mark data is missing, stale, future, or contract-incompatible''))"

definition signal_key :: "signal_candidate \<Rightarrow> uuid \<times> string \<times> string" where
  "signal_key c =
     (sg_instrument_id (sc_signal c), sg_strategy_id (sc_signal c),
      sg_strategy_version (sc_signal c))"

definition candidate_eligibility ::
  "hashing \<Rightarrow> utc \<Rightarrow> signal_candidate \<Rightarrow> eligibility_decision result" where
  "candidate_eligibility H t c =
     evaluate_signal_eligibility H (sc_signal c) (Some (sc_registry c)) (Some (sc_evaluation c)) t"

definition candidate_invalid :: "risk_command \<Rightarrow> signal_candidate \<Rightarrow> eligibility_decision \<Rightarrow> bool" where
  "candidate_invalid c candidate decision \<longleftrightarrow>
     \<not> el_eligible decision \<or>
     sg_generated_at (sc_signal candidate) > pt_as_of (rq_target c) \<or>
     se_updated_at (sc_registry candidate) > rq_at c \<or>
     er_created_at (sc_evaluation candidate) > rq_at c"

definition signals_valid :: "risk_command \<Rightarrow> eligibility_decision list \<Rightarrow> bool" where
  "signals_valid c decisions \<longleftrightarrow>
     (let candidates = rq_signal_candidates c;
          ids = map (\<lambda>x. sg_signal_id (sc_signal x)) candidates in
      distinct ids \<and> distinct (map signal_key candidates) \<and>
      set ids = set (pt_input_signal_ids (rq_target c)) \<and>
      list_all (\<lambda>(x, d). \<not> candidate_invalid c x d) (zip candidates decisions) \<and>
      list_all (\<lambda>a. al_delta_quantity a > 0 \<longrightarrow>
          al_instrument_id a \<in> set (map (\<lambda>x. sg_instrument_id (sc_signal x)) candidates))
        (allocations c))"

definition signal_check :: "hashing \<Rightarrow> risk_command \<Rightarrow> risk_check result" where
  "signal_check H c =
     bind (run_all (candidate_eligibility H (rq_at c)) (rq_signal_candidates c)) (\<lambda>decisions.
     make_check ''signal_freshness'' (signals_valid c decisions)
       (Some (Dec (int (length (filter
          (\<lambda>x. sg_signal_id (sc_signal x) \<notin> set (pt_input_signal_ids (rq_target c)))
          (rq_signal_candidates c)))) 0))
       (Some 0)
       (Some ''signal set is missing, stale, ineligible, future, or binding-incompatible''))"

definition ledger_matches :: "risk_command \<Rightarrow> bool" where
  "ledger_matches c \<longleftrightarrow>
     (let head = rq_ledger_head c; snapshot = rq_snapshot c in
      lh_account_id head = sn_account_id snapshot \<and>
      lh_sequence head = sn_ledger_sequence snapshot \<and>
      lh_transaction_hash head = sn_ledger_hash snapshot)"

definition ledger_check :: "risk_command \<Rightarrow> risk_check result" where
  "ledger_check c =
     make_check ''ledger_binding'' (ledger_matches c)
       (Some (Dec (lh_sequence (rq_ledger_head c)) 0))
       (Some (Dec (sn_ledger_sequence (rq_snapshot c)) 0))
       (Some ''ledger head does not match account snapshot'')"

definition kill_switch_clear :: "risk_command \<Rightarrow> risk_policy \<Rightarrow> bool" where
  "kill_switch_clear c p \<longleftrightarrow>
     (let switch = rq_kill_switch c; age = seconds_decimal (rq_at c - ks_observed_at switch) in
      age \<ge> 0 \<and> age \<le> Dec (hp_max_kill_switch_age_seconds p) 0 \<and>
      \<not> ks_global_active switch \<and> \<not> ks_account_active switch)"

definition kill_switch_check :: "risk_command \<Rightarrow> risk_policy \<Rightarrow> risk_check result" where
  "kill_switch_check c p =
     make_check ''kill_switch'' (kill_switch_clear c p)
       (Some (seconds_decimal (rq_at c - ks_observed_at (rq_kill_switch c))))
       (Some (Dec (hp_max_kill_switch_age_seconds p) 0))
       (Some ''kill switch is active, stale, or from the future'')"

definition cash_reserved :: "reservation list \<Rightarrow> (string \<times> dec) list" where
  "cash_reserved rs = fold (\<lambda>r kvs. if rv_kind r = CASH
     then dict_add (rv_commodity r) (rv_remaining_amount r) kvs else kvs) rs []"

definition position_reserved :: "reservation list \<Rightarrow> (uuid \<times> dec) list" where
  "position_reserved rs = fold (\<lambda>r kvs. if rv_kind r = CASH then kvs
     else case rv_instrument_id r of None \<Rightarrow> kvs
       | Some i \<Rightarrow> dict_add i (rv_remaining_amount r) kvs) rs []"

definition reservation_usable :: "risk_command \<Rightarrow> reservation \<Rightarrow> bool" where
  "reservation_usable c r \<longleftrightarrow>
     rv_state r \<in> {OPEN, PARTIALLY_CONSUMED} \<and>
     rv_account_id r = sn_account_id (rq_snapshot c) \<and>
     rv_updated_at r \<le> rq_at c \<and> rq_at c < rv_expires_at r"

definition reservations_reconcile :: "risk_command \<Rightarrow> bool" where
  "reservations_reconcile c \<longleftrightarrow>
     (let rs = rq_open_reservations c; snapshot = rq_snapshot c in
      list_all (reservation_usable c) rs \<and>
      dict_eq (without_zeros (cash_reserved rs))
        (without_zeros (dict_of cb_currency cb_reserved_amount (sn_cash snapshot))) \<and>
      dict_eq (without_zeros (position_reserved rs))
        (without_zeros (dict_of pb_instrument_id pb_reserved_quantity (sn_positions snapshot))) \<and>
      set (map rv_order_intent_id rs) = set (sn_pending_order_ids snapshot))"

definition reservation_check :: "risk_command \<Rightarrow> risk_check result" where
  "reservation_check c =
     make_check ''reservation_reconciliation'' (reservations_reconcile c)
       (Some (Dec (int (length (rq_open_reservations c))) 0))
       (Some (Dec (int (length (sn_pending_order_ids (rq_snapshot c)))) 0))
       (Some ''open reservations do not match reserved projections and pending orders'')"

text \<open>The cash that the planned purchases and the expected cost need; \<open>True\<close> for an unknown mark.\<close>

fun required_cash ::
  "(uuid \<times> risk_instrument) list \<Rightarrow> target_allocation list \<Rightarrow> bool \<Rightarrow> dec \<Rightarrow> bool \<times> dec" where
  "required_cash instruments [] missing required = (missing, required)"
| "required_cash instruments (a # as) missing required =
     (if al_delta_quantity a \<le> 0 then required_cash instruments as missing required
      else case map_of instruments (al_instrument_id a) of
        None \<Rightarrow> required_cash instruments as True required
      | Some i \<Rightarrow> required_cash instruments as missing
          (required + al_delta_quantity a * ri_mark_price i))"

definition cash_check :: "evaluation_state \<Rightarrow> risk_check result" where
  "cash_check st =
     (let c = st_command st;
          available = (case st_cash st of Some b \<Rightarrow> cash_available_amount b | None \<Rightarrow> 0)
      in case required_cash (st_instruments st) (allocations c) False
                (pt_expected_cost (rq_target c)) of
        (missing, required) \<Rightarrow>
          make_check ''cash_available''
            (\<not> missing \<and> st_cash st \<noteq> None \<and> required \<le> available) (Some required) (Some available)
            (Some ''base-currency available cash is insufficient or unknown''))"

definition sell_shortfall :: "evaluation_state \<Rightarrow> target_allocation \<Rightarrow> dec" where
  "sell_shortfall st a =
     \<bar>al_delta_quantity a\<bar> -
     (case map_of (st_positions st) (al_instrument_id a) of
        Some p \<Rightarrow> position_available_quantity p | None \<Rightarrow> 0)"

definition position_shortfall :: "evaluation_state \<Rightarrow> dec" where
  "position_shortfall st = fold (\<lambda>a shortfall.
     if al_delta_quantity a \<ge> 0 then shortfall else py_max shortfall (sell_shortfall st a))
     (allocations (st_command st)) 0"

definition position_check :: "evaluation_state \<Rightarrow> risk_check result" where
  "position_check st =
     make_check ''position_available'' (position_shortfall st \<le> 0)
       (Some (py_max 0 (position_shortfall st))) (Some 0)
       (Some ''sell quantity exceeds available position after reservations'')"

definition order_count :: "risk_command \<Rightarrow> int" where
  "order_count c =
     int (length (sn_pending_order_ids (rq_snapshot c))) +
     int (length (filter (\<lambda>a. \<not> deq (al_delta_quantity a) 0) (allocations c)))"

definition pending_orders_check :: "risk_command \<Rightarrow> risk_policy \<Rightarrow> risk_check result" where
  "pending_orders_check c p =
     make_check ''pending_orders'' (order_count c \<le> hp_max_pending_orders p)
       (Some (Dec (order_count c) 0)) (Some (Dec (hp_max_pending_orders p) 0))
       (Some ''pending plus planned orders exceed policy limit'')"

fun adv_participation ::
  "(uuid \<times> risk_instrument) list \<Rightarrow> target_allocation list \<Rightarrow> bool \<Rightarrow> dec \<Rightarrow> (bool \<times> dec) result" where
  "adv_participation instruments [] missing maximum = Success (missing, maximum)"
| "adv_participation instruments (a # as) missing maximum =
     (case map_of instruments (al_instrument_id a) of
        None \<Rightarrow> adv_participation instruments as True maximum
      | Some i \<Rightarrow> bind (dec_div \<bar>al_delta_quantity a\<bar> (ri_average_daily_volume i)) (\<lambda>share.
          adv_participation instruments as missing (py_max maximum share)))"

definition adv_check :: "evaluation_state \<Rightarrow> risk_policy \<Rightarrow> risk_check result" where
  "adv_check st p =
     bind (adv_participation (st_instruments st) (allocations (st_command st)) False 0)
       (\<lambda>(missing, maximum).
     bind (quantize maximum) (\<lambda>actual.
     make_check ''adv_participation''
       (\<not> missing \<and> maximum \<le> hp_max_adv_participation p) (Some actual)
       (Some (hp_max_adv_participation p))
       (Some ''planned quantity exceeds ADV participation limit or ADV is unknown'')))"

definition allocation_closed :: "evaluation_state \<Rightarrow> target_allocation \<Rightarrow> bool result" where
  "allocation_closed st a =
     (if deq (al_delta_quantity a) 0 then Success False
      else case map_of (st_instruments st) (al_instrument_id a) of
        None \<Rightarrow> Success True
      | Some i \<Rightarrow> bind (is_open_at (ri_session i) (Utc (rq_at (st_command st))))
          (\<lambda>is_open. Success (\<not> is_open)))"

definition market_session_check :: "evaluation_state \<Rightarrow> risk_policy \<Rightarrow> risk_check result" where
  "market_session_check st p =
     (if \<not> hp_require_market_open p
      then make_check ''market_session'' True (Some 0) (Some 0) None
      else bind (run_all (allocation_closed st) (allocations (st_command st))) (\<lambda>flags.
        let closed = int (length (filter (\<lambda>b. b) flags)) in
        make_check ''market_session'' (closed = 0) (Some (Dec closed 0)) (Some 0)
          (Some ''one or more target instruments are outside an open market session'')))"

definition single_position_check :: "risk_command \<Rightarrow> risk_policy \<Rightarrow> risk_check result" where
  "single_position_check c p =
     (let maximum = max_default (map (\<lambda>a. \<bar>al_target_weight a\<bar>) (allocations c)) in
      make_check ''single_position'' (maximum \<le> hp_max_single_position_weight p) (Some maximum)
        (Some (hp_max_single_position_weight p))
        (Some ''single-instrument target weight exceeds policy limit''))"

text \<open>Exposure per group of instruments: the loop shared by the sector and the asset class check.\<close>

fun group_exposure ::
  "(risk_instrument \<Rightarrow> 'k) \<Rightarrow> (risk_instrument \<Rightarrow> bool) \<Rightarrow> (uuid \<times> risk_instrument) list \<Rightarrow>
   target_allocation list \<Rightarrow> bool \<Rightarrow> ('k \<times> dec) list \<Rightarrow> bool \<times> ('k \<times> dec) list" where
  "group_exposure key bad instruments [] flag exposures = (flag, exposures)"
| "group_exposure key bad instruments (a # as) flag exposures =
     (case map_of instruments (al_instrument_id a) of
        None \<Rightarrow> group_exposure key bad instruments as True exposures
      | Some i \<Rightarrow> group_exposure key bad instruments as (flag \<or> bad i)
          (dict_add (key i) \<bar>al_target_weight a\<bar> exposures))"

definition sector_check :: "evaluation_state \<Rightarrow> risk_policy \<Rightarrow> risk_check result" where
  "sector_check st p =
     (case group_exposure ri_sector (\<lambda>i. False) (st_instruments st)
             (allocations (st_command st)) False [] of
        (missing, exposures) \<Rightarrow>
          let maximum = max_default (map snd exposures) in
          make_check ''sector_exposure'' (\<not> missing \<and> maximum \<le> hp_max_sector_weight p)
            (Some maximum) (Some (hp_max_sector_weight p))
            (Some ''sector exposure exceeds policy limit or sector is unknown''))"

definition asset_class_check :: "evaluation_state \<Rightarrow> risk_policy \<Rightarrow> risk_check result" where
  "asset_class_check st p =
     (case group_exposure ri_asset_class
             (\<lambda>i. ri_asset_class i \<notin> set (hp_allowed_asset_classes p)) (st_instruments st)
             (allocations (st_command st)) False [] of
        (unsupported, exposures) \<Rightarrow>
          let maximum = max_default (map snd exposures) in
          make_check ''asset_class'' (\<not> unsupported \<and> maximum \<le> hp_max_asset_class_weight p)
            (Some maximum) (Some (hp_max_asset_class_weight p))
            (Some ''asset class is unsupported, unknown, or over its exposure limit''))"

definition gross_exposure :: "risk_command \<Rightarrow> dec" where
  "gross_exposure c = dec_sum (map (\<lambda>a. \<bar>al_target_weight a\<bar>) (allocations c)) 0"

definition gross_check :: "evaluation_state \<Rightarrow> risk_policy \<Rightarrow> risk_check result" where
  "gross_check st p =
     (let gross = gross_exposure (st_command st) in
      make_check ''gross_exposure'' (gross \<le> hp_max_gross_exposure p) (Some gross)
        (Some (hp_max_gross_exposure p)) (Some ''gross exposure exceeds policy limit''))"

definition net_exposure :: "risk_command \<Rightarrow> dec" where
  "net_exposure c = dec_sum (map al_target_weight (allocations c)) 0"

definition net_check :: "evaluation_state \<Rightarrow> risk_policy \<Rightarrow> risk_check result" where
  "net_check st p =
     (let net = net_exposure (st_command st) in
      make_check ''net_exposure'' (hp_min_net_exposure p \<le> net \<and> net \<le> hp_max_net_exposure p)
        (Some net) (Some (hp_max_net_exposure p)) (Some ''net exposure is outside policy range''))"

definition turnover_check :: "risk_command \<Rightarrow> risk_policy \<Rightarrow> risk_check result" where
  "turnover_check c p =
     make_check ''turnover'' (pt_expected_turnover (rq_target c) \<le> hp_max_turnover p)
       (Some (pt_expected_turnover (rq_target c))) (Some (hp_max_turnover p))
       (Some ''expected turnover exceeds policy limit'')"

definition loss_ratio :: "dec option \<Rightarrow> dec \<Rightarrow> dec option result" where
  "loss_ratio current reference =
     (case current of
        None \<Rightarrow> Success None
      | Some nav \<Rightarrow> bind (dec_div (reference - nav) reference) (\<lambda>loss.
          bind (quantize (py_max 0 loss)) (\<lambda>q. Success (Some q))))"

definition loss_check ::
  "string \<Rightarrow> string \<Rightarrow> dec option \<Rightarrow> dec \<Rightarrow> dec \<Rightarrow> risk_check result" where
  "loss_check code reason nav reference limit =
     bind (loss_ratio nav reference) (\<lambda>loss.
     make_check code (case loss of None \<Rightarrow> False | Some v \<Rightarrow> v \<le> limit) loss (Some limit)
       (Some reason))"

definition drawdown_check :: "evaluation_state \<Rightarrow> risk_policy \<Rightarrow> risk_check result" where
  "drawdown_check st p =
     loss_check ''drawdown'' ''current drawdown exceeds policy limit or NAV is unknown''
       (st_nav st) (rq_high_watermark_nav (st_command st)) (hp_max_drawdown p)"

definition daily_loss_check :: "evaluation_state \<Rightarrow> risk_policy \<Rightarrow> risk_check result" where
  "daily_loss_check st p =
     loss_check ''daily_loss'' ''daily loss exceeds policy limit or NAV is unknown''
       (st_nav st) (rq_day_start_nav (st_command st)) (hp_max_daily_loss p)"

section \<open>The decision\<close>

definition all_checks :: "hashing \<Rightarrow> risk_command \<Rightarrow> risk_policy \<Rightarrow> risk_check result list" where
  "all_checks H c p =
     (let st = make_state c in
      [adv_check st p, asset_class_check st p, cash_check st, daily_loss_check st p,
       data_check st p, drawdown_check st p, gross_check st p, kill_switch_check c p,
       ledger_check c, market_session_check st p, net_check st p, pending_orders_check c p,
       position_check st, reservation_check c, sector_check st p, signal_check H c,
       single_position_check c p, target_binding_check H c, turnover_check c p])"

definition evaluate :: "hashing \<Rightarrow> risk_command \<Rightarrow> risk_policy \<Rightarrow> risk_decision result" where
  "evaluate H c p =
     bind (run_all (\<lambda>r. r) (all_checks H c p)) (\<lambda>results.
     let checks = sort_key rc_code results; approved = list_all rc_passed checks in
     create_decision H (rq_decision_id c) (rq_target c) approved
       (if approved then Some (rq_target c) else None) checks (hp_policy_version p)
       (risk_policy_hash H p) (rq_at c) (rq_at c + 1000000 * hp_decision_valid_seconds p))"

end
