(* ===== verification/Risk_Gate_Properties.thy ===== *)
theory Risk_Gate_Properties
  imports Risk_Gate Sample_Hashing
begin

text \<open>
  What the hard risk gate guarantees. \<open>hard_limits_hold\<close> states the limits on the numbers, the
  times and the sets of the inputs, without the loops and dictionaries of the code; the gate
  approves a target exactly when they hold, and a decision always carries all nineteen checks.
\<close>

section \<open>Numerical readings of the helpers\<close>

lemma val_fold_max: "val (fold (\<lambda>y m. py_max m y) xs x) \<le> b \<longleftrightarrow> val x \<le> b \<and> (\<forall>y \<in> set xs. val y \<le> b)"
  by (induction xs arbitrary: x) (auto simp: val_py_max)

lemma max_default_le:
  "0 \<le> val b \<Longrightarrow> max_default xs \<le> b \<longleftrightarrow> (\<forall>x \<in> set xs. val x \<le> val b)"
  by (cases xs) (simp_all add: dec_le_iff val_fold_max)

lemma val_seconds: "val (seconds_decimal us) = of_int us / 1000000"
proof (cases "us mod 1000000 = 0")
  case True
  then obtain k where "us = 1000000 * k"
    by (metis dvd_eq_mod_eq_0 dvd_def)
  then show ?thesis
    by (simp add: seconds_decimal_def val_Dec pten_minus)
next
  case False
  then show ?thesis
    using pten_minus [of 6] pten_nat [of 6] by (simp add: seconds_decimal_def val_strip_zeros)
qed

lemma val_nat_dec [simp]: "val (Dec n 0) = of_int n"
  by (simp add: val_Dec)

lemma seconds_le_iff: "seconds_decimal us \<le> Dec s 0 \<longleftrightarrow> us \<le> 1000000 * s"
proof -
  have "of_int us / 1000000 \<le> (of_int s :: rat) \<longleftrightarrow> of_int us \<le> (of_int (1000000 * s) :: rat)"
    by (simp add: pos_divide_le_eq mult.commute)
  then show ?thesis
    unfolding of_int_le_iff by (simp add: dec_le_iff val_seconds)
qed

lemma seconds_less_iff: "Dec s 0 < seconds_decimal us \<longleftrightarrow> 1000000 * s < us"
  using seconds_le_iff [of us s] by (simp add: dec_le_iff dec_less_iff flip: linorder_not_le)

lemma seconds_neg_iff: "seconds_decimal us < 0 \<longleftrightarrow> us < 0"
  by (simp add: dec_less_iff val_seconds divide_less_0_iff)

lemma seconds_nonneg_iff: "0 \<le> seconds_decimal us \<longleftrightarrow> 0 \<le> us"
  using seconds_neg_iff [of us] by (simp add: dec_le_iff dec_less_iff flip: linorder_not_less)

section \<open>What a passed check says\<close>

lemma make_check_Success:
  "make_check code passed actual limit reason = Success r \<Longrightarrow> rc_passed r = passed \<and> rc_code r = code"
  by (auto simp: make_check_def validate_risk_check_def res_simps)

lemma make_check_not_Failure [simp]: "make_check code passed actual limit reason \<noteq> Failure c m"
  by (simp add: make_check_def validate_risk_check_def)

text \<open>The exposure loop computes, for every group, the sum over the group's allocations.\<close>

definition group_weights ::
  "(risk_instrument \<Rightarrow> 'k) \<Rightarrow> (uuid \<times> risk_instrument) list \<Rightarrow> target_allocation list \<Rightarrow> 'k \<Rightarrow> dec list"
  where
  "group_weights key instruments as k =
     map (\<lambda>a. \<bar>al_target_weight a\<bar>)
       (filter (\<lambda>a. map_option key (map_of instruments (al_instrument_id a)) = Some k) as)"

lemma dict_add_map_of:
  "map_of (dict_add k v kvs) = (map_of kvs)(k \<mapsto> (case map_of kvs k of None \<Rightarrow> 0 | Some w \<Rightarrow> w) + v)"
  by (simp add: dict_add_def)

lemma distinct_dict_add: "distinct (map fst kvs) \<Longrightarrow> distinct (map fst (dict_add k v kvs))"
  by (simp add: dict_add_def distinct_dict_set)

lemma group_exposure_flag:
  "fst (group_exposure key bad instruments as flag kvs) \<longleftrightarrow>
     flag \<or> (\<exists>a \<in> set as. case map_of instruments (al_instrument_id a) of
                 None \<Rightarrow> True | Some i \<Rightarrow> bad i)"
  by (induction as arbitrary: flag kvs) (auto split: option.splits)

lemma group_exposure_distinct:
  "distinct (map fst kvs) \<Longrightarrow>
   distinct (map fst (snd (group_exposure key bad instruments as flag kvs)))"
  by (induction as arbitrary: flag kvs) (auto split: option.splits simp: distinct_dict_add)

lemma group_exposure_sum:
  "map_of (snd (group_exposure key bad instruments as flag kvs)) k =
     (if map_of kvs k = None \<and> group_weights key instruments as k = [] then None
      else Some (dec_sum (group_weights key instruments as k)
        (case map_of kvs k of None \<Rightarrow> 0 | Some w \<Rightarrow> w)))"
  by (induction as arbitrary: flag kvs)
    (auto split: option.splits simp: group_weights_def dec_sum_def dict_add_map_of)

lemma exposure_values:
  assumes "0 \<le> val b"
  shows "(\<forall>x \<in> set (map snd (snd (group_exposure key bad instruments as flag []))). val x \<le> val b) \<longleftrightarrow>
     (\<forall>k. val (dec_sum (group_weights key instruments as k) 0) \<le> val b)" (is "?L \<longleftrightarrow> ?R")
proof -
  let ?kvs = "snd (group_exposure key bad instruments as flag [])"
  have mem: "(k, v) \<in> set ?kvs \<longleftrightarrow> map_of ?kvs k = Some v" for k v
    using group_exposure_distinct [of "[]" key bad instruments as flag] by simp
  have "?L \<longleftrightarrow> (\<forall>k v. map_of ?kvs k = Some v \<longrightarrow> val v \<le> val b)"
    using mem by fastforce
  also have "\<dots> \<longleftrightarrow> ?R"
    using assms by (auto simp: group_exposure_sum dec_sum_def) (metis fold_simps(1) val_0)
  finally show ?thesis .
qed

lemma position_shortfall_le:
  "position_shortfall st \<le> 0 \<longleftrightarrow>
     (\<forall>a \<in> set (allocations (st_command st)). val (al_delta_quantity a) < 0 \<longrightarrow>
        val (sell_shortfall st a) \<le> 0)"
proof -
  have loop: "val (fold (\<lambda>a m. if al_delta_quantity a \<ge> 0 then m else py_max m (f a)) as x) \<le> 0 \<longleftrightarrow>
      val x \<le> 0 \<and> (\<forall>a \<in> set as. val (al_delta_quantity a) < 0 \<longrightarrow> val (f a) \<le> 0)" for f as x
    by (induction as arbitrary: x) (auto simp: val_py_max dec_le_iff)
  show ?thesis
    using loop [of "sell_shortfall st" "allocations (st_command st)" 0]
    by (simp only: position_shortfall_def dec_le_iff [of "fold _ _ _"] val_0 order_refl simp_thms)
qed

lemma adv_participation_Success:
  assumes "adv_participation instruments as missing m = Success (miss, mx)"
  shows "\<not> miss \<and> val mx \<le> b \<longleftrightarrow> \<not> missing \<and> val m \<le> b \<and>
     (\<forall>a \<in> set as. \<exists>i. map_of instruments (al_instrument_id a) = Some i \<and>
        rnd (val \<bar>al_delta_quantity a\<bar> / val (ri_average_daily_volume i)) \<le> b)"
  using assms
proof (induction as arbitrary: missing m)
  case Nil
  then show ?case by simp
next
  case (Cons a as)
  show ?case
  proof (cases "map_of instruments (al_instrument_id a)")
    case None
    with Cons show ?thesis by auto
  next
    case (Some i)
    with Cons.prems obtain share
      where share: "dec_div \<bar>al_delta_quantity a\<bar> (ri_average_daily_volume i) = Success share"
        and rest: "adv_participation instruments as missing (py_max m share) = Success (miss, mx)"
      by (auto simp: bind_Success_iff)
    from Cons.IH [OF rest] dec_div_Success [OF share] Some show ?thesis
      by (auto simp: val_py_max)
  qed
qed

section \<open>The limits, stated on the inputs\<close>

definition instrument_of :: "risk_command \<Rightarrow> uuid \<Rightarrow> risk_instrument option" where
  "instrument_of c = map_of (dict_of ri_instrument_id (\<lambda>i. i) (rq_instruments c))"

definition mark_usable :: "risk_command \<Rightarrow> risk_policy \<Rightarrow> uuid \<Rightarrow> risk_instrument \<Rightarrow> bool" where
  "mark_usable c p i x \<longleftrightarrow>
     ri_mark_as_of x \<le> rq_at c \<and>
     rq_at c \<le> ri_mark_as_of x + 1000000 * hp_max_data_age_seconds p \<and>
     ri_currency x = pt_cost_currency (rq_target c) \<and>
     (\<forall>a. map_of (dict_of al_instrument_id (\<lambda>a. a) (allocations c)) i = Some a \<longrightarrow>
        val (ri_quantity_quantum x) = val (al_quantity_quantum a))"

definition data_limits :: "risk_command \<Rightarrow> risk_policy \<Rightarrow> bool" where
  "data_limits c p \<longleftrightarrow>
     length (dict_of ri_instrument_id (\<lambda>i. i) (rq_instruments c)) = length (rq_instruments c) \<and>
     (\<forall>i \<in> al_instrument_id ` set (allocations c) \<union> pb_instrument_id ` set (sn_positions (rq_snapshot c)).
        \<exists>x. instrument_of c i = Some x \<and> mark_usable c p i x)"

definition signal_limits :: "hashing \<Rightarrow> risk_command \<Rightarrow> bool" where
  "signal_limits H c \<longleftrightarrow>
     distinct (map (\<lambda>x. sg_signal_id (sc_signal x)) (rq_signal_candidates c)) \<and>
     distinct (map signal_key (rq_signal_candidates c)) \<and>
     (\<lambda>x. sg_signal_id (sc_signal x)) ` set (rq_signal_candidates c) =
       set (pt_input_signal_ids (rq_target c)) \<and>
     (\<forall>x \<in> set (rq_signal_candidates c).
        ineligibility_reason H (sc_signal x) (Some (sc_registry x)) (Some (sc_evaluation x))
          (rq_at c) = None \<and>
        sg_generated_at (sc_signal x) \<le> pt_as_of (rq_target c) \<and>
        se_updated_at (sc_registry x) \<le> rq_at c \<and> er_created_at (sc_evaluation x) \<le> rq_at c) \<and>
     (\<forall>a \<in> set (allocations c). 0 < val (al_delta_quantity a) \<longrightarrow>
        (\<exists>x \<in> set (rq_signal_candidates c). sg_instrument_id (sc_signal x) = al_instrument_id a))"

definition kill_switch_limits :: "risk_command \<Rightarrow> risk_policy \<Rightarrow> bool" where
  "kill_switch_limits c p \<longleftrightarrow>
     (let k = rq_kill_switch c in
      \<not> ks_global_active k \<and> \<not> ks_account_active k \<and> ks_observed_at k \<le> rq_at c \<and>
      rq_at c \<le> ks_observed_at k + 1000000 * hp_max_kill_switch_age_seconds p)"

text \<open>
  Cash and positions: the base-currency cash exists and covers the purchases, every sale is
  covered by the unreserved position, and every traded instrument has a known mark.
\<close>

definition balance_limits :: "risk_command \<Rightarrow> bool" where
  "balance_limits c \<longleftrightarrow>
     (\<exists>b. List.find (\<lambda>b. cb_currency b = pt_cost_currency (rq_target c)) (sn_cash (rq_snapshot c)) = Some b \<and>
        (\<forall>a \<in> set (allocations c). 0 < val (al_delta_quantity a) \<longrightarrow>
           instrument_of c (al_instrument_id a) \<noteq> None) \<and>
        val (dec_sum (map (\<lambda>a. al_delta_quantity a *
              ri_mark_price (the (instrument_of c (al_instrument_id a))))
            (filter (\<lambda>a. 0 < val (al_delta_quantity a)) (allocations c)))
          (pt_expected_cost (rq_target c))) \<le> val (cash_available_amount b)) \<and>
     (\<forall>a \<in> set (allocations c). val (al_delta_quantity a) < 0 \<longrightarrow>
        rnd (- val (al_delta_quantity a)) \<le>
        (case map_of (dict_of pb_instrument_id (\<lambda>p. p) (sn_positions (rq_snapshot c)))
           (al_instrument_id a) of
           Some b \<Rightarrow> val (position_available_quantity b) | None \<Rightarrow> 0))"

definition market_limits :: "risk_command \<Rightarrow> risk_policy \<Rightarrow> bool" where
  "market_limits c p \<longleftrightarrow>
     (hp_require_market_open p \<longrightarrow>
        (\<forall>a \<in> set (allocations c). val (al_delta_quantity a) \<noteq> 0 \<longrightarrow>
           (\<exists>x. instrument_of c (al_instrument_id a) = Some x \<and>
              is_open_at (ri_session x) (Utc (rq_at c)) = Success True))) \<and>
     (\<forall>a \<in> set (allocations c). \<exists>x. instrument_of c (al_instrument_id a) = Some x \<and>
        ri_asset_class x \<in> set (hp_allowed_asset_classes p) \<and>
        rnd (val \<bar>al_delta_quantity a\<bar> / val (ri_average_daily_volume x)) \<le>
          val (hp_max_adv_participation p))"

definition exposure_limits :: "risk_command \<Rightarrow> risk_policy \<Rightarrow> bool" where
  "exposure_limits c p \<longleftrightarrow>
     (let instruments = dict_of ri_instrument_id (\<lambda>i. i) (rq_instruments c) in
      (\<forall>a \<in> set (allocations c). rnd \<bar>val (al_target_weight a)\<bar> \<le> val (hp_max_single_position_weight p)) \<and>
      (\<forall>k. val (dec_sum (group_weights ri_sector instruments (allocations c) k) 0) \<le>
             val (hp_max_sector_weight p)) \<and>
      (\<forall>k. val (dec_sum (group_weights ri_asset_class instruments (allocations c) k) 0) \<le>
             val (hp_max_asset_class_weight p)) \<and>
      val (gross_exposure c) \<le> val (hp_max_gross_exposure p) \<and>
      val (hp_min_net_exposure p) \<le> val (net_exposure c) \<and>
      val (net_exposure c) \<le> val (hp_max_net_exposure p) \<and>
      val (pt_expected_turnover (rq_target c)) \<le> val (hp_max_turnover p) \<and>
      order_count c \<le> hp_max_pending_orders p)"

text \<open>The loss relative to a reference value, rounded to the calculation quantum.\<close>

definition loss_within :: "dec option \<Rightarrow> dec \<Rightarrow> dec \<Rightarrow> bool" where
  "loss_within nav reference limit \<longleftrightarrow>
     (\<exists>v. nav = Some v \<and>
        of_int (rhe (max 0 (rnd (rnd (val reference - val v) / val reference)) * 10 ^ 12)) / 10 ^ 12
          \<le> val limit)"

definition hard_limits_hold :: "hashing \<Rightarrow> risk_command \<Rightarrow> risk_policy \<Rightarrow> bool" where
  "hard_limits_hold H c p \<longleftrightarrow>
     target_binding_matches H c \<and> ledger_matches c \<and> reservations_reconcile c \<and>
     kill_switch_limits c p \<and> data_limits c p \<and> signal_limits H c \<and> balance_limits c \<and>
     market_limits c p \<and> exposure_limits c p \<and>
     loss_within (st_nav (make_state c)) (rq_high_watermark_nav c) (hp_max_drawdown p) \<and>
     loss_within (st_nav (make_state c)) (rq_day_start_nav c) (hp_max_daily_loss p)"

section \<open>Each check against its limit\<close>

lemma make_state_simps [simp]:
  "st_command (make_state c) = c"
  "map_of (st_instruments (make_state c)) = instrument_of c"
  "st_positions (make_state c) = dict_of pb_instrument_id (\<lambda>p. p) (sn_positions (rq_snapshot c))"
  "st_cash (make_state c) =
     List.find (\<lambda>b. cb_currency b = pt_cost_currency (rq_target c)) (sn_cash (rq_snapshot c))"
  by (simp_all add: make_state_def Let_def instrument_of_def)

lemma make_state_dict:
  "st_instruments (make_state c) = dict_of ri_instrument_id (\<lambda>i. i) (rq_instruments c)"
  "map_of (dict_of ri_instrument_id (\<lambda>i. i) (rq_instruments c)) = instrument_of c"
  by (simp_all add: make_state_def Let_def instrument_of_def)

lemma valid_policy_limits:
  assumes "validate_risk_policy p = Success p"
  shows "0 \<le> val (hp_max_single_position_weight p)" "0 \<le> val (hp_max_sector_weight p)"
    "0 \<le> val (hp_max_asset_class_weight p)" "0 \<le> val (hp_max_adv_participation p)"
  using assms by (auto simp: validate_risk_policy_def res_simps unit_ok_def dec_le_iff)

lemma kill_switch_clear_iff: "kill_switch_clear c p \<longleftrightarrow> kill_switch_limits c p"
  by (auto simp: kill_switch_clear_def kill_switch_limits_def Let_def seconds_nonneg_iff
      seconds_le_iff)

lemma data_invalid_iff: "\<not> data_invalid (make_state c) p \<longleftrightarrow> data_limits c p"
proof -
  have "(case instrument_of c i of None \<Rightarrow> True | Some x \<Rightarrow> instrument_invalid p c i x) \<longleftrightarrow>
      \<not> (\<exists>x. instrument_of c i = Some x \<and> mark_usable c p i x)" for i
    by (auto simp: instrument_invalid_def mark_usable_def Let_def seconds_neg_iff seconds_less_iff deq_iff
        simp del: map_of_eq_Some_iff split: option.splits)
  moreover have "st_duplicate_instruments (make_state c) \<longleftrightarrow>
      length (dict_of ri_instrument_id (\<lambda>i. i) (rq_instruments c)) \<noteq> length (rq_instruments c)"
    by (simp add: make_state_def Let_def)
  ultimately show ?thesis
    by (simp add: data_invalid_def data_limits_def Let_def required_instruments_def list_ex_iff
        Un_commute)
qed

lemma eligible_iff:
  "evaluate_signal_eligibility H s r e t = Success d \<Longrightarrow>
   el_eligible d \<longleftrightarrow> ineligibility_reason H s r e t = None"
  by (auto simp: evaluate_signal_eligibility_def validate_eligibility_def res_simps
      split: option.splits)

lemma signals_valid_iff:
  assumes "run_all (candidate_eligibility H (rq_at c)) (rq_signal_candidates c) = Success ds"
  shows "signals_valid c ds \<longleftrightarrow> signal_limits H c"
proof -
  have all: "list_all2 (\<lambda>x d. candidate_eligibility H (rq_at c) x = Success d)
      (rq_signal_candidates c) ds"
    using assms by (simp add: run_all_Success)
  have "candidate_eligibility H (rq_at c) x = Success d \<Longrightarrow> \<not> candidate_invalid c x d \<longleftrightarrow>
      ineligibility_reason H (sc_signal x) (Some (sc_registry x)) (Some (sc_evaluation x))
        (rq_at c) = None \<and> sg_generated_at (sc_signal x) \<le> pt_as_of (rq_target c) \<and>
      se_updated_at (sc_registry x) \<le> rq_at c \<and> er_created_at (sc_evaluation x) \<le> rq_at c" for x d
    using eligible_iff [of H "sc_signal x" _ _ "rq_at c" d]
    by (auto simp: candidate_invalid_def candidate_eligibility_def)
  with all have "list_all (\<lambda>(x, d). \<not> candidate_invalid c x d) (zip (rq_signal_candidates c) ds) \<longleftrightarrow>
      list_all (\<lambda>x. ineligibility_reason H (sc_signal x) (Some (sc_registry x))
          (Some (sc_evaluation x)) (rq_at c) = None \<and>
        sg_generated_at (sc_signal x) \<le> pt_as_of (rq_target c) \<and>
        se_updated_at (sc_registry x) \<le> rq_at c \<and> er_created_at (sc_evaluation x) \<le> rq_at c)
        (rq_signal_candidates c)"
    by (induction rule: list_all2_induct) auto
  then show ?thesis
    by (simp add: signals_valid_def signal_limits_def Let_def list_all_iff dec_less_iff image_iff
        eq_commute [of "al_instrument_id _"])
qed


lemma required_cash_eq:
  "required_cash instruments as missing required =
     (missing \<or> (\<exists>a \<in> set as. 0 < val (al_delta_quantity a) \<and>
         map_of instruments (al_instrument_id a) = None),
      dec_sum (map (\<lambda>a. al_delta_quantity a *
            ri_mark_price (the (map_of instruments (al_instrument_id a))))
          (filter (\<lambda>a. 0 < val (al_delta_quantity a) \<and>
             map_of instruments (al_instrument_id a) \<noteq> None) as)) required)"
  by (induction as arbitrary: missing required)
    (auto simp: dec_sum_def dec_le_iff not_less split: option.splits)

lemma cash_check_passed:
  assumes "cash_check (make_state c) = Success r"
  shows "rc_passed r \<longleftrightarrow>
    (\<exists>b. List.find (\<lambda>b. cb_currency b = pt_cost_currency (rq_target c)) (sn_cash (rq_snapshot c)) = Some b \<and>
       (\<forall>a \<in> set (allocations c). 0 < val (al_delta_quantity a) \<longrightarrow>
          instrument_of c (al_instrument_id a) \<noteq> None) \<and>
       val (dec_sum (map (\<lambda>a. al_delta_quantity a *
             ri_mark_price (the (instrument_of c (al_instrument_id a))))
           (filter (\<lambda>a. 0 < val (al_delta_quantity a)) (allocations c)))
         (pt_expected_cost (rq_target c))) \<le> val (cash_available_amount b))"
proof -
  have "filter (\<lambda>a. 0 < val (al_delta_quantity a) \<and> instrument_of c (al_instrument_id a) \<noteq> None)
      (allocations c) = filter (\<lambda>a. 0 < val (al_delta_quantity a)) (allocations c)"
    if "\<forall>a \<in> set (allocations c). 0 < val (al_delta_quantity a) \<longrightarrow>
          instrument_of c (al_instrument_id a) \<noteq> None"
    using that by (intro filter_cong) auto
  with assms show ?thesis
    by (auto simp: cash_check_def Let_def required_cash_eq dec_le_iff simp del: map_of_eq_None_iff
        dest!: make_check_Success)
qed

lemma position_check_passed:
  assumes "position_check (make_state c) = Success r"
  shows "rc_passed r \<longleftrightarrow>
    (\<forall>a \<in> set (allocations c). val (al_delta_quantity a) < 0 \<longrightarrow>
        rnd (- val (al_delta_quantity a)) \<le>
        (case map_of (dict_of pb_instrument_id (\<lambda>p. p) (sn_positions (rq_snapshot c)))
           (al_instrument_id a) of
           Some b \<Rightarrow> val (position_available_quantity b) | None \<Rightarrow> 0))"
proof -
  have "val (sell_shortfall (make_state c) a) \<le> 0 \<longleftrightarrow> rnd (- val (al_delta_quantity a)) \<le>
        (case map_of (dict_of pb_instrument_id (\<lambda>p. p) (sn_positions (rq_snapshot c)))
           (al_instrument_id a) of
           Some b \<Rightarrow> val (position_available_quantity b) | None \<Rightarrow> 0)"
    if "val (al_delta_quantity a) < 0" for a
    using that by (simp add: sell_shortfall_def val_minus val_abs del: map_of_eq_Some_iff
        split: option.split)
  then have "position_shortfall (make_state c) \<le> 0 \<longleftrightarrow> (\<forall>a \<in> set (allocations c).
      val (al_delta_quantity a) < 0 \<longrightarrow> rnd (- val (al_delta_quantity a)) \<le>
        (case map_of (dict_of pb_instrument_id (\<lambda>p. p) (sn_positions (rq_snapshot c)))
           (al_instrument_id a) of
           Some b \<Rightarrow> val (position_available_quantity b) | None \<Rightarrow> 0))"
    unfolding position_shortfall_le make_state_simps by blast
  with assms show ?thesis
    by (auto simp: position_check_def dest!: make_check_Success)
qed

lemma adv_check_passed:
  assumes "adv_check (make_state c) p = Success r" "validate_risk_policy p = Success p"
  shows "rc_passed r \<longleftrightarrow> (\<forall>a \<in> set (allocations c). \<exists>x. instrument_of c (al_instrument_id a) = Some x \<and>
      rnd (val \<bar>al_delta_quantity a\<bar> / val (ri_average_daily_volume x)) \<le>
        val (hp_max_adv_participation p))"
proof -
  obtain missing mx where
    mx: "adv_participation (st_instruments (make_state c)) (allocations c) False 0 = Success (missing, mx)"
    and r: "rc_passed r \<longleftrightarrow> \<not> missing \<and> val mx \<le> val (hp_max_adv_participation p)"
    using assms(1) by (auto simp: adv_check_def bind_Success_iff dec_le_iff dest!: make_check_Success)
  show ?thesis
    using adv_participation_Success [OF mx] valid_policy_limits(4) [OF assms(2)] by (simp add: r)
qed

lemma market_session_check_passed:
  assumes "market_session_check (make_state c) p = Success r"
  shows "rc_passed r \<longleftrightarrow> (hp_require_market_open p \<longrightarrow>
      (\<forall>a \<in> set (allocations c). val (al_delta_quantity a) \<noteq> 0 \<longrightarrow>
         (\<exists>x. instrument_of c (al_instrument_id a) = Some x \<and>
            is_open_at (ri_session x) (Utc (rq_at c)) = Success True)))"
proof (cases "hp_require_market_open p")
  case False
  with assms show ?thesis
    by (auto simp: market_session_check_def dest!: make_check_Success)
next
  case True
  with assms obtain flags
    where flags: "run_all (allocation_closed (make_state c)) (allocations c) = Success flags"
      and r: "rc_passed r \<longleftrightarrow> filter (\<lambda>b. b) flags = []"
    by (auto simp: market_session_check_def bind_Success_iff Let_def dest!: make_check_Success)
  have open_iff: "allocation_closed (make_state c) a = Success False \<longleftrightarrow> (val (al_delta_quantity a) \<noteq> 0 \<longrightarrow>
      (\<exists>x. instrument_of c (al_instrument_id a) = Some x \<and>
         is_open_at (ri_session x) (Utc (rq_at c)) = Success True))" for a
    by (auto simp: allocation_closed_def deq_iff bind_Success_iff split: option.splits)
  have "filter (\<lambda>b. b) flags = [] \<longleftrightarrow>
      list_all (\<lambda>a. allocation_closed (make_state c) a = Success False) (allocations c)"
    using flags unfolding run_all_Success
    by (induction rule: list_all2_induct) auto
  with True show ?thesis
    by (simp add: r open_iff list_all_iff)
qed

lemma group_check_passed:
  assumes "0 \<le> val limit"
  shows "\<not> fst (group_exposure key bad instruments as False []) \<and>
      max_default (map snd (snd (group_exposure key bad instruments as False []))) \<le> limit \<longleftrightarrow>
    (\<forall>a \<in> set as. \<exists>x. map_of instruments (al_instrument_id a) = Some x \<and> \<not> bad x) \<and>
    (\<forall>k. val (dec_sum (group_weights key instruments as k) 0) \<le> val limit)"
  unfolding max_default_le [OF assms] exposure_values [OF assms] group_exposure_flag
  by (auto split: option.splits)

lemma sector_check_passed:
  assumes "sector_check (make_state c) p = Success r" "validate_risk_policy p = Success p"
  shows "rc_passed r \<longleftrightarrow> (\<forall>a \<in> set (allocations c). \<exists>x. instrument_of c (al_instrument_id a) = Some x) \<and>
    (\<forall>k. val (dec_sum (group_weights ri_sector
       (dict_of ri_instrument_id (\<lambda>i. i) (rq_instruments c)) (allocations c) k) 0) \<le>
       val (hp_max_sector_weight p))"
  using assms(1) group_check_passed [OF valid_policy_limits(2) [OF assms(2)], of ri_sector "\<lambda>i. False"
      "st_instruments (make_state c)" "allocations c"]
  by (auto simp: sector_check_def Let_def case_prod_unfold make_state_dict simp del: map_of_eq_Some_iff
      dest!: make_check_Success)

lemma asset_class_check_passed:
  assumes "asset_class_check (make_state c) p = Success r" "validate_risk_policy p = Success p"
  shows "rc_passed r \<longleftrightarrow> (\<forall>a \<in> set (allocations c). \<exists>x. instrument_of c (al_instrument_id a) = Some x \<and>
       ri_asset_class x \<in> set (hp_allowed_asset_classes p)) \<and>
    (\<forall>k. val (dec_sum (group_weights ri_asset_class
       (dict_of ri_instrument_id (\<lambda>i. i) (rq_instruments c)) (allocations c) k) 0) \<le>
       val (hp_max_asset_class_weight p))"
  using assms(1) group_check_passed [OF valid_policy_limits(3) [OF assms(2)], of ri_asset_class
      "\<lambda>i. ri_asset_class i \<notin> set (hp_allowed_asset_classes p)"
      "st_instruments (make_state c)" "allocations c"]
  by (auto simp: asset_class_check_def Let_def case_prod_unfold make_state_dict
      simp del: map_of_eq_Some_iff dest!: make_check_Success)

lemma single_position_check_passed:
  assumes "single_position_check c p = Success r" "validate_risk_policy p = Success p"
  shows "rc_passed r \<longleftrightarrow> (\<forall>a \<in> set (allocations c).
     rnd \<bar>val (al_target_weight a)\<bar> \<le> val (hp_max_single_position_weight p))"
  using assms(1) max_default_le [OF valid_policy_limits(1) [OF assms(2)]]
  by (auto simp: single_position_check_def Let_def val_abs dest!: make_check_Success)

text \<open>The checks whose condition is the one of the code.\<close>

lemma plain_checks_passed:
  "data_check (make_state c) p = Success r \<Longrightarrow> rc_passed r \<longleftrightarrow> data_limits c p"
  "signal_check H c = Success r \<Longrightarrow> rc_passed r \<longleftrightarrow> signal_limits H c"
  "kill_switch_check c p = Success r \<Longrightarrow> rc_passed r \<longleftrightarrow> kill_switch_limits c p"
  "ledger_check c = Success r \<Longrightarrow> rc_passed r \<longleftrightarrow> ledger_matches c"
  "reservation_check c = Success r \<Longrightarrow> rc_passed r \<longleftrightarrow> reservations_reconcile c"
  "target_binding_check H c = Success r \<Longrightarrow> rc_passed r \<longleftrightarrow> target_binding_matches H c"
  "pending_orders_check c p = Success r \<Longrightarrow> rc_passed r \<longleftrightarrow> order_count c \<le> hp_max_pending_orders p"
  "turnover_check c p = Success r \<Longrightarrow> rc_passed r \<longleftrightarrow>
     val (pt_expected_turnover (rq_target c)) \<le> val (hp_max_turnover p)"
  "gross_check (make_state c) p = Success r \<Longrightarrow> rc_passed r \<longleftrightarrow>
     val (gross_exposure c) \<le> val (hp_max_gross_exposure p)"
  "net_check (make_state c) p = Success r \<Longrightarrow> rc_passed r \<longleftrightarrow>
     val (hp_min_net_exposure p) \<le> val (net_exposure c) \<and>
     val (net_exposure c) \<le> val (hp_max_net_exposure p)"
  by (auto simp: data_check_def signal_check_def kill_switch_check_def ledger_check_def
      reservation_check_def target_binding_check_def pending_orders_check_def turnover_check_def
      gross_check_def net_check_def Let_def bind_Success_iff data_invalid_iff signals_valid_iff
      kill_switch_clear_iff dec_le_iff dest!: make_check_Success)

lemma loss_check_passed:
  assumes "loss_check code reason nav reference limit = Success r"
  shows "rc_passed r \<longleftrightarrow> loss_within nav reference limit"
proof (cases nav)
  case None
  with assms show ?thesis
    by (auto simp: loss_check_def loss_ratio_def loss_within_def dest!: make_check_Success)
next
  case (Some v)
  with assms obtain l q
    where l: "dec_div (reference - v) reference = Success l"
      and q: "quantize (py_max 0 l) = Success q" and r: "rc_passed r \<longleftrightarrow> q \<le> limit"
    by (auto simp: loss_check_def loss_ratio_def bind_Success_iff dest!: make_check_Success)
  have "val q = of_int (rhe (max 0 (val l) * 10 ^ 12)) / 10 ^ 12"
    using q pten_minus [of 12] pten_nat [of 12]
    by (auto simp: quantize_def dec_quantize_Success CALCULATION_QUANTUM_def val_Dec val_py_max)
  with Some r dec_div_Success [OF l] show ?thesis
    by (simp add: loss_within_def dec_le_iff val_minus)
qed

section \<open>Approval\<close>

lemma evaluate_Success:
  assumes "evaluate H c p = Success d"
  shows "list_all (\<lambda>r. \<exists>x. r = Success x) (all_checks H c p)"
    "rd_approved d \<longleftrightarrow> list_all (\<lambda>r. \<forall>x. r = Success x \<longrightarrow> rc_passed x) (all_checks H c p)"
proof -
  from assms obtain results where run: "run_all (\<lambda>r. r) (all_checks H c p) = Success results"
    and approved: "rd_approved d \<longleftrightarrow> list_all rc_passed (sort_key rc_code results)"
    by (auto simp: evaluate_def bind_Success_iff Let_def create_decision_def validate_decision_def
        res_simps)
  have all: "list_all2 (\<lambda>r x. r = Success x) (all_checks H c p) results"
    using run by (simp add: run_all_Success)
  then show "list_all (\<lambda>r. \<exists>x. r = Success x) (all_checks H c p)"
    by (induction rule: list_all2_induct) auto
  have "list_all rc_passed (sort_key rc_code results) \<longleftrightarrow> list_all rc_passed results"
    by (simp add: list_all_iff)
  also have "\<dots> \<longleftrightarrow> list_all (\<lambda>r. \<forall>x. r = Success x \<longrightarrow> rc_passed x) (all_checks H c p)"
    using all by (induction rule: list_all2_induct) auto
  finally show "rd_approved d \<longleftrightarrow> list_all (\<lambda>r. \<forall>x. r = Success x \<longrightarrow> rc_passed x) (all_checks H c p)"
    using approved by simp
qed


lemma passed_iff:
  "\<lbrakk>\<exists>x. r = Success x; \<And>x. r = Success x \<Longrightarrow> rc_passed x \<longleftrightarrow> P\<rbrakk> \<Longrightarrow>
   (\<forall>x. r = Success x \<longrightarrow> rc_passed x) \<longleftrightarrow> P"
  by auto

lemmas checks_passed =
  passed_iff [OF _ adv_check_passed] passed_iff [OF _ asset_class_check_passed]
  passed_iff [OF _ sector_check_passed] passed_iff [OF _ single_position_check_passed]
  passed_iff [OF _ cash_check_passed] passed_iff [OF _ position_check_passed]
  passed_iff [OF _ market_session_check_passed] passed_iff [OF _ loss_check_passed]
  passed_iff [OF _ plain_checks_passed(1)] passed_iff [OF _ plain_checks_passed(2)] passed_iff [OF
  _ plain_checks_passed(3)] passed_iff [OF _ plain_checks_passed(4)] passed_iff [OF _
  plain_checks_passed(5)] passed_iff [OF _ plain_checks_passed(6)] passed_iff [OF _
  plain_checks_passed(7)] passed_iff [OF _ plain_checks_passed(8)] passed_iff [OF _
  plain_checks_passed(9)] passed_iff [OF _ plain_checks_passed(10)]

section \<open>The decision record\<close>

text \<open>The codes of the nineteen checks; the source lists them in alphabetical order.\<close>

definition gate_codes :: "string list" where
  "gate_codes =
     [''adv_participation'', ''asset_class'', ''cash_available'', ''daily_loss'', ''data_freshness'',
      ''drawdown'', ''gross_exposure'', ''kill_switch'', ''ledger_binding'', ''market_session'',
      ''net_exposure'', ''pending_orders'', ''position_available'', ''reservation_reconciliation'',
      ''sector_exposure'', ''signal_freshness'', ''single_position'', ''target_binding'', ''turnover'']"

lemma gate_codes_sorted: "sorted_unique gate_codes" "gate_codes \<noteq> []" "length gate_codes \<le> 256"
  by (code_simp, simp_all add: gate_codes_def)

lemma check_code:
  "adv_check st p = Success r \<Longrightarrow> rc_code r = ''adv_participation''"
  "asset_class_check st p = Success r \<Longrightarrow> rc_code r = ''asset_class''"
  "cash_check st = Success r \<Longrightarrow> rc_code r = ''cash_available''"
  "daily_loss_check st p = Success r \<Longrightarrow> rc_code r = ''daily_loss''"
  "data_check st p = Success r \<Longrightarrow> rc_code r = ''data_freshness''"
  "drawdown_check st p = Success r \<Longrightarrow> rc_code r = ''drawdown''"
  "gross_check st p = Success r \<Longrightarrow> rc_code r = ''gross_exposure''"
  "kill_switch_check c p = Success r \<Longrightarrow> rc_code r = ''kill_switch''"
  "ledger_check c = Success r \<Longrightarrow> rc_code r = ''ledger_binding''"
  "market_session_check st p = Success r \<Longrightarrow> rc_code r = ''market_session''"
  "net_check st p = Success r \<Longrightarrow> rc_code r = ''net_exposure''"
  "pending_orders_check c p = Success r \<Longrightarrow> rc_code r = ''pending_orders''"
  "position_check st = Success r \<Longrightarrow> rc_code r = ''position_available''"
  "reservation_check c = Success r \<Longrightarrow> rc_code r = ''reservation_reconciliation''"
  "sector_check st p = Success r \<Longrightarrow> rc_code r = ''sector_exposure''"
  "signal_check H c = Success r \<Longrightarrow> rc_code r = ''signal_freshness''"
  "single_position_check c p = Success r \<Longrightarrow> rc_code r = ''single_position''"
  "target_binding_check H c = Success r \<Longrightarrow> rc_code r = ''target_binding''"
  "turnover_check c p = Success r \<Longrightarrow> rc_code r = ''turnover''"
  by (auto simp: adv_check_def asset_class_check_def cash_check_def daily_loss_check_def
      data_check_def drawdown_check_def gross_check_def kill_switch_check_def ledger_check_def
      market_session_check_def net_check_def pending_orders_check_def position_check_def
      reservation_check_def sector_check_def signal_check_def single_position_check_def
      target_binding_check_def turnover_check_def loss_check_def bind_Success_iff case_prod_unfold
      Let_def split: if_splits dest!: make_check_Success)

lemma check_codes:
  "run_all (\<lambda>r. r) (all_checks H c p) = Success rs \<Longrightarrow> map rc_code rs = gate_codes"
  unfolding run_all_Success all_checks_def Let_def list_all2_Cons1 list_all2_Nil gate_codes_def
  by (elim exE conjE) (simp add: check_code)

lemma sorted_checks:
  assumes "run_all (\<lambda>r. r) (all_checks H c p) = Success rs"
  shows "sort_key rc_code rs = rs"
  using check_codes [OF assms] gate_codes_sorted(1)
  by (intro sort_key_id_if_sorted) (simp_all add: sorted_unique_def)

lemma version_nonempty: "version_ok v \<Longrightarrow> nonempty_ok v"
  by (auto simp: version_ok_def nonempty_ok_def)

lemma risk_gate_total:
  assumes "wf_hashing H" "validate_target H (rq_target c) = Success (rq_target c)"
    "validate_risk_policy p = Success p" "list_all is_success (all_checks H c p)"
  shows "\<exists>d. evaluate H c p = Success d \<and> map rc_code (rd_checks d) = gate_codes \<and>
     rd_normalized_target d = (if rd_approved d then Some (rq_target c) else None) \<and>
     rd_input_target_hash d = pt_calculation_hash (rq_target c) \<and>
     rd_decision_hash d = expected_decision_hash H d \<and>
     rd_decided_at d = rq_at c \<and>
     rd_expires_at d = rq_at c + 1000000 * hp_decision_valid_seconds p"
proof -
  have "\<exists>rs. run_all (\<lambda>r. r) xs = Success rs" if "list_all is_success xs" for xs :: "risk_check result list"
    using that by (induction xs) (auto simp: is_success_iff)
  then obtain rs where rs: "run_all (\<lambda>r. r) (all_checks H c p) = Success rs"
    using assms(4) by blast
  note codes = check_codes [OF rs] gate_codes_sorted
  have "rs \<noteq> []" "length rs \<le> 256"
    using codes by (metis list.simps(8), metis length_map)
  moreover have "hp_decision_valid_seconds p > 0" "nonempty_ok (hp_policy_version p)"
    using assms(3) by (auto simp: validate_risk_policy_def res_simps version_nonempty)
  ultimately show ?thesis
    using assms(1, 2) codes
    by (simp add: evaluate_def rs sorted_checks [OF rs] Let_def create_decision_def
        validate_decision_def validate_target_def res_simps wf_hashing_stable risk_policy_hash_def
        expected_calculation_hash_def expected_decision_hash_def normalized_target_matches_def decision_fields_def)
qed

text \<open>The fields of a decision, whatever its checks say.\<close>

lemma evaluate_fields:
  assumes "evaluate H c p = Success d"
  shows "rd_normalized_target d = (if rd_approved d then Some (rq_target c) else None)"
    "rd_decision_id d = rq_decision_id c" "rd_portfolio_target_id d = pt_target_id (rq_target c)"
    "rd_account_id d = pt_account_id (rq_target c)"
    "rd_account_aggregate_sequence d = pt_account_aggregate_sequence (rq_target c)"
    "rd_portfolio_sequence d = pt_portfolio_sequence (rq_target c)"
    "rd_decided_at d = rq_at c" "rd_expires_at d = rq_at c + 1000000 * hp_decision_valid_seconds p"
    "validate_decision H d = Success d"
proof -
  from assms obtain x where x: "validate_decision H x = Success d"
    and fields: "rd_normalized_target x = (if rd_approved x then Some (rq_target c) else None)"
    "rd_decision_id x = rq_decision_id c" "rd_portfolio_target_id x = pt_target_id (rq_target c)"
    "rd_account_id x = pt_account_id (rq_target c)"
    "rd_account_aggregate_sequence x = pt_account_aggregate_sequence (rq_target c)"
    "rd_portfolio_sequence x = pt_portfolio_sequence (rq_target c)"
    "rd_decided_at x = rq_at c" "rd_expires_at x = rq_at c + 1000000 * hp_decision_valid_seconds p"
    by (auto simp: evaluate_def bind_Success_iff Let_def create_decision_def)
  from x have "d = x"
    by (simp add: validate_decision_def res_simps)
  with x fields show "rd_normalized_target d = (if rd_approved d then Some (rq_target c) else None)"
    "rd_decision_id d = rq_decision_id c" "rd_portfolio_target_id d = pt_target_id (rq_target c)"
    "rd_account_id d = pt_account_id (rq_target c)"
    "rd_account_aggregate_sequence d = pt_account_aggregate_sequence (rq_target c)"
    "rd_portfolio_sequence d = pt_portfolio_sequence (rq_target c)"
    "rd_decided_at d = rq_at c" "rd_expires_at d = rq_at c + 1000000 * hp_decision_valid_seconds p"
    "validate_decision H d = Success d"
    by simp_all
qed

lemma gate_approval:
  assumes "evaluate H c p = Success d" "validate_risk_policy p = Success p"
  shows "rd_approved d \<longleftrightarrow> hard_limits_hold H c p"
proof -
  note ex = evaluate_Success(1) [OF assms(1), unfolded all_checks_def Let_def list.pred_inject
      drawdown_check_def daily_loss_check_def make_state_simps]
  have "rd_approved d \<longleftrightarrow> list_all (\<lambda>r. \<forall>x. r = Success x \<longrightarrow> rc_passed x) (all_checks H c p)"
    by (rule evaluate_Success(2) [OF assms(1)])
  also have "\<dots> \<longleftrightarrow> hard_limits_hold H c p"
    unfolding all_checks_def Let_def list.pred_inject drawdown_check_def daily_loss_check_def
      make_state_simps
    apply (simp only: ex assms(2) checks_passed simp_thms)
    apply (simp only: hard_limits_hold_def balance_limits_def market_limits_def exposure_limits_def Let_def)
    by (intro iffI conjI; elim conjE; (assumption | fastforce))
  finally show ?thesis .
qed

text \<open>
  C1: The hard risk gate approves a target exactly when every hard limit holds.
\<close>

theorem risk_gate_approves_iff:
  assumes "evaluate H c p = Success d" "validate_risk_policy p = Success p"
  shows "rd_approved d \<longleftrightarrow> hard_limits_hold H c p"
  using assms by (rule gate_approval)

text \<open>
  C24: When its nineteen checks can be computed on a valid target and policy, the gate returns a
  decision: it lists exactly the nineteen checks, carries the target only when it approves, is
  bound to the hash of the target it was given, and expires after the validity of the policy.
\<close>

theorem risk_gate_decides:
  assumes "wf_hashing H" "validate_target H (rq_target c) = Success (rq_target c)"
    "validate_risk_policy p = Success p" "list_all is_success (all_checks H c p)"
  shows "\<exists>d. evaluate H c p = Success d \<and> map rc_code (rd_checks d) = gate_codes \<and>
     rd_normalized_target d = (if rd_approved d then Some (rq_target c) else None) \<and>
     rd_input_target_hash d = pt_calculation_hash (rq_target c) \<and>
     rd_decision_hash d = expected_decision_hash H d \<and>
     rd_decided_at d = rq_at c \<and>
     rd_expires_at d = rq_at c + 1000000 * hp_decision_valid_seconds p"
  using assms by (rule risk_gate_total)

section \<open>A concrete decision\<close>

definition gate_policy :: risk_policy where
  "gate_policy =
     \<lparr>hp_policy_version = ''1.0.0'', hp_decision_valid_seconds = 60, hp_max_data_age_seconds = 300,
      hp_max_kill_switch_age_seconds = 5, hp_allowed_asset_classes = [EQUITY, ETF],
      hp_max_pending_orders = 4, hp_max_single_position_weight = Dec 5 (- 1),
      hp_max_sector_weight = Dec 6 (- 1), hp_max_asset_class_weight = Dec 9 (- 1),
      hp_max_gross_exposure = Dec 1 0, hp_min_net_exposure = 0, hp_max_net_exposure = Dec 1 0,
      hp_max_turnover = Dec 5 (- 1), hp_max_adv_participation = Dec 1 (- 1),
      hp_max_drawdown = Dec 2 (- 1), hp_max_daily_loss = Dec 5 (- 2),
      hp_require_market_open = True\<rparr>"

definition gate_target :: portfolio_target where
  "gate_target =
     \<lparr>pt_target_id = ''t'', pt_account_id = ''acct'', pt_portfolio_snapshot_id = ''s'',
      pt_account_aggregate_sequence = 0, pt_portfolio_sequence = 0, pt_as_of = 90000000,
      pt_allocations =
        [\<lparr>al_instrument_id = ''i'', al_current_quantity = Dec 10 0, al_target_quantity = Dec 8 0,
          al_delta_quantity = Dec (- 2) 0, al_quantity_quantum = Dec 1 0,
          al_target_weight = Dec 4 (- 1), al_constraint_diagnostics = []\<rparr>],
      pt_input_signal_ids = [], pt_policy_version = ''1.0.0'',
      pt_policy_hash = replicate 64 CHR ''b'', pt_expected_turnover = Dec 1 (- 1),
      pt_expected_cost = Dec 1 0, pt_cost_currency = ''USD'',
      pt_calculation_hash = replicate 64 CHR ''a''\<rparr>"

definition gate_command :: risk_command where
  "gate_command =
     \<lparr>rq_decision_id = ''d'',
      rq_snapshot =
        \<lparr>sn_snapshot_id = ''s'', sn_account_id = ''acct'', sn_as_of = 90000000,
         sn_account_aggregate_sequence = 0, sn_portfolio_sequence = 0, sn_ledger_sequence = 0,
         sn_ledger_hash = None,
         sn_cash = [\<lparr>cb_currency = ''USD'', cb_settled_amount = Dec 1000 0, cb_reserved_amount = 0,
           cb_quantum = Dec 1 (- 2)\<rparr>],
         sn_positions = [\<lparr>pb_instrument_id = ''i'', pb_quantity = Dec 10 0,
           pb_sellable_quantity = Dec 10 0, pb_reserved_quantity = 0, pb_quantum = Dec 1 0\<rparr>],
         sn_pending_order_ids = []\<rparr>,
      rq_target = gate_target,
      rq_instruments =
        [\<lparr>ri_instrument_id = ''i'', ri_asset_class = EQUITY, ri_sector = ''tech'', ri_mic = ''XNAS'',
          ri_currency = ''USD'', ri_mark_price = Dec 100 0, ri_mark_as_of = 90000000,
          ri_quantity_quantum = Dec 1 0, ri_average_daily_volume = Dec 1000 0,
          ri_session = \<lparr>ms_mic = ''XNAS'', ms_session_date = 0, ms_opens_at = Utc 0,
            ms_closes_at = Utc 1000000000, ms_break_start = None, ms_break_end = None\<rparr>\<rparr>],
      rq_signal_candidates = [], rq_open_reservations = [],
      rq_ledger_head = \<lparr>lh_account_id = ''acct'', lh_sequence = 0, lh_transaction_hash = None\<rparr>,
      rq_high_watermark_nav = Dec 2100 0, rq_day_start_nav = Dec 2010 0,
      rq_kill_switch = \<lparr>ks_global_active = False, ks_account_active = False,
        ks_observed_at = 91000000\<rparr>,
      rq_at = 92000000\<rparr>"

lemma gate_policy_valid: "validate_risk_policy gate_policy = Success gate_policy"
  by code_simp


lemma gate_binding: "target_binding_matches sample_hashing gate_command"
proof -
  have "position_matches (rq_snapshot gate_command) (rq_target gate_command)"
    by code_simp
  then show ?thesis
    by (simp add: target_binding_matches_def expected_calculation_hash_def Let_def)
      (simp add: gate_command_def gate_target_def)
qed

lemma gate_checks:
  "list_all (\<lambda>r. case r of Success x \<Rightarrow> rc_passed x | _ \<Rightarrow> False)
     (all_checks sample_hashing gate_command gate_policy)"
  unfolding all_checks_def Let_def target_binding_check_def gate_binding eqTrueI [OF gate_binding]
  by code_simp


lemma gate_target_valid: "validate_target sample_hashing (rq_target gate_command) = Success (rq_target gate_command)"
proof -
  have "sha256_ok (replicate 64 CHR ''b'')" "currency_ok ''USD''" "non_negative_ok (Dec 1 (- 1))"
    "non_negative_ok (Dec 1 0)"
    by code_simp+
  then show ?thesis
    by (simp add: gate_command_def gate_target_def validate_target_def res_simps nonempty_ok_def
        expected_calculation_hash_def)
qed

lemma gate_decision:
  "\<exists>d. evaluate sample_hashing gate_command gate_policy = Success d \<and> rd_approved d"
proof -
  have checks: "list_all is_success (all_checks sample_hashing gate_command gate_policy)"
    using gate_checks by (rule list.pred_mono_strong) (auto split: result.splits)
  obtain d where d: "evaluate sample_hashing gate_command gate_policy = Success d"
    using risk_gate_total [OF wf_sample_hashing gate_target_valid gate_policy_valid checks] by blast
  have "rd_approved d"
    unfolding evaluate_Success(2) [OF d]
    using gate_checks by (rule list.pred_mono_strong) (auto split: result.splits)
  with d show ?thesis by blast
qed

theorem risk_gate_decides_witness:
  "\<exists>d. evaluate sample_hashing gate_command gate_policy = Success d \<and>
     map rc_code (rd_checks d) = gate_codes"
proof -
  have "list_all is_success (all_checks sample_hashing gate_command gate_policy)"
    using gate_checks by (rule list.pred_mono_strong) (auto split: result.splits)
  from risk_gate_decides [OF wf_sample_hashing gate_target_valid gate_policy_valid this]
  show ?thesis by blast
qed

theorem risk_gate_approves_iff_witness:
  "hard_limits_hold sample_hashing gate_command gate_policy"
  using gate_decision risk_gate_approves_iff [OF _ gate_policy_valid] by blast

end
