(* ===== verification/Signal_Properties.thy ===== *)
theory Signal_Properties
  imports Strategy_Signals Sample_Hashing
begin

text \<open>
  The promotion path of a strategy and the fail-closed eligibility of its signals.
\<close>

section \<open>Promotion\<close>

text \<open>A promotion history is a sequence of states in which every step is an allowed transition.\<close>

inductive promotion_history :: "promotion_state list \<Rightarrow> bool" where
  registered: "promotion_history [DRAFT]"
| promoted: "\<lbrakk>promotion_history (ss @ [s]); can_promote s t\<rbrakk> \<Longrightarrow> promotion_history (ss @ [s, t])"

inductive_cases promotion_historyE: "promotion_history ss"

lemma promotion_step:
  "promotion_history (ss @ [s, t]) \<Longrightarrow> promotion_history (ss @ [s]) \<and> can_promote s t"
  by (erule promotion_historyE) (auto simp: append_eq_append_conv2 append_eq_Cons_conv Cons_eq_append_conv)

lemma promotion_start: "promotion_history ss \<Longrightarrow> ss \<noteq> [] \<and> hd ss = DRAFT"
  by (induction rule: promotion_history.induct) (auto simp: hd_append)

lemma promotion_prefix: "promotion_history (ss @ ts) \<Longrightarrow> ss \<noteq> [] \<Longrightarrow> promotion_history ss"
proof (induction ts rule: rev_induct)
  case (snoc t ts)
  obtain us s where us: "ss @ ts = us @ [s]"
    using snoc.prems(2) by (metis append_is_Nil_conv rev_exhaust)
  then have "ss @ ts @ [t] = us @ [s, t]"
    by (metis append.assoc append_Cons append_Nil)
  then have "promotion_history (us @ [s, t])"
    using snoc.prems(1) by (simp only: append.assoc)
  then show ?case
    using promotion_step us snoc.IH snoc.prems(2) by metis
qed simp

lemma can_promote_iff:
  "can_promote s SHADOW \<longleftrightarrow> s = EVALUATING"
  "can_promote s PAPER_ELIGIBLE \<longleftrightarrow> s = SHADOW"
  "\<not> can_promote s DRAFT" "\<not> can_promote REJECTED_STATE s" "\<not> can_promote RETIRED s"
  by (cases s; simp add: can_promote_def)+

lemma promotion_snoc:
  assumes "promotion_history (ss @ [t])" "t \<noteq> DRAFT"
  obtains us s where "ss = us @ [s]" "can_promote s t" "promotion_history (us @ [s])"
proof -
  have "ss \<noteq> []"
    using promotion_start [OF assms(1)] assms(2) by auto
  then obtain us s where "ss = us @ [s]"
    by (metis rev_exhaust)
  with assms(1) promotion_step [of us s t] that show ?thesis
    by simp
qed

text \<open>
  A strategy only reaches paper eligibility through a fresh evaluation: whenever a promotion
  history holds the state \<open>PAPER_ELIGIBLE\<close>, the two states before it are \<open>EVALUATING\<close> and
  \<open>SHADOW\<close>, in this order; and no state follows \<open>REJECTED\<close> or \<open>RETIRED\<close>.
\<close>

theorem promotion_needs_evaluation:
  assumes "promotion_history (ss @ t # ts)"
  shows "(t = PAPER_ELIGIBLE \<longrightarrow> (\<exists>us. ss = us @ [EVALUATING, SHADOW])) \<and>
     (t \<in> {REJECTED_STATE, RETIRED} \<longrightarrow> ts = [])"
proof (intro conjI impI)
  have upto: "promotion_history (ss @ [t])"
    using promotion_prefix [of "ss @ [t]" ts] assms by simp
  show "\<exists>us. ss = us @ [EVALUATING, SHADOW]" if "t = PAPER_ELIGIBLE"
  proof -
    have "t \<noteq> DRAFT"
      using that by simp
    with upto obtain us s where us: "ss = us @ [s]" "can_promote s t" "promotion_history (us @ [s])"
      by (rule promotion_snoc)
    then have "s = SHADOW"
      using that by (simp add: can_promote_iff)
    from us(3) obtain vs r where "us = vs @ [r]" "can_promote r s"
      by (rule promotion_snoc) (use \<open>s = SHADOW\<close> in simp)
    with us(1) \<open>s = SHADOW\<close> show ?thesis
      by (simp add: can_promote_iff)
  qed
  show "ts = []" if "t \<in> {REJECTED_STATE, RETIRED}"
  proof (rule ccontr)
    assume "ts \<noteq> []"
    then obtain s us where "ts = s # us"
      by (cases ts) auto
    then have "promotion_history (ss @ [t, s])"
      using promotion_prefix [of "ss @ [t, s]" us] assms by simp
    with that show False
      using promotion_step [of ss t s] by (auto simp: can_promote_iff)
  qed
qed

theorem promotion_needs_evaluation_witness:
  "promotion_history [DRAFT, EVALUATING, SHADOW, PAPER_ELIGIBLE] \<and>
   (\<exists>us. [DRAFT, EVALUATING, SHADOW] = us @ [EVALUATING, SHADOW])"
proof -
  have "promotion_history ([] @ [DRAFT, EVALUATING])"
    using registered by (intro promoted) (simp_all add: can_promote_def)
  then have "promotion_history ([DRAFT] @ [EVALUATING, SHADOW])"
    by (intro promoted) (simp_all add: can_promote_def)
  then have "promotion_history ([DRAFT, EVALUATING] @ [SHADOW, PAPER_ELIGIBLE])"
    by (intro promoted) (simp_all add: can_promote_def)
  then show ?thesis
    using promotion_needs_evaluation [of "[DRAFT, EVALUATING, SHADOW]" PAPER_ELIGIBLE "[]"] by simp
qed

section \<open>Eligibility\<close>

text \<open>What an eligible signal is bound to, in one formula.\<close>

definition signal_backed ::
  "hashing \<Rightarrow> alpha_signal \<Rightarrow> strategy_entry option \<Rightarrow> evaluation_report option \<Rightarrow> utc \<Rightarrow> bool" where
  "signal_backed H s registry evaluation t \<longleftrightarrow>
     t < sg_stale_at s \<and> sg_calibration s = CALIBRATED \<and>
     (\<exists>e r. registry = Some e \<and> evaluation = Some r \<and> se_state e = PAPER_ELIGIBLE \<and>
        strategy_binding_matches H s e \<and> er_passed r \<and> t < er_valid_until r \<and>
        evaluation_binding_matches H s e r)"

lemma ineligibility_reason_None:
  assumes "validate_signal s = Success s"
  shows "ineligibility_reason H s registry evaluation t = None \<longleftrightarrow>
     signal_backed H s registry evaluation t"
  using assms
  by (auto simp: ineligibility_reason_def evaluation_reason_def signal_backed_def validate_signal_def
      res_simps split: option.splits)

text \<open>
  C25: Eligibility fails closed. For a valid signal the test always returns a decision; the signal
  is eligible exactly when it is fresh and calibrated, its strategy is registered, paper eligible
  and bound to it, and a passed, unexpired evaluation is bound to both; an eligible signal weighs
  its confidence and any other signal weighs nothing.
\<close>

theorem eligibility_fails_closed:
  assumes "validate_signal s = Success s"
  shows "\<exists>d. evaluate_signal_eligibility H s registry evaluation t = Success d \<and>
     (el_eligible d \<longleftrightarrow> signal_backed H s registry evaluation t) \<and>
     el_weight d = (if signal_backed H s registry evaluation t then sg_confidence s else 0)"
proof -
  have "unit_ok (sg_confidence s)" "unit_ok 0"
    using assms by (auto simp: validate_signal_def res_simps unit_ok_def dec_le_iff)
  then show ?thesis
    using ineligibility_reason_None [OF assms, of H registry evaluation t]
    by (auto simp: evaluate_signal_eligibility_def validate_eligibility_def res_simps deq_iff
        split: option.splits)
qed


definition sample_signal :: alpha_signal where
  "sample_signal =
     \<lparr>sg_signal_id = ''sig'', sg_strategy_id = ''momentum'', sg_strategy_version = ''1.0.0'',
      sg_instrument_id = ''i'', sg_as_of = 0, sg_generated_at = 1, sg_stale_at = 100,
      sg_expires_at = 200, sg_horizon = ''1d'', sg_value = Dec 5 (- 1), sg_confidence = Dec 8 (- 1),
      sg_calibration = CALIBRATED, sg_direction = LONG, sg_source = DETERMINISTIC,
      sg_strategy_manifest_hash = replicate 64 CHR ''a'', sg_dataset_snapshot_id = ''ds'',
      sg_data_hash = replicate 64 CHR ''a'', sg_runtime_hash = replicate 64 CHR ''a'',
      sg_evaluation_policy_hash = replicate 64 CHR ''a'',
      sg_raw_output_artifact_ref = ''sha256:'' @ replicate 64 CHR ''a'',
      sg_evaluation_report_id = Some ''rep'', sg_evaluation_hash = Some (replicate 64 CHR ''a''),
      sg_evidence_refs = [], sg_forecast_refs = [], sg_reason_codes = [''trend'']\<rparr>"

definition sample_entry :: strategy_entry where
  "sample_entry =
     \<lparr>se_manifest =
        \<lparr>mf_manifest_id = ''mf'', mf_strategy_id = ''momentum'', mf_strategy_version = ''1.0.0'',
         mf_kind = DETERMINISTIC_KIND,
         mf_source_artifact_ref = ''sha256:'' @ replicate 64 CHR ''a'',
         mf_runtime_hash = replicate 64 CHR ''a'', mf_feature_spec_hash = replicate 64 CHR ''a'',
         mf_label_spec_hash = replicate 64 CHR ''a'', mf_universe_spec_hash = replicate 64 CHR ''a'',
         mf_cost_model_hash = replicate 64 CHR ''a'', mf_split_policy_hash = replicate 64 CHR ''a'',
         mf_parameters_hash = replicate 64 CHR ''a'', mf_owner = ''owner'', mf_deterministic = True,
         mf_created_at = 0\<rparr>,
      se_state = PAPER_ELIGIBLE, se_evaluation_report_id = Some ''rep'',
      se_evaluation_hash = Some (replicate 64 CHR ''a''), se_version = 4, se_created_at = 0,
      se_updated_at = 1\<rparr>"

definition sample_report :: evaluation_report where
  "sample_report =
     \<lparr>er_report_id = ''rep'', er_strategy_id = ''momentum'', er_strategy_version = ''1.0.0'',
      er_strategy_manifest_hash = replicate 64 CHR ''a'', er_dataset_snapshot_id = ''ds'',
      er_data_hash = replicate 64 CHR ''a'', er_runtime_hash = replicate 64 CHR ''a'',
      er_evaluation_policy_hash = replicate 64 CHR ''a'', er_as_of = 0, er_window_start = - 10,
      er_window_end = 0,
      er_checks = map (\<lambda>k. \<lparr>ek_kind = k, ek_status = CHECK_PASSED, ek_reason_codes = [],
        ek_details_artifact_ref = None\<rparr>) MANDATORY_EVALUATION_CHECKS,
      er_metrics = [\<lparr>mt_name = ''pbo'', mt_value = 0, mt_unit = ''ratio'', mt_segment = ''overall''\<rparr>],
      er_calibration = CALIBRATED, er_baseline_ids = [''cash''],
      er_report_artifact_ref = ''sha256:'' @ replicate 64 CHR ''a'', er_valid_until = 500,
      er_created_at = 1, er_passed = True\<rparr>"

lemma sample_signal_valid: "validate_signal sample_signal = Success sample_signal"
  by code_simp

lemma sample_signal_backed:
  "signal_backed sample_hashing sample_signal (Some sample_entry) (Some sample_report) 50"
  by (simp add: signal_backed_def strategy_binding_matches_def evaluation_binding_matches_def
      manifest_hash_def evaluation_hash_def)
    (simp add: sample_signal_def sample_entry_def sample_report_def)

theorem eligibility_fails_closed_witness:
  "\<exists>d. evaluate_signal_eligibility sample_hashing sample_signal (Some sample_entry)
      (Some sample_report) 50 = Success d \<and> el_eligible d \<and> el_weight d = Dec 8 (- 1)"
  using eligibility_fails_closed [OF sample_signal_valid, of sample_hashing "Some sample_entry"
      "Some sample_report" 50] sample_signal_backed
  by (auto simp: sample_signal_def)

end
