(* ===== verification/Portfolio_Builder.thy ===== *)
theory Portfolio_Builder
  imports Risk_Gate
begin

text \<open>
  \<^verbatim>\<open>application/portfolio/build_target.py\<close> with the policy and the inputs of
  \<^verbatim>\<open>domain/portfolio_construction.py\<close>: the deterministic construction of a portfolio target from
  the account snapshot, the marks and the eligible signals. A \<^verbatim>\<open>Failure | None\<close> of the source is a
  \<open>unit result\<close>; arithmetic that may raise is sequenced in the order of the source.
\<close>

section \<open>Policy and inputs\<close>

record strategy_weight =
  sw_strategy_id :: string
  sw_strategy_version :: string
  sw_weight :: dec

definition validate_strategy_weight :: "strategy_weight \<Rightarrow> strategy_weight result" where
  "validate_strategy_weight w = check_all
     [(code_ok (sw_strategy_id w) \<and> version_ok (sw_strategy_version w) \<and> unit_ok (sw_weight w),
       ''field''),
      (\<not> sw_weight w \<le> 0, ''portfolio strategy weight must be positive'')] w"

definition weight_key :: "strategy_weight \<Rightarrow> string \<times> string" where
  "weight_key w = (sw_strategy_id w, sw_strategy_version w)"

record portfolio_policy =
  pp_policy_version :: string
  pp_strategy_weights :: "strategy_weight list"
  pp_deadband :: dec
  pp_shrinkage :: dec
  pp_turnover_penalty :: dec
  pp_max_position_weight :: dec
  pp_estimated_cost_bps :: dec
  pp_currency_quantum :: dec
  pp_long_only :: bool

definition validate_portfolio_policy :: "portfolio_policy \<Rightarrow> portfolio_policy result" where
  "validate_portfolio_policy p = check_all
     [(version_ok (pp_policy_version p) \<and> pp_strategy_weights p \<noteq> [] \<and>
       length (pp_strategy_weights p) \<le> 256 \<and> unit_ok (pp_deadband p) \<and> unit_ok (pp_shrinkage p) \<and>
       unit_ok (pp_turnover_penalty p) \<and> unit_ok (pp_max_position_weight p) \<and>
       non_negative_ok (pp_estimated_cost_bps p) \<and> positive_ok (pp_currency_quantum p) \<and>
       pp_long_only p, ''field''),
      (sorted_unique (map weight_key (pp_strategy_weights p)),
       ''portfolio strategy weights must be unique and sorted''),
      (deq (dec_sum (map sw_weight (pp_strategy_weights p)) 0) 1,
       ''portfolio strategy weight sum must equal one''),
      (\<not> (pp_shrinkage p \<le> 0 \<or> pp_max_position_weight p \<le> 0),
       ''shrinkage and position bound must be positive''),
      (\<not> pp_estimated_cost_bps p > Dec 10000 0, ''estimated cost bps cannot exceed 10000'')] p"

definition strategy_weight_json :: "strategy_weight \<Rightarrow> json" where
  "strategy_weight_json w = JObj
     [(''strategy_id'', JStr (sw_strategy_id w)), (''strategy_version'', JStr (sw_strategy_version w)),
      (''weight'', jdec (sw_weight w))]"

definition portfolio_policy_hash :: "hashing \<Rightarrow> portfolio_policy \<Rightarrow> hash" where
  "portfolio_policy_hash H p = stable_payload_hash H (JObj
     [(''policy_version'', JStr (pp_policy_version p)),
      (''strategy_weights'', JList (map strategy_weight_json (pp_strategy_weights p))),
      (''deadband'', jdec (pp_deadband p)), (''shrinkage'', jdec (pp_shrinkage p)),
      (''turnover_penalty'', jdec (pp_turnover_penalty p)),
      (''max_position_weight'', jdec (pp_max_position_weight p)),
      (''estimated_cost_bps'', jdec (pp_estimated_cost_bps p)),
      (''currency_quantum'', jdec (pp_currency_quantum p)), (''long_only'', JBool (pp_long_only p))])"

record portfolio_mark =
  pm_instrument_id :: uuid
  pm_as_of :: utc
  pm_currency :: string
  pm_price :: dec
  pm_quantity_quantum :: dec

definition validate_mark :: "portfolio_mark \<Rightarrow> portfolio_mark result" where
  "validate_mark m = check_all
     [(currency_ok (pm_currency m) \<and> positive_ok (pm_price m) \<and> positive_ok (pm_quantity_quantum m),
       ''field'')] m"

record build_command =
  bt_target_id :: uuid
  bt_snapshot :: account_snapshot
  bt_base_currency :: string
  bt_marks :: "portfolio_mark list"
  bt_signal_candidates :: "signal_candidate list"

definition validate_build_command :: "build_command \<Rightarrow> build_command result" where
  "validate_build_command c = check_all
     [(currency_ok (bt_base_currency c) \<and> length (bt_marks c) \<le> 100000 \<and>
       length (bt_signal_candidates c) \<le> 100000, ''field'')] c"

section \<open>Input checks\<close>

definition currency_error :: "build_command \<Rightarrow> portfolio_policy \<Rightarrow> unit result" where
  "currency_error c p =
     (case sn_cash (bt_snapshot c) of
        [cash] \<Rightarrow>
          if cb_currency cash \<noteq> bt_base_currency c
          then Failure CONFLICT ''Portfolio baseline requires one base-currency cash balance''
          else if \<not> deq (cb_quantum cash) (pp_currency_quantum p)
          then Failure CONFLICT ''Cash and policy currency quantum differ''
          else if list_ex (\<lambda>m. pm_currency m \<noteq> bt_base_currency c) (bt_marks c)
          then Failure CONFLICT ''Portfolio mark currency differs from base''
          else Success ()
      | _ \<Rightarrow> Failure CONFLICT ''Portfolio baseline requires one base-currency cash balance'')"

definition strategy_key :: "alpha_signal \<Rightarrow> string \<times> string" where
  "strategy_key s = (sg_strategy_id s, sg_strategy_version s)"

text \<open>One round of the loop over the candidates.\<close>

definition one_candidate_error ::
  "hashing \<Rightarrow> utc \<Rightarrow> portfolio_policy \<Rightarrow> signal_candidate \<Rightarrow> unit result" where
  "one_candidate_error H t p c =
     (let s = sc_signal c in
      if sg_generated_at s > t \<or> sg_as_of s > t
      then Failure INVALID_INPUT ''Portfolio signal is from the future''
      else if se_updated_at (sc_registry c) > t \<or> er_created_at (sc_evaluation c) > t
      then Failure INVALID_INPUT ''Portfolio signal eligibility binding is from the future''
      else if strategy_key s \<notin> set (map weight_key (pp_strategy_weights p))
      then Failure CONFIGURATION_INVALID ''Portfolio signal has no configured fixed weight''
      else bind (candidate_eligibility H t c) (\<lambda>decision.
        if el_eligible decision then Success ()
        else Failure CONFLICT ''Portfolio signal is not eligible''))"

fun candidates_error ::
  "hashing \<Rightarrow> utc \<Rightarrow> portfolio_policy \<Rightarrow> signal_candidate list \<Rightarrow> unit result" where
  "candidates_error H t p [] = Success ()"
| "candidates_error H t p (c # cs) =
     bind (one_candidate_error H t p c) (\<lambda>_. candidates_error H t p cs)"

definition candidate_error ::
  "hashing \<Rightarrow> signal_candidate list \<Rightarrow> utc \<Rightarrow> portfolio_policy \<Rightarrow> unit result" where
  "candidate_error H candidates t p =
     (if \<not> (distinct (map (\<lambda>c. sg_signal_id (sc_signal c)) candidates) \<and>
            distinct (map signal_key candidates))
      then Failure CONFLICT ''Portfolio signals contain duplicates''
      else candidates_error H t p candidates)"

definition position_quantum_error ::
  "position_balance list \<Rightarrow> (uuid \<times> portfolio_mark) list \<Rightarrow> unit result" where
  "position_quantum_error positions marks =
     (if list_ex (\<lambda>b. case map_of marks (pb_instrument_id b) of
          None \<Rightarrow> False | Some m \<Rightarrow> \<not> deq (pm_quantity_quantum m) (pb_quantum b)) positions
      then Failure CONFLICT ''Position and mark quantity quantum differ''
      else Success ())"

definition validated_inputs ::
  "hashing \<Rightarrow> build_command \<Rightarrow> portfolio_policy \<Rightarrow>
   ((uuid \<times> portfolio_mark) list \<times> signal_candidate list) result" where
  "validated_inputs H c p =
     bind (currency_error c p) (\<lambda>_.
     let marks = dict_of pm_instrument_id (\<lambda>m. m) (bt_marks c) in
     if length marks \<noteq> length (bt_marks c)
     then Failure CONFLICT ''Portfolio marks contain duplicates''
     else if list_ex (\<lambda>m. pm_as_of m > sn_as_of (bt_snapshot c)) (bt_marks c)
     then Failure INVALID_INPUT ''Portfolio mark is from the future''
     else
       let candidates = sort_key (\<lambda>x. sg_signal_id (sc_signal x)) (bt_signal_candidates c) in
       bind (candidate_error H candidates (sn_as_of (bt_snapshot c)) p) (\<lambda>_.
       bind (position_quantum_error (sn_positions (bt_snapshot c)) marks) (\<lambda>_.
       Success (marks, candidates))))"

section \<open>Valuation and allocation\<close>

definition portfolio_nav ::
  "account_snapshot \<Rightarrow> (uuid \<times> portfolio_mark) list \<Rightarrow> string \<Rightarrow> dec result" where
  "portfolio_nav snapshot marks base_currency =
     (case List.find (\<lambda>b. cb_currency b = base_currency) (sn_cash snapshot) of
        None \<Rightarrow> Raised StopIteration
      | Some cash \<Rightarrow>
          if list_ex (\<lambda>b. map_of marks (pb_instrument_id b) = None) (sn_positions snapshot)
          then Failure DATA_UNAVAILABLE ''A current position mark is unavailable''
          else
            let nav = cb_settled_amount cash + dec_sum
              (map (\<lambda>b. pb_quantity b * pm_price (the (map_of marks (pb_instrument_id b))))
                (sn_positions snapshot)) 0
            in if nav \<le> 0 then Failure DATA_UNAVAILABLE ''Portfolio NAV must be positive''
               else Success nav)"

definition strategy_share :: "portfolio_policy \<Rightarrow> signal_candidate \<Rightarrow> dec result" where
  "strategy_share p c =
     (case map_of (dict_of weight_key sw_weight (pp_strategy_weights p)) (strategy_key (sc_signal c)) of
        None \<Rightarrow> Raised KeyError | Some w \<Rightarrow> Success w)"

definition ensemble_score ::
  "signal_candidate list \<Rightarrow> portfolio_policy \<Rightarrow> (dec \<times> dec) result" where
  "ensemble_score candidates p =
     bind (run_all (\<lambda>c. bind (strategy_share p c) (\<lambda>w.
       Success (w * sg_value (sc_signal c) * sg_confidence (sc_signal c)))) candidates) (\<lambda>terms.
     bind (run_all (strategy_share p) candidates) (\<lambda>weights.
     bind (quantize (dec_sum terms 0)) (\<lambda>score.
     bind (quantize (dec_sum weights 0)) (\<lambda>available. Success (score, available)))))"

definition floor_to_quantum :: "dec \<Rightarrow> dec \<Rightarrow> dec result" where
  "floor_to_quantum value quantum =
     bind (dec_div value quantum) (\<lambda>q. Success (to_integral_value ROUND_FLOOR q * quantum))"

definition currency_quantize :: "dec \<Rightarrow> dec \<Rightarrow> dec result" where
  "currency_quantize value quantum =
     bind (dec_div value quantum) (\<lambda>q.
     bind (dec_quantize q (Dec 1 0) ROUND_HALF_EVEN) (\<lambda>units. Success (units * quantum)))"

definition fixed :: "dec \<Rightarrow> string result" where
  "fixed value = bind (quantize value) (\<lambda>q. Success (serialize_decimal q))"

definition applied :: "bool \<Rightarrow> string" where
  "applied b = (if b then ''applied'' else ''not_applied'')"

definition diagnostics ::
  "dec \<Rightarrow> dec \<Rightarrow> dec \<Rightarrow> dec \<Rightarrow> bool \<Rightarrow> dec \<Rightarrow> portfolio_mark \<Rightarrow> portfolio_policy \<Rightarrow>
   string list result" where
  "diagnostics score available_weight penalized_weight bounded_weight deadband_applied
     estimated_cost mark p =
     bind (fixed available_weight) (\<lambda>available.
     bind (fixed (1 - available_weight)) (\<lambda>missing.
     bind (fixed score) (\<lambda>score_text.
     Success (sort
       [''deadband:'' @ applied deadband_applied,
        ''ensemble_available_weight:'' @ available,
        ''ensemble_missing_weight:'' @ missing,
        ''ensemble_score:'' @ score_text,
        ''estimated_cost:'' @ serialize_decimal estimated_cost,
        ''estimated_cost_bps:'' @ serialize_decimal (pp_estimated_cost_bps p),
        ''mark_price:'' @ serialize_decimal (pm_price mark),
        ''position_bound:'' @ applied (\<not> deq bounded_weight penalized_weight),
        ''shrinkage:'' @ serialize_decimal (pp_shrinkage p),
        ''turnover_penalty:'' @ serialize_decimal (pp_turnover_penalty p)]))))"

definition penalized_weight :: "dec \<Rightarrow> dec \<Rightarrow> portfolio_policy \<Rightarrow> dec" where
  "penalized_weight score current_weight p =
     (let desired_weight = (if \<bar>score\<bar> \<le> pp_deadband p then 0 else score * pp_shrinkage p)
      in current_weight + (desired_weight - current_weight) * (1 - pp_turnover_penalty p))"

definition bounded_weight :: "dec \<Rightarrow> portfolio_policy \<Rightarrow> dec" where
  "bounded_weight penalized p = py_min (pp_max_position_weight p) (py_max 0 penalized)"

definition make_allocation ::
  "uuid \<Rightarrow> position_balance option \<Rightarrow> portfolio_mark \<Rightarrow> signal_candidate list \<Rightarrow> dec \<Rightarrow>
   portfolio_policy \<Rightarrow> target_allocation result" where
  "make_allocation instrument_id position mark candidates nav p =
     (let current_quantity = (case position of Some b \<Rightarrow> pb_quantity b | None \<Rightarrow> 0) in
      bind (dec_div (current_quantity * pm_price mark) nav) (\<lambda>current_weight.
      bind (ensemble_score
        (filter (\<lambda>c. sg_instrument_id (sc_signal c) = instrument_id) candidates) p)
        (\<lambda>(score, available_weight).
      let penalized = penalized_weight score current_weight p;
          bounded = bounded_weight penalized p in
      bind (dec_div (bounded * nav) (pm_price mark)) (\<lambda>units.
      bind (floor_to_quantum units (pm_quantity_quantum mark)) (\<lambda>target_quantity.
      bind (dec_div (target_quantity * pm_price mark) nav) (\<lambda>weight.
      bind (quantize weight) (\<lambda>target_weight.
      let delta_quantity = target_quantity - current_quantity in
      bind (dec_div (\<bar>delta_quantity\<bar> * pm_price mark * pp_estimated_cost_bps p) (Dec 10000 0))
        (\<lambda>raw_cost.
      bind (currency_quantize raw_cost (pp_currency_quantum p)) (\<lambda>estimated_cost.
      bind (diagnostics score available_weight penalized bounded (\<bar>score\<bar> \<le> pp_deadband p)
              estimated_cost mark p) (\<lambda>notes.
      validate_allocation
        \<lparr>al_instrument_id = instrument_id, al_current_quantity = current_quantity,
         al_target_quantity = target_quantity, al_delta_quantity = delta_quantity,
         al_quantity_quantum = pm_quantity_quantum mark, al_target_weight = target_weight,
         al_constraint_diagnostics = notes\<rparr>))))))))))"

definition target_costs ::
  "target_allocation list \<Rightarrow> (uuid \<times> portfolio_mark) list \<Rightarrow> dec \<Rightarrow> portfolio_policy \<Rightarrow>
   (dec \<times> dec) result" where
  "target_costs as marks nav p =
     (let traded_notional = dec_sum
        (map (\<lambda>a. \<bar>al_delta_quantity a\<bar> * pm_price (the (map_of marks (al_instrument_id a)))) as) 0
      in bind (dec_div traded_notional nav) (\<lambda>ratio.
         bind (quantize ratio) (\<lambda>turnover.
         bind (dec_div (traded_notional * pp_estimated_cost_bps p) (Dec 10000 0)) (\<lambda>raw.
         bind (currency_quantize raw (pp_currency_quantum p)) (\<lambda>cost.
         Success (turnover, cost))))))"

section \<open>The target\<close>

definition target_instruments :: "build_command \<Rightarrow> signal_candidate list \<Rightarrow> uuid list" where
  "target_instruments c candidates =
     sort (remdups (map pb_instrument_id (sn_positions (bt_snapshot c)) @
                    map (\<lambda>x. sg_instrument_id (sc_signal x)) candidates))"

text \<open>The part of \<^verbatim>\<open>build_target\<close> that follows the validation of the inputs.\<close>

definition build_from ::
  "hashing \<Rightarrow> build_command \<Rightarrow> portfolio_policy \<Rightarrow> (uuid \<times> portfolio_mark) list \<Rightarrow>
   signal_candidate list \<Rightarrow> portfolio_target result" where
  "build_from H c p marks candidates =
    (let snapshot = bt_snapshot c;
         positions = dict_of pb_instrument_id (\<lambda>b. b) (sn_positions snapshot);
         instrument_ids = target_instruments c candidates in
     if instrument_ids = [] then Failure DATA_UNAVAILABLE ''No portfolio instruments exist''
     else if list_ex (\<lambda>i. map_of marks i = None) instrument_ids
     then Failure DATA_UNAVAILABLE ''A required portfolio mark is unavailable''
     else bind (portfolio_nav snapshot marks (bt_base_currency c)) (\<lambda>nav.
     bind (run_all (\<lambda>i. make_allocation i (map_of positions i) (the (map_of marks i)) candidates nav p)
             instrument_ids) (\<lambda>as.
     bind (target_costs as marks nav p) (\<lambda>(turnover, cost).
     create_target H
       \<lparr>pt_target_id = bt_target_id c, pt_account_id = sn_account_id snapshot,
        pt_portfolio_snapshot_id = sn_snapshot_id snapshot,
        pt_account_aggregate_sequence = sn_account_aggregate_sequence snapshot,
        pt_portfolio_sequence = sn_portfolio_sequence snapshot, pt_as_of = sn_as_of snapshot,
        pt_allocations = as,
        pt_input_signal_ids = sort (map (\<lambda>x. sg_signal_id (sc_signal x)) candidates),
        pt_policy_version = pp_policy_version p, pt_policy_hash = portfolio_policy_hash H p,
        pt_expected_turnover = turnover, pt_expected_cost = cost,
        pt_cost_currency = bt_base_currency c, pt_calculation_hash = PLACEHOLDER_HASH\<rparr>))))"

definition build_target ::
  "hashing \<Rightarrow> build_command \<Rightarrow> portfolio_policy \<Rightarrow> portfolio_target result" where
  "build_target H c p =
     bind (validated_inputs H c p) (\<lambda>(marks, candidates). build_from H c p marks candidates)"

end
