(* ===== verification/Portfolio_Builder_Properties.thy ===== *)
theory Portfolio_Builder_Properties
  imports Portfolio_Builder Sample_Hashing
begin

text \<open>
  What a constructed portfolio target guarantees: it does not depend on the order in which marks
  and signals arrive, every allocation stays within the position bound of the policy, and the
  target passes the binding check of the hard risk gate on the snapshot it was built from.
\<close>

section \<open>Order of the inputs\<close>

text \<open>The builder reads the marks only through lookups, so equal lookups give equal targets.\<close>

lemma lookup_cong:
  assumes "map_of ms = map_of ms'"
  shows "position_quantum_error ps ms = position_quantum_error ps ms'"
    "portfolio_nav s ms b = portfolio_nav s ms' b" "target_costs as ms nav p = target_costs as ms' nav p"
  unfolding position_quantum_error_def portfolio_nav_def target_costs_def assms by (rule refl)+

lemma build_from_cong:
  assumes "map_of ms = map_of ms'"
  shows "build_from H c p ms cs = build_from H c p ms' cs"
  unfolding build_from_def lookup_cong [OF assms] assms by (rule refl)

lemma build_from_frame:
  "build_from H (c\<lparr>bt_marks := ms, bt_signal_candidates := ss\<rparr>) p kvs cs = build_from H c p kvs cs"
  by (simp add: build_from_def target_instruments_def cong: if_cong)

lemma build_target_flat:
  "build_target H c p =
     bind (currency_error c p) (\<lambda>_.
     if \<not> distinct (map pm_instrument_id (bt_marks c))
     then Failure CONFLICT ''Portfolio marks contain duplicates''
     else if list_ex (\<lambda>m. pm_as_of m > sn_as_of (bt_snapshot c)) (bt_marks c)
     then Failure INVALID_INPUT ''Portfolio mark is from the future''
     else
       bind (candidate_error H (sort_key (\<lambda>x. sg_signal_id (sc_signal x)) (bt_signal_candidates c))
              (sn_as_of (bt_snapshot c)) p) (\<lambda>_.
       bind (position_quantum_error (sn_positions (bt_snapshot c))
              (dict_of pm_instrument_id (\<lambda>m. m) (bt_marks c))) (\<lambda>_.
       build_from H c p (dict_of pm_instrument_id (\<lambda>m. m) (bt_marks c))
         (sort_key (\<lambda>x. sg_signal_id (sc_signal x)) (bt_signal_candidates c)))))"
  by (simp add: build_target_def validated_inputs_def length_dict_of_iff bind_assoc Let_def
      if_distrib [of "\<lambda>r. bind r f" for f] cong: if_cong)

text \<open>
  C28: The target does not depend on the order in which the marks and the signals are listed: the
  same inputs in another order give the same target, or the same error.
\<close>

theorem build_target_order_independent:
  assumes "mset ms = mset (bt_marks c)" "mset ss = mset (bt_signal_candidates c)"
  shows "build_target H (c\<lparr>bt_marks := ms, bt_signal_candidates := ss\<rparr>) p = build_target H c p"
proof -
  let ?c = "c\<lparr>bt_marks := ms, bt_signal_candidates := ss\<rparr>"
  let ?id = "\<lambda>x. sg_signal_id (sc_signal x)"
  have sets: "set ms = set (bt_marks c)" "length ms = length (bt_marks c)"
    using assms(1) by (auto dest: mset_eq_setD mset_eq_length)
  have ex: "list_ex P ms = list_ex P (bt_marks c)" for P
    by (simp add: list_ex_iff sets)
  have currency: "currency_error ?c p = currency_error c p"
    by (simp add: currency_error_def ex split: list.split)
  have marks: "distinct (map pm_instrument_id ms) = distinct (map pm_instrument_id (bt_marks c))"
    using assms(1) by (rule distinct_map_mset)
  have cands: "distinct (map ?id (sort_key ?id ss)) = distinct (map ?id (sort_key ?id (bt_signal_candidates c)))"
    unfolding distinct_map_sort_key using assms(2) by (rule distinct_map_mset)
  show ?thesis
  proof (cases "distinct (map pm_instrument_id ms) \<and> distinct (map ?id ss)")
    case False
    with marks cands show ?thesis
      by (auto simp: build_target_flat currency ex candidate_error_def distinct_map_sort_key
          cong: if_cong)
  next
    case True
    then have lookup: "map_of (dict_of pm_instrument_id (\<lambda>m. m) ms) =
        map_of (dict_of pm_instrument_id (\<lambda>m. m) (bt_marks c))"
      using map_of_dict_of_mset [OF _ assms(1)] by blast
    with True marks show ?thesis
      by (simp add: build_target_flat currency ex sort_key_mset [of ?id ss, OF _ assms(2)]
          build_from_frame lookup_cong [OF lookup] build_from_cong [OF lookup] cong: if_cong)
  qed
qed


section \<open>The position bound\<close>

interpretation floor_to: quantizer floor_to_quantum floor
proof
  show "\<exists>d. floor_to_quantum v q = Success d \<and>
      val d = rnd (of_int \<lfloor>rnd (val v / val q)\<rfloor> * val q)" if "0 < val q" for v q
    using val_dec_div [of q v] that by (auto simp: floor_to_quantum_def dec_simps)
qed (simp_all add: floor_mono)

definition slack :: rat where
  "slack = 1 + pten (- 27) / 2"

lemma rnd_upper: "0 \<le> x \<Longrightarrow> x \<le> b \<Longrightarrow> rnd x \<le> b * slack"
proof -
  assume "0 \<le> x" "x \<le> b"
  then have "rnd x \<le> x * slack"
    using abs_le_D1 [OF rnd_error [of x]] by (simp add: slack_def algebra_simps)
  also have "\<dots> \<le> b * slack"
    using \<open>x \<le> b\<close> by (intro mult_right_mono) (simp_all add: slack_def add_nonneg_nonneg)
  finally show ?thesis .
qed

lemma slack_bound: "slack ^ 6 \<le> 1 + pten (- 13) / 4"
  by (simp add: slack_def pten_def power_int_minus power_divide)

lemma floor_times_le: "0 \<le> x \<Longrightarrow> 0 < q \<Longrightarrow> of_int \<lfloor>x\<rfloor> * q \<le> x * q" for x q :: rat
  by (intro mult_right_mono) simp_all

text \<open>
  A weight goes through six rounded operations on its way to a quantity and back; together they
  lose less than a quarter of the tenth of a calculation quantum.
\<close>

lemma weight_chain:
  assumes "0 \<le> b" "b \<le> 1" "0 < nav" "0 < price" "0 < q"
  shows "rnd (rnd (rnd (of_int \<lfloor>rnd (rnd (rnd (b * nav) / price) / q)\<rfloor> * q) * price) / nav)
    \<le> b + pten (- 13) / 4"
proof -
  let ?x1 = "rnd (b * nav)" and ?x2 = "rnd (rnd (b * nav) / price)"
  let ?x3 = "rnd (?x2 / q)" and ?x4 = "rnd (of_int \<lfloor>rnd (?x2 / q)\<rfloor> * q)"
  have s: "0 < slack"
    by (simp add: slack_def add_pos_nonneg)
  have 1: "0 \<le> ?x1" "?x1 \<le> b * nav * slack"
    using assms rnd_upper [of "b * nav" "b * nav"] by simp_all
  have 2: "0 \<le> ?x2" "?x2 \<le> b * nav * slack / price * slack"
    using assms 1 by (simp, intro rnd_upper divide_right_mono) simp_all
  have 3: "0 \<le> ?x3" "?x3 \<le> b * nav * slack / price * slack / q * slack"
    using assms 2 by (simp, intro rnd_upper divide_right_mono) simp_all
  have le4: "of_int \<lfloor>?x3\<rfloor> * q \<le> b * nav * slack / price * slack / q * slack * q"
    using floor_times_le [OF 3(1) assms(5)] mult_right_mono [OF 3(2), of q] assms by linarith
  have 4: "0 \<le> ?x4" "?x4 \<le> b * nav * slack / price * slack / q * slack * q * slack"
    using assms 3(1) by (simp, intro rnd_upper [OF _ le4]) simp_all
  have 5: "0 \<le> rnd (?x4 * price)"
    "rnd (?x4 * price) \<le> b * nav * slack / price * slack / q * slack * q * slack * price * slack"
    using assms 4(1) by (simp, intro rnd_upper mult_right_mono [OF 4(2)]) simp_all
  have "rnd (rnd (?x4 * price) / nav)
      \<le> b * nav * slack / price * slack / q * slack * q * slack * price * slack / nav * slack"
    using assms 5(1) by (intro rnd_upper divide_right_mono [OF 5(2)]) simp_all
  also have "\<dots> = b * slack ^ 6"
    using assms by (simp add: power_numeral_reduce)
  also have "\<dots> \<le> b * (1 + pten (- 13) / 4)"
    using assms slack_bound by (intro mult_left_mono) simp_all
  also have "\<dots> \<le> b + pten (- 13) / 4"
    using assms mult_right_mono [of b 1 "pten (- 13) / 4"] by (simp add: distrib_left)
  finally show ?thesis .
qed

lemma quantize_Success:
  "quantize d = Success x \<Longrightarrow> val x = of_int (rhe (val d / pten (- 12))) * pten (- 12)"
  by (simp add: quantize_def CALCULATION_QUANTUM_def dec_quantize_Success val_Dec)

lemma quantize_le_grid:
  assumes "quantize d = Success x" "on_grid CALCULATION_QUANTUM b" "val d \<le> b + pten (- 13)"
  shows "val x \<le> b"
proof -
  obtain k where k: "b = of_int k * pten (- 12)"
    using assms(2) by (auto simp: on_grid_def CALCULATION_QUANTUM_def val_Dec)
  have "val d / pten (- 12) \<le> of_int k + 1 / 10"
    using assms(3) by (simp add: k pos_divide_le_eq) (simp add: pten_def power_int_minus algebra_simps)
  then have "rhe (val d / pten (- 12)) \<le> k"
    using rhe_error [of "val d / pten (- 12)"] by linarith
  then show ?thesis
    using quantize_Success [OF assms(1)] by (simp add: k)
qed

lemma quantize_nonneg: "quantize d = Success x \<Longrightarrow> 0 \<le> val d \<Longrightarrow> 0 \<le> val x"
  using rhe_mono [of 0 "val d / pten (- 12)"] rhe_of_int [of 0] quantize_Success [of d x] by simp


lemma bounded_weight_range:
  assumes "validate_portfolio_policy p = Success p"
  shows "0 \<le> val (bounded_weight w p)" "val (bounded_weight w p) \<le> val (pp_max_position_weight p)"
    "val (pp_max_position_weight p) \<le> 1"
  using assms
  by (simp_all add: bounded_weight_def validate_portfolio_policy_def res_simps dec_simps unit_ok_def)

lemma make_allocation_Success:
  assumes "make_allocation i position mark candidates nav p = Success a"
  obtains w units where "al_instrument_id a = i"
    "al_current_quantity a = (case position of Some b \<Rightarrow> pb_quantity b | None \<Rightarrow> 0)"
    "al_quantity_quantum a = pm_quantity_quantum mark"
    "dec_div (bounded_weight w p * nav) (pm_price mark) = Success units"
    "floor_to_quantum units (pm_quantity_quantum mark) = Success (al_target_quantity a)"
    "\<exists>x. dec_div (al_target_quantity a * pm_price mark) nav = Success x \<and>
       quantize x = Success (al_target_weight a)"
    "validate_allocation a = Success a"
proof -
  let ?q = "case position of Some b \<Rightarrow> pb_quantity b | None \<Rightarrow> 0"
  from assms obtain w units target x weight diags where
    steps: "dec_div (bounded_weight w p * nav) (pm_price mark) = Success units"
      "floor_to_quantum units (pm_quantity_quantum mark) = Success target"
      "dec_div (target * pm_price mark) nav = Success x" "quantize x = Success weight"
    and valid: "validate_allocation
        \<lparr>al_instrument_id = i, al_current_quantity = ?q, al_target_quantity = target,
         al_delta_quantity = target - ?q, al_quantity_quantum = pm_quantity_quantum mark,
         al_target_weight = weight, al_constraint_diagnostics = diags\<rparr> = Success a"
    by (auto simp: make_allocation_def bind_Success_iff Let_def)
  from valid have "a =
        \<lparr>al_instrument_id = i, al_current_quantity = ?q, al_target_quantity = target,
         al_delta_quantity = target - ?q, al_quantity_quantum = pm_quantity_quantum mark,
         al_target_weight = weight, al_constraint_diagnostics = diags\<rparr>"
    by (simp add: validate_allocation_def res_simps)
  with steps valid show thesis
    by (intro that [of w units]) auto
qed

lemma allocation_in_bounds:
  assumes a: "make_allocation i position mark candidates nav p = Success a"
    and p: "validate_portfolio_policy p = Success p"
    and grid: "is_quantized (pp_max_position_weight p) CALCULATION_QUANTUM"
    and pos: "0 < val nav" "0 < val (pm_price mark)" "0 < val (pm_quantity_quantum mark)"
  shows "0 \<le> val (al_target_quantity a)" "0 \<le> val (al_target_weight a)"
    "val (al_target_weight a) \<le> val (pp_max_position_weight p)"
proof -
  from a obtain w units x where
    div: "dec_div (bounded_weight w p * nav) (pm_price mark) = Success units"
    and floor: "floor_to_quantum units (pm_quantity_quantum mark) = Success (al_target_quantity a)"
    and x: "dec_div (al_target_quantity a * pm_price mark) nav = Success x"
    and weight: "quantize x = Success (al_target_weight a)"
    by (rule make_allocation_Success) blast
  note b = bounded_weight_range(1,2) [OF p, of w] bounded_weight_range(3) [OF p]
  have units: "val units = rnd (rnd (val (bounded_weight w p) * val nav) / val (pm_price mark))"
    using dec_div_Success [OF div] by (simp add: val_times)
  note q = floor_to.quant_Success [OF floor pos(3)]
  have vx: "val x = rnd (rnd (val (al_target_quantity a) * val (pm_price mark)) / val nav)"
    using dec_div_Success [OF x] by (simp add: val_times)
  show "0 \<le> val (al_target_quantity a)"
    using b(1) pos by (simp add: q units)
  then have "0 \<le> val x"
    using pos by (simp add: vx)
  with weight show "0 \<le> val (al_target_weight a)"
    by (rule quantize_nonneg)
  have "val x \<le> val (bounded_weight w p) + pten (- 13) / 4"
    unfolding vx q units using b pos by (intro weight_chain) simp_all
  then have "val x \<le> val (pp_max_position_weight p) + pten (- 13)"
    using b(2) pten_pos [of "- 13"] by linarith
  with weight is_quantized_grid [OF grid]
  show "val (al_target_weight a) \<le> val (pp_max_position_weight p)"
    by (rule quantize_le_grid)
qed

section \<open>Targets\<close>

lemma create_target_Success:
  "create_target H t = Success t' \<Longrightarrow>
   t' = t\<lparr>pt_calculation_hash := expected_calculation_hash H t\<rparr> \<and> validate_target H t' = Success t'"
  by (auto simp: create_target_def Let_def validate_target_def res_simps)

lemma validated_inputs_Success:
  "validated_inputs H c p = Success (ms, cs) \<Longrightarrow>
   ms = dict_of pm_instrument_id (\<lambda>m. m) (bt_marks c) \<and>
   cs = sort_key (\<lambda>x. sg_signal_id (sc_signal x)) (bt_signal_candidates c)"
  by (auto simp: validated_inputs_def bind_Success_iff Let_def split: if_splits)

lemma portfolio_nav_pos: "portfolio_nav s ms b = Success nav \<Longrightarrow> 0 < val nav"
  by (auto simp: portfolio_nav_def Let_def dec_simps split: option.splits if_splits)

definition constructed ::
  "hashing \<Rightarrow> build_command \<Rightarrow> portfolio_policy \<Rightarrow> portfolio_target \<Rightarrow> dec \<Rightarrow> bool" where
  "constructed H c p t nav \<longleftrightarrow>
     pt_account_id t = sn_account_id (bt_snapshot c) \<and>
     pt_portfolio_snapshot_id t = sn_snapshot_id (bt_snapshot c) \<and>
     pt_account_aggregate_sequence t = sn_account_aggregate_sequence (bt_snapshot c) \<and>
     pt_portfolio_sequence t = sn_portfolio_sequence (bt_snapshot c) \<and>
     pt_as_of t = sn_as_of (bt_snapshot c) \<and> validate_target H t = Success t \<and> 0 < val nav \<and>
     list_all2 (\<lambda>i a. \<exists>m \<in> set (bt_marks c). \<exists>cs. make_allocation i
         (map_of (dict_of pb_instrument_id (\<lambda>b. b) (sn_positions (bt_snapshot c))) i) m cs nav p = Success a)
       (target_instruments c (bt_signal_candidates c)) (pt_allocations t)"

lemma target_instruments_sort_key:
  "target_instruments c (sort_key f xs) = target_instruments c xs"
  unfolding target_instruments_def
  by (rule sorted_distinct_set_unique) auto

lemma build_target_Success:
  assumes "build_target H c p = Success t"
  obtains nav where "constructed H c p t nav"
proof -
  let ?ms = "dict_of pm_instrument_id (\<lambda>m. m) (bt_marks c)"
  let ?cs = "sort_key (\<lambda>x. sg_signal_id (sc_signal x)) (bt_signal_candidates c)"
  let ?is = "target_instruments c (bt_signal_candidates c)"
  have "build_from H c p ?ms ?cs = Success t"
    using assms by (auto simp: build_target_def bind_Success_iff dest: validated_inputs_Success)
  then obtain nav as r where
    known: "\<not> list_ex (\<lambda>i. map_of ?ms i = None) ?is"
    and nav: "portfolio_nav (bt_snapshot c) ?ms (bt_base_currency c) = Success nav"
    and as: "run_all (\<lambda>i. make_allocation i
         (map_of (dict_of pb_instrument_id (\<lambda>b. b) (sn_positions (bt_snapshot c))) i)
         (the (map_of ?ms i)) ?cs nav p) ?is = Success as"
    and t: "create_target H r = Success t"
    and r: "pt_account_id r = sn_account_id (bt_snapshot c)"
      "pt_portfolio_snapshot_id r = sn_snapshot_id (bt_snapshot c)"
      "pt_account_aggregate_sequence r = sn_account_aggregate_sequence (bt_snapshot c)"
      "pt_portfolio_sequence r = sn_portfolio_sequence (bt_snapshot c)"
      "pt_as_of r = sn_as_of (bt_snapshot c)" "pt_allocations r = as"
    by (auto simp: build_from_def target_instruments_sort_key Let_def bind_Success_iff
        split: if_splits)
  have mark: "the (map_of ?ms i) \<in> set (bt_marks c)" if "i \<in> set ?is" for i
    using known that map_of_dict_of_mem [of pm_instrument_id "\<lambda>m. m" "bt_marks c" i]
    by (auto simp: list_ex_iff)
  have "list_all2 (\<lambda>i a. \<exists>m \<in> set (bt_marks c). \<exists>cs. make_allocation i
         (map_of (dict_of pb_instrument_id (\<lambda>b. b) (sn_positions (bt_snapshot c))) i) m cs nav p = Success a)
       ?is as"
    using as unfolding run_all_Success by (rule list.rel_mono_strong) (use mark in blast)
  with create_target_Success [OF t] r portfolio_nav_pos [OF nav] have "constructed H c p t nav"
    by (auto simp: constructed_def)
  then show thesis ..
qed


text \<open>
  C26: Every allocation of a constructed target stays within the policy: the allocations are
  exactly the instruments held or signalled, in stable order, each with the held quantity as its
  current quantity; target quantities are whole, non-negative multiples of the instrument quantum;
  and no target weight exceeds the maximal position weight, in spite of the rounding of every
  intermediate result. The policy bound must itself be a multiple of the calculation quantum.
\<close>

theorem target_within_policy:
  assumes t: "build_target H c p = Success t"
    and p: "validate_portfolio_policy p = Success p"
      "is_quantized (pp_max_position_weight p) CALCULATION_QUANTUM"
    and marks: "\<forall>m \<in> set (bt_marks c). validate_mark m = Success m"
  shows "map al_instrument_id (pt_allocations t) = target_instruments c (bt_signal_candidates c) \<and>
     (\<forall>a \<in> set (pt_allocations t).
        is_quantized (al_target_quantity a) (al_quantity_quantum a) \<and>
        0 \<le> al_target_quantity a \<and> 0 \<le> al_target_weight a \<and>
        al_target_weight a \<le> pp_max_position_weight p)"
proof -
  from t obtain nav where "constructed H c p t nav"
    by (rule build_target_Success)
  then have nav: "0 < val nav" and all: "list_all2 (\<lambda>i a. \<exists>m \<in> set (bt_marks c). \<exists>cs. make_allocation i
         (map_of (dict_of pb_instrument_id (\<lambda>b. b) (sn_positions (bt_snapshot c))) i) m cs nav p = Success a)
       (target_instruments c (bt_signal_candidates c)) (pt_allocations t)"
    by (simp_all add: constructed_def)
  have ids: "list_all2 (\<lambda>i a. i = al_instrument_id a)
      (target_instruments c (bt_signal_candidates c)) (pt_allocations t)"
    using all by (rule list_all2_mono) (blast elim: make_allocation_Success)
  have "is_quantized (al_target_quantity a) (al_quantity_quantum a) \<and>
      0 \<le> val (al_target_quantity a) \<and> 0 \<le> val (al_target_weight a) \<and>
      val (al_target_weight a) \<le> val (pp_max_position_weight p)" if "a \<in> set (pt_allocations t)" for a
  proof -
    from all that obtain i m cs position where m: "m \<in> set (bt_marks c)"
      and a: "make_allocation i position m cs nav p = Success a"
      by (auto simp: list_all2_conv_all_nth in_set_conv_nth)
    have "0 < val (pm_price m)" "0 < val (pm_quantity_quantum m)"
      using marks m by (auto simp: validate_mark_def res_simps positive_ok_def dec_simps)
    note bounds = allocation_in_bounds [OF a p nav this]
    have "validate_allocation a = Success a"
      using a by (rule make_allocation_Success)
    with bounds show ?thesis
      by (simp add: validate_allocation_def res_simps)
  qed
  with ids show ?thesis
    by (auto simp: dec_le_iff list_all2_conv_all_nth intro!: nth_equalityI)
qed

text \<open>The current quantities of the allocations are the positions held.\<close>

lemma constructed_position_matches:
  assumes con: "constructed H c p t nav"
  shows "position_matches (bt_snapshot c) t"
proof -
  let ?ps = "sn_positions (bt_snapshot c)"
  let ?held = "map_of (dict_of pb_instrument_id (\<lambda>b. b) ?ps)"
  let ?cur = "dict_of al_instrument_id al_current_quantity (pt_allocations t)"
  have all: "list_all2 (\<lambda>i a. al_instrument_id a = i \<and>
        al_current_quantity a = (case ?held i of Some b \<Rightarrow> pb_quantity b | None \<Rightarrow> 0))
      (target_instruments c (bt_signal_candidates c)) (pt_allocations t)"
    using con unfolding constructed_def
    by (elim conjE) (erule list_all2_mono, blast elim: make_allocation_Success)
  then have ids: "al_instrument_id ` set (pt_allocations t) = set (target_instruments c (bt_signal_candidates c))"
    by (induction rule: list_all2_induct) auto
  have cur: "q = (case ?held i of Some b \<Rightarrow> pb_quantity b | None \<Rightarrow> 0)" if q: "map_of ?cur i = Some q" for i q
  proof -
    from map_of_dict_of_mem [OF q] all show ?thesis
      by (auto simp: list_all2_conv_all_nth in_set_conv_nth)
  qed
  have 1: "\<exists>v. map_of ?cur i = Some v \<and> deq v q"
    if "(i, q) \<in> set (dict_of pb_instrument_id pb_quantity ?ps)" for i q
  proof -
    from that have "map_of (dict_of pb_instrument_id pb_quantity ?ps) i = Some q"
      by (simp add: map_of_is_SomeI)
    then obtain b where b: "?held i = Some b" "q = pb_quantity b"
      by (auto simp: map_of_dict_of_option [of _ pb_quantity])
    then have "i \<in> set (target_instruments c (bt_signal_candidates c))"
      using map_of_dict_of_mem [OF b(1)] by (auto simp: target_instruments_def)
    then obtain v where "map_of ?cur i = Some v"
      using map_of_dict_of_None [of al_instrument_id al_current_quantity "pt_allocations t" i] ids by auto
    moreover from cur [OF this] b have "v = q"
      by simp
    ultimately show ?thesis
      by (auto simp: deq_iff)
  qed
  have 2: "map_of (dict_of pb_instrument_id pb_quantity ?ps) i \<noteq> None \<or> deq q 0"
    if "(i, q) \<in> set ?cur" for i q
    using cur [of i q] map_of_is_SomeI [OF _ that]
    by (cases "?held i") (auto simp: map_of_dict_of_option [of _ pb_quantity] deq_iff)
  show ?thesis
    unfolding position_matches_def Let_def list_all_iff
    using 1 2 by fastforce
qed

text \<open>
  C27: A target built from a snapshot is accepted by the binding check of the hard risk gate on
  that snapshot: its hash is correct, its sequence numbers and time are those of the snapshot and
  its current quantities are exactly the positions held.
\<close>

theorem built_target_binds:
  assumes t: "build_target H c p = Success (rq_target r)"
    and r: "rq_snapshot r = bt_snapshot c" "sn_as_of (bt_snapshot c) \<le> rq_at r"
  shows "target_binding_matches H r"
proof -
  from t obtain nav where con: "constructed H c p (rq_target r) nav"
    by (rule build_target_Success)
  then have "pt_calculation_hash (rq_target r) = expected_calculation_hash H (rq_target r)"
    by (simp add: constructed_def validate_target_def res_simps)
  with con r constructed_position_matches [OF con] show ?thesis
    by (simp add: target_binding_matches_def constructed_def Let_def)
qed


section \<open>A concrete target\<close>

definition build_policy :: portfolio_policy where
  "build_policy =
     \<lparr>pp_policy_version = ''1.0.0'',
      pp_strategy_weights = [\<lparr>sw_strategy_id = ''momentum'', sw_strategy_version = ''1.0.0'',
        sw_weight = Dec 1 0\<rparr>],
      pp_deadband = Dec 5 (- 2), pp_shrinkage = Dec 5 (- 1), pp_turnover_penalty = Dec 5 (- 1),
      pp_max_position_weight = Dec 2 (- 1), pp_estimated_cost_bps = Dec 10 0,
      pp_currency_quantum = Dec 1 (- 2), pp_long_only = True\<rparr>"

definition build_snapshot :: account_snapshot where
  "build_snapshot =
     \<lparr>sn_snapshot_id = ''s'', sn_account_id = ''acct'', sn_as_of = 90000000,
      sn_account_aggregate_sequence = 0, sn_portfolio_sequence = 0, sn_ledger_sequence = 0,
      sn_ledger_hash = None,
      sn_cash = [\<lparr>cb_currency = ''USD'', cb_settled_amount = Dec 1000 0, cb_reserved_amount = 0,
        cb_quantum = Dec 1 (- 2)\<rparr>],
      sn_positions = [\<lparr>pb_instrument_id = ''i'', pb_quantity = Dec 10 0,
        pb_sellable_quantity = Dec 10 0, pb_reserved_quantity = 0, pb_quantum = Dec 1 0\<rparr>],
      sn_pending_order_ids = []\<rparr>"

definition sample_build :: build_command where
  "sample_build =
     \<lparr>bt_target_id = ''t'', bt_snapshot = build_snapshot, bt_base_currency = ''USD'',
      bt_marks = [\<lparr>pm_instrument_id = ''i'', pm_as_of = 90000000, pm_currency = ''USD'',
        pm_price = Dec 100 0, pm_quantity_quantum = Dec 1 0\<rparr>,
       \<lparr>pm_instrument_id = ''j'', pm_as_of = 80000000, pm_currency = ''USD'', pm_price = Dec 7 0,
        pm_quantity_quantum = Dec 1 0\<rparr>],
      bt_signal_candidates = []\<rparr>"

definition sample_allocation :: target_allocation where
  "sample_allocation =
     \<lparr>al_instrument_id = ''i'', al_current_quantity = Dec 10 0, al_target_quantity = Dec 4 0,
      al_delta_quantity = Dec (- 6) 0, al_quantity_quantum = Dec 1 0,
      al_target_weight = Dec 200000000000 (- 12),
      al_constraint_diagnostics = 
        [''deadband:applied'', ''ensemble_available_weight:0.000000000000'',
         ''ensemble_missing_weight:1.000000000000'', ''ensemble_score:0.000000000000'',
         ''estimated_cost:0.60'', ''estimated_cost_bps:10'', ''mark_price:100'',
         ''position_bound:applied'', ''shrinkage:0.5'', ''turnover_penalty:0.5'']\<rparr>"


lemma make_allocationI:
  assumes "dec_div ((case position of Some b \<Rightarrow> pb_quantity b | None \<Rightarrow> 0) * pm_price mark) nav = Success current"
    "ensemble_score (filter (\<lambda>c. sg_instrument_id (sc_signal c) = i) cs) p = Success (score, available)"
    "dec_div (bounded_weight (penalized_weight score current p) p * nav) (pm_price mark) = Success units"
    "floor_to_quantum units (pm_quantity_quantum mark) = Success target"
    "bind (dec_div (target * pm_price mark) nav) quantize = Success weight"
    "bind (dec_div (\<bar>target - (case position of Some b \<Rightarrow> pb_quantity b | None \<Rightarrow> 0)\<bar> * pm_price mark *
         pp_estimated_cost_bps p) (Dec 10000 0)) (\<lambda>raw. currency_quantize raw (pp_currency_quantum p)) = Success cost"
    "diagnostics score available (penalized_weight score current p)
       (bounded_weight (penalized_weight score current p) p) (\<bar>score\<bar> \<le> pp_deadband p) cost mark p = Success diags"
  shows "make_allocation i position mark cs nav p = validate_allocation
        \<lparr>al_instrument_id = i, al_current_quantity = (case position of Some b \<Rightarrow> pb_quantity b | None \<Rightarrow> 0),
         al_target_quantity = target,
         al_delta_quantity = target - (case position of Some b \<Rightarrow> pb_quantity b | None \<Rightarrow> 0),
         al_quantity_quantum = pm_quantity_quantum mark,
         al_target_weight = weight, al_constraint_diagnostics = diags\<rparr>"
proof -
  from assms(5,6) obtain x y where "dec_div (target * pm_price mark) nav = Success x" "quantize x = Success weight"
   "dec_div (\<bar>target - (case position of Some b \<Rightarrow> pb_quantity b | None \<Rightarrow> 0)\<bar> * pm_price mark *
         pp_estimated_cost_bps p) (Dec 10000 0) = Success y" "currency_quantize y (pp_currency_quantum p) = Success cost"
    by (auto simp: bind_Success_iff)
  with assms show ?thesis
    by (simp add: make_allocation_def Let_def)
qed

lemma sample_make:
  "make_allocation ''i'' (Some (hd (sn_positions build_snapshot))) (hd (bt_marks sample_build)) []
     (Dec 2000 0) build_policy = Success sample_allocation"
proof (subst make_allocationI [where current = "Dec 5 (- 1)" and score = "Dec 0 (- 12)"
    and available = "Dec 0 (- 12)" and units = "Dec 40 (- 1)" and target = "Dec 4 0"
    and weight = "Dec 200000000000 (- 12)" and cost = "Dec 60 (- 2)"
    and diags = "al_constraint_diagnostics sample_allocation"])
qed code_simp+

definition sample_target :: portfolio_target where
  "sample_target =
     \<lparr>pt_target_id = ''t'', pt_account_id = ''acct'', pt_portfolio_snapshot_id = ''s'',
      pt_account_aggregate_sequence = 0, pt_portfolio_sequence = 0, pt_as_of = 90000000,
      pt_allocations = [sample_allocation], pt_input_signal_ids = [],
      pt_policy_version = ''1.0.0'', pt_policy_hash = replicate 64 CHR ''a'',
      pt_expected_turnover = Dec 300000000000 (- 12), pt_expected_cost = Dec 60 (- 2),
      pt_cost_currency = ''USD'', pt_calculation_hash = replicate 64 CHR ''a''\<rparr>"

lemma sample_inputs:
  "validated_inputs sample_hashing sample_build build_policy =
     Success (dict_of pm_instrument_id (\<lambda>m. m) (bt_marks sample_build), [])"
  by code_simp

lemma sample_steps:
  "target_instruments sample_build [] = [''i'']"
  "map_of (dict_of pm_instrument_id (\<lambda>m. m) (bt_marks sample_build)) ''i'' = Some (hd (bt_marks sample_build))"
  "map_of (dict_of pb_instrument_id (\<lambda>b. b) (sn_positions build_snapshot)) ''i'' =
     Some (hd (sn_positions build_snapshot))"
  "portfolio_nav build_snapshot (dict_of pm_instrument_id (\<lambda>m. m) (bt_marks sample_build)) ''USD'' =
     Success (Dec 2000 0)"
  "target_costs [sample_allocation] (dict_of pm_instrument_id (\<lambda>m. m) (bt_marks sample_build))
     (Dec 2000 0) build_policy = Success (Dec 300000000000 (- 12), Dec 60 (- 2))"
  by code_simp+

lemma sample_target_valid: "validate_target sample_hashing sample_target = Success sample_target"
proof -
  have "currency_ok ''USD''" "non_negative_ok (Dec 300000000000 (- 12))" "non_negative_ok (Dec 60 (- 2))"
    by code_simp+
  then show ?thesis
    by (simp add: sample_target_def validate_target_def res_simps nonempty_ok_def
        expected_calculation_hash_def)
qed

lemma sample_create:
  "create_target sample_hashing (sample_target\<lparr>pt_calculation_hash := h\<rparr>) = Success sample_target"
  using sample_target_valid
  by (simp add: create_target_def expected_calculation_hash_def Let_def) (simp add: sample_target_def)

lemma sample_build_target: "build_target sample_hashing sample_build build_policy = Success sample_target"
proof -
  have "bt_snapshot sample_build = build_snapshot" "bt_base_currency sample_build = ''USD''"
    by (simp_all add: sample_build_def)
  then have "build_target sample_hashing sample_build build_policy =
      create_target sample_hashing (sample_target\<lparr>pt_calculation_hash := PLACEHOLDER_HASH\<rparr>)"
    by (simp add: build_target_def sample_inputs build_from_def sample_steps sample_make
        portfolio_policy_hash_def Let_def del: map_of_eq_Some_iff)
      (simp add: sample_build_def build_snapshot_def sample_target_def build_policy_def)
  then show ?thesis
    by (simp only: sample_create)
qed

lemma build_policy_valid:
  "validate_portfolio_policy build_policy = Success build_policy"
  "is_quantized (pp_max_position_weight build_policy) CALCULATION_QUANTUM"
  by code_simp+

theorem build_target_order_independent_witness:
  "build_target sample_hashing
     (sample_build\<lparr>bt_marks := rev (bt_marks sample_build), bt_signal_candidates := []\<rparr>) build_policy =
   Success sample_target"
proof -
  have "mset [] = mset (bt_signal_candidates sample_build)"
    by (simp add: sample_build_def)
  from build_target_order_independent [OF mset_rev this] show ?thesis
    by (simp only: sample_build_target)
qed

theorem target_within_policy_witness:
  "build_target sample_hashing sample_build build_policy = Success sample_target \<and>
   list_all (\<lambda>a. al_target_weight a \<le> pp_max_position_weight build_policy) (pt_allocations sample_target)"
proof -
  have "list_all (\<lambda>m. is_success (validate_mark m)) (bt_marks sample_build)"
    by code_simp
  then have "\<forall>m \<in> set (bt_marks sample_build). validate_mark m = Success m"
    by (auto simp: list_all_iff is_success_iff validate_mark_def res_simps)
  then show ?thesis
    using target_within_policy [OF sample_build_target build_policy_valid] sample_build_target
    unfolding list_all_iff by blast
qed

theorem built_target_binds_witness:
  "target_binding_matches sample_hashing
     \<lparr>rq_decision_id = ''d'', rq_snapshot = build_snapshot, rq_target = sample_target,
      rq_instruments = [], rq_signal_candidates = [], rq_open_reservations = [],
      rq_ledger_head = \<lparr>lh_account_id = ''acct'', lh_sequence = 0, lh_transaction_hash = None\<rparr>,
      rq_high_watermark_nav = Dec 2000 0, rq_day_start_nav = Dec 2000 0,
      rq_kill_switch = \<lparr>ks_global_active = False, ks_account_active = False,
        ks_observed_at = 91000000\<rparr>, rq_at = 92000000\<rparr>"
  by (rule built_target_binds [of _ sample_build build_policy])
    (simp_all add: sample_build_target, simp_all add: sample_build_def build_snapshot_def)

end
