(* ===== verification/Risk_Authorization.thy ===== *)
theory Risk_Authorization
  imports Paper_Broker Risk_Gate
begin

text \<open>
  \<^verbatim>\<open>application/risk/authorize.py\<close> with the command and result of \<^verbatim>\<open>domain/risk_authorization.py\<close>
  and the persistence records of \<^verbatim>\<open>domain/trading_persistence.py\<close>: the hard risk gate is evaluated
  against the stored account, and an approved target becomes reservations and market day orders in
  one transaction.

  The use case gets its unit of work as an argument, a \<^verbatim>\<open>Protocol\<close> of \<^verbatim>\<open>ports/\<close>. Here the
  argument is a record of functions on an arbitrary store type \<open>'s\<close>: an operation returns its result
  and the store as the open transaction sees it, \<open>commit\<close> makes that store the committed one or raises,
  and leaving the block without a commit rolls back to the store at its start.
\<close>

section \<open>Persistence records\<close>

record reservation_order_record =
  ro_reservation :: reservation
  ro_reservation_event :: reservation_event
  ro_order_intent :: order_intent
  ro_account_event :: account_event

definition validate_reservation_order_record ::
  "reservation_order_record \<Rightarrow> reservation_order_record result" where
  "validate_reservation_order_record x = check_all
     [(\<not> (rv_reservation_id (ro_reservation x) \<noteq> re_reservation_id (ro_reservation_event x) \<or>
          rv_order_intent_id (ro_reservation x) \<noteq> oi_intent_id (ro_order_intent x) \<or>
          rv_reservation_id (ro_reservation x) \<noteq> oi_reservation_id (ro_order_intent x) \<or>
          rv_account_id (ro_reservation x) \<noteq> oi_account_id (ro_order_intent x) \<or>
          rv_event_hash (ro_reservation x) \<noteq> oi_reservation_hash (ro_order_intent x) \<or>
          ae_account_id (ro_account_event x) \<noteq> oi_account_id (ro_order_intent x) \<or>
          ae_sequence (ro_account_event x) \<noteq> oi_account_aggregate_sequence (ro_order_intent x) \<or>
          ae_aggregate_ref_type (ro_account_event x) \<noteq> ''reservation_order'' \<or>
          ae_aggregate_ref_id (ro_account_event x) \<noteq> oi_intent_id (ro_order_intent x)),
       ''reservation/order persistence bindings are invalid'')] x"

record reservation_order_item =
  it_reservation :: reservation
  it_reservation_event :: reservation_event
  it_order_intent :: order_intent

definition validate_reservation_order_item ::
  "reservation_order_item \<Rightarrow> reservation_order_item result" where
  "validate_reservation_order_item x = check_all
     [(\<not> (rv_reservation_id (it_reservation x) \<noteq> re_reservation_id (it_reservation_event x) \<or>
          rv_order_intent_id (it_reservation x) \<noteq> oi_intent_id (it_order_intent x) \<or>
          rv_reservation_id (it_reservation x) \<noteq> oi_reservation_id (it_order_intent x) \<or>
          rv_account_id (it_reservation x) \<noteq> oi_account_id (it_order_intent x) \<or>
          rv_event_hash (it_reservation x) \<noteq> oi_reservation_hash (it_order_intent x)),
       ''reservation/order item bindings are invalid'')] x"

record reservation_order_batch =
  ob_items :: "reservation_order_item list"
  ob_account_event :: account_event

definition validate_reservation_order_batch ::
  "reservation_order_batch \<Rightarrow> reservation_order_batch result" where
  "validate_reservation_order_batch b =
     (let intents = map it_order_intent (ob_items b);
          account_ids = set (map oi_account_id intents);
          sequences = set (map oi_account_aggregate_sequence intents);
          decisions = set (map oi_risk_decision_id intents) in
      check_all
       [(ob_items b \<noteq> [] \<and> length (ob_items b) \<le> 100000, ''field''),
        (sorted (map oi_intent_id intents), ''reservation/order batch must be stably sorted''),
        (card account_ids = 1 \<and> card sequences = 1 \<and> card decisions = 1 \<and>
         ae_account_id (ob_account_event b) \<in> account_ids \<and>
         ae_sequence (ob_account_event b) \<in> sequences \<and>
         ae_aggregate_ref_type (ob_account_event b) = ''reservation_orders'' \<and>
         ae_aggregate_ref_id (ob_account_event b) \<in> decisions,
         ''reservation/order batch bindings are invalid'')] b)"

record execution_record =
  xr_account_id :: string
  xr_idempotency_key :: string
  xr_command_id :: uuid
  xr_command_hash :: hash
  xr_intent_hash :: hash
  xr_outcome :: execution_outcome

definition validate_execution_record :: "execution_record \<Rightarrow> execution_record result" where
  "validate_execution_record x =
     (let receipt = xo_receipt (xr_outcome x) in
      check_all
       [(nonempty_ok (xr_account_id x) \<and> nonempty_ok (xr_idempotency_key x) \<and>
         sha256_ok (xr_command_hash x) \<and> sha256_ok (xr_intent_hash x), ''field''),
        (\<not> (er_account_id receipt \<noteq> xr_account_id x \<or> er_command_id receipt \<noteq> xr_command_id x \<or>
            er_intent_hash receipt \<noteq> xr_intent_hash x),
         ''paper execution record identity does not match receipt'')] x)"

section \<open>The command\<close>

record planned_order =
  po_instrument_id :: uuid
  po_reservation_id :: uuid
  po_intent_id :: uuid
  po_run_id :: uuid
  po_idempotency_key :: string
  po_order_type :: order_type
  po_time_in_force :: time_in_force
  po_limit_price :: "dec option"
  po_stop_price :: "dec option"
  po_execution_model_version :: string

definition validate_planned_order :: "planned_order \<Rightarrow> planned_order result" where
  "validate_planned_order o' = check_all
     [(nonempty_ok (po_idempotency_key o') \<and> opt_ok positive_ok (po_limit_price o') \<and>
       opt_ok positive_ok (po_stop_price o') \<and> nonempty_ok (po_execution_model_version o'),
       ''field'')] o'"

record authorization_command =
  au_risk :: risk_command
  au_orders :: "planned_order list"

definition validate_authorization_command ::
  "authorization_command \<Rightarrow> authorization_command result" where
  "validate_authorization_command c = check_all
     [(length (au_orders c) \<le> 100000, ''field''),
      (sorted (map po_instrument_id (au_orders c)), ''planned paper orders must be stably sorted''),
      (distinct (map po_instrument_id (au_orders c)) \<and>
       distinct (map (\<lambda>x. (po_reservation_id x, po_intent_id x, po_idempotency_key x)) (au_orders c)),
       ''planned paper order identities must be unique'')] c"

record authorization_result =
  ar_decision :: risk_decision
  ar_orders :: "reservation_order_batch option"

definition traded_allocations :: "portfolio_target \<Rightarrow> target_allocation list" where
  "traded_allocations t = filter (\<lambda>a. \<not> deq (al_delta_quantity a) 0) (pt_allocations t)"

definition validate_authorization_result ::
  "authorization_result \<Rightarrow> authorization_result result" where
  "validate_authorization_result r =
     (let deltas = (case rd_normalized_target (ar_decision r) of
          Some t \<Rightarrow> map al_delta_quantity (traded_allocations t) | None \<Rightarrow> []) in
      check_all
       [(\<not> (ar_orders r \<noteq> None \<and> \<not> rd_approved (ar_decision r)),
         ''rejected risk decision cannot authorize orders''),
        (\<not> (rd_approved (ar_decision r) \<and> (deltas \<noteq> []) \<noteq> (ar_orders r \<noteq> None)),
         ''approved risk decision order batch is incomplete'')] r)"

section \<open>Reservations and orders of an approved target\<close>

definition supported_order :: "planned_order \<Rightarrow> bool" where
  "supported_order plan \<longleftrightarrow>
     po_order_type plan = MARKET \<and> po_time_in_force plan = DAY \<and>
     po_limit_price plan = None \<and> po_stop_price plan = None"

definition ceil_to_quantum :: "dec \<Rightarrow> dec \<Rightarrow> dec result" where
  "ceil_to_quantum value quantum =
     bind (dec_div value quantum) (\<lambda>q. Success (to_integral_value ROUND_CEILING q * quantum))"

type_synonym order_pair = "reservation_mutation \<times> order_intent"

definition build_pair ::
  "hashing \<Rightarrow> target_allocation \<Rightarrow> planned_order \<Rightarrow> risk_decision \<Rightarrow> authorization_command \<Rightarrow> dec \<Rightarrow>
   dec \<Rightarrow> dec \<Rightarrow> order_pair result" where
  "build_pair H a plan decision c mark_price cash_quantum cost_share =
     (let buying = al_delta_quantity a > 0;
          risk = au_risk c;
          now = Utc (rq_at risk);
          until = Utc (rd_expires_at decision);
          quantity = \<bar>al_delta_quantity a\<bar> in
      bind (if buying then ceil_to_quantum (quantity * mark_price + cost_share) cash_quantum
            else Success quantity) (\<lambda>amount.
      bind (create_reservation H (po_reservation_id plan) (po_intent_id plan) decision
              (if buying then CASH else POSITION)
              (if buying then pt_cost_currency (rq_target risk) else al_instrument_id a)
              amount (if buying then cash_quantum else al_quantity_quantum a)
              (Some (al_instrument_id a)) now until
              (sn_account_aggregate_sequence (rq_snapshot risk))
              (sn_portfolio_sequence (rq_snapshot risk))) (\<lambda>reserved.
      bind (create_order_intent H (po_intent_id plan) (po_run_id plan) decision
              (rm_reservation reserved) (al_instrument_id a) (if buying then BUY else SELL)
              (po_order_type plan) quantity (al_quantity_quantum a) (po_limit_price plan)
              (po_stop_price plan) (po_time_in_force plan) now until (po_idempotency_key plan)
              (po_execution_model_version plan) now) (\<lambda>intent.
      Success (reserved, intent)))))"

definition cost_share ::
  "portfolio_target \<Rightarrow> (uuid \<times> dec) list \<Rightarrow> dec \<Rightarrow> target_allocation \<Rightarrow> dec result" where
  "cost_share target notionals total_notional a =
     (if al_delta_quantity a > 0 \<and> total_notional > 0
      then dec_div (pt_expected_cost target * the (map_of notionals (al_instrument_id a))) total_notional
      else Success 0)"

definition build_pairs ::
  "hashing \<Rightarrow> authorization_command \<Rightarrow> risk_decision \<Rightarrow> order_pair list result" where
  "build_pairs H c decision =
     (case rd_normalized_target decision of
        None \<Rightarrow> Failure CONFLICT ''Approved risk decision has no target''
      | Some target \<Rightarrow>
     let as = traded_allocations target;
         plans = dict_of po_instrument_id (\<lambda>x. x) (au_orders c);
         instruments = dict_of ri_instrument_id (\<lambda>x. x) (rq_instruments (au_risk c)) in
     if set (map fst plans) \<noteq> set (map al_instrument_id as) \<or> length plans \<noteq> length (au_orders c)
     then Failure CONFLICT ''Planned orders do not exactly cover authorized target deltas''
     else if list_ex (\<lambda>x. \<not> supported_order x) (au_orders c)
     then Failure CAPABILITY_DENIED ''Only market day orders are allowed by the paper risk gate''
     else (case List.find (\<lambda>b. cb_currency b = pt_cost_currency target)
                  (sn_cash (rq_snapshot (au_risk c))) of
       None \<Rightarrow> Failure DATA_UNAVAILABLE ''Authorization pricing is unavailable''
     | Some cash \<Rightarrow>
         if list_ex (\<lambda>a. map_of instruments (al_instrument_id a) = None) as
         then Failure DATA_UNAVAILABLE ''Authorization pricing is unavailable''
         else
           let price = (\<lambda>a. ri_mark_price (the (map_of instruments (al_instrument_id a))));
               notionals = dict_of al_instrument_id (\<lambda>a. \<bar>al_delta_quantity a\<bar> * price a) as;
               total_notional = dec_sum (map snd notionals) 0 in
           bind (run_all (cost_share target notionals total_notional) as) (\<lambda>shares.
           let cost_shares = dict_of fst snd (zip (map al_instrument_id as) shares) in
           run_all (\<lambda>a. build_pair H a (the (map_of plans (al_instrument_id a))) decision c
             (price a) (cb_quantum cash) (the (map_of cost_shares (al_instrument_id a)))) as)))"

section \<open>The transaction\<close>

record 's trading_port =
  tp_get_account :: "string \<Rightarrow> 's \<Rightarrow> account_state result"
  tp_save_target :: "portfolio_target \<Rightarrow> 's \<Rightarrow> portfolio_target result \<times> 's"
  tp_save_risk_decision :: "risk_decision \<Rightarrow> 's \<Rightarrow> risk_decision result \<times> 's"
  tp_create_reservation_orders ::
    "order_pair list \<Rightarrow> 's \<Rightarrow> reservation_order_batch result \<times> 's"
  tp_commit :: "'s \<Rightarrow> unit result"

definition account_matches :: "account_state \<Rightarrow> authorization_command \<Rightarrow> bool" where
  "account_matches account c \<longleftrightarrow>
     (let snapshot = rq_snapshot (au_risk c) in
      ac_account_id account = sn_account_id snapshot \<and>
      ac_base_currency account = pt_cost_currency (rq_target (au_risk c)) \<and>
      ac_account_aggregate_sequence account = sn_account_aggregate_sequence snapshot \<and>
      ac_portfolio_sequence account = sn_portfolio_sequence snapshot \<and>
      ac_ledger_sequence account = sn_ledger_sequence snapshot \<and>
      ac_ledger_hash account = sn_ledger_hash snapshot \<and>
      list_all2 cash_balance_eq (ac_cash account) (sn_cash snapshot) \<and>
      list_all2 position_balance_eq (ac_positions account) (sn_positions snapshot) \<and>
      ac_updated_at account \<le> rq_at (au_risk c))"

text \<open>
  The body of the \<^verbatim>\<open>with\<close> block: the result, and the store of the transaction when it was
  committed. The result model is validated after the commit.
\<close>

definition commit_with ::
  "'s trading_port \<Rightarrow> 's \<Rightarrow> authorization_result \<Rightarrow> authorization_result result \<times> 's option" where
  "commit_with port s r =
     (case tp_commit port s of
        Success u \<Rightarrow> (validate_authorization_result r, Some s)
      | Failure code m \<Rightarrow> (Failure code m, None)
      | Raised e \<Rightarrow> (Raised e, None))"

definition stop_at :: "'a result \<Rightarrow> ('a \<Rightarrow> 'b result \<times> 's option) \<Rightarrow> 'b result \<times> 's option" where
  "stop_at r f = (case r of Success x \<Rightarrow> f x | Failure code m \<Rightarrow> (Failure code m, None)
     | Raised e \<Rightarrow> (Raised e, None))"

definition authorize_block ::
  "hashing \<Rightarrow> 's trading_port \<Rightarrow> authorization_command \<Rightarrow> risk_policy \<Rightarrow> 's \<Rightarrow>
   authorization_result result \<times> 's option" where
  "authorize_block H port c p s =
     stop_at (tp_get_account port (sn_account_id (rq_snapshot (au_risk c))) s) (\<lambda>account.
     if \<not> account_matches account c
     then (Failure CONFLICT ''Paper account changed before risk authorization'', None)
     else stop_at (evaluate H (au_risk c) p) (\<lambda>decision.
     let (saved_target, s1) = tp_save_target port (rq_target (au_risk c)) s in
     stop_at saved_target (\<lambda>_.
     let (saved_decision, s2) = tp_save_risk_decision port decision s1 in
     stop_at saved_decision (\<lambda>_.
     if \<not> rd_approved decision
     then commit_with port s2 \<lparr>ar_decision = decision, ar_orders = None\<rparr>
     else stop_at (build_pairs H c decision) (\<lambda>pairs.
     if pairs = [] then commit_with port s2 \<lparr>ar_decision = decision, ar_orders = None\<rparr>
     else
       let (created, s3) = tp_create_reservation_orders port pairs s2 in
       stop_at created (\<lambda>batch.
       commit_with port s3 \<lparr>ar_decision = decision, ar_orders = Some batch\<rparr>))))))"

definition evaluate_and_authorize ::
  "hashing \<Rightarrow> 's trading_port \<Rightarrow> authorization_command \<Rightarrow> risk_policy \<Rightarrow> 's \<Rightarrow>
   authorization_result result \<times> 's" where
  "evaluate_and_authorize H port c p s =
     (case authorize_block H port c p s of
        (r, Some s') \<Rightarrow> (r, s') | (r, None) \<Rightarrow> (r, s))"

end
