(* ===== verification/Risk_Authorization_Properties.thy ===== *)
theory Risk_Authorization_Properties
  imports Risk_Authorization Sample_Hashing Risk_Gate_Properties
begin

text \<open>
  What the authorisation of a target guarantees: the call either succeeds or leaves the store as it
  was; orders come into being only for an approved target whose hard limits hold on the stored
  account; they cover the deltas of the target exactly, each bound to a reservation of its own; and
  the cash reserved for a purchase covers its notional and its share of the expected cost.
\<close>

section \<open>Reservations and intents\<close>

lemma create_reservation_Success:
  assumes "create_reservation H rid oid d kind commodity amount quantum inst (Utc t) (Utc u) a p = Success m"
  shows "rv_reservation_id (rm_reservation m) = rid" "rv_order_intent_id (rm_reservation m) = oid"
    "rv_account_id (rm_reservation m) = rd_account_id d" "rv_kind (rm_reservation m) = kind"
    "rv_commodity (rm_reservation m) = commodity" "rv_amount (rm_reservation m) = amount"
    "rv_remaining_amount (rm_reservation m) = amount" "rv_quantum (rm_reservation m) = quantum"
    "rv_risk_decision_id (rm_reservation m) = rd_decision_id d"
    "rv_risk_decision_hash (rm_reservation m) = rd_decision_hash d"
    "rv_state (rm_reservation m) = OPEN" "rv_expires_at (rm_reservation m) = u"
    "rv_account_aggregate_sequence (rm_reservation m) = a + 1"
    "validate_reservation (rm_reservation m) = Success (rm_reservation m)"
    "rd_approved d" "t < rd_expires_at d"
  using assms
  by (auto simp: create_reservation_def validate_mutation_def validate_reservation_def res_simps Let_def
      split: if_splits option.splits)

lemma create_order_intent_Success:
  assumes "create_order_intent H iid run d r inst side ty q qq lp sp tif (Utc from_t) (Utc until_t)
     key ver (Utc created_t) = Success i"
  shows "oi_intent_id i = iid" "oi_instrument_id i = inst" "oi_side i = side" "oi_order_type i = ty"
    "oi_quantity i = q" "oi_quantity_quantum i = qq" "oi_time_in_force i = tif"
    "oi_valid_until i = until_t" "oi_risk_decision_id i = rd_decision_id d"
    "oi_risk_decision_hash i = rd_decision_hash d" "oi_reservation_id i = rv_reservation_id r"
    "oi_reservation_hash i = rv_event_hash r" "oi_account_id i = rd_account_id d"
    "validate_intent H i = Success i"
  using assms
  by (auto simp: create_order_intent_def validate_intent_def res_simps Let_def
      split: if_splits option.splits)

section \<open>Pairs\<close>

text \<open>What one reservation and order must be for one traded allocation.\<close>

definition order_for :: "hashing \<Rightarrow> authorization_command \<Rightarrow> risk_decision \<Rightarrow> target_allocation \<Rightarrow> order_pair \<Rightarrow> bool"
  where
  "order_for H c d a x \<longleftrightarrow>
     (let r = rm_reservation (fst x); i = snd x; buying = 0 < val (al_delta_quantity a) in
      validate_reservation r = Success r \<and> validate_intent H i = Success i \<and>
      oi_instrument_id i = al_instrument_id a \<and> oi_side i = (if buying then BUY else SELL) \<and>
      oi_quantity i = \<bar>al_delta_quantity a\<bar> \<and> oi_order_type i = MARKET \<and> oi_time_in_force i = DAY \<and>
      rv_state r = OPEN \<and> rv_kind r = (if buying then CASH else POSITION) \<and>
      rv_commodity r = (if buying then pt_cost_currency (rq_target (au_risk c)) else al_instrument_id a) \<and>
      (buying \<or> rv_amount r = \<bar>al_delta_quantity a\<bar>) \<and>
      rv_order_intent_id r = oi_intent_id i \<and> oi_reservation_id i = rv_reservation_id r \<and>
      oi_reservation_hash i = rv_event_hash r \<and>
      rv_risk_decision_hash r = rd_decision_hash d \<and> oi_risk_decision_hash i = rd_decision_hash d \<and>
      rv_account_id r = rd_account_id d \<and> oi_account_id i = rd_account_id d \<and>
      rv_expires_at r = rd_expires_at d \<and> oi_valid_until i = rd_expires_at d \<and>
      rv_account_aggregate_sequence r = sn_account_aggregate_sequence (rq_snapshot (au_risk c)) + 1)"

lemma build_pair_order_for:
  assumes "build_pair H a plan d c price cash_quantum share = Success x" "supported_order plan"
  shows "order_for H c d a x"
proof -
  from assms(1) obtain amount m i where
    amount: "\<not> al_delta_quantity a > 0 \<Longrightarrow> amount = \<bar>al_delta_quantity a\<bar>"
    and m: "create_reservation H (po_reservation_id plan) (po_intent_id plan) d
              (if al_delta_quantity a > 0 then CASH else POSITION)
              (if al_delta_quantity a > 0 then pt_cost_currency (rq_target (au_risk c)) else al_instrument_id a)
              amount (if al_delta_quantity a > 0 then cash_quantum else al_quantity_quantum a)
              (Some (al_instrument_id a)) (Utc (rq_at (au_risk c))) (Utc (rd_expires_at d))
              (sn_account_aggregate_sequence (rq_snapshot (au_risk c)))
              (sn_portfolio_sequence (rq_snapshot (au_risk c))) = Success m"
    and i: "create_order_intent H (po_intent_id plan) (po_run_id plan) d
              (rm_reservation m) (al_instrument_id a) (if al_delta_quantity a > 0 then BUY else SELL)
              (po_order_type plan) \<bar>al_delta_quantity a\<bar> (al_quantity_quantum a) (po_limit_price plan)
              (po_stop_price plan) (po_time_in_force plan) (Utc (rq_at (au_risk c)))
              (Utc (rd_expires_at d)) (po_idempotency_key plan)
              (po_execution_model_version plan) (Utc (rq_at (au_risk c))) = Success i"
    and x: "x = (m, i)"
    unfolding build_pair_def Let_def bind_Success_iff by (auto simp: bind_Success_iff split: if_splits)
  show ?thesis
    using create_reservation_Success [OF m] create_order_intent_Success [OF i] assms(2) amount
    by (auto simp: order_for_def x supported_order_def dec_less_iff Let_def)
qed

lemma build_pairs_order_for:
  assumes "build_pairs H c d = Success pairs"
  obtains t where "rd_normalized_target d = Some t" "list_all2 (order_for H c d) (traded_allocations t) pairs"
proof -
  let ?plans = "dict_of po_instrument_id (\<lambda>x. x) (au_orders c)"
  from assms obtain t price quantum share where t: "rd_normalized_target d = Some t"
    and keys: "set (map fst ?plans) = set (map al_instrument_id (traded_allocations t))"
    and supported: "\<not> list_ex (\<lambda>x. \<not> supported_order x) (au_orders c)"
    and pairs: "run_all (\<lambda>a. build_pair H a (the (map_of ?plans (al_instrument_id a))) d c
             (price a) quantum (share a)) (traded_allocations t) = Success pairs"
    unfolding build_pairs_def Let_def bind_Success_iff
    by (auto simp: bind_Success_iff split: if_splits option.splits)
  have plan: "supported_order (the (map_of ?plans (al_instrument_id a)))" if "a \<in> set (traded_allocations t)" for a
  proof -
    have "al_instrument_id a \<in> fst ` set ?plans"
      using keys that by simp
    then obtain x where "map_of ?plans (al_instrument_id a) = Some x"
      by (metis map_of_eq_None_iff not_None_eq)
    with supported show ?thesis
      using map_of_dict_of_mem [of po_instrument_id "\<lambda>x. x" "au_orders c"] by (auto simp: list_ex_iff)
  qed
  have "list_all2 (order_for H c d) (traded_allocations t) pairs"
    using pairs unfolding run_all_Success
    by (rule list.rel_mono_strong) (use plan build_pair_order_for in blast)
  with t show thesis ..
qed

section \<open>The transaction\<close>

lemma stop_at_committed:
  "stop_at r f = (x, Some s') \<longleftrightarrow> (\<exists>y. r = Success y \<and> f y = (x, Some s'))"
  by (cases r) (auto simp: stop_at_def)

lemma commit_with_committed:
  "commit_with port s r = (x, Some s') \<longleftrightarrow>
     tp_commit port s = Success () \<and> x = validate_authorization_result r \<and> s' = s"
  by (auto simp: commit_with_def split: result.splits)

text \<open>Everything that was done when the transaction was committed.\<close>

definition committed ::
  "hashing \<Rightarrow> 's trading_port \<Rightarrow> authorization_command \<Rightarrow> risk_policy \<Rightarrow> 's \<Rightarrow> risk_decision \<Rightarrow>
   reservation_order_batch option \<Rightarrow> 's \<Rightarrow> bool" where
  "committed H port c p s d orders s' \<longleftrightarrow>
     (\<exists>account s1 s2 x y. tp_get_account port (sn_account_id (rq_snapshot (au_risk c))) s = Success account \<and>
        account_matches account c \<and> evaluate H (au_risk c) p = Success d \<and>
        tp_save_target port (rq_target (au_risk c)) s = (Success x, s1) \<and>
        tp_save_risk_decision port d s1 = (Success y, s2) \<and> tp_commit port s' = Success () \<and>
        (case orders of
           None \<Rightarrow> s' = s2 \<and> (rd_approved d \<longrightarrow> (\<exists>t. rd_normalized_target d = Some t \<and> traded_allocations t = []))
         | Some batch \<Rightarrow> rd_approved d \<and> (\<exists>t pairs. rd_normalized_target d = Some t \<and>
             traded_allocations t \<noteq> [] \<and> list_all2 (order_for H c d) (traded_allocations t) pairs \<and>
             tp_create_reservation_orders port pairs s2 = (Success batch, s'))))"

lemma committed_result:
  "committed H port c p s d orders s' \<Longrightarrow>
   validate_authorization_result \<lparr>ar_decision = d, ar_orders = orders\<rparr> = Success \<lparr>ar_decision = d, ar_orders = orders\<rparr>"
  by (auto simp: committed_def validate_authorization_result_def res_simps split: option.splits)

lemma authorize_block_committed:
  assumes "authorize_block H port c p s = (r, Some s')"
  obtains d orders where "committed H port c p s d orders s'"
    "r = Success \<lparr>ar_decision = d, ar_orders = orders\<rparr>"
proof -
  obtain xt s1 where s1: "tp_save_target port (rq_target (au_risk c)) s = (xt, s1)"
    by (cases "tp_save_target port (rq_target (au_risk c)) s")
  from assms s1 obtain account d x where
    acc: "tp_get_account port (sn_account_id (rq_snapshot (au_risk c))) s = Success account"
      "account_matches account c" "evaluate H (au_risk c) p = Success d" "xt = Success x"
    and rest: "(let (saved_decision, s2) = tp_save_risk_decision port d s1 in
     stop_at saved_decision (\<lambda>_.
     if \<not> rd_approved d
     then commit_with port s2 \<lparr>ar_decision = d, ar_orders = None\<rparr>
     else stop_at (build_pairs H c d) (\<lambda>pairs.
     if pairs = [] then commit_with port s2 \<lparr>ar_decision = d, ar_orders = None\<rparr>
     else
       let (created, s3) = tp_create_reservation_orders port pairs s2 in
       stop_at created (\<lambda>batch.
       commit_with port s3 \<lparr>ar_decision = d, ar_orders = Some batch\<rparr>)))) = (r, Some s')"
    by (auto simp: authorize_block_def stop_at_committed split: if_splits)
  obtain xd s2 where s2: "tp_save_risk_decision port d s1 = (xd, s2)"
    by (cases "tp_save_risk_decision port d s1")
  from rest s2 obtain y where y: "xd = Success y"
    and body: "(if \<not> rd_approved d
     then commit_with port s2 \<lparr>ar_decision = d, ar_orders = None\<rparr>
     else stop_at (build_pairs H c d) (\<lambda>pairs.
     if pairs = [] then commit_with port s2 \<lparr>ar_decision = d, ar_orders = None\<rparr>
     else
       let (created, s3) = tp_create_reservation_orders port pairs s2 in
       stop_at created (\<lambda>batch.
       commit_with port s3 \<lparr>ar_decision = d, ar_orders = Some batch\<rparr>))) = (r, Some s')"
    by (auto simp: stop_at_committed)
  have "\<exists>orders. committed H port c p s d orders s' \<and>
      r = validate_authorization_result \<lparr>ar_decision = d, ar_orders = orders\<rparr>"
  proof (cases "rd_approved d")
    case False
    with body acc s1 s2 y show ?thesis
      by (intro exI [of _ None]) (auto simp: commit_with_committed committed_def)
  next
    case True
    with body obtain pairs where pairs: "build_pairs H c d = Success pairs"
      and tail: "(if pairs = [] then commit_with port s2 \<lparr>ar_decision = d, ar_orders = None\<rparr>
     else
       let (created, s3) = tp_create_reservation_orders port pairs s2 in
       stop_at created (\<lambda>batch.
       commit_with port s3 \<lparr>ar_decision = d, ar_orders = Some batch\<rparr>)) = (r, Some s')"
      by (auto simp: stop_at_committed)
    from pairs obtain t where t: "rd_normalized_target d = Some t"
      "list_all2 (order_for H c d) (traded_allocations t) pairs"
      by (rule build_pairs_order_for)
    show ?thesis
    proof (cases "pairs = []")
      case True
      with tail t acc s1 s2 y show ?thesis
        by (intro exI [of _ None]) (auto simp: commit_with_committed committed_def)
    next
      case False
      obtain xb s3 where s3: "tp_create_reservation_orders port pairs s2 = (xb, s3)"
        by (cases "tp_create_reservation_orders port pairs s2")
      with tail False obtain batch where "xb = Success batch"
        "commit_with port s3 \<lparr>ar_decision = d, ar_orders = Some batch\<rparr> = (r, Some s')"
        by (auto simp: stop_at_committed)
      with False True t acc s1 s2 s3 y show ?thesis
        by (intro exI [of _ "Some batch"]) (auto simp: commit_with_committed committed_def)
    qed
  qed
  then show thesis
    using committed_result that by metis
qed

text \<open>
  C30: Authorisation is atomic. Whatever the account, the target, the policy and the store, the call
  either returns a result or leaves the store exactly as it was: no error, of the gate, of the
  store, of the commit or of the result model, leaves a target, a decision or an order behind.
\<close>

theorem authorization_atomic:
  "is_success (fst (evaluate_and_authorize H port c p s)) \<or>
   snd (evaluate_and_authorize H port c p s) = s"
proof (cases "authorize_block H port c p s")
  case (Pair r st)
  show ?thesis
  proof (cases st)
    case None
    with Pair show ?thesis
      by (simp add: evaluate_and_authorize_def)
  next
    case (Some s')
    with Pair obtain d orders where "r = Success \<lparr>ar_decision = d, ar_orders = orders\<rparr>"
      by (auto elim: authorize_block_committed)
    with Pair Some show ?thesis
      by (simp add: evaluate_and_authorize_def)
  qed
qed

lemma stop_at_open: "stop_at r f = (Success x, None) \<longleftrightarrow> (\<exists>y. r = Success y \<and> f y = (Success x, None))"
  by (cases r) (auto simp: stop_at_def)

lemma commit_with_closed: "commit_with port s r \<noteq> (Success x, None)"
  by (auto simp: commit_with_def split: result.splits)

lemma authorize_block_closed: "authorize_block H port c p s \<noteq> (Success x, None)"
  by (auto simp: authorize_block_def stop_at_open commit_with_closed Let_def split: prod.splits)

lemma authorize_Success:
  assumes "evaluate_and_authorize H port c p s = (Success r, s')"
  shows "committed H port c p s (ar_decision r) (ar_orders r) s'"
proof -
  have "authorize_block H port c p s = (Success r, Some s')"
    using assms authorize_block_closed [of H port c p s r]
    by (auto simp: evaluate_and_authorize_def split: prod.splits option.splits)
  then obtain d orders where "committed H port c p s d orders s'"
    "Success r = Success \<lparr>ar_decision = d, ar_orders = orders\<rparr>"
    by (rule authorize_block_committed)
  then show ?thesis
    by simp
qed

text \<open>
  C29: Orders come only from an approved target. When the call returns a batch of orders, the account
  of the store was the one of the snapshot, every hard limit holds on the inputs, and the batch was
  created from one reservation and one market day order for each nonzero delta of the target: the
  side is its sign, the quantity its size, a sale reserves exactly that position, and reservation,
  order and decision refer to one another by id and hash.
\<close>

theorem authorization_sound:
  assumes "evaluate_and_authorize H port c p s = (Success r, s')" "ar_orders r = Some batch"
    "validate_risk_policy p = Success p"
  shows "hard_limits_hold H (au_risk c) p \<and>
     (\<exists>account. tp_get_account port (sn_account_id (rq_snapshot (au_risk c))) s = Success account \<and>
        account_matches account c) \<and>
     (\<exists>pairs s2. tp_create_reservation_orders port pairs s2 = (Success batch, s') \<and>
        list_all2 (order_for H c (ar_decision r)) (traded_allocations (rq_target (au_risk c))) pairs)"
proof -
  have con: "committed H port c p s (ar_decision r) (Some batch) s'"
    using authorize_Success [OF assms(1)] assms(2) by simp
  then have d: "evaluate H (au_risk c) p = Success (ar_decision r)" and "rd_approved (ar_decision r)"
    by (auto simp: committed_def)
  then have "rd_normalized_target (ar_decision r) = Some (rq_target (au_risk c))"
    using evaluate_fields(1) [OF d] by simp
  with con gate_approval [OF d assms(3)] \<open>rd_approved _\<close> show ?thesis
    by (auto simp: committed_def)
qed

section \<open>Reserved cash\<close>

lemma rnd_scale: "rnd (x * pten e) = rnd x * pten e"
proof (cases x rule: rnd_cases)
  case 1
  then show ?thesis by simp
next
  case (2 E)
  have "rnd (x * pten e) = of_int (rhe (x * pten e / pten (E + e))) * pten (E + e)"
    by (rule rnd_bracket [OF bracket_scale [OF 2(1)]])
  with 2(2) show ?thesis
    by (simp add: pten_add)
qed

lemma ceil_to_quantum_covers:
  assumes "ceil_to_quantum v q = Success d" "coeff q = 1" "rnd (val v) = val v"
  shows "val v \<le> val d"
proof -
  have q: "val q = pten (dexp q)"
    using assms(2) by (simp add: val_def)
  from assms(1) obtain x where x: "dec_div v q = Success x" and d: "d = to_integral_value ROUND_CEILING x * q"
    by (auto simp: ceil_to_quantum_def bind_Success_iff)
  have "val x = rnd (val v * pten (- dexp q))"
    using dec_div_Success [OF x] by (simp add: q pten_minus)
  then have vx: "val x = val v / val q"
    using assms(3) rnd_scale [of "val v" "- dexp q"] by (simp add: q pten_minus)
  have "val v = val x * val q"
    by (simp add: vx q)
  also have "\<dots> \<le> of_int \<lceil>val x\<rceil> * val q"
    by (intro mult_right_mono) (simp_all add: q)
  finally have "rnd (val v) \<le> rnd (of_int \<lceil>val x\<rceil> * val q)"
    by (rule rnd_mono)
  then show ?thesis
    using assms(3) by (simp add: d dec_simps)
qed

text \<open>
  C31: The cash reserved for a purchase is a whole number of currency quanta and covers the notional
  of the order at the mark price plus its share of the expected cost, when the currency quantum is a
  power of ten.
\<close>

theorem reserved_cash_covers_order:
  assumes "build_pair H a plan d c price q share = Success (m, i)" "0 < al_delta_quantity a" "coeff q = 1"
  shows "\<bar>al_delta_quantity a\<bar> * price + share \<le> rv_amount (rm_reservation m) \<and>
     is_quantized (rv_amount (rm_reservation m)) q"
proof -
  from assms(1,2) obtain amount where amount: "ceil_to_quantum (\<bar>al_delta_quantity a\<bar> * price + share) q = Success amount"
    and m: "create_reservation H (po_reservation_id plan) (po_intent_id plan) d CASH
       (pt_cost_currency (rq_target (au_risk c))) amount q (Some (al_instrument_id a))
       (Utc (rq_at (au_risk c))) (Utc (rd_expires_at d))
       (sn_account_aggregate_sequence (rq_snapshot (au_risk c)))
       (sn_portfolio_sequence (rq_snapshot (au_risk c))) = Success m"
    by (auto simp: build_pair_def Let_def bind_Success_iff)
  have "val (\<bar>al_delta_quantity a\<bar> * price + share) \<le> val amount"
    using amount assms(3) by (rule ceil_to_quantum_covers) (simp add: val_plus)
  then show ?thesis
    using create_reservation_Success [OF m]
    by (auto simp: dec_le_iff validate_reservation_def res_simps)
qed

section \<open>A concrete authorisation\<close>

definition plan_order :: planned_order where
  "plan_order =
     \<lparr>po_instrument_id = ''i'', po_reservation_id = ''r'', po_intent_id = ''o'', po_run_id = ''run'',
      po_idempotency_key = ''key'', po_order_type = MARKET, po_time_in_force = DAY,
      po_limit_price = None, po_stop_price = None, po_execution_model_version = ''1.0.0''\<rparr>"

definition sample_authorization :: authorization_command where
  "sample_authorization = \<lparr>au_risk = gate_command, au_orders = [plan_order]\<rparr>"

definition sample_account :: account_state where
  "sample_account =
     \<lparr>ac_account_id = ''acct'', ac_base_currency = ''USD'', ac_account_aggregate_sequence = 0,
      ac_portfolio_sequence = 0, ac_ledger_sequence = 0, ac_ledger_hash = None,
      ac_cash = sn_cash (rq_snapshot gate_command), ac_positions = sn_positions (rq_snapshot gate_command),
      ac_events = [], ac_created_at = 0, ac_updated_at = 90000000\<rparr>"

definition account_event_of :: "order_pair \<Rightarrow> account_event" where
  "account_event_of x =
     \<lparr>ae_event_id = ''e'', ae_account_id = oi_account_id (snd x), ae_sequence = 1,
      ae_event_type = ''reservation_orders.created'', ae_aggregate_ref_type = ''reservation_orders'',
      ae_aggregate_ref_id = oi_risk_decision_id (snd x), ae_occurred_at = 90000000,
      ae_previous_hash = None, ae_event_hash = replicate 64 CHR ''a''\<rparr>"

text \<open>A store that keeps the pairs it was given.\<close>

definition sample_port :: "order_pair list trading_port" where
  "sample_port =
     \<lparr>tp_get_account = (\<lambda>_ _. Success sample_account), tp_save_target = (\<lambda>t s. (Success t, s)),
      tp_save_risk_decision = (\<lambda>d s. (Success d, s)),
      tp_create_reservation_orders = (\<lambda>pairs s.
        (Success \<lparr>ob_items = map (\<lambda>(m, i). \<lparr>it_reservation = rm_reservation m,
            it_reservation_event = rm_event m, it_order_intent = i\<rparr>) pairs,
          ob_account_event = account_event_of (hd pairs)\<rparr>, s @ pairs)),
      tp_commit = (\<lambda>_. Success ())\<rparr>"

lemma sample_numbers:
  "nonempty_ok ''acct''" "nonempty_ok ''i''" "nonempty_ok ''key''" "nonempty_ok ''1.0.0''"
  "positive_ok (Dec 2 0)" "positive_ok (Dec 1 0)" "decimal_ok (Dec 2 0)"
  "is_quantized (Dec 2 0) (Dec 1 0)" "\<bar>Dec (- 2) 0\<bar> = Dec 2 0" "\<not> 0 < Dec (- 2) 0" "deq (Dec 2 0) (Dec 2 0)"
  "0 \<le> Dec 2 0" "Dec 2 0 \<le> Dec 2 0" "\<not> deq (Dec (- 2) 0) 0" "deq (Dec 1 0) (Dec 1 0)"
  by code_simp+

lemma sample_pair:
  assumes "rd_approved d" "rd_normalized_target d = Some gate_target" "rd_decided_at d = 92000000"
    "rd_expires_at d = 152000000" "rd_account_id d = ''acct''" "rd_account_aggregate_sequence d = 0"
    "rd_portfolio_sequence d = 0" "sha256_ok (rd_decision_hash d)"
  shows "is_success (build_pair sample_hashing (hd (pt_allocations gate_target)) plan_order d
     sample_authorization price q share)"
proof -
  have a: "al_instrument_id (hd (pt_allocations gate_target)) = ''i''"
    "al_delta_quantity (hd (pt_allocations gate_target)) = Dec (- 2) 0"
    "al_quantity_quantum (hd (pt_allocations gate_target)) = Dec 1 0"
    "pt_calculation_hash gate_target = replicate 64 CHR ''a''"
    "List.find (\<lambda>a. al_instrument_id a = ''i'') (pt_allocations gate_target) = Some (hd (pt_allocations gate_target))"
    by (simp_all add: gate_target_def)
  have c: "rq_at (au_risk sample_authorization) = 92000000"
    "sn_account_aggregate_sequence (rq_snapshot (au_risk sample_authorization)) = 0"
    "sn_portfolio_sequence (rq_snapshot (au_risk sample_authorization)) = 0"
    by (simp_all add: sample_authorization_def gate_command_def)
  show ?thesis
    using assms sample_numbers
    by (simp add: build_pair_def Let_def a c plan_order_def create_reservation_def authorized_target_hash_def
        make_reservation_event_def validate_reservation_event_def validate_reservation_def validate_mutation_def
        state_amount_ok_def opt_ok_def expected_reservation_event_hash_def check_all.simps
        create_order_intent_def validate_intent_binding_def intent_timeline_invalid_def validate_intent_def
        expected_intent_hash_def)
qed

lemma sample_decision:
  assumes "evaluate sample_hashing gate_command gate_policy = Success d" "rd_approved d"
  shows "rd_normalized_target d = Some gate_target" "rd_decided_at d = 92000000"
    "rd_expires_at d = 152000000" "rd_account_id d = ''acct''" "rd_account_aggregate_sequence d = 0"
    "rd_portfolio_sequence d = 0" "sha256_ok (rd_decision_hash d)"
  using evaluate_fields [OF assms(1)] assms(2)
  by (auto simp: gate_command_def gate_policy_def gate_target_def validate_decision_def res_simps
      expected_decision_hash_def)

lemma sample_lookups:
  "traded_allocations gate_target = [hd (pt_allocations gate_target)]"
  "al_instrument_id (hd (pt_allocations gate_target)) = ''i''"
  "dict_of po_instrument_id (\<lambda>x. x) (au_orders sample_authorization) = [(''i'', plan_order)]"
  "dict_of ri_instrument_id (\<lambda>x. x) (rq_instruments (au_risk sample_authorization)) =
     [(''i'', hd (rq_instruments gate_command))]"
  "List.find (\<lambda>b. cb_currency b = pt_cost_currency gate_target)
     (sn_cash (rq_snapshot (au_risk sample_authorization))) = Some (hd (sn_cash (rq_snapshot gate_command)))"
  "list_ex (\<lambda>x. \<not> supported_order x) (au_orders sample_authorization) = False"
  by code_simp+

lemma sample_pairs:
  assumes "evaluate sample_hashing gate_command gate_policy = Success d" "rd_approved d"
  shows "\<exists>x. build_pairs sample_hashing sample_authorization d = Success [x]"
proof -
  have "\<not> 0 < al_delta_quantity (hd (pt_allocations gate_target))"
    by code_simp
  then have share: "cost_share gate_target ns total (hd (pt_allocations gate_target)) = Success 0" for ns total
    by (simp add: cost_share_def)
  have "length (au_orders sample_authorization) = 1"
    by (simp add: sample_authorization_def)
  then show ?thesis
    using sample_pair [OF assms(2) sample_decision [OF assms]] sample_decision(1) [OF assms]
    by (auto simp: build_pairs_def sample_lookups share Let_def is_success_iff bind_Success_iff dest!: spec)
qed

lemma sample_authorized:
  "\<exists>r s'. evaluate_and_authorize sample_hashing sample_port sample_authorization gate_policy [] =
     (Success r, s') \<and> ar_orders r \<noteq> None"
proof -
  obtain d where d: "evaluate sample_hashing gate_command gate_policy = Success d" "rd_approved d"
    using gate_decision by blast
  obtain x where x: "build_pairs sample_hashing sample_authorization d = Success [x]"
    using sample_pairs [OF d] by blast
  have matches: "account_matches sample_account sample_authorization"
    by code_simp
  have risk: "au_risk sample_authorization = gate_command"
    by (simp add: sample_authorization_def)
  show ?thesis
    using d x matches sample_decision(1) [OF d] sample_lookups(1)
    by (simp add: evaluate_and_authorize_def authorize_block_def sample_port_def risk stop_at_def
        commit_with_def validate_authorization_result_def check_all.simps)
qed

theorem authorization_sound_witness:
  "\<exists>r s' pairs s2. evaluate_and_authorize sample_hashing sample_port sample_authorization gate_policy [] =
      (Success r, s') \<and> s' = s2 @ pairs \<and>
     list_all2 (order_for sample_hashing sample_authorization (ar_decision r))
       (traded_allocations gate_target) pairs"
proof -
  obtain r s' batch where r: "evaluate_and_authorize sample_hashing sample_port sample_authorization gate_policy [] =
      (Success r, s')" "ar_orders r = Some batch"
    using sample_authorized by auto
  have "rq_target (au_risk sample_authorization) = gate_target"
    by (simp add: sample_authorization_def gate_command_def)
  with authorization_sound [OF r gate_policy_valid] r(1) show ?thesis
    by (auto simp: sample_port_def)
qed

definition buy_allocation :: target_allocation where
  "buy_allocation =
     \<lparr>al_instrument_id = ''i'', al_current_quantity = Dec 10 0, al_target_quantity = Dec 13 0,
      al_delta_quantity = Dec 3 0, al_quantity_quantum = Dec 1 0, al_target_weight = Dec 4 (- 1),
      al_constraint_diagnostics = []\<rparr>"

definition buy_decision :: risk_decision where
  "buy_decision =
     \<lparr>rd_decision_id = ''d'', rd_portfolio_target_id = ''t'', rd_input_target_hash = replicate 64 CHR ''a'',
      rd_account_id = ''acct'', rd_account_aggregate_sequence = 0, rd_portfolio_sequence = 0,
      rd_approved = True, rd_normalized_target = Some (gate_target\<lparr>pt_allocations := [buy_allocation]\<rparr>),
      rd_checks = [], rd_policy_version = ''1.0.0'', rd_policy_hash = replicate 64 CHR ''a'',
      rd_decided_at = 92000000, rd_expires_at = 152000000, rd_decision_hash = replicate 64 CHR ''a''\<rparr>"

lemma buy_numbers:
  "nonempty_ok ''acct''" "nonempty_ok ''USD''" "nonempty_ok ''key''" "nonempty_ok ''1.0.0''"
  "ceil_to_quantum (Dec 3 0 * Dec 33333 (- 3) + Dec 1234 (- 3)) (Dec 1 (- 2)) = Success (Dec 10124 (- 2))"
  "positive_ok (Dec 10124 (- 2))" "positive_ok (Dec 1 (- 2))" "decimal_ok (Dec 10124 (- 2))"
  "is_quantized (Dec 10124 (- 2)) (Dec 1 (- 2))" "0 \<le> Dec 10124 (- 2)" "Dec 10124 (- 2) \<le> Dec 10124 (- 2)"
  "deq (Dec 10124 (- 2)) (Dec 10124 (- 2))" "\<bar>Dec 3 0\<bar> = Dec 3 0" "0 < Dec 3 0" "\<not> deq (Dec 3 0) 0"
  "deq (Dec 3 0) (Dec 3 0)" "deq (Dec 1 0) (Dec 1 0)" "positive_ok (Dec 3 0)" "positive_ok (Dec 1 0)"
  "is_quantized (Dec 3 0) (Dec 1 0)"
  by code_simp+

lemma buy_pair:
  "\<exists>m i. build_pair sample_hashing buy_allocation plan_order buy_decision sample_authorization
     (Dec 33333 (- 3)) (Dec 1 (- 2)) (Dec 1234 (- 3)) = Success (m, i)"
proof -
  have c: "rq_at (au_risk sample_authorization) = 92000000"
    "sn_account_aggregate_sequence (rq_snapshot (au_risk sample_authorization)) = 0"
    "sn_portfolio_sequence (rq_snapshot (au_risk sample_authorization)) = 0"
    "pt_cost_currency (rq_target (au_risk sample_authorization)) = ''USD''"
    by (simp_all add: sample_authorization_def gate_command_def gate_target_def)
  show ?thesis
    using buy_numbers
    by (simp add: build_pair_def Let_def c plan_order_def buy_allocation_def buy_decision_def gate_target_def
        create_reservation_def authorized_target_hash_def
        make_reservation_event_def validate_reservation_event_def validate_reservation_def validate_mutation_def
        state_amount_ok_def opt_ok_def expected_reservation_event_hash_def check_all.simps
        create_order_intent_def validate_intent_binding_def intent_timeline_invalid_def validate_intent_def
        expected_intent_hash_def)
qed

theorem reserved_cash_covers_order_witness:
  "\<exists>m i. build_pair sample_hashing buy_allocation plan_order buy_decision sample_authorization
     (Dec 33333 (- 3)) (Dec 1 (- 2)) (Dec 1234 (- 3)) = Success (m, i) \<and>
     \<bar>Dec 3 0\<bar> * Dec 33333 (- 3) + Dec 1234 (- 3) \<le> rv_amount (rm_reservation m)"
proof -
  obtain m i where mi: "build_pair sample_hashing buy_allocation plan_order buy_decision sample_authorization
     (Dec 33333 (- 3)) (Dec 1 (- 2)) (Dec 1234 (- 3)) = Success (m, i)"
    using buy_pair by blast
  have delta: "al_delta_quantity buy_allocation = Dec 3 0"
    by (simp add: buy_allocation_def)
  show ?thesis
    using reserved_cash_covers_order [OF mi] mi buy_numbers(14) by (auto simp: delta)
qed

end
