(* ===== verification/Walk_Forward.thy ===== *)
theory Walk_Forward
  imports Strategy_Signals
begin

text \<open>
  \<^verbatim>\<open>application/evaluation/contracts.py\<close>, \<^verbatim>\<open>leakage.py\<close> and \<^verbatim>\<open>walk_forward.py\<close>: the point-in-time
  dataset and the evaluation policy, the audit that refuses look-ahead and survivorship
  contamination, the purged walk-forward splits, and the combinatorial estimate of the probability
  of backtest overfitting. Counts of the policy are natural numbers, as their field bounds make them.
\<close>

section \<open>Datasets and policies\<close>

datatype availability = PROVEN | UNKNOWN

record observation =
  ob_observation_id :: uuid
  ob_instrument_id :: uuid
  ob_event_at :: utc
  ob_feature_available_at :: utc
  ob_prediction_at :: utc
  ob_outcome_at :: utc
  ob_label_available_at :: utc
  ob_universe_known_at :: utc
  ob_availability_certainty :: availability
  ob_in_historical_universe :: bool
  ob_predicted_return :: dec
  ob_actual_return :: dec
  ob_benchmark_return :: dec
  ob_direction_probability :: dec
  ob_turnover :: dec

definition validate_observation :: "observation \<Rightarrow> observation result" where
  "validate_observation x = check_all
     [(decimal_ok (ob_predicted_return x) \<and> decimal_ok (ob_actual_return x) \<and>
       decimal_ok (ob_benchmark_return x) \<and> unit_ok (ob_direction_probability x) \<and>
       non_negative_ok (ob_turnover x), ''field''),
      (\<not> ob_actual_return x < Dec (- 1) 0 \<and> \<not> ob_benchmark_return x < Dec (- 1) 0,
       ''realized returns cannot be below total loss'')] x"

record eval_dataset =
  ds_dataset_snapshot_id :: uuid
  ds_data_hash :: hash
  ds_as_of :: utc
  ds_universe_artifact_ref :: string
  ds_observations :: "observation list"

text \<open>\<^verbatim>\<open>any(current <= previous for previous, current in pairwise(times))\<close>.\<close>

fun strictly_ordered :: "utc list \<Rightarrow> bool" where
  "strictly_ordered (x # y # ts) = (x < y \<and> strictly_ordered (y # ts))"
| "strictly_ordered ts = True"

definition validate_dataset :: "eval_dataset \<Rightarrow> eval_dataset result" where
  "validate_dataset d = check_all
     [(sha256_ok (ds_data_hash d) \<and> artifact_ref_ok (ds_universe_artifact_ref d) \<and>
       2 \<le> length (ds_observations d) \<and> length (ds_observations d) \<le> 1000000, ''field''),
      (distinct (map ob_observation_id (ds_observations d)),
       ''evaluation observations must be unique''),
      (strictly_ordered (map ob_prediction_at (ds_observations d)),
       ''evaluation observations must be strictly ordered'')] d"

record candidate_series =
  cs_candidate_id :: string
  cs_predictions :: "dec list"

text \<open>The pattern \<^verbatim>\<open>^[a-z][a-z0-9_.-]{0,127}/[0-9]+\.[0-9]+\.[0-9]+$\<close>.\<close>

definition candidate_id_ok :: "string \<Rightarrow> bool" where
  "candidate_id_ok s \<longleftrightarrow>
     (let name = takeWhile (\<lambda>x. x \<noteq> CHR ''/'') s; rest = dropWhile (\<lambda>x. x \<noteq> CHR ''/'') s in
      code_ok name \<and> rest \<noteq> [] \<and> version_ok (tl rest))"

definition validate_candidate :: "candidate_series \<Rightarrow> candidate_series result" where
  "validate_candidate c = check_all
     [(candidate_id_ok (cs_candidate_id c) \<and> 2 \<le> length (cs_predictions c) \<and>
       length (cs_predictions c) \<le> 1000000 \<and> list_all decimal_ok (cs_predictions c), ''field'')] c"

record eval_policy =
  ep_minimum_observations :: nat
  ep_train_size :: nat
  ep_test_size :: nat
  ep_step_size :: nat
  ep_purge_observations :: nat
  ep_embargo_observations :: nat
  ep_minimum_splits :: nat
  ep_cpcv_groups :: nat
  ep_max_pbo :: dec
  ep_fee_bps :: dec
  ep_slippage_bps :: dec
  ep_cost_multipliers :: "dec list"
  ep_minimum_net_alpha :: dec
  ep_maximum_drawdown :: dec
  ep_maximum_brier_score :: dec
  ep_maximum_calibration_error :: dec
  ep_calibration_buckets :: nat
  ep_report_valid_days :: nat

text \<open>\<^verbatim>\<open>tuple(sorted(set(values))) == values\<close> on amounts: strictly increasing.\<close>

definition multipliers_ok :: "dec list \<Rightarrow> bool" where
  "multipliers_ok ms \<longleftrightarrow> sorted_wrt (<) ms \<and> list_ex (\<lambda>m. deq m 1) ms"

definition validate_eval_policy :: "eval_policy \<Rightarrow> eval_policy result" where
  "validate_eval_policy p = check_all
     [(2 \<le> ep_minimum_observations p \<and> ep_minimum_observations p \<le> 1000000 \<and>
       2 \<le> ep_train_size p \<and> ep_train_size p \<le> 1000000 \<and>
       1 \<le> ep_test_size p \<and> ep_test_size p \<le> 1000000 \<and>
       1 \<le> ep_step_size p \<and> ep_step_size p \<le> 1000000 \<and>
       ep_purge_observations p \<le> 100000 \<and> ep_embargo_observations p \<le> 100000 \<and>
       1 \<le> ep_minimum_splits p \<and> ep_minimum_splits p \<le> 10000 \<and>
       4 \<le> ep_cpcv_groups p \<and> ep_cpcv_groups p \<le> 8 \<and> unit_ok (ep_max_pbo p) \<and>
       non_negative_ok (ep_fee_bps p) \<and> non_negative_ok (ep_slippage_bps p) \<and>
       ep_cost_multipliers p \<noteq> [] \<and> length (ep_cost_multipliers p) \<le> 16 \<and>
       list_all decimal_ok (ep_cost_multipliers p) \<and> decimal_ok (ep_minimum_net_alpha p) \<and>
       unit_ok (ep_maximum_drawdown p) \<and> unit_ok (ep_maximum_brier_score p) \<and>
       unit_ok (ep_maximum_calibration_error p) \<and>
       2 \<le> ep_calibration_buckets p \<and> ep_calibration_buckets p \<le> 20 \<and>
       1 \<le> ep_report_valid_days p \<and> ep_report_valid_days p \<le> 3650, ''field''),
      (\<not> list_ex (\<lambda>m. m \<le> 0) (ep_cost_multipliers p), ''cost multipliers must be positive''),
      (multipliers_ok (ep_cost_multipliers p),
       ''cost multipliers must be sorted, unique, and include one'')] p"

definition eval_policy_hash :: "hashing \<Rightarrow> eval_policy \<Rightarrow> hash" where
  "eval_policy_hash H p = stable_payload_hash H (JObj
     [(''minimum_observations'', JInt (int (ep_minimum_observations p))),
      (''train_size'', JInt (int (ep_train_size p))), (''test_size'', JInt (int (ep_test_size p))),
      (''step_size'', JInt (int (ep_step_size p))),
      (''purge_observations'', JInt (int (ep_purge_observations p))),
      (''embargo_observations'', JInt (int (ep_embargo_observations p))),
      (''minimum_splits'', JInt (int (ep_minimum_splits p))),
      (''cpcv_groups'', JInt (int (ep_cpcv_groups p))), (''max_pbo'', jdec (ep_max_pbo p)),
      (''fee_bps'', jdec (ep_fee_bps p)), (''slippage_bps'', jdec (ep_slippage_bps p)),
      (''cost_multipliers'', JList (map jdec (ep_cost_multipliers p))),
      (''minimum_net_alpha'', jdec (ep_minimum_net_alpha p)),
      (''maximum_drawdown'', jdec (ep_maximum_drawdown p)),
      (''maximum_brier_score'', jdec (ep_maximum_brier_score p)),
      (''maximum_calibration_error'', jdec (ep_maximum_calibration_error p)),
      (''calibration_buckets'', JInt (int (ep_calibration_buckets p))),
      (''report_valid_days'', JInt (int (ep_report_valid_days p)))])"

section \<open>Arithmetic helpers\<close>

definition EVAL_QUANTUM :: dec where
  "EVAL_QUANTUM = Dec 1 (- 12)"

definition eval_quantize :: "dec \<Rightarrow> dec result" where
  "eval_quantize d = dec_quantize d EVAL_QUANTUM ROUND_HALF_EVEN"

definition mean :: "dec list \<Rightarrow> dec result" where
  "mean xs =
     (if xs = [] then Raised (ValueError ''cannot calculate mean of empty values'')
      else dec_div (dec_sum xs 0) (Dec (int (length xs)) 0))"

definition trade_position :: "dec \<Rightarrow> dec" where
  "trade_position predicted_return =
     (if predicted_return > 0 then Dec 1 0 else if predicted_return < 0 then Dec (- 1) 0 else Dec 0 0)"

section \<open>The point-in-time audit\<close>

definition contamination_reason :: "observation \<Rightarrow> eval_dataset \<Rightarrow> string option" where
  "contamination_reason x d =
     (if ob_availability_certainty x \<noteq> PROVEN then Some ''publication_lag_unknown''
      else if ob_event_at x > ob_prediction_at x \<or> ob_feature_available_at x > ob_prediction_at x
      then Some ''feature_not_available_at_prediction''
      else if ob_feature_available_at x < ob_event_at x
      then Some ''feature_availability_precedes_event''
      else if ob_outcome_at x \<le> ob_prediction_at x \<or> ob_label_available_at x \<le> ob_prediction_at x
      then Some ''label_leakage''
      else if ob_label_available_at x > ds_as_of d then Some ''outcome_unavailable_at_as_of''
      else if ob_label_available_at x < ob_outcome_at x
      then Some ''label_availability_precedes_outcome''
      else if ob_universe_known_at x > ob_prediction_at x then Some ''historical_universe_unknown''
      else if \<not> ob_in_historical_universe x then Some ''survivorship_contamination''
      else None)"

fun audit_observations :: "observation list \<Rightarrow> eval_dataset \<Rightarrow> unit result" where
  "audit_observations [] d = Success ()"
| "audit_observations (x # xs) d =
     (case contamination_reason x d of
        Some reason \<Rightarrow> Failure INVALID_INPUT ''Evaluation dataset failed point-in-time audit''
      | None \<Rightarrow> audit_observations xs d)"

definition audit_dataset :: "eval_dataset \<Rightarrow> unit result" where
  "audit_dataset d = audit_observations (ds_observations d) d"

section \<open>Walk-forward splits\<close>

record split =
  sp_split_id :: nat
  sp_train_observation_ids :: "uuid list"
  sp_test_observation_ids :: "uuid list"
  sp_purge_observations :: nat
  sp_embargo_observations :: nat

definition validate_split :: "split \<Rightarrow> split result" where
  "validate_split s = check_all
     [(1 \<le> sp_split_id s \<and> 2 \<le> length (sp_train_observation_ids s) \<and>
       1 \<le> length (sp_test_observation_ids s), ''field'')] s"

definition slice :: "nat \<Rightarrow> nat \<Rightarrow> 'a list \<Rightarrow> 'a list" where
  "slice a b xs = take (b - a) (drop a xs)"

definition split_gap :: "eval_policy \<Rightarrow> nat" where
  "split_gap p = ep_purge_observations p + ep_embargo_observations p"

definition make_split :: "observation list \<Rightarrow> eval_policy \<Rightarrow> nat \<Rightarrow> nat \<Rightarrow> split result" where
  "make_split xs p test_start k =
     (let train_end = test_start - split_gap p; train_start = train_end - ep_train_size p in
      validate_split
        \<lparr>sp_split_id = Suc k,
         sp_train_observation_ids = map ob_observation_id (slice train_start train_end xs),
         sp_test_observation_ids =
           map ob_observation_id (slice test_start (test_start + ep_test_size p) xs),
         sp_purge_observations = ep_purge_observations p,
         sp_embargo_observations = ep_embargo_observations p\<rparr>)"

text \<open>
  The \<^verbatim>\<open>while\<close> loop, from a test start and the number of splits so far. With a step of zero, which
  the policy model excludes, it would add the same split forever.
\<close>

function split_loop :: "observation list \<Rightarrow> eval_policy \<Rightarrow> nat \<Rightarrow> nat \<Rightarrow> split list result" where
  "split_loop xs p test_start k =
     (if test_start + ep_test_size p \<le> length xs
      then bind (make_split xs p test_start k) (\<lambda>s.
           if ep_step_size p = 0 then Raised NoReturn
           else bind (split_loop xs p (test_start + ep_step_size p) (Suc k)) (\<lambda>ss. Success (s # ss)))
      else Success [])"
  by pat_completeness auto
termination
  by (relation "measure (\<lambda>(xs, p, test_start, k). Suc (length xs) - test_start)") auto

declare split_loop.simps [simp del]

definition build_purged_walk_forward_splits ::
  "eval_dataset \<Rightarrow> eval_policy \<Rightarrow> split list result" where
  "build_purged_walk_forward_splits d p =
     bind (split_loop (ds_observations d) p (ep_train_size p + split_gap p) 0) (\<lambda>splits.
     if length splits < ep_minimum_splits p
     then Failure INVALID_INPUT ''Evaluation dataset cannot satisfy walk-forward policy''
     else Success splits)"

section \<open>Probability of backtest overfitting\<close>

definition index_groups :: "nat \<Rightarrow> nat \<Rightarrow> nat list list" where
  "index_groups n groups = map (\<lambda>g. [g * n div groups ..< Suc g * n div groups]) [0 ..< groups]"

text \<open>\<^verbatim>\<open>itertools.combinations\<close> in its order.\<close>

fun combinations :: "'a list \<Rightarrow> nat \<Rightarrow> 'a list list" where
  "combinations xs 0 = [[]]"
| "combinations [] (Suc k) = []"
| "combinations (x # xs) (Suc k) = map (Cons x) (combinations xs k) @ combinations xs (Suc k)"

text \<open>The lengths are checked before, so every index is in range.\<close>

definition candidate_mean :: "candidate_series \<Rightarrow> eval_dataset \<Rightarrow> nat list \<Rightarrow> dec result" where
  "candidate_mean c d indices =
     mean (map (\<lambda>i. trade_position (cs_predictions c ! i) * ob_actual_return (ds_observations d ! i))
       indices)"

text \<open>
  Candidates with their sort keys. A key is the pair of the mean and the identifier; pairs of Python
  compare like the pairs of their numbers, so the key is taken to the numbers.
\<close>

definition ranking ::
  "candidate_series list \<Rightarrow> eval_dataset \<Rightarrow> nat list \<Rightarrow> ((rat \<times> string) \<times> candidate_series) list result"
  where
  "ranking cs d indices =
     run_all (\<lambda>c. bind (candidate_mean c d indices) (\<lambda>m. Success ((val m, cs_candidate_id c), c))) cs"

text \<open>\<^verbatim>\<open>max\<close> keeps the first of several maxima.\<close>

fun first_max :: "((rat \<times> string) \<times> 'a) list \<Rightarrow> ((rat \<times> string) \<times> 'a) \<Rightarrow> 'a" where
  "first_max [] best = snd best"
| "first_max (x # xs) best = first_max xs (if fst best < fst x then x else best)"

definition candidate_eq :: "candidate_series \<Rightarrow> candidate_series \<Rightarrow> bool" where
  "candidate_eq a b \<longleftrightarrow>
     cs_candidate_id a = cs_candidate_id b \<and> list_all2 deq (cs_predictions a) (cs_predictions b)"

fun index_of :: "candidate_series \<Rightarrow> candidate_series list \<Rightarrow> nat result" where
  "index_of c [] = Raised (ValueError ''not in list'')"
| "index_of c (x # xs) =
     (if candidate_eq x c then Success 0 else bind (index_of c xs) (\<lambda>i. Success (Suc i)))"

definition pbo_trial ::
  "eval_dataset \<Rightarrow> candidate_series list \<Rightarrow> nat \<Rightarrow> nat list list \<Rightarrow> nat list \<Rightarrow> bool result" where
  "pbo_trial d cs groups group_indices train_groups =
     (let train_indices = concat (map (\<lambda>g. group_indices ! g) train_groups);
          test_indices = concat (map (\<lambda>g. group_indices ! g)
            (filter (\<lambda>g. g \<notin> set train_groups) [0 ..< groups])) in
      bind (ranking cs d train_indices) (\<lambda>train.
      bind (ranking cs d test_indices) (\<lambda>test.
      case train of
        [] \<Rightarrow> Raised (ValueError ''empty'')
      | t # ts \<Rightarrow>
          bind (index_of (first_max ts t) (map snd (sort_key fst test))) (\<lambda>i.
          Success (2 * i < length test)))))"

definition estimate_pbo ::
  "eval_dataset \<Rightarrow> candidate_series list \<Rightarrow> nat \<Rightarrow> dec option result" where
  "estimate_pbo d cs groups =
     (if length cs < 2 \<or> length (ds_observations d) < groups * 2 then Success None
      else if \<not> (4 \<le> groups \<and> groups \<le> 8) \<or> odd groups
      then Raised (ValueError ''CPCV groups must be an even value between four and eight'')
      else if list_ex (\<lambda>c. length (cs_predictions c) \<noteq> length (ds_observations d)) cs
      then Raised (ValueError ''CPCV candidate predictions must align with observations'')
      else
        bind (run_all (pbo_trial d cs groups (index_groups (length (ds_observations d)) groups))
          (combinations [0 ..< groups] (groups div 2))) (\<lambda>trials.
        bind (dec_div (Dec (int (length (filter (\<lambda>b. b) trials))) 0) (Dec (int (length trials)) 0))
          (\<lambda>ratio.
        bind (eval_quantize ratio) (\<lambda>p. Success (Some p)))))"

end
