(* ===== verification/Walk_Forward_Properties.thy ===== *)
theory Walk_Forward_Properties
  imports Walk_Forward
begin

text \<open>
  The walk-forward loop computes the splits of a closed formula, no split can see the future, the
  audit accepts exactly the clean datasets, and the overfitting estimate is always a probability.
\<close>

section \<open>The loop and its closed form\<close>

text \<open>How many test windows fit, and the window with a given number.\<close>

definition split_count :: "nat \<Rightarrow> eval_policy \<Rightarrow> nat \<Rightarrow> nat" where
  "split_count n p start =
     (if start + ep_test_size p \<le> n then (n - start - ep_test_size p) div ep_step_size p + 1 else 0)"

definition nth_split :: "observation list \<Rightarrow> eval_policy \<Rightarrow> nat \<Rightarrow> nat \<Rightarrow> split" where
  "nth_split xs p start i =
     (let test_start = start + i * ep_step_size p; train_end = test_start - split_gap p in
      \<lparr>sp_split_id = Suc i,
       sp_train_observation_ids =
         map ob_observation_id (slice (train_end - ep_train_size p) train_end xs),
       sp_test_observation_ids =
         map ob_observation_id (slice test_start (test_start + ep_test_size p) xs),
       sp_purge_observations = ep_purge_observations p,
       sp_embargo_observations = ep_embargo_observations p\<rparr>)"

lemma length_slice: "a \<le> b \<Longrightarrow> b \<le> length xs \<Longrightarrow> length (slice a b xs) = b - a"
  by (simp add: slice_def)

lemma nth_slice: "\<lbrakk>a \<le> b; b \<le> length xs; j < b - a\<rbrakk> \<Longrightarrow> slice a b xs ! j = xs ! (a + j)"
  by (simp add: slice_def)

lemma split_count_step:
  assumes "0 < ep_step_size p" "start + ep_test_size p \<le> n"
  shows "split_count n p start = Suc (split_count n p (start + ep_step_size p))"
proof (cases "start + ep_step_size p + ep_test_size p \<le> n")
  case True
  then obtain r where "n = start + ep_step_size p + ep_test_size p + r"
    by (auto simp: le_iff_add)
  with assms show ?thesis
    by (simp add: split_count_def)
next
  case False
  with assms have "(n - start - ep_test_size p) div ep_step_size p = 0"
    by simp
  with assms False show ?thesis
    by (simp add: split_count_def)
qed

lemma make_split_ok:
  assumes "2 \<le> ep_train_size p" "1 \<le> ep_test_size p" "ep_train_size p + split_gap p \<le> t"
    "t + ep_test_size p \<le> length xs"
  shows "make_split xs p t k = Success
     \<lparr>sp_split_id = Suc k,
      sp_train_observation_ids =
        map ob_observation_id (slice (t - split_gap p - ep_train_size p) (t - split_gap p) xs),
      sp_test_observation_ids = map ob_observation_id (slice t (t + ep_test_size p) xs),
      sp_purge_observations = ep_purge_observations p,
      sp_embargo_observations = ep_embargo_observations p\<rparr>"
  using assms by (simp add: make_split_def validate_split_def Let_def res_simps length_slice)

lemma split_loop_closed:
  assumes "2 \<le> ep_train_size p" "1 \<le> ep_test_size p" "0 < ep_step_size p"
    "ep_train_size p + split_gap p \<le> start"
  shows "split_loop xs p (start + k * ep_step_size p) k = Success
     (map (nth_split xs p start) [k ..< k + split_count (length xs) p (start + k * ep_step_size p)])"
  (is "split_loop xs p ?t k = _")
proof (induction "Suc (length xs) - (start + k * ep_step_size p)" arbitrary: k rule: less_induct)
  case less
  let ?t = "start + k * ep_step_size p"
  show ?case
  proof (cases "?t + ep_test_size p \<le> length xs")
    case False
    then show ?thesis
      by (simp add: split_loop.simps [of xs p ?t] split_count_def)
  next
    case True
    have count: "split_count (length xs) p ?t = Suc (split_count (length xs) p (start + Suc k * ep_step_size p))"
      using split_count_step [OF assms(3) True] by (simp add: add_ac)
    have "Suc (length xs) - (start + Suc k * ep_step_size p) < Suc (length xs) - ?t"
      using assms(3) True by simp
    from less [OF this] have rec: "split_loop xs p (?t + ep_step_size p) (Suc k) = Success
       (map (nth_split xs p start) [Suc k ..< Suc k + split_count (length xs) p (start + Suc k * ep_step_size p)])"
      by (simp add: add_ac)
    have "make_split xs p ?t k = Success (nth_split xs p start k)"
      using assms True by (subst make_split_ok) (simp_all add: nth_split_def Let_def)
    with True rec assms(3) show ?thesis
      unfolding count by (simp add: split_loop.simps [of xs p ?t] upt_conv_Cons del: upt_Suc)
  qed
qed

lemma policy_sizes:
  assumes "validate_eval_policy p = Success p"
  shows "2 \<le> ep_train_size p" "1 \<le> ep_test_size p" "0 < ep_step_size p"
  using assms by (simp_all add: validate_eval_policy_def res_simps Suc_le_eq)

lemma build_splits_closed:
  assumes "validate_eval_policy p = Success p"
  shows "build_purged_walk_forward_splits d p =
     (let start = ep_train_size p + split_gap p; n = split_count (length (ds_observations d)) p start in
      if n < ep_minimum_splits p
      then Failure INVALID_INPUT ''Evaluation dataset cannot satisfy walk-forward policy''
      else Success (map (nth_split (ds_observations d) p start) [0 ..< n]))"
  using split_loop_closed [OF policy_sizes [OF assms], of "ep_train_size p + split_gap p" "ds_observations d" 0]
  by (simp add: build_purged_walk_forward_splits_def Let_def)

text \<open>
  C32: The walk-forward loop terminates and returns exactly the splits of a closed formula: as many
  test windows as fit after the first training window and the gap, window number \<open>i\<close> starting
  \<open>i\<close> steps later; it fails exactly when these are fewer than the policy asks for.
\<close>

theorem walk_forward_splits:
  assumes "validate_eval_policy p = Success p"
  shows "build_purged_walk_forward_splits d p =
     (let start = ep_train_size p + split_gap p; n = split_count (length (ds_observations d)) p start in
      if n < ep_minimum_splits p
      then Failure INVALID_INPUT ''Evaluation dataset cannot satisfy walk-forward policy''
      else Success (map (nth_split (ds_observations d) p start) [0 ..< n]))"
  using assms by (rule build_splits_closed)

section \<open>No split sees the future\<close>

lemma ordered_sorted: "strictly_ordered ts \<longleftrightarrow> sorted_wrt (<) ts"
proof (induction ts rule: strictly_ordered.induct)
  case (1 x y ts)
  then show ?case
    using order.strict_trans by (auto simp del: sorted_wrt.simps simp: sorted_wrt2)
qed simp_all

lemma split_in_range:
  assumes "i < split_count n p start"
  shows "start + i * ep_step_size p + ep_test_size p \<le> n"
proof -
  from assms have "start + ep_test_size p \<le> n" "i \<le> (n - start - ep_test_size p) div ep_step_size p"
    by (auto simp: split_count_def split: if_splits)
  then have "i * ep_step_size p \<le> n - start - ep_test_size p"
    by (metis div_times_less_eq_dividend mult_le_mono1 order_trans)
  with \<open>start + ep_test_size p \<le> n\<close> show ?thesis
    by simp
qed

lemma id_in_slice:
  assumes "distinct (map f xs)" "a \<le> b" "b \<le> length xs" "j < length xs" "f (xs ! j) \<in> set (map f (slice a b xs))"
  shows "a \<le> j \<and> j < b"
proof -
  from assms(5) obtain k where k: "k < length (slice a b xs)" "f (slice a b xs ! k) = f (xs ! j)"
    by (auto simp: in_set_conv_nth)
  with assms(2,3) have "f (xs ! (a + k)) = f (xs ! j)" "a + k < b"
    by (auto simp: length_slice nth_slice)
  with assms have "a + k = j"
    using nth_eq_iff_index_eq [OF assms(1), of "a + k" j] by simp
  with \<open>a + k < b\<close> show ?thesis
    by simp
qed

text \<open>
  C33: No split leaks. In every split of a valid dataset the training window has the size of the
  policy, the test window has its size, and every training observation comes before every test
  observation by more than the purge and embargo gap, in position and in prediction time.
\<close>

theorem walk_forward_no_leakage:
  assumes p: "validate_eval_policy p = Success p" and d: "validate_dataset d = Success d"
    and splits: "build_purged_walk_forward_splits d p = Success splits" and s: "s \<in> set splits"
  shows "length (sp_train_observation_ids s) = ep_train_size p \<and>
     length (sp_test_observation_ids s) = ep_test_size p \<and>
     (\<forall>j < length (ds_observations d). \<forall>k < length (ds_observations d).
        ob_observation_id (ds_observations d ! j) \<in> set (sp_train_observation_ids s) \<longrightarrow>
        ob_observation_id (ds_observations d ! k) \<in> set (sp_test_observation_ids s) \<longrightarrow>
        j + split_gap p < k \<and>
        ob_prediction_at (ds_observations d ! j) < ob_prediction_at (ds_observations d ! k))"
proof -
  let ?xs = "ds_observations d" and ?start = "ep_train_size p + split_gap p"
  from splits s obtain i where i: "i < split_count (length ?xs) p ?start" and si: "s = nth_split ?xs p ?start i"
    by (auto simp: build_splits_closed [OF p] Let_def split: if_splits)
  let ?t = "?start + i * ep_step_size p"
  let ?e = "?t - split_gap p"
  have fit: "?t + ep_test_size p \<le> length ?xs"
    using i by (rule split_in_range)
  have ids: "distinct (map ob_observation_id ?xs)" and times: "sorted_wrt (<) (map ob_prediction_at ?xs)"
    using d by (simp_all add: validate_dataset_def res_simps ordered_sorted)
  have train: "sp_train_observation_ids s = map ob_observation_id (slice (?e - ep_train_size p) ?e ?xs)"
    and test: "sp_test_observation_ids s = map ob_observation_id (slice ?t (?t + ep_test_size p) ?xs)"
    by (simp_all add: si nth_split_def Let_def)
  have sizes: "length (sp_train_observation_ids s) = ep_train_size p"
    "length (sp_test_observation_ids s) = ep_test_size p"
    using fit by (simp_all add: train test length_slice)
  have "j + split_gap p < k \<and> ob_prediction_at (?xs ! j) < ob_prediction_at (?xs ! k)"
    if j: "j < length ?xs" "ob_observation_id (?xs ! j) \<in> set (sp_train_observation_ids s)"
      and k: "k < length ?xs" "ob_observation_id (?xs ! k) \<in> set (sp_test_observation_ids s)" for j k
  proof -
    have "j < ?e"
      using id_in_slice [OF ids, of "?e - ep_train_size p" ?e j] j fit by (simp add: train)
    moreover have "?t \<le> k"
      using id_in_slice [OF ids, of ?t "?t + ep_test_size p" k] k fit by (simp add: test)
    ultimately have gap: "j + split_gap p < k"
      by simp
    then have "j < k" by simp
    from sorted_wrt_nth_less [OF times this] k(1) gap show ?thesis
      by simp
  qed
  with sizes show ?thesis
    by blast
qed

section \<open>The audit\<close>

text \<open>What a clean observation is, without the order of the checks.\<close>

definition point_in_time :: "utc \<Rightarrow> observation \<Rightarrow> bool" where
  "point_in_time as_of x \<longleftrightarrow>
     ob_availability_certainty x = PROVEN \<and> ob_in_historical_universe x \<and>
     ob_event_at x \<le> ob_feature_available_at x \<and> ob_feature_available_at x \<le> ob_prediction_at x \<and>
     ob_prediction_at x < ob_outcome_at x \<and> ob_outcome_at x \<le> ob_label_available_at x \<and>
     ob_label_available_at x \<le> as_of \<and> ob_universe_known_at x \<le> ob_prediction_at x"

lemma contamination_None: "contamination_reason x d = None \<longleftrightarrow> point_in_time (ds_as_of d) x"
  by (auto simp: contamination_reason_def point_in_time_def)

lemma audit_observations_iff:
  "audit_observations xs d =
     (if list_all (point_in_time (ds_as_of d)) xs then Success ()
      else Failure INVALID_INPUT ''Evaluation dataset failed point-in-time audit'')"
  by (induction xs) (auto split: option.splits simp flip: contamination_None)

text \<open>
  C34: The audit accepts a dataset exactly when every observation is clean: the event precedes the
  feature, the feature the prediction, the prediction the outcome, the outcome its label and the
  label the as-of time; the universe was known at the prediction, contained the instrument, and
  the publication lag is proven. Any other dataset is refused.
\<close>

theorem audit_accepts_iff_clean:
  "audit_dataset d =
     (if list_all (point_in_time (ds_as_of d)) (ds_observations d) then Success ()
      else Failure INVALID_INPUT ''Evaluation dataset failed point-in-time audit'')"
  by (simp add: audit_dataset_def audit_observations_iff)

section \<open>The overfitting estimate\<close>

lemma combinations_sound:
  "ys \<in> set (combinations xs k) \<Longrightarrow> length ys = k \<and> set ys \<subseteq> set xs \<and> (distinct xs \<longrightarrow> distinct ys)"
  by (induction xs k arbitrary: ys rule: combinations.induct) (auto, (blast | fastforce)+)

lemma combinations_nonempty: "k \<le> length xs \<Longrightarrow> combinations xs k \<noteq> []"
  by (induction xs k rule: combinations.induct) auto

lemma group_nonempty:
  assumes "g < groups" "groups * 2 \<le> n"
  shows "index_groups n groups ! g \<noteq> []"
proof -
  have "g * n div groups < Suc g * n div groups"
  proof -
    have "g * n + groups \<le> Suc g * n"
      using assms by simp
    then have "(g * n + groups) div groups \<le> Suc g * n div groups"
      by (rule div_le_mono)
    with assms show ?thesis
      by simp
  qed
  with assms(1) show ?thesis
    by (simp add: index_groups_def)
qed

lemma mean_total: "xs \<noteq> [] \<Longrightarrow> \<exists>m. mean xs = Success m"
  using val_dec_div [of "Dec (int (length xs)) 0" "dec_sum xs 0"] by (auto simp: mean_def val_Dec)

lemma ranking_total:
  assumes "is \<noteq> []"
  shows "\<exists>rs. ranking cs d is = Success rs \<and> map snd rs = cs"
proof (induction cs)
  case Nil
  then show ?case
    by (simp add: ranking_def)
next
  case (Cons c cs)
  obtain m where "candidate_mean c d is = Success m"
    using mean_total assms unfolding candidate_mean_def by (metis map_is_Nil_conv)
  with Cons show ?case
    by (auto simp: ranking_def)
qed

lemma first_max_mem: "first_max xs best \<in> snd ` set (best # xs)"
proof (induction xs arbitrary: best)
  case (Cons x xs)
  show ?case
    using Cons [of x] Cons [of best] by (cases "fst best < fst x") auto
qed simp

lemma index_of_mem: "c \<in> set cs \<Longrightarrow> \<exists>i. index_of c cs = Success i"
  by (induction cs) (auto simp: candidate_eq_def list.rel_refl deq_iff)

lemma run_all_total: "(\<And>x. x \<in> set xs \<Longrightarrow> \<exists>y. f x = Success y) \<Longrightarrow> \<exists>ys. run_all f xs = Success ys"
proof (induction xs)
  case (Cons x xs)
  then obtain y ys where "f x = Success y" "run_all f xs = Success ys"
    by (metis list.set_intros)
  then show ?case
    by simp
qed simp

lemma pbo_trial_total:
  assumes "2 \<le> length cs" "set train \<subseteq> {0..<groups}" "distinct train" "0 < length train" "length train < groups"
    "groups * 2 \<le> n"
  shows "\<exists>b. pbo_trial d cs groups (index_groups n groups) train = Success b"
proof -
  let ?test = "filter (\<lambda>g. g \<notin> set train) [0 ..< groups]"
  have "\<not> {0..<groups} \<subseteq> set train"
  proof
    assume "{0..<groups} \<subseteq> set train"
    from card_mono [OF _ this] assms(3,5) show False
      by (simp add: distinct_card)
  qed
  then have "?test \<noteq> []"
    by (auto simp: filter_empty_conv)
  have grp: "concat (map ((!) (index_groups n groups)) gs) \<noteq> []" if "gs \<noteq> []" "set gs \<subseteq> {0..<groups}" for gs
  proof -
    have "hd gs < groups"
      using that by (cases gs) auto
    with group_nonempty [OF _ assms(6)] that show ?thesis
      by (cases gs) auto
  qed
  obtain tr te where tr: "ranking cs d (concat (map ((!) (index_groups n groups)) train)) = Success tr" "map snd tr = cs"
    and te: "ranking cs d (concat (map ((!) (index_groups n groups)) ?test)) = Success te" "map snd te = cs"
    using ranking_total [OF grp] assms(2,4) \<open>?test \<noteq> []\<close>
    by (metis (no_types, lifting) filter_is_subset length_greater_0_conv set_upt)
  obtain t ts where ts: "tr = t # ts"
    using tr(2) assms(1) by (cases tr) auto
  have "first_max ts t \<in> set (map snd (sort_key fst te))"
    using first_max_mem [of ts t] tr(2) te(2) ts by (metis list.set_map set_sort)
  then obtain i where "index_of (first_max ts t) (map snd (sort_key fst te)) = Success i"
    using index_of_mem by blast
  with tr te ts show ?thesis
    by (simp add: pbo_trial_def)
qed

lemma quantize_unit:
  assumes "0 \<le> val d" "val d \<le> 1"
  shows "\<exists>x. eval_quantize d = Success x \<and> 0 \<le> val x \<and> val x \<le> 1"
proof -
  let ?k = "rhe (val d / pten (- 12))"
  have pt: "pten (- 12) = 1 / of_int (10 ^ 12)"
    using pten_minus [of 12] pten_nat [of 12] by simp
  have "0 \<le> ?k"
    using rhe_mono [of 0 "val d / pten (- 12)"] rhe_of_int [of 0] assms by simp
  moreover have "?k \<le> 10 ^ 12"
  proof -
    have "val d / pten (- 12) \<le> of_int (10 ^ 12)"
      using assms by (simp add: pt)
    from rhe_mono [OF this] show ?thesis
      by (metis rhe_of_int)
  qed
  ultimately have k: "0 \<le> ?k" "?k \<le> 10 ^ 12" .
  then have "\<bar>?k\<bar> < 10 ^ 28"
    using power_strict_increasing [of 12 28 "10 :: int"] by linarith
  then have "eval_quantize d = Success (Dec ?k (- 12))"
    by (simp add: eval_quantize_def EVAL_QUANTUM_def dec_quantize_Success)
  moreover have "val (Dec ?k (- 12)) \<le> 1" "0 \<le> val (Dec ?k (- 12))"
    using k of_int_le_iff [of ?k "10 ^ 12", where ?'a = rat] by (simp_all add: val_Dec pt)
  ultimately show ?thesis
    by blast
qed

lemma ratio_unit:
  assumes "a \<le> b" "0 < b"
  shows "\<exists>d. dec_div (Dec (int a) 0) (Dec (int b) 0) = Success d \<and> 0 \<le> val d \<and> val d \<le> 1"
proof -
  obtain d where d: "dec_div (Dec (int a) 0) (Dec (int b) 0) = Success d"
    "val d = rnd (of_nat a / of_nat b)"
    using val_dec_div [of "Dec (int b) 0" "Dec (int a) 0"] assms by (auto simp: val_Dec)
  have "fits 0 1"
    by (auto simp: fits_def intro!: exI [of _ 1])
  then have "rnd 1 = 1"
    by (rule rnd_exact)
  moreover have "of_nat a / of_nat b \<le> (1 :: rat)"
    using assms by simp
  ultimately have "val d \<le> 1"
    using rnd_mono d(2) by metis
  with d show ?thesis
    by simp
qed

text \<open>
  C35: The overfitting estimate is always available when it is meaningful: for at least two
  candidates that predict every observation, an even number of four to eight groups and at least
  two observations in each of them, the trials never fail and the estimate is a probability.
\<close>

theorem pbo_is_probability:
  assumes "2 \<le> length cs" "4 \<le> groups" "groups \<le> 8" "even groups"
    "groups * 2 \<le> length (ds_observations d)"
    "list_all (\<lambda>c. length (cs_predictions c) = length (ds_observations d)) cs"
  shows "\<exists>p. estimate_pbo d cs groups = Success (Some p) \<and> 0 \<le> p \<and> p \<le> 1"
proof -
  let ?trial = "pbo_trial d cs groups (index_groups (length (ds_observations d)) groups)"
  let ?combos = "combinations [0 ..< groups] (groups div 2)"
  have total: "\<exists>b. ?trial train = Success b" if "train \<in> set ?combos" for train
    using combinations_sound [OF that] assms by (intro pbo_trial_total) auto
  then obtain bs where bs: "run_all ?trial ?combos = Success bs"
    using run_all_total by blast
  have "?combos \<noteq> []"
    by (rule combinations_nonempty) simp
  then have "0 < length bs"
    using run_all_length [OF bs] by simp
  then obtain r where r: "dec_div (Dec (int (length (filter (\<lambda>b. b) bs))) 0) (Dec (int (length bs)) 0) = Success r"
    "0 \<le> val r" "val r \<le> 1"
    using ratio_unit [OF length_filter_le [of "\<lambda>b. b" bs]] by auto
  obtain p where p: "eval_quantize r = Success p" "0 \<le> val p" "val p \<le> 1"
    using quantize_unit [OF r(2,3)] by blast
  have guards: "\<not> (length cs < 2 \<or> length (ds_observations d) < groups * 2)"
    "\<not> (\<not> (4 \<le> groups \<and> groups \<le> 8) \<or> odd groups)"
    "\<not> list_ex (\<lambda>c. length (cs_predictions c) \<noteq> length (ds_observations d)) cs"
    using assms by (auto simp: list_all_iff list_ex_iff)
  have "estimate_pbo d cs groups = Success (Some p)"
    unfolding estimate_pbo_def if_not_P [OF guards(1)] if_not_P [OF guards(2)] if_not_P [OF guards(3)]
      bs bind.simps r(1) p(1) ..
  with p(2,3) show ?thesis
    by (simp add: dec_le_iff)
qed

section \<open>A concrete evaluation\<close>

definition sample_observation :: "nat \<Rightarrow> observation" where
  "sample_observation k =
     \<lparr>ob_observation_id = replicate k CHR ''x'', ob_instrument_id = ''i'', ob_event_at = int k * 10,
      ob_feature_available_at = int k * 10 + 1, ob_prediction_at = int k * 10 + 2,
      ob_outcome_at = int k * 10 + 3, ob_label_available_at = int k * 10 + 4,
      ob_universe_known_at = 0, ob_availability_certainty = PROVEN, ob_in_historical_universe = True,
      ob_predicted_return = Dec 1 (- 2), ob_actual_return = Dec (int k) (- 3),
      ob_benchmark_return = 0, ob_direction_probability = Dec 6 (- 1), ob_turnover = Dec 1 (- 1)\<rparr>"

definition sample_dataset :: eval_dataset where
  "sample_dataset =
     \<lparr>ds_dataset_snapshot_id = ''ds'', ds_data_hash = replicate 64 CHR ''a'', ds_as_of = 1000,
      ds_universe_artifact_ref = ''sha256:'' @ replicate 64 CHR ''a'',
      ds_observations = map sample_observation [0 ..< 8]\<rparr>"

definition sample_eval_policy :: eval_policy where
  "sample_eval_policy =
     \<lparr>ep_minimum_observations = 2, ep_train_size = 2, ep_test_size = 1, ep_step_size = 2,
      ep_purge_observations = 1, ep_embargo_observations = 1, ep_minimum_splits = 1,
      ep_cpcv_groups = 4, ep_max_pbo = Dec 5 (- 1), ep_fee_bps = Dec 1 0, ep_slippage_bps = Dec 1 0,
      ep_cost_multipliers = [Dec 1 0, Dec 2 0], ep_minimum_net_alpha = 0,
      ep_maximum_drawdown = Dec 2 (- 1), ep_maximum_brier_score = Dec 3 (- 1),
      ep_maximum_calibration_error = Dec 3 (- 1), ep_calibration_buckets = 2,
      ep_report_valid_days = 30\<rparr>"

lemma sample_eval_policy_valid: "validate_eval_policy sample_eval_policy = Success sample_eval_policy"
proof -
  have "unit_ok (Dec 5 (- 1))" "non_negative_ok (Dec 1 0)" "decimal_ok (Dec 1 0)" "decimal_ok (Dec 2 0)"
    "decimal_ok 0" "unit_ok (Dec 2 (- 1))" "unit_ok (Dec 3 (- 1))" "\<not> Dec 1 0 \<le> 0" "\<not> Dec 2 0 \<le> 0"
    "Dec 1 0 < Dec 2 0" "deq (Dec 1 0) 1"
    by code_simp+
  then show ?thesis
    by (simp add: validate_eval_policy_def sample_eval_policy_def res_simps multipliers_ok_def)
qed

lemma sample_dataset_valid: "validate_dataset sample_dataset = Success sample_dataset"
proof -
  have "sha256_ok (replicate 64 CHR ''a'')" "artifact_ref_ok (''sha256:'' @ replicate 64 CHR ''a'')"
    "strictly_ordered (map ob_prediction_at (ds_observations sample_dataset))"
    by code_simp+
  moreover have "distinct (map ob_observation_id (ds_observations sample_dataset))"
    by (simp add: sample_dataset_def sample_observation_def distinct_map inj_on_def comp_def)
  ultimately show ?thesis
    by (simp add: validate_dataset_def res_simps) (simp add: sample_dataset_def)
qed

lemma sample_splits:
  "build_purged_walk_forward_splits sample_dataset sample_eval_policy =
     Success (map (nth_split (ds_observations sample_dataset) sample_eval_policy 4) [0, 1])"
  unfolding build_splits_closed [OF sample_eval_policy_valid]
  by (simp add: sample_eval_policy_def sample_dataset_def split_gap_def split_count_def upt_rec)

theorem walk_forward_splits_witness:
  "\<exists>ss. build_purged_walk_forward_splits sample_dataset sample_eval_policy = Success ss \<and> length ss = 2"
  unfolding walk_forward_splits [OF sample_eval_policy_valid]
  by (simp add: sample_eval_policy_def sample_dataset_def split_gap_def split_count_def)

theorem walk_forward_no_leakage_witness:
  "\<exists>s. build_purged_walk_forward_splits sample_dataset sample_eval_policy = Success s \<and>
     length (sp_train_observation_ids (hd s)) = 2 \<and> length (sp_test_observation_ids (hd s)) = 1"
  using walk_forward_no_leakage [OF sample_eval_policy_valid sample_dataset_valid sample_splits,
      of "nth_split (ds_observations sample_dataset) sample_eval_policy 4 0"] sample_splits
  by (auto simp: sample_eval_policy_def)

theorem pbo_is_probability_witness:
  "\<exists>p. estimate_pbo sample_dataset
     [\<lparr>cs_candidate_id = ''a/1.0.0'', cs_predictions = replicate 8 1\<rparr>,
      \<lparr>cs_candidate_id = ''b/1.0.0'', cs_predictions = replicate 8 0\<rparr>] 4 = Success (Some p) \<and> 0 \<le> p \<and> p \<le> 1"
  by (rule pbo_is_probability) (simp_all add: sample_dataset_def)

end
