(* ===== verification/Evaluation_Metrics.thy ===== *)
theory Evaluation_Metrics
  imports Walk_Forward
begin

text \<open>
  \<^verbatim>\<open>application/evaluation/costs.py\<close>, \<^verbatim>\<open>metrics.py\<close> and \<^verbatim>\<open>calibration.py\<close>: net returns after
  explicit costs, the performance metrics and the calibration of predicted probabilities; and the
  two further Decimal operations they need, the square and the square root.
\<close>

section \<open>Squares and square roots\<close>

text \<open>
  \<^verbatim>\<open>x ** 2\<close> works with three more digits than the context and rounds twice; the power of a zero is
  the integer zero. \<^verbatim>\<open>sqrt\<close> is correctly rounded: the integer root of a scaled coefficient, moved
  off a tie when it is not exact.
\<close>

definition round_digits :: "nat \<Rightarrow> dec \<Rightarrow> dec" where
  "round_digits p d =
     (let k = ndigits \<bar>coeff d\<bar> - p in
      if k = 0 then d else Dec (rdiv ROUND_HALF_EVEN (coeff d) (10 ^ k)) (dexp d + int k))"

definition dec_square :: "dec \<Rightarrow> dec" where
  "dec_square d =
     (if coeff d = 0 then Dec 0 0 else dround (round_digits 31 (Dec (coeff d * coeff d) (2 * dexp d))))"

function isqrt :: "int \<Rightarrow> int" where
  "isqrt n =
     (if n < 1 then 0
      else let r = 2 * isqrt (n div 4) in if (r + 1) * (r + 1) \<le> n then r + 1 else r)"
  by pat_completeness auto
termination
  by (relation "measure nat") auto

declare isqrt.simps [simp del]

definition dec_sqrt :: "dec \<Rightarrow> dec result" where
  "dec_sqrt d =
     (if coeff d = 0 then Success (Dec 0 (dexp d div 2))
      else if coeff d < 0 then Raised InvalidOperation
      else
        let digits = int (ndigits (coeff d));
            e = dexp d div 2;
            c = (if odd (dexp d) then coeff d * 10 else coeff d);
            l = (if odd (dexp d) then digits div 2 + 1 else (digits + 1) div 2);
            shift = 29 - l;
            scaled = (if 0 \<le> shift then c * 100 ^ nat shift else c div 100 ^ nat (- shift));
            n = isqrt scaled;
            exact = ((0 \<le> shift \<or> c mod 100 ^ nat (- shift) = 0) \<and> n * n = scaled)
        in Success (dround
             (if exact
              then Dec (if 0 \<le> shift then n div 10 ^ nat shift else n * 10 ^ nat (- shift)) e
              else Dec (if n mod 5 = 0 then n + 1 else n) (e - shift))))"

section \<open>Costs\<close>

definition net_returns :: "observation list \<Rightarrow> eval_policy \<Rightarrow> dec \<Rightarrow> dec list result" where
  "net_returns xs p multiplier =
     bind (dec_div ((ep_fee_bps p + ep_slippage_bps p) * multiplier) (Dec 10000 0)) (\<lambda>rate.
     Success (map (\<lambda>x. trade_position (ob_predicted_return x) * ob_actual_return x -
       ob_turnover x * rate) xs))"

definition gross_returns :: "observation list \<Rightarrow> dec list" where
  "gross_returns xs = map (\<lambda>x. trade_position (ob_predicted_return x) * ob_actual_return x) xs"

record cost_scenario =
  co_multiplier :: dec
  co_mean_net_return :: dec
  co_total_cost :: dec

definition validate_scenario :: "cost_scenario \<Rightarrow> cost_scenario result" where
  "validate_scenario s = check_all
     [(decimal_ok (co_multiplier s) \<and> decimal_ok (co_mean_net_return s) \<and>
       non_negative_ok (co_total_cost s), ''field'')] s"

definition scenario :: "eval_dataset \<Rightarrow> eval_policy \<Rightarrow> dec \<Rightarrow> cost_scenario result" where
  "scenario d p multiplier =
     bind (net_returns (ds_observations d) p multiplier) (\<lambda>returns.
     let total_cost = dec_sum (gross_returns (ds_observations d)) 0 - dec_sum returns 0 in
     bind (bind (mean returns) eval_quantize) (\<lambda>mean_net.
     bind (eval_quantize total_cost) (\<lambda>total.
     validate_scenario \<lparr>co_multiplier = multiplier, co_mean_net_return = mean_net,
       co_total_cost = total\<rparr>)))"

definition evaluate_cost_sensitivity :: "eval_dataset \<Rightarrow> eval_policy \<Rightarrow> cost_scenario list result" where
  "evaluate_cost_sensitivity d p = run_all (scenario d p) (ep_cost_multipliers p)"

section \<open>Performance\<close>

record performance =
  pm_observation_count :: nat
  pm_mean_gross_return :: dec
  pm_mean_net_return :: dec
  pm_mean_benchmark_return :: dec
  pm_net_alpha :: dec
  pm_max_drawdown :: dec
  pm_hit_rate :: dec
  pm_mean_turnover :: dec
  pm_sharpe_ratio :: dec

definition validate_performance :: "performance \<Rightarrow> performance result" where
  "validate_performance m = check_all
     [(1 \<le> pm_observation_count m \<and> decimal_ok (pm_mean_gross_return m) \<and>
       decimal_ok (pm_mean_net_return m) \<and> decimal_ok (pm_mean_benchmark_return m) \<and>
       decimal_ok (pm_net_alpha m) \<and> decimal_ok (pm_max_drawdown m) \<and> unit_ok (pm_hit_rate m) \<and>
       non_negative_ok (pm_mean_turnover m) \<and> decimal_ok (pm_sharpe_ratio m), ''field'')] m"

fun drawdown_loop :: "dec list \<Rightarrow> dec \<Rightarrow> dec \<Rightarrow> dec \<Rightarrow> dec result" where
  "drawdown_loop [] equity peak drawdown = Success drawdown"
| "drawdown_loop (r # rs) equity peak drawdown =
     (let equity' = equity * (1 + r); peak' = py_max peak equity' in
      bind (dec_div equity' peak') (\<lambda>q. drawdown_loop rs equity' peak' (py_min drawdown (q - 1))))"

definition max_drawdown :: "dec list \<Rightarrow> dec result" where
  "max_drawdown returns = drawdown_loop returns 1 1 0"

definition hit_rate :: "observation list \<Rightarrow> dec result" where
  "hit_rate xs =
     dec_div (Dec (int (length (filter (\<lambda>g. g > 0) (gross_returns xs)))) 0) (Dec (int (length xs)) 0)"

definition sharpe :: "dec list \<Rightarrow> dec result" where
  "sharpe returns =
     bind (mean returns) (\<lambda>average.
     bind (mean (map (\<lambda>r. dec_square (r - average)) returns)) (\<lambda>variance.
     if deq variance 0 then Success 0
     else bind (dec_sqrt variance) (\<lambda>deviation.
          bind (dec_div average deviation) (\<lambda>ratio.
          bind (dec_sqrt (Dec 252 0)) (\<lambda>year. Success (ratio * year))))))"

definition calculate_metrics :: "eval_dataset \<Rightarrow> eval_policy \<Rightarrow> dec \<Rightarrow> performance result" where
  "calculate_metrics d p multiplier =
     (let xs = ds_observations d in
      bind (net_returns xs p multiplier) (\<lambda>net.
      bind (bind (mean net) eval_quantize) (\<lambda>mean_net.
      bind (bind (mean (map ob_benchmark_return xs)) eval_quantize) (\<lambda>mean_benchmark.
      bind (bind (mean (gross_returns xs)) eval_quantize) (\<lambda>mean_gross.
      bind (eval_quantize (mean_net - mean_benchmark)) (\<lambda>alpha.
      bind (bind (max_drawdown net) eval_quantize) (\<lambda>drawdown.
      bind (bind (hit_rate xs) eval_quantize) (\<lambda>hits.
      bind (bind (mean (map ob_turnover xs)) eval_quantize) (\<lambda>turnover.
      bind (bind (sharpe net) eval_quantize) (\<lambda>ratio.
      validate_performance
        \<lparr>pm_observation_count = length net, pm_mean_gross_return = mean_gross,
         pm_mean_net_return = mean_net, pm_mean_benchmark_return = mean_benchmark,
         pm_net_alpha = alpha, pm_max_drawdown = drawdown, pm_hit_rate = hits,
         pm_mean_turnover = turnover, pm_sharpe_ratio = ratio\<rparr>))))))))))"

section \<open>Calibration\<close>

text \<open>\<^verbatim>\<open>int(d)\<close> cuts the fraction off.\<close>

definition dec_trunc :: "dec \<Rightarrow> int" where
  "dec_trunc d =
     (if 0 \<le> dexp d then coeff d * 10 ^ nat (dexp d)
      else sgn (coeff d) * (\<bar>coeff d\<bar> div 10 ^ nat (- dexp d)))"

record calibration_bucket =
  kb_lower_bound :: dec
  kb_upper_bound :: dec
  kb_count :: nat
  kb_mean_probability :: dec
  kb_observed_frequency :: dec

definition validate_bucket :: "calibration_bucket \<Rightarrow> calibration_bucket result" where
  "validate_bucket b = check_all
     [(unit_ok (kb_lower_bound b) \<and> unit_ok (kb_upper_bound b) \<and> unit_ok (kb_mean_probability b) \<and>
       unit_ok (kb_observed_frequency b), ''field'')] b"

record calibration_result =
  kr_status :: confidence_calibration
  kr_brier_score :: dec
  kr_expected_calibration_error :: dec
  kr_buckets :: "calibration_bucket list"

definition validate_calibration :: "calibration_result \<Rightarrow> calibration_result result" where
  "validate_calibration r = check_all
     [(unit_ok (kr_brier_score r) \<and> unit_ok (kr_expected_calibration_error r) \<and>
       2 \<le> length (kr_buckets r) \<and> length (kr_buckets r) \<le> 20, ''field'')] r"

text \<open>The bucket of a probability: \<^verbatim>\<open>min(int(probability * count), count - 1)\<close>.\<close>

definition bucket_index :: "nat \<Rightarrow> dec \<Rightarrow> int" where
  "bucket_index buckets probability =
     min (dec_trunc (probability * Dec (int buckets) 0)) (int buckets - 1)"

definition mean_or_zero :: "dec list \<Rightarrow> dec result" where
  "mean_or_zero xs = (if xs = [] then Success 0 else bind (mean xs) eval_quantize)"

definition make_bucket ::
  "(dec \<times> dec) list \<Rightarrow> nat \<Rightarrow> dec \<Rightarrow> nat \<Rightarrow> calibration_bucket result" where
  "make_bucket pairs buckets width index =
     (let members = filter (\<lambda>(q, a). bucket_index buckets q = int index) pairs in
      bind (eval_quantize (width * Dec (int index) 0)) (\<lambda>lower.
      bind (eval_quantize (width * Dec (int (Suc index)) 0)) (\<lambda>upper.
      bind (mean_or_zero (map fst members)) (\<lambda>probability.
      bind (mean_or_zero (map snd members)) (\<lambda>frequency.
      validate_bucket
        \<lparr>kb_lower_bound = lower, kb_upper_bound = upper, kb_count = length members,
         kb_mean_probability = probability, kb_observed_frequency = frequency\<rparr>)))))"

definition make_buckets :: "(dec \<times> dec) list \<Rightarrow> nat \<Rightarrow> calibration_bucket list result" where
  "make_buckets pairs buckets =
     bind (dec_div (Dec 1 0) (Dec (int buckets) 0)) (\<lambda>width.
     run_all (make_bucket pairs buckets width) [0 ..< buckets])"

definition outcome_of :: "observation \<Rightarrow> dec" where
  "outcome_of x = (if ob_actual_return x > 0 then Dec 1 0 else Dec 0 0)"

definition calibration_error :: "calibration_bucket list \<Rightarrow> nat \<Rightarrow> dec result" where
  "calibration_error buckets n =
     bind (run_all (\<lambda>b. bind (dec_div (Dec (int (kb_count b)) 0) (Dec (int n) 0)) (\<lambda>share.
       Success (share * \<bar>kb_mean_probability b - kb_observed_frequency b\<bar>))) buckets) (\<lambda>terms.
     eval_quantize (dec_sum terms 0))"

definition evaluate_calibration :: "eval_dataset \<Rightarrow> eval_policy \<Rightarrow> calibration_result result" where
  "evaluate_calibration d p =
     (let xs = ds_observations d;
          pairs = map (\<lambda>x. (ob_direction_probability x, outcome_of x)) xs in
      bind (bind (mean (map (\<lambda>(q, a). dec_square (q - a)) pairs)) eval_quantize) (\<lambda>brier.
      bind (make_buckets pairs (ep_calibration_buckets p)) (\<lambda>buckets.
      bind (calibration_error buckets (length xs)) (\<lambda>error.
      validate_calibration
        \<lparr>kr_status =
           (if ep_minimum_observations p \<le> length xs \<and> brier \<le> ep_maximum_brier_score p \<and>
               error \<le> ep_maximum_calibration_error p then CALIBRATED else UNCALIBRATED),
         kr_brier_score = brier, kr_expected_calibration_error = error, kr_buckets = buckets\<rparr>))))"

end
