(* ===== verification/Promotion_Report.thy ===== *)
theory Promotion_Report
  imports Evaluation_Metrics
begin

text \<open>
  \<^verbatim>\<open>application/evaluation/promotion.py\<close>: the evaluation of a strategy from its dataset to its
  report. The inputs must match the request, pass the point-in-time audit and admit enough
  walk-forward splits; only the out-of-sample observations are scored, against every baseline; and
  the report passes when all nine checks do.
\<close>

section \<open>Inputs\<close>

definition binding_valid ::
  "hashing \<Rightarrow> evaluation_request \<Rightarrow> eval_dataset \<Rightarrow> candidate_series list \<Rightarrow> eval_policy \<Rightarrow> utc \<Rightarrow> bool"
  where
  "binding_valid H q d baselines p created_at \<longleftrightarrow>
     ds_dataset_snapshot_id d = eq_dataset_snapshot_id q \<and> ds_data_hash d = eq_data_hash q \<and>
     ds_as_of d = eq_as_of q \<and> eval_policy_hash H p = eq_evaluation_policy_hash q \<and>
     created_at \<ge> eq_as_of q \<and> created_at \<le> eq_deadline_at q \<and>
     ep_minimum_observations p \<le> length (ds_observations d) \<and> baselines \<noteq> [] \<and>
     distinct (map cs_candidate_id baselines) \<and>
     list_all (\<lambda>c. length (cs_predictions c) = length (ds_observations d)) baselines \<and>
     list_all (\<lambda>x. eq_window_start q \<le> ob_prediction_at x \<and> ob_prediction_at x \<le> eq_window_end q)
       (ds_observations d)"

definition selected_indices :: "observation list \<Rightarrow> split list \<Rightarrow> nat list" where
  "selected_indices xs splits =
     (let selected = concat (map sp_test_observation_ids splits) in
      filter (\<lambda>i. ob_observation_id (xs ! i) \<in> set selected) [0 ..< length xs])"

definition out_of_sample ::
  "eval_dataset \<Rightarrow> candidate_series list \<Rightarrow> split list \<Rightarrow> eval_dataset \<times> candidate_series list" where
  "out_of_sample d baselines splits =
     (let is = selected_indices (ds_observations d) splits in
      (d\<lparr>ds_observations := map ((!) (ds_observations d)) is\<rparr>,
       map (\<lambda>c. c\<lparr>cs_predictions := map ((!) (cs_predictions c)) is\<rparr>) baselines))"

definition with_predictions :: "eval_dataset \<Rightarrow> candidate_series \<Rightarrow> eval_dataset result" where
  "with_predictions d c =
     (if length (ds_observations d) \<noteq> length (cs_predictions c)
      then Raised (ValueError ''zip() arguments have different lengths'')
      else Success (d\<lparr>ds_observations :=
        map (\<lambda>(x, r). x\<lparr>ob_predicted_return := r\<rparr>) (zip (ds_observations d) (cs_predictions c))\<rparr>))"

section \<open>Checks and metrics of the report\<close>

text \<open>\<^verbatim>\<open>max\<close> and \<^verbatim>\<open>min\<close> of a non-empty sequence.\<close>

definition max_of :: "dec list \<Rightarrow> dec result" where
  "max_of xs = (case xs of [] \<Rightarrow> Raised (ValueError ''max() arg is an empty sequence'')
     | y # ys \<Rightarrow> Success (fold (\<lambda>x m. py_max m x) ys y))"

definition min_of :: "dec list \<Rightarrow> dec result" where
  "min_of xs = (case xs of [] \<Rightarrow> Raised (ValueError ''min() arg is an empty sequence'')
     | y # ys \<Rightarrow> Success (fold (\<lambda>x m. py_min m x) ys y))"

definition check_of :: "evaluation_check_kind \<times> bool \<Rightarrow> evaluation_check result" where
  "check_of = (\<lambda>(kind, passed). validate_evaluation_check
     \<lparr>ek_kind = kind, ek_status = (if passed then CHECK_PASSED else CHECK_FAILED),
      ek_reason_codes = (if passed then [] else [check_kind_value kind @ ''_failed'']),
      ek_details_artifact_ref = None\<rparr>)"

definition promotion_checks ::
  "performance \<Rightarrow> (string \<times> performance) list \<Rightarrow> confidence_calibration \<Rightarrow> cost_scenario list \<Rightarrow>
   dec option \<Rightarrow> eval_policy \<Rightarrow> evaluation_check list result" where
  "promotion_checks target baselines calibration costs pbo p =
     bind (max_of (map (\<lambda>(i, m). pm_net_alpha m) baselines)) (\<lambda>best_alpha.
     bind (min_of (map co_mean_net_return costs)) (\<lambda>worst_cost.
     run_all check_of
       [(POINT_IN_TIME, True), (LEAKAGE, True), (SURVIVORSHIP, True), (REPRODUCIBILITY, True),
        (BASELINE_COMPARISON, pm_net_alpha target > best_alpha),
        (COST_SENSITIVITY,
           worst_cost - pm_mean_benchmark_return target \<ge> ep_minimum_net_alpha p),
        (DRAWDOWN, \<bar>pm_max_drawdown target\<bar> \<le> ep_maximum_drawdown p),
        (CALIBRATION, calibration = CALIBRATED),
        (OVERFITTING, case pbo of None \<Rightarrow> True | Some v \<Rightarrow> v \<le> ep_max_pbo p)]))"

definition metric :: "string \<Rightarrow> dec \<Rightarrow> string \<Rightarrow> string \<Rightarrow> evaluation_metric result" where
  "metric name value unit segment =
     validate_metric \<lparr>mt_name = name, mt_value = value, mt_unit = unit, mt_segment = segment\<rparr>"

definition performance_metrics :: "performance \<Rightarrow> string \<Rightarrow> evaluation_metric list result" where
  "performance_metrics m segment = run_all (\<lambda>(name, value, unit). metric name value unit segment)
     [(''mean_net_return'', pm_mean_net_return m, ''return''),
      (''net_alpha'', pm_net_alpha m, ''return''),
      (''max_drawdown'', pm_max_drawdown m, ''return''), (''hit_rate'', pm_hit_rate m, ''ratio''),
      (''turnover'', pm_mean_turnover m, ''ratio''), (''sharpe'', pm_sharpe_ratio m, ''ratio'')]"

definition report_metrics ::
  "performance \<Rightarrow> (string \<times> performance) list \<Rightarrow> calibration_result \<Rightarrow> dec option \<Rightarrow> nat \<Rightarrow>
   evaluation_metric list result" where
  "report_metrics target baselines calibration pbo split_total =
     bind (performance_metrics target ''candidate'') (\<lambda>own.
     bind (run_all (\<lambda>(i, m). performance_metrics m
             (map (\<lambda>x. if x = CHR ''/'' then CHR ''-'' else x) i)) baselines) (\<lambda>others.
     bind (run_all (\<lambda>(name, value, unit). metric name value unit ''overall'')
       [(''brier_score'', kr_brier_score calibration, ''ratio''),
        (''calibration_error'', kr_expected_calibration_error calibration, ''ratio''),
        (''walk_forward_splits'', Dec (int split_total) 0, ''count''),
        (''out_of_sample_observations'', Dec (int (pm_observation_count target)) 0, ''count''),
        (''pbo'', (case pbo of None \<Rightarrow> Dec 0 0 | Some v \<Rightarrow> if deq v 0 then Dec 0 0 else v), ''ratio'')])
       (\<lambda>rest.
     Success (own @ concat others @ rest))))"

section \<open>The report\<close>

text \<open>The scoring of the out-of-sample data, up to the checks.\<close>

record scores =
  sc_target :: performance
  sc_baselines :: "(string \<times> performance) list"
  sc_calibration :: calibration_result
  sc_costs :: "cost_scenario list"
  sc_pbo :: "dec option"

definition score ::
  "evaluation_request \<Rightarrow> eval_dataset \<Rightarrow> candidate_series list \<Rightarrow> eval_policy \<Rightarrow> scores result" where
  "score q d baselines p =
     bind (calculate_metrics d p (Dec 1 0)) (\<lambda>target.
     bind (run_all (\<lambda>c. bind (with_predictions d c) (\<lambda>d'.
             bind (calculate_metrics d' p (Dec 1 0)) (\<lambda>m. Success (cs_candidate_id c, m)))) baselines)
       (\<lambda>baseline_metrics.
     bind (evaluate_calibration d p) (\<lambda>calibration.
     bind (evaluate_cost_sensitivity d p) (\<lambda>costs.
     bind (validate_candidate
       \<lparr>cs_candidate_id = mf_strategy_id (eq_manifest q) @ ''/'' @ mf_strategy_version (eq_manifest q),
        cs_predictions = map ob_predicted_return (ds_observations d)\<rparr>) (\<lambda>primary.
     bind (estimate_pbo d (baselines @ [primary]) (ep_cpcv_groups p)) (\<lambda>pbo.
     Success \<lparr>sc_target = target, sc_baselines = baseline_metrics, sc_calibration = calibration,
       sc_costs = costs, sc_pbo = pbo\<rparr>))))))"

definition evaluate_for_promotion ::
  "hashing \<Rightarrow> evaluation_request \<Rightarrow> eval_dataset \<Rightarrow> candidate_series list \<Rightarrow> eval_policy \<Rightarrow> uuid \<Rightarrow>
   string \<Rightarrow> utc \<Rightarrow> evaluation_report result" where
  "evaluate_for_promotion H q d baselines p report_id report_artifact_ref created_at =
     (if \<not> binding_valid H q d baselines p created_at
      then Failure INVALID_INPUT ''Evaluation inputs do not match immutable request binding''
      else bind (audit_dataset d) (\<lambda>_.
      bind (build_purged_walk_forward_splits d p) (\<lambda>splits.
      let (oos, oos_baselines) = out_of_sample d baselines splits in
      if length (ds_observations oos) < ep_minimum_observations p
      then Failure INVALID_INPUT ''Walk-forward out-of-sample observations are insufficient''
      else bind (score q oos oos_baselines p) (\<lambda>s.
      bind (promotion_checks (sc_target s) (sc_baselines s) (kr_status (sc_calibration s)) (sc_costs s)
              (sc_pbo s) p) (\<lambda>checks.
      bind (report_metrics (sc_target s) (sc_baselines s) (sc_calibration s) (sc_pbo s) (length splits))
        (\<lambda>metrics.
      make_evaluation_report
        \<lparr>er_report_id = report_id, er_strategy_id = mf_strategy_id (eq_manifest q),
         er_strategy_version = mf_strategy_version (eq_manifest q),
         er_strategy_manifest_hash = manifest_hash H (eq_manifest q),
         er_dataset_snapshot_id = eq_dataset_snapshot_id q, er_data_hash = eq_data_hash q,
         er_runtime_hash = mf_runtime_hash (eq_manifest q),
         er_evaluation_policy_hash = eval_policy_hash H p, er_as_of = eq_as_of q,
         er_window_start = eq_window_start q, er_window_end = eq_window_end q, er_checks = checks,
         er_metrics = metrics, er_calibration = kr_status (sc_calibration s),
         er_baseline_ids = map cs_candidate_id oos_baselines,
         er_report_artifact_ref = report_artifact_ref,
         er_valid_until = created_at + int (ep_report_valid_days p) * 86400000000,
         er_created_at = created_at,
         er_passed = list_all (\<lambda>k. ek_status k = CHECK_PASSED) checks\<rparr>))))))"

end
