(* ===== verification/Promotion_Properties.thy ===== *)
theory Promotion_Properties
  imports Promotion_Report Walk_Forward_Properties Sample_Hashing
begin

text \<open>
  When an evaluation report passes, what the calibration buckets count, and the range of the
  drawdown.
\<close>

section \<open>The gate\<close>

text \<open>What a strategy must show on its out-of-sample data.\<close>

definition promotable :: "scores \<Rightarrow> eval_policy \<Rightarrow> bool" where
  "promotable s p \<longleftrightarrow>
     (\<forall>m \<in> snd ` set (sc_baselines s). val (pm_net_alpha m) < val (pm_net_alpha (sc_target s))) \<and>
     (\<forall>c \<in> set (sc_costs s).
        ep_minimum_net_alpha p \<le> co_mean_net_return c - pm_mean_benchmark_return (sc_target s)) \<and>
     \<bar>pm_max_drawdown (sc_target s)\<bar> \<le> ep_maximum_drawdown p \<and>
     kr_status (sc_calibration s) = CALIBRATED \<and>
     (\<forall>v. sc_pbo s = Some v \<longrightarrow> v \<le> ep_max_pbo p)"

lemma max_of_less:
  assumes "max_of xs = Success m"
  shows "val m < b \<longleftrightarrow> (\<forall>x \<in> set xs. val x < b)"
proof -
  have "val (fold (\<lambda>x m. py_max m x) ys y) < b \<longleftrightarrow> val y < b \<and> (\<forall>x \<in> set ys. val x < b)" for ys y
    by (induction ys arbitrary: y) (auto simp: val_py_max)
  with assms show ?thesis
    by (auto simp: max_of_def split: list.splits)
qed

lemma min_of_diff:
  assumes "min_of xs = Success m"
  shows "b \<le> val (m - c) \<longleftrightarrow> (\<forall>x \<in> set xs. b \<le> val (x - c))"
proof -
  have min: "b \<le> rnd (min u v - val c) \<longleftrightarrow> b \<le> rnd (u - val c) \<and> b \<le> rnd (v - val c)" for u v
    using rnd_mono [of "u - val c" "v - val c"] rnd_mono [of "v - val c" "u - val c"]
    by (auto simp: min_def)
  have "b \<le> rnd (val (fold (\<lambda>x m. py_min m x) ys y) - val c) \<longleftrightarrow>
      b \<le> rnd (val y - val c) \<and> (\<forall>x \<in> set ys. b \<le> rnd (val x - val c))" for ys y
    by (induction ys arbitrary: y) (auto simp: val_py_min min)
  with assms show ?thesis
    by (auto simp: min_of_def val_minus split: list.splits)
qed

lemma check_of_status:
  "check_of (k, b) = Success c \<Longrightarrow> ek_status c = (if b then CHECK_PASSED else CHECK_FAILED)"
  by (auto simp: check_of_def validate_evaluation_check_def res_simps)

lemma promotion_checks_passed:
  assumes "promotion_checks (sc_target s) (sc_baselines s) (kr_status (sc_calibration s)) (sc_costs s)
     (sc_pbo s) p = Success checks"
  shows "list_all (\<lambda>k. ek_status k = CHECK_PASSED) checks \<longleftrightarrow> promotable s p"
proof -
  from assms obtain best worst where best: "max_of (map (\<lambda>(i, m). pm_net_alpha m) (sc_baselines s)) = Success best"
    and worst: "min_of (map co_mean_net_return (sc_costs s)) = Success worst"
    and run: "run_all check_of
       [(POINT_IN_TIME, True), (LEAKAGE, True), (SURVIVORSHIP, True), (REPRODUCIBILITY, True),
        (BASELINE_COMPARISON, pm_net_alpha (sc_target s) > best),
        (COST_SENSITIVITY, worst - pm_mean_benchmark_return (sc_target s) \<ge> ep_minimum_net_alpha p),
        (DRAWDOWN, \<bar>pm_max_drawdown (sc_target s)\<bar> \<le> ep_maximum_drawdown p),
        (CALIBRATION, kr_status (sc_calibration s) = CALIBRATED),
        (OVERFITTING, case sc_pbo s of None \<Rightarrow> True | Some v \<Rightarrow> v \<le> ep_max_pbo p)] = Success checks"
    by (auto simp: promotion_checks_def bind_Success_iff)
  have all: "list_all (\<lambda>k. ek_status k = CHECK_PASSED) cs \<longleftrightarrow> list_all snd kbs"
    if "run_all check_of kbs = Success cs" for kbs cs
    using that unfolding run_all_Success
    by (induction rule: list_all2_induct) (auto dest: check_of_status split: if_splits)
  have "list_all (\<lambda>k. ek_status k = CHECK_PASSED) checks \<longleftrightarrow>
      val best < val (pm_net_alpha (sc_target s)) \<and>
      val (ep_minimum_net_alpha p) \<le> val (worst - pm_mean_benchmark_return (sc_target s)) \<and>
      \<bar>pm_max_drawdown (sc_target s)\<bar> \<le> ep_maximum_drawdown p \<and>
      kr_status (sc_calibration s) = CALIBRATED \<and> (case sc_pbo s of None \<Rightarrow> True | Some v \<Rightarrow> v \<le> ep_max_pbo p)"
    unfolding all [OF run] by (simp add: dec_less_iff dec_le_iff [of "ep_minimum_net_alpha p"])
  also have "\<dots> \<longleftrightarrow> promotable s p"
    unfolding max_of_less [OF best] min_of_diff [OF worst] promotable_def
    by (auto simp: dec_le_iff [of "ep_minimum_net_alpha p"] split: option.splits)
  finally show ?thesis .
qed

lemma make_report_frame:
  assumes "make_evaluation_report r = Success r'"
  shows "er_passed r' = er_passed r" "er_data_hash r' = er_data_hash r"
    "er_strategy_manifest_hash r' = er_strategy_manifest_hash r" "er_calibration r' = er_calibration r"
    "er_evaluation_policy_hash r' = er_evaluation_policy_hash r"
  using assms
  by (auto simp: make_evaluation_report_def normalize_checks_def normalize_metrics_def
      normalize_baselines_def validate_report_integrity_def res_simps split: if_splits)

text \<open>
  C36: A report passes exactly when the strategy earns it. Whenever a report is issued, its dataset
  is point-in-time clean and is the one of the request, and the report passes exactly when, on the
  out-of-sample observations of the walk-forward splits, the strategy beats every baseline, clears
  the required alpha under every cost scenario, stays within the drawdown limit, is calibrated, and
  its probability of overfitting, when it can be estimated, is within the limit.
\<close>

theorem report_passes_iff_promotable:
  assumes "evaluate_for_promotion H q d baselines p report_id ref created_at = Success r"
  shows "list_all (point_in_time (ds_as_of d)) (ds_observations d) \<and>
     er_data_hash r = ds_data_hash d \<and> er_strategy_manifest_hash r = manifest_hash H (eq_manifest q) \<and>
     (\<exists>splits s. build_purged_walk_forward_splits d p = Success splits \<and>
        score q (fst (out_of_sample d baselines splits)) (snd (out_of_sample d baselines splits)) p = Success s \<and>
        (er_passed r \<longleftrightarrow> promotable s p))"
proof -
  from assms obtain splits s checks x where
    audit: "audit_dataset d = Success ()" and hash: "ds_data_hash d = eq_data_hash q"
    and splits: "build_purged_walk_forward_splits d p = Success splits"
    and s: "score q (fst (out_of_sample d baselines splits)) (snd (out_of_sample d baselines splits)) p = Success s"
    and checks: "promotion_checks (sc_target s) (sc_baselines s) (kr_status (sc_calibration s)) (sc_costs s)
              (sc_pbo s) p = Success checks"
    and r: "make_evaluation_report x = Success r"
    and x: "er_data_hash x = eq_data_hash q" "er_strategy_manifest_hash x = manifest_hash H (eq_manifest q)"
      "er_passed x = list_all (\<lambda>k. ek_status k = CHECK_PASSED) checks"
    by (auto simp: evaluate_for_promotion_def binding_valid_def bind_Success_iff Let_def case_prod_unfold
        split: if_splits)
  have "list_all (point_in_time (ds_as_of d)) (ds_observations d)"
    using audit by (auto simp: audit_dataset_def audit_observations_iff split: if_splits)
  with splits s hash x make_report_frame [OF r] promotion_checks_passed [OF checks] show ?thesis
    by auto
qed

section \<open>Calibration\<close>

lemma dec_trunc_nonneg: "0 \<le> val d \<Longrightarrow> 0 \<le> dec_trunc d"
proof -
  assume "0 \<le> val d"
  then have "0 \<le> coeff d"
    using mult_neg_pos [of "of_int (coeff d)" "pten (dexp d)"] by (force simp: val_def)
  then show ?thesis
    by (auto simp: dec_trunc_def pos_imp_zdiv_nonneg_iff sgn_if)
qed

lemma bucket_index_range:
  assumes "0 < n" "0 \<le> val q"
  shows "0 \<le> bucket_index n q \<and> bucket_index n q < int n"
  using dec_trunc_nonneg [of "q * Dec (int n) 0"] assms by (auto simp: bucket_index_def val_times val_Dec)

lemma filter_partition:
  "(\<And>x. x \<in> set xs \<Longrightarrow> 0 \<le> f x \<and> f x < int n) \<Longrightarrow>
   (\<Sum>k \<leftarrow> [0 ..< n]. length (filter (\<lambda>x. f x = int k) xs)) = length xs"
proof (induction xs)
  case Nil
  then show ?case
    by (simp add: sum_list_triv)
next
  case (Cons x xs)
  obtain m where m: "f x = int m" "m < n"
    using Cons.prems [of x] nonneg_int_cases [of "f x"] by auto
  have one: "(\<Sum>k \<leftarrow> [0 ..< n]. if f x = int k then 1 else 0) = (1 :: nat)"
    using m by (simp add: sum_list_distinct_conv_sum_set)
  have "length (filter (\<lambda>y. f y = int k) (x # xs)) =
      (if f x = int k then 1 else 0) + length (filter (\<lambda>y. f y = int k) xs)" for k
    by simp
  then show ?case
    using Cons.IH Cons.prems one by (simp only: sum_list_addf) simp
qed

lemma make_bucket_count:
  "make_bucket pairs n width k = Success b \<Longrightarrow> kb_count b = length (filter (\<lambda>(q, a). bucket_index n q = int k) pairs)"
  by (auto simp: make_bucket_def validate_bucket_def res_simps Let_def)

lemma make_buckets_counts:
  assumes "make_buckets pairs n = Success bs"
  shows "map kb_count bs = map (\<lambda>k. length (filter (\<lambda>(q, a). bucket_index n q = int k) pairs)) [0 ..< n]"
proof -
  from assms obtain width where "run_all (make_bucket pairs n width) [0 ..< n] = Success bs"
    by (auto simp: make_buckets_def bind_Success_iff)
  then have "list_all2 (\<lambda>k b. make_bucket pairs n width k = Success b) [0 ..< n] bs"
    by (simp add: run_all_Success)
  then show ?thesis
    by (induction rule: list_all2_induct) (auto dest: make_bucket_count)
qed

text \<open>
  C37: The calibration buckets count every observation exactly once, there are as many as the policy
  asks for, and the verdict is \<^verbatim>\<open>calibrated\<close> exactly when there are enough observations and both the
  Brier score and the calibration error are within their limits.
\<close>

theorem calibration_counts_everything:
  assumes r: "evaluate_calibration d p = Success r"
    and valid: "validate_eval_policy p = Success p"
      "\<forall>x \<in> set (ds_observations d). validate_observation x = Success x"
  shows "sum_list (map kb_count (kr_buckets r)) = length (ds_observations d) \<and>
     length (kr_buckets r) = ep_calibration_buckets p \<and>
     (kr_status r = CALIBRATED \<longleftrightarrow>
        ep_minimum_observations p \<le> length (ds_observations d) \<and>
        kr_brier_score r \<le> ep_maximum_brier_score p \<and>
        kr_expected_calibration_error r \<le> ep_maximum_calibration_error p)"
proof -
  let ?pairs = "map (\<lambda>x. (ob_direction_probability x, outcome_of x)) (ds_observations d)"
  let ?n = "ep_calibration_buckets p"
  from r obtain brier bs error where bs: "make_buckets ?pairs ?n = Success bs"
    and r': "r = \<lparr>kr_status =
           (if ep_minimum_observations p \<le> length (ds_observations d) \<and> brier \<le> ep_maximum_brier_score p \<and>
               error \<le> ep_maximum_calibration_error p then CALIBRATED else UNCALIBRATED),
         kr_brier_score = brier, kr_expected_calibration_error = error, kr_buckets = bs\<rparr>"
    by (auto simp: evaluate_calibration_def validate_calibration_def res_simps Let_def)
  have range: "0 \<le> bucket_index ?n (fst x) \<and> bucket_index ?n (fst x) < int ?n" if "x \<in> set ?pairs" for x
    using that valid
    by (intro bucket_index_range)
      (auto simp: validate_eval_policy_def validate_observation_def res_simps unit_ok_def dec_le_iff)
  have "sum_list (map kb_count bs) = length ?pairs"
    unfolding make_buckets_counts [OF bs]
    using filter_partition [of ?pairs "\<lambda>x. bucket_index ?n (fst x)" ?n] range
    by (simp add: case_prod_unfold)
  moreover have "length bs = ?n"
    using arg_cong [OF make_buckets_counts [OF bs], of length] by simp
  ultimately show ?thesis
    by (auto simp: r')
qed

section \<open>Drawdown\<close>

lemma rnd_1 [simp]: "rnd 1 = 1"
  by (rule rnd_exact [of 0]) (auto simp: fits_def intro!: exI [of _ 1])

lemma rnd_unit: "0 \<le> x \<Longrightarrow> x \<le> 1 \<Longrightarrow> 0 \<le> rnd x \<and> rnd x \<le> 1"
  using rnd_mono [of x 1] by simp

lemma rnd_minus_unit: "0 \<le> x \<Longrightarrow> x \<le> 1 \<Longrightarrow> - 1 \<le> rnd (x - 1) \<and> rnd (x - 1) \<le> 0"
  using rnd_mono [of "- 1" "x - 1"] rnd_minus [of 1] by simp

lemma drawdown_loop_bounds:
  assumes "\<forall>r \<in> set rs. - 1 \<le> val r" "0 \<le> val equity" "val equity \<le> val peak" "1 \<le> val peak"
    "- 1 \<le> val dd" "val dd \<le> 0"
  shows "\<exists>x. drawdown_loop rs equity peak dd = Success x \<and> - 1 \<le> val x \<and> val x \<le> 0"
  using assms
proof (induction rs arbitrary: equity peak dd)
  case Nil
  then show ?case by simp
next
  case (Cons r rs)
  let ?equity = "equity * (1 + r)" and ?peak = "py_max peak (equity * (1 + r))"
  have equity: "0 \<le> val ?equity"
    using Cons.prems by (simp add: val_times val_plus)
  have peak: "val ?equity \<le> val ?peak" "1 \<le> val ?peak"
    using Cons.prems(4) by (simp_all add: val_py_max)
  then obtain q where q: "dec_div ?equity ?peak = Success q" "val q = rnd (val ?equity / val ?peak)"
    using val_dec_div [of ?peak ?equity] by auto
  have "0 \<le> val q" "val q \<le> 1"
    using rnd_unit [of "val ?equity / val ?peak"] equity peak q(2) by simp_all
  then have "- 1 \<le> val (py_min dd (q - 1))" "val (py_min dd (q - 1)) \<le> 0"
    using rnd_minus_unit [of "val q"] Cons.prems(5,6) by (simp_all add: val_py_min val_minus)
  with Cons.IH [of ?equity ?peak "py_min dd (q - 1)"] Cons.prems(1) equity peak show ?case
    by (simp add: q(1) Let_def)
qed

text \<open>
  The maximal drawdown is always computable and lies between a total loss and no loss, for
  every series of returns none of which is below a total loss; no division by a zero peak can occur.
\<close>

theorem drawdown_in_range:
  assumes "list_all (\<lambda>r. Dec (- 1) 0 \<le> r) returns"
  shows "\<exists>x. max_drawdown returns = Success x \<and> Dec (- 1) 0 \<le> x \<and> x \<le> 0"
  using drawdown_loop_bounds [of returns 1 1 0] assms
  by (auto simp: max_drawdown_def list_all_iff dec_le_iff val_Dec)

theorem drawdown_in_range_witness:
  "\<exists>x. max_drawdown [Dec 1 (- 1), Dec (- 5) (- 1), Dec (- 1) 0] = Success x \<and> Dec (- 1) 0 \<le> x \<and> x \<le> 0"
proof -
  have "list_all (\<lambda>r. Dec (- 1) 0 \<le> r) [Dec 1 (- 1), Dec (- 5) (- 1), Dec (- 1) 0]"
    by code_simp
  then show ?thesis
    by (rule drawdown_in_range)
qed

section \<open>A concrete report\<close>

definition steady_observation :: "nat \<Rightarrow> observation" where
  "steady_observation k =
     (sample_observation k)\<lparr>ob_actual_return := Dec 1 (- 2), ob_direction_probability := Dec 9 (- 1)\<rparr>"

definition steady_dataset :: eval_dataset where
  "steady_dataset = sample_dataset\<lparr>ds_observations := map steady_observation [0 ..< 8]\<rparr>"

definition flat_baseline :: candidate_series where
  "flat_baseline = \<lparr>cs_candidate_id = ''cash/1.0.0'', cs_predictions = replicate 8 (Dec 0 0)\<rparr>"

definition steady_request :: evaluation_request where
  "steady_request =
     \<lparr>eq_request_id = ''q'',
      eq_manifest =
        \<lparr>mf_manifest_id = ''mf'', mf_strategy_id = ''momentum'', mf_strategy_version = ''1.0.0'',
         mf_kind = DETERMINISTIC_KIND,
         mf_source_artifact_ref = ''sha256:'' @ replicate 64 CHR ''a'',
         mf_runtime_hash = replicate 64 CHR ''a'', mf_feature_spec_hash = replicate 64 CHR ''a'',
         mf_label_spec_hash = replicate 64 CHR ''a'', mf_universe_spec_hash = replicate 64 CHR ''a'',
         mf_cost_model_hash = replicate 64 CHR ''a'', mf_split_policy_hash = replicate 64 CHR ''a'',
         mf_parameters_hash = replicate 64 CHR ''a'', mf_owner = ''owner'', mf_deterministic = True,
         mf_created_at = 0\<rparr>,
      eq_dataset_snapshot_id = ''ds'', eq_snapshot_artifact_ref = ''sha256:'' @ replicate 64 CHR ''a'',
      eq_data_hash = replicate 64 CHR ''a'', eq_as_of = 1000, eq_window_start = 0, eq_window_end = 900,
      eq_evaluation_policy_hash = replicate 64 CHR ''a'', eq_requested_at = 1000,
      eq_deadline_at = 5000\<rparr>"

definition steady_oos :: eval_dataset where
  "steady_oos = sample_dataset\<lparr>ds_observations := [steady_observation 4, steady_observation 6]\<rparr>"

definition oos_baseline :: candidate_series where
  "oos_baseline = flat_baseline\<lparr>cs_predictions := [Dec 0 0, Dec 0 0]\<rparr>"

lemma steady_steps:
  "net_returns (ds_observations steady_oos) sample_eval_policy (Dec 1 0) = Success [Dec 998 (- 5), Dec 998 (- 5)]"
  "mean [Dec 998 (- 5), Dec 998 (- 5)] = Success (Dec 998 (- 5))"
  "map ob_benchmark_return (ds_observations steady_oos) = [0, 0]"
  "mean [0, 0] = Success (Dec 0 0)"
  "gross_returns (ds_observations steady_oos) = [Dec 1 (- 2), Dec 1 (- 2)]"
  "mean [Dec 1 (- 2), Dec 1 (- 2)] = Success (Dec 1 (- 2))"
  "map ob_turnover (ds_observations steady_oos) = [Dec 1 (- 1), Dec 1 (- 1)]"
  "mean [Dec 1 (- 1), Dec 1 (- 1)] = Success (Dec 1 (- 1))"
  "max_drawdown [Dec 998 (- 5), Dec 998 (- 5)] = Success 0"
  "hit_rate (ds_observations steady_oos) = Success (Dec 1 0)"
  "dec_square (Dec 998 (- 5) - Dec 998 (- 5)) = Dec 0 0"
  "mean [Dec 0 0, Dec 0 0] = Success (Dec 0 0)" "deq (Dec 0 0) 0"
  "eval_quantize (Dec 998 (- 5)) = Success (Dec 9980000000 (- 12))"
  "eval_quantize (Dec 0 0) = Success (Dec 0 (- 12))"
  "eval_quantize 0 = Success (Dec 0 (- 12))"
  "eval_quantize (Dec 1 (- 2)) = Success (Dec 10000000000 (- 12))"
  "eval_quantize (Dec 1 (- 1)) = Success (Dec 100000000000 (- 12))"
  "eval_quantize (Dec 1 0) = Success (Dec 1000000000000 (- 12))"
  "eval_quantize (Dec 9980000000 (- 12) - Dec 0 (- 12)) = Success (Dec 9980000000 (- 12))"
  by code_simp+

lemma steady_sharpe: "sharpe [Dec 998 (- 5), Dec 998 (- 5)] = Success 0"
  by (simp add: sharpe_def steady_steps)

definition steady_performance :: performance where
  "steady_performance =
     \<lparr>pm_observation_count = 2, pm_mean_gross_return = Dec 10000000000 (- 12),
      pm_mean_net_return = Dec 9980000000 (- 12), pm_mean_benchmark_return = Dec 0 (- 12),
      pm_net_alpha = Dec 9980000000 (- 12), pm_max_drawdown = Dec 0 (- 12),
      pm_hit_rate = Dec 1000000000000 (- 12), pm_mean_turnover = Dec 100000000000 (- 12),
      pm_sharpe_ratio = Dec 0 (- 12)\<rparr>"

lemma steady_metrics:
  "calculate_metrics steady_oos sample_eval_policy (Dec 1 0) = Success steady_performance"
proof -
  have "validate_performance steady_performance = Success steady_performance"
    by code_simp
  then show ?thesis
    by (simp add: calculate_metrics_def Let_def steady_steps steady_sharpe steady_performance_def numeral_2_eq_2)
qed

definition flat_oos :: eval_dataset where
  "flat_oos = steady_oos\<lparr>ds_observations :=
     map (\<lambda>x. x\<lparr>ob_predicted_return := Dec 0 0\<rparr>) (ds_observations steady_oos)\<rparr>"

lemma flat_predictions: "with_predictions steady_oos oos_baseline = Success flat_oos"
  by (simp add: with_predictions_def flat_oos_def steady_oos_def oos_baseline_def)

lemma flat_steps:
  "net_returns (ds_observations flat_oos) sample_eval_policy (Dec 1 0) = Success [Dec (- 2) (- 5), Dec (- 2) (- 5)]"
  "mean [Dec (- 2) (- 5), Dec (- 2) (- 5)] = Success (Dec (- 2) (- 5))"
  "map ob_benchmark_return (ds_observations flat_oos) = [0, 0]"
  "gross_returns (ds_observations flat_oos) = [Dec 0 (- 2), Dec 0 (- 2)]"
  "mean [Dec 0 (- 2), Dec 0 (- 2)] = Success (Dec 0 (- 2))"
  "map ob_turnover (ds_observations flat_oos) = [Dec 1 (- 1), Dec 1 (- 1)]"
  "max_drawdown [Dec (- 2) (- 5), Dec (- 2) (- 5)] = Success (Dec (- 399996) (- 10))"
  "hit_rate (ds_observations flat_oos) = Success (Dec 0 0)"
  "dec_square (Dec (- 2) (- 5) - Dec (- 2) (- 5)) = Dec 0 0"
  "eval_quantize (Dec (- 2) (- 5)) = Success (Dec (- 20000000) (- 12))"
  "eval_quantize (Dec 0 (- 2)) = Success (Dec 0 (- 12))"
  "eval_quantize (Dec (- 399996) (- 10)) = Success (Dec (- 39999600) (- 12))"
  "eval_quantize (Dec (- 20000000) (- 12) - Dec 0 (- 12)) = Success (Dec (- 20000000) (- 12))"
  by code_simp+

definition flat_performance :: performance where
  "flat_performance =
     \<lparr>pm_observation_count = 2, pm_mean_gross_return = Dec 0 (- 12),
      pm_mean_net_return = Dec (- 20000000) (- 12), pm_mean_benchmark_return = Dec 0 (- 12),
      pm_net_alpha = Dec (- 20000000) (- 12), pm_max_drawdown = Dec (- 39999600) (- 12),
      pm_hit_rate = Dec 0 (- 12), pm_mean_turnover = Dec 100000000000 (- 12),
      pm_sharpe_ratio = Dec 0 (- 12)\<rparr>"

lemma flat_metrics:
  "calculate_metrics flat_oos sample_eval_policy (Dec 1 0) = Success flat_performance"
proof -
  have "validate_performance flat_performance = Success flat_performance"
    by code_simp
  moreover have "sharpe [Dec (- 2) (- 5), Dec (- 2) (- 5)] = Success 0"
    by (simp add: sharpe_def steady_steps flat_steps)
  ultimately show ?thesis
    by (simp add: calculate_metrics_def Let_def steady_steps flat_steps flat_performance_def numeral_2_eq_2)
qed

lemma steady_costs:
  "evaluate_cost_sensitivity steady_oos sample_eval_policy = Success
     [\<lparr>co_multiplier = Dec 1 0, co_mean_net_return = Dec 9980000000 (- 12), co_total_cost = Dec 40000000 (- 12)\<rparr>,
      \<lparr>co_multiplier = Dec 2 0, co_mean_net_return = Dec 9960000000 (- 12), co_total_cost = Dec 80000000 (- 12)\<rparr>]"
proof -
  have "net_returns (ds_observations steady_oos) sample_eval_policy (Dec 2 0) = Success [Dec 996 (- 5), Dec 996 (- 5)]"
    "mean [Dec 996 (- 5), Dec 996 (- 5)] = Success (Dec 996 (- 5))"
    "eval_quantize (Dec 996 (- 5)) = Success (Dec 9960000000 (- 12))"
    "eval_quantize (dec_sum [Dec 1 (- 2), Dec 1 (- 2)] 0 - dec_sum [Dec 998 (- 5), Dec 998 (- 5)] 0) =
       Success (Dec 40000000 (- 12))"
    "eval_quantize (dec_sum [Dec 1 (- 2), Dec 1 (- 2)] 0 - dec_sum [Dec 996 (- 5), Dec 996 (- 5)] 0) =
       Success (Dec 80000000 (- 12))"
    "decimal_ok (Dec 9960000000 (- 12))" "decimal_ok (Dec 9980000000 (- 12))"
    "non_negative_ok (Dec 40000000 (- 12))" "non_negative_ok (Dec 80000000 (- 12))"
    "decimal_ok (Dec 1 0)" "decimal_ok (Dec 2 0)" "ep_cost_multipliers sample_eval_policy = [Dec 1 0, Dec 2 0]"
    by code_simp+
  then show ?thesis
    by (simp add: evaluate_cost_sensitivity_def scenario_def steady_steps validate_scenario_def check_all.simps)
qed

definition steady_buckets :: "calibration_bucket list" where
  "steady_buckets =
     [\<lparr>kb_lower_bound = Dec 0 (- 12), kb_upper_bound = Dec 500000000000 (- 12), kb_count = 0,
       kb_mean_probability = 0, kb_observed_frequency = 0\<rparr>,
      \<lparr>kb_lower_bound = Dec 500000000000 (- 12), kb_upper_bound = Dec 1000000000000 (- 12), kb_count = 2,
       kb_mean_probability = Dec 900000000000 (- 12), kb_observed_frequency = Dec 1000000000000 (- 12)\<rparr>]"

definition steady_calibration :: calibration_result where
  "steady_calibration =
     \<lparr>kr_status = CALIBRATED, kr_brier_score = Dec 10000000000 (- 12),
      kr_expected_calibration_error = Dec 100000000000 (- 12), kr_buckets = steady_buckets\<rparr>"

lemma steady_pairs:
  "map (\<lambda>x. (ob_direction_probability x, outcome_of x)) (ds_observations steady_oos) =
     [(Dec 9 (- 1), Dec 1 0), (Dec 9 (- 1), Dec 1 0)]"
  by code_simp

lemma steady_bucket_steps:
  "dec_div (Dec 1 0) (Dec 2 0) = Success (Dec 5 (- 1))"
  "bucket_index 2 (Dec 9 (- 1)) = 1" "mean [Dec 9 (- 1), Dec 9 (- 1)] = Success (Dec 9 (- 1))"
  "mean [Dec 1 0, Dec 1 0] = Success (Dec 1 0)"
  "eval_quantize (Dec 9 (- 1)) = Success (Dec 900000000000 (- 12))"
  "eval_quantize (Dec 5 (- 1) * Dec 0 0) = Success (Dec 0 (- 12))"
  "eval_quantize (Dec 5 (- 1) * Dec 1 0) = Success (Dec 500000000000 (- 12))"
  "eval_quantize (Dec 5 (- 1) * Dec 2 0) = Success (Dec 1000000000000 (- 12))"
  "dec_square (Dec 9 (- 1) - Dec 1 0) = Dec 1 (- 2)"
  "list_all (\<lambda>b. is_success (validate_bucket b)) steady_buckets"
  "calibration_error steady_buckets 2 = Success (Dec 100000000000 (- 12))"
  "is_success (validate_calibration steady_calibration)"
  "Dec 10000000000 (- 12) \<le> Dec 3 (- 1)" "Dec 100000000000 (- 12) \<le> Dec 3 (- 1)"
  by code_simp+

lemma validated [simp]:
  "is_success (validate_bucket b) \<Longrightarrow> validate_bucket b = Success b"
  "is_success (validate_calibration c) \<Longrightarrow> validate_calibration c = Success c"
  by (auto simp: is_success_iff validate_bucket_def validate_calibration_def res_simps)

lemma steady_calibrates: "evaluate_calibration steady_oos sample_eval_policy = Success steady_calibration"
proof -
  have two: "[0 ..< 2] = [0, 1 :: nat]"
    by (simp add: upt_rec)
  have index: "bucket_index (Suc (Suc 0)) (Dec 9 (- 1)) = 1"
    using steady_bucket_steps(2) by (simp add: numeral_2_eq_2)
  have buckets: "make_buckets [(Dec 9 (- 1), Dec 1 0), (Dec 9 (- 1), Dec 1 0)] 2 = Success steady_buckets"
    using steady_bucket_steps(10)
    by (simp add: make_buckets_def two make_bucket_def steady_bucket_steps(1-8) index steady_steps
        mean_or_zero_def steady_buckets_def Let_def numeral_2_eq_2)
  have size: "length (ds_observations steady_oos) = 2"
    by (simp add: steady_oos_def)
  have result: "validate_calibration \<lparr>kr_status = CALIBRATED, kr_brier_score = Dec 10000000000 (- 12),
        kr_expected_calibration_error = Dec 100000000000 (- 12), kr_buckets = steady_buckets\<rparr> =
      Success steady_calibration"
    using validated(2) [OF steady_bucket_steps(12)] by (simp add: steady_calibration_def)
  show ?thesis
    unfolding evaluate_calibration_def Let_def steady_pairs size
    by (simp add: steady_steps steady_bucket_steps(9,11,13,14) buckets sample_eval_policy_def result)
qed

definition steady_scores :: scores where
  "steady_scores =
     \<lparr>sc_target = steady_performance, sc_baselines = [(''cash/1.0.0'', flat_performance)],
      sc_calibration = steady_calibration,
      sc_costs =
        [\<lparr>co_multiplier = Dec 1 0, co_mean_net_return = Dec 9980000000 (- 12), co_total_cost = Dec 40000000 (- 12)\<rparr>,
         \<lparr>co_multiplier = Dec 2 0, co_mean_net_return = Dec 9960000000 (- 12), co_total_cost = Dec 80000000 (- 12)\<rparr>],
      sc_pbo = None\<rparr>"

lemma oos_baseline_id: "cs_candidate_id oos_baseline = ''cash/1.0.0''"
  by (simp add: oos_baseline_def flat_baseline_def)

lemma steady_score: "score steady_request steady_oos [oos_baseline] sample_eval_policy = Success steady_scores"
proof -
  have "candidate_id_ok ''momentum/1.0.0''" "decimal_ok (Dec 1 (- 2))"
    by code_simp+
  then have "validate_candidate
       \<lparr>cs_candidate_id = ''momentum/1.0.0'', cs_predictions = [Dec 1 (- 2), Dec 1 (- 2)]\<rparr> =
      Success \<lparr>cs_candidate_id = ''momentum/1.0.0'', cs_predictions = [Dec 1 (- 2), Dec 1 (- 2)]\<rparr>"
    by (simp add: validate_candidate_def res_simps)
  moreover have "map ob_predicted_return (ds_observations steady_oos) = [Dec 1 (- 2), Dec 1 (- 2)]"
    by (simp add: steady_oos_def steady_observation_def sample_observation_def)
  moreover have "estimate_pbo steady_oos cs (ep_cpcv_groups sample_eval_policy) = Success None" for cs
    by (simp add: estimate_pbo_def steady_oos_def sample_eval_policy_def)
  ultimately show ?thesis
    by (simp add: score_def steady_metrics flat_predictions flat_metrics steady_calibrates steady_costs
        steady_request_def steady_scores_def oos_baseline_id)
qed

definition steady_checks :: "evaluation_check list" where
  "steady_checks = map (\<lambda>k. \<lparr>ek_kind = k, ek_status = CHECK_PASSED, ek_reason_codes = [],
     ek_details_artifact_ref = None\<rparr>)
     [POINT_IN_TIME, LEAKAGE, SURVIVORSHIP, REPRODUCIBILITY, BASELINE_COMPARISON, COST_SENSITIVITY, DRAWDOWN,
      CALIBRATION, OVERFITTING]"

lemma check_of_passed:
  "check_of (k, True) =
     Success \<lparr>ek_kind = k, ek_status = CHECK_PASSED, ek_reason_codes = [], ek_details_artifact_ref = None\<rparr>"
  by (simp add: check_of_def validate_evaluation_check_def res_simps opt_ok_def)

lemma checks_all_passed:
  "run_all check_of (map (\<lambda>k. (k, True)) ks) =
     Success (map (\<lambda>k. \<lparr>ek_kind = k, ek_status = CHECK_PASSED, ek_reason_codes = [],
       ek_details_artifact_ref = None\<rparr>) ks)"
  by (induction ks) (simp_all add: check_of_passed)

lemma steady_promotion_checks:
  "promotion_checks (sc_target steady_scores) (sc_baselines steady_scores)
     (kr_status (sc_calibration steady_scores)) (sc_costs steady_scores) (sc_pbo steady_scores)
     sample_eval_policy = Success steady_checks"
proof -
  have best: "max_of (map (\<lambda>(i, m). pm_net_alpha m) (sc_baselines steady_scores)) = Success (pm_net_alpha flat_performance)"
    by (simp add: max_of_def steady_scores_def)
  have "py_min (Dec 9960000000 (- 12)) (Dec 9980000000 (- 12)) = Dec 9960000000 (- 12)"
    "py_min (Dec 9980000000 (- 12)) (Dec 9960000000 (- 12)) = Dec 9960000000 (- 12)"
    by code_simp+
  then have worst: "min_of (map co_mean_net_return (sc_costs steady_scores)) = Success (Dec 9960000000 (- 12))"
    by (simp add: min_of_def steady_scores_def)
  have eq: "(pm_net_alpha (sc_target steady_scores) > pm_net_alpha flat_performance) = True"
    "(Dec 9960000000 (- 12) - pm_mean_benchmark_return (sc_target steady_scores)
       \<ge> ep_minimum_net_alpha sample_eval_policy) = True"
    "(\<bar>pm_max_drawdown (sc_target steady_scores)\<bar> \<le> ep_maximum_drawdown sample_eval_policy) = True"
    "(kr_status (sc_calibration steady_scores) = CALIBRATED) = True"
    "(case sc_pbo steady_scores of None \<Rightarrow> True | Some v \<Rightarrow> v \<le> ep_max_pbo sample_eval_policy) = True"
    by code_simp+
  show ?thesis
    unfolding promotion_checks_def best worst bind.simps eq steady_checks_def checks_all_passed [symmetric] by simp
qed

lemma metric_ok:
  "code_ok name \<Longrightarrow> decimal_ok v \<Longrightarrow> unit_text_ok u \<Longrightarrow> code_ok segment \<Longrightarrow>
   metric name v u segment = Success \<lparr>mt_name = name, mt_value = v, mt_unit = u, mt_segment = segment\<rparr>"
  by (simp add: metric_def validate_metric_def res_simps)

lemma metric_texts:
  "code_ok ''mean_net_return''" "code_ok ''net_alpha''" "code_ok ''max_drawdown''" "code_ok ''hit_rate''"
  "code_ok ''turnover''" "code_ok ''sharpe''" "code_ok ''brier_score''" "code_ok ''calibration_error''"
  "code_ok ''walk_forward_splits''" "code_ok ''out_of_sample_observations''" "code_ok ''pbo''"
  "unit_text_ok ''return''" "unit_text_ok ''ratio''" "unit_text_ok ''count''"
  "code_ok ''candidate''" "code_ok ''overall''" "code_ok ''cash-1.0.0''"
  by code_simp+

lemma performance_metrics_ok:
  assumes "code_ok segment" "decimal_ok (pm_mean_net_return m)" "decimal_ok (pm_net_alpha m)"
    "decimal_ok (pm_max_drawdown m)" "decimal_ok (pm_hit_rate m)" "decimal_ok (pm_mean_turnover m)"
    "decimal_ok (pm_sharpe_ratio m)"
  shows "\<exists>ms. performance_metrics m segment = Success ms \<and>
     map (\<lambda>x. (mt_name x, mt_segment x)) ms = map (\<lambda>n. (n, segment))
       [''mean_net_return'', ''net_alpha'', ''max_drawdown'', ''hit_rate'', ''turnover'', ''sharpe'']"
  using assms by (simp add: performance_metrics_def metric_ok metric_texts del: code_ok.simps unit_text_ok.simps)

lemma steady_decimals:
  "list_all decimal_ok (map (\<lambda>f. f steady_performance)
     [pm_mean_net_return, pm_net_alpha, pm_max_drawdown, pm_hit_rate, pm_mean_turnover, pm_sharpe_ratio])"
  "list_all decimal_ok (map (\<lambda>f. f flat_performance)
     [pm_mean_net_return, pm_net_alpha, pm_max_drawdown, pm_hit_rate, pm_mean_turnover, pm_sharpe_ratio])"
  "decimal_ok (kr_brier_score steady_calibration)"
  "decimal_ok (kr_expected_calibration_error steady_calibration)"
  "decimal_ok (Dec 2 0)" "decimal_ok (Dec 0 0)"
  by code_simp+

lemma steady_report_metrics:
  "\<exists>ms. report_metrics steady_performance [(''cash/1.0.0'', flat_performance)] steady_calibration None 2 = Success ms \<and>
     length ms = 17 \<and> distinct (map (\<lambda>x. (mt_name x, mt_segment x)) ms)"
proof -
  obtain own where own: "performance_metrics steady_performance ''candidate'' = Success own"
      "map (\<lambda>x. (mt_name x, mt_segment x)) own = map (\<lambda>n. (n, ''candidate''))
         [''mean_net_return'', ''net_alpha'', ''max_drawdown'', ''hit_rate'', ''turnover'', ''sharpe'']"
    using performance_metrics_ok [of "''candidate''" steady_performance] steady_decimals metric_texts by auto
  obtain others where others: "performance_metrics flat_performance ''cash-1.0.0'' = Success others"
      "map (\<lambda>x. (mt_name x, mt_segment x)) others = map (\<lambda>n. (n, ''cash-1.0.0''))
         [''mean_net_return'', ''net_alpha'', ''max_drawdown'', ''hit_rate'', ''turnover'', ''sharpe'']"
    using performance_metrics_ok [of "''cash-1.0.0''" flat_performance] steady_decimals metric_texts by auto
  have "length own = 6" "length others = 6"
    using arg_cong [OF own(2), of length] arg_cong [OF others(2), of length] by simp_all
  moreover have "pm_observation_count steady_performance = 2"
    by (simp add: steady_performance_def)
  ultimately show ?thesis
    by (simp add: report_metrics_def own others metric_ok metric_texts steady_decimals
        del: code_ok.simps unit_text_ok.simps)
qed

lemma steady_out_of_sample:
  "build_purged_walk_forward_splits steady_dataset sample_eval_policy =
     Success (map (nth_split (ds_observations steady_dataset) sample_eval_policy 4) [0, 1])"
  "out_of_sample steady_dataset [flat_baseline]
     (map (nth_split (ds_observations steady_dataset) sample_eval_policy 4) [0, 1]) = (steady_oos, [oos_baseline])"
proof -
  show "build_purged_walk_forward_splits steady_dataset sample_eval_policy =
     Success (map (nth_split (ds_observations steady_dataset) sample_eval_policy 4) [0, 1])"
    unfolding build_splits_closed [OF sample_eval_policy_valid]
    by (simp add: sample_eval_policy_def steady_dataset_def split_gap_def split_count_def upt_rec)
  have "selected_indices (ds_observations steady_dataset)
      (map (nth_split (ds_observations steady_dataset) sample_eval_policy 4) [0, 1]) = [4, 6]"
    by code_simp
  then show "out_of_sample steady_dataset [flat_baseline]
     (map (nth_split (ds_observations steady_dataset) sample_eval_policy 4) [0, 1]) = (steady_oos, [oos_baseline])"
    by (simp add: out_of_sample_def steady_dataset_def steady_oos_def oos_baseline_def flat_baseline_def)
qed

lemma steady_bound:
  "binding_valid sample_hashing steady_request steady_dataset [flat_baseline] sample_eval_policy 2000"
  by (simp add: binding_valid_def eval_policy_hash_def steady_request_def steady_dataset_def sample_dataset_def
      sample_eval_policy_def flat_baseline_def list_all_iff steady_observation_def sample_observation_def)

lemma steady_audit: "audit_dataset steady_dataset = Success ()"
  unfolding audit_dataset_def audit_observations_iff
  by (simp add: steady_dataset_def sample_dataset_def point_in_time_def list_all_iff steady_observation_def
      sample_observation_def)

lemma report_exists:
  assumes "length ms = 17" "distinct (map (\<lambda>x. (mt_name x, mt_segment x)) ms)"
  shows "\<exists>r. make_evaluation_report
     \<lparr>er_report_id = ''r'', er_strategy_id = ''momentum'', er_strategy_version = ''1.0.0'',
      er_strategy_manifest_hash = replicate 64 CHR ''a'', er_dataset_snapshot_id = ''ds'',
      er_data_hash = replicate 64 CHR ''a'', er_runtime_hash = replicate 64 CHR ''a'',
      er_evaluation_policy_hash = replicate 64 CHR ''a'', er_as_of = 1000, er_window_start = 0,
      er_window_end = 900, er_checks = steady_checks, er_metrics = ms, er_calibration = CALIBRATED,
      er_baseline_ids = [''cash/1.0.0''],
      er_report_artifact_ref = ''sha256:'' @ replicate 64 CHR ''a'',
      er_valid_until = 2592000002000, er_created_at = 2000, er_passed = True\<rparr> = Success r"
proof -
  have "code_ok ''momentum''" "version_ok ''1.0.0''" "artifact_ref_ok (''sha256:'' @ replicate 64 CHR ''a'')"
    "distinct (map ek_kind steady_checks)" "length steady_checks = 9" "\<not> blank ''cash/1.0.0''"
    "list_all (\<lambda>k. k \<in> ek_kind ` set steady_checks) MANDATORY_EVALUATION_CHECKS"
    "list_all (\<lambda>c. ek_status c = CHECK_PASSED) steady_checks"
    by code_simp+
  moreover have "ms \<noteq> []"
    using assms by auto
  ultimately show ?thesis
    using assms
    by (auto simp: make_evaluation_report_def require_def evaluation_fields_ok_def normalize_checks_def
        normalize_metrics_def normalize_baselines_def validate_report_integrity_def required_passed_def
        list_all_iff res_simps simp del: code_ok.simps)
qed

lemma steady_report:
  "\<exists>r. evaluate_for_promotion sample_hashing steady_request steady_dataset [flat_baseline] sample_eval_policy
     ''r'' (''sha256:'' @ replicate 64 CHR ''a'') 2000 = Success r"
proof -
  obtain ms where ms: "report_metrics steady_performance [(''cash/1.0.0'', flat_performance)] steady_calibration None 2 = Success ms"
      "length ms = 17" "distinct (map (\<lambda>x. (mt_name x, mt_segment x)) ms)"
    using steady_report_metrics by blast
  obtain splits where splits: "build_purged_walk_forward_splits steady_dataset sample_eval_policy = Success splits"
      "out_of_sample steady_dataset [flat_baseline] splits = (steady_oos, [oos_baseline])" "length splits = 2"
    using steady_out_of_sample by simp
  have "list_all (\<lambda>c. ek_status c = CHECK_PASSED) steady_checks"
    by code_simp
  moreover have "ep_minimum_observations sample_eval_policy = 2" "ep_report_valid_days sample_eval_policy = 30"
    "length (ds_observations steady_oos) = 2"
    by (simp_all add: sample_eval_policy_def steady_oos_def)
  moreover have "sc_target steady_scores = steady_performance"
    "sc_baselines steady_scores = [(''cash/1.0.0'', flat_performance)]" "sc_pbo steady_scores = None"
    "sc_calibration steady_scores = steady_calibration" "kr_status steady_calibration = CALIBRATED"
    by (simp_all add: steady_scores_def steady_calibration_def)
  moreover have "mf_strategy_id (eq_manifest steady_request) = ''momentum''"
    "mf_strategy_version (eq_manifest steady_request) = ''1.0.0''"
    "mf_runtime_hash (eq_manifest steady_request) = replicate 64 CHR ''a''"
    "eq_dataset_snapshot_id steady_request = ''ds''" "eq_data_hash steady_request = replicate 64 CHR ''a''"
    "eq_as_of steady_request = 1000" "eq_window_start steady_request = 0" "eq_window_end steady_request = 900"
    by (simp_all add: steady_request_def)
  ultimately show ?thesis
    using report_exists [OF ms(2,3)] ms(1) steady_promotion_checks
    by (simp add: evaluate_for_promotion_def steady_bound steady_audit splits steady_score oos_baseline_id
        manifest_hash_def eval_policy_hash_def)
qed

text \<open>The theorems at the report above.\<close>

theorem report_passes_iff_promotable_witness:
  "\<exists>r. evaluate_for_promotion sample_hashing steady_request steady_dataset [flat_baseline] sample_eval_policy
     ''r'' (''sha256:'' @ replicate 64 CHR ''a'') 2000 = Success r \<and>
     er_data_hash r = replicate 64 CHR ''a'' \<and> (er_passed r \<longleftrightarrow> promotable steady_scores sample_eval_policy)"
proof -
  obtain r where r: "evaluate_for_promotion sample_hashing steady_request steady_dataset [flat_baseline]
     sample_eval_policy ''r'' (''sha256:'' @ replicate 64 CHR ''a'') 2000 = Success r"
    using steady_report by blast
  with report_passes_iff_promotable [OF r] steady_score steady_out_of_sample show ?thesis
    by (auto simp: steady_dataset_def sample_dataset_def)
qed

theorem calibration_counts_everything_witness:
  "evaluate_calibration steady_oos sample_eval_policy = Success steady_calibration \<and>
   sum_list (map kb_count (kr_buckets steady_calibration)) = 2"
proof -
  have "decimal_ok (Dec 1 (- 2))" "decimal_ok 0" "unit_ok (Dec 9 (- 1))" "non_negative_ok (Dec 1 (- 1))"
    "\<not> Dec 1 (- 2) < Dec (- 1) 0" "\<not> 0 < Dec (- 1) 0"
    by code_simp+
  then have "\<forall>x \<in> set (ds_observations steady_oos). validate_observation x = Success x"
    by (simp add: steady_oos_def validate_observation_def res_simps steady_observation_def sample_observation_def)
  moreover have "length (ds_observations steady_oos) = 2"
    by (simp add: steady_oos_def)
  ultimately show ?thesis
    using calibration_counts_everything [OF steady_calibrates sample_eval_policy_valid] steady_calibrates
    by simp
qed

end
