(* ===== verification/Access_Control.thy ===== *)
theory Access_Control
  imports Contracts
begin

text \<open>
  \<^verbatim>\<open>domain/auth.py\<close>: who may do what on which resource. Humans act through roles, services through
  one identity with a closed set of permissions and resource kinds. The frozen sets of the source are
  lists here, of which only membership is used.
\<close>

section \<open>Vocabulary\<close>

datatype role = VIEWER | RESEARCHER | STRATEGY_REVIEWER | PAPER_OPERATOR | ADMIN

datatype permission =
    READ
  | RUN_RESEARCH
  | REVIEW_STRATEGY
  | OPERATE_PAPER
  | ADMINISTER
  | READ_ASSIGNED_ARTIFACT
  | COMPLETE_ASSIGNED_RESEARCH
  | EXECUTE_ASSIGNED_PAPER
  | DISPATCH_ASSIGNED_RESEARCH
  | DISPATCH_ASSIGNED_BACKTEST
  | DISPATCH_ASSIGNED_MARKET_DATA
  | PREFLIGHT_ASSIGNED_RESEARCH

datatype principal_kind = HUMAN | SERVICE

datatype service_identity = CORE_RUNNER | RESEARCH_WORKER | PAPER_EXECUTOR

datatype resource_kind =
    ACCOUNT_RES
  | STRATEGY_RES
  | EVALUATION_RES
  | RESEARCH_RUN_RES
  | REPORT_RES
  | SNAPSHOT_RES
  | INSTRUMENT_RES
  | MARKET_RES
  | PAPER_GLOBAL_RES
  | ARTIFACT_RES
  | JOB_RES
  | BACKTEST_JOB_RES

record access_target =
  at_kind :: resource_kind
  at_identifier :: string

definition alnum_char :: "char \<Rightarrow> bool" where
  "alnum_char c \<longleftrightarrow>
     (CHR ''a'' \<le> c \<and> c \<le> CHR ''z'') \<or> (CHR ''A'' \<le> c \<and> c \<le> CHR ''Z'') \<or> (CHR ''0'' \<le> c \<and> c \<le> CHR ''9'')"

text \<open>The patterns \<^verbatim>\<open>^[A-Za-z0-9][A-Za-z0-9_.:@/+-]{0,255}$\<close> and \<^verbatim>\<open>^[A-Za-z0-9][A-Za-z0-9_.:@/+=-]{0,254}$\<close>.\<close>

fun name_text :: "string \<Rightarrow> nat \<Rightarrow> string \<Rightarrow> bool" where
  "name_text extra n [] = False"
| "name_text extra n (c # cs) =
     (alnum_char c \<and> length cs \<le> n \<and> list_all (\<lambda>x. alnum_char x \<or> x \<in> set extra) cs)"

definition validate_access_target :: "access_target \<Rightarrow> access_target result" where
  "validate_access_target t = check_all [(name_text ''_.:@/+-'' 255 (at_identifier t), ''field'')] t"

record principal =
  lp_subject :: string
  lp_principal_kind :: principal_kind
  lp_roles :: "role list"
  lp_service_identity :: "service_identity option"
  lp_targets :: "access_target list"

definition subject_ok :: "string \<Rightarrow> bool" where
  "subject_ok s \<longleftrightarrow> name_text ''_.:@/+=-'' 254 s"

definition validate_principal :: "principal \<Rightarrow> principal result" where
  "validate_principal p =
     bind (require (subject_ok (lp_subject p) \<and> card (set (lp_roles p)) \<le> 5 \<and>
       card (set (lp_targets p)) \<le> 256) ''field'') (\<lambda>_.
     if lp_principal_kind p = HUMAN
     then check_all [(lp_roles p \<noteq> [] \<and> lp_service_identity p = None,
            ''human principals require roles only'')] p
     else check_all [(lp_roles p = [] \<and> lp_service_identity p \<noteq> None,
            ''service principals require one service identity only'')] p)"

record authorization_grant =
  gr_subject :: string
  gr_permission :: permission
  gr_target :: "access_target option"

section \<open>The permission tables\<close>

fun role_permissions :: "role \<Rightarrow> permission list" where
  "role_permissions VIEWER = [READ]"
| "role_permissions RESEARCHER = [READ, RUN_RESEARCH]"
| "role_permissions STRATEGY_REVIEWER = [READ, RUN_RESEARCH, REVIEW_STRATEGY]"
| "role_permissions PAPER_OPERATOR = [READ, OPERATE_PAPER]"
| "role_permissions ADMIN = [READ, RUN_RESEARCH, REVIEW_STRATEGY, OPERATE_PAPER, ADMINISTER]"

fun service_permissions :: "service_identity \<Rightarrow> permission list" where
  "service_permissions CORE_RUNNER =
     [DISPATCH_ASSIGNED_RESEARCH, DISPATCH_ASSIGNED_BACKTEST, DISPATCH_ASSIGNED_MARKET_DATA,
      PREFLIGHT_ASSIGNED_RESEARCH]"
| "service_permissions RESEARCH_WORKER = [READ_ASSIGNED_ARTIFACT, COMPLETE_ASSIGNED_RESEARCH]"
| "service_permissions PAPER_EXECUTOR = [EXECUTE_ASSIGNED_PAPER]"

fun service_target_kinds :: "permission \<Rightarrow> resource_kind list" where
  "service_target_kinds READ_ASSIGNED_ARTIFACT = [ARTIFACT_RES]"
| "service_target_kinds COMPLETE_ASSIGNED_RESEARCH = [JOB_RES, RESEARCH_RUN_RES]"
| "service_target_kinds EXECUTE_ASSIGNED_PAPER = [ACCOUNT_RES]"
| "service_target_kinds DISPATCH_ASSIGNED_RESEARCH = [JOB_RES]"
| "service_target_kinds DISPATCH_ASSIGNED_BACKTEST = [BACKTEST_JOB_RES]"
| "service_target_kinds DISPATCH_ASSIGNED_MARKET_DATA = [MARKET_RES]"
| "service_target_kinds PREFLIGHT_ASSIGNED_RESEARCH = [JOB_RES]"
| "service_target_kinds p = []"

section \<open>Authorization\<close>

definition authorize :: "principal \<Rightarrow> permission \<Rightarrow> authorization_grant result" where
  "authorize p permission =
     (let granted =
        (if lp_principal_kind p = HUMAN
         then list_ex (\<lambda>r. permission \<in> set (role_permissions r)) (lp_roles p)
         else (case lp_service_identity p of None \<Rightarrow> False
               | Some i \<Rightarrow> permission \<in> set (service_permissions i))) in
      if \<not> granted then Failure FORBIDDEN ''Permission denied''
      else Success \<lparr>gr_subject = lp_subject p, gr_permission = permission, gr_target = None\<rparr>)"

definition authorize_target ::
  "principal \<Rightarrow> permission \<Rightarrow> access_target \<Rightarrow> authorization_grant result" where
  "authorize_target p permission t =
     bind (authorize p permission) (\<lambda>_.
     if lp_principal_kind p = SERVICE \<and> at_kind t \<notin> set (service_target_kinds permission)
     then Failure FORBIDDEN ''Target access denied''
     else if ADMIN \<in> set (lp_roles p) \<or> t \<in> set (lp_targets p)
     then Success \<lparr>gr_subject = lp_subject p, gr_permission = permission, gr_target = Some t\<rparr>
     else Failure FORBIDDEN ''Target access denied'')"

definition authorize_owned_target ::
  "principal \<Rightarrow> permission \<Rightarrow> access_target \<Rightarrow> string \<Rightarrow> authorization_grant result" where
  "authorize_owned_target p permission t owner =
     bind (authorize p permission) (\<lambda>_.
     if lp_subject p = owner \<or> ADMIN \<in> set (lp_roles p) \<or> t \<in> set (lp_targets p)
     then Success \<lparr>gr_subject = lp_subject p, gr_permission = permission, gr_target = Some t\<rparr>
     else Failure FORBIDDEN ''Resource access denied'')"

section \<open>What the tables allow\<close>

text \<open>The permissions of humans and services are disjoint, and only services have target kinds.\<close>

lemma permissions_separate:
  "p \<in> set (role_permissions r) \<Longrightarrow> service_target_kinds p = [] \<and> p \<notin> set (service_permissions i)"
  by (cases r; cases i) auto

lemma service_targets_closed:
  "p \<in> set (service_permissions i) \<Longrightarrow> service_target_kinds p \<noteq> [] \<and> p \<notin> set (role_permissions r)"
  by (cases r; cases i) auto

lemma authorize_grants:
  "authorize p permission = Success g \<longleftrightarrow>
     g = \<lparr>gr_subject = lp_subject p, gr_permission = permission, gr_target = None\<rparr> \<and>
     (if lp_principal_kind p = HUMAN then \<exists>r \<in> set (lp_roles p). permission \<in> set (role_permissions r)
      else \<exists>i. lp_service_identity p = Some i \<and> permission \<in> set (service_permissions i))"
  by (auto simp: authorize_def Let_def list_ex_iff split: option.splits)

text \<open>
  C38: A target is reached exactly through an assignment or, for humans, through the administrator
  role. Whatever the permission, a service with a valid identity only reaches targets it was
  assigned, of the kinds its permission names, and never one that a human role is for; a human
  never holds a permission of a service; and the grant names the caller, the permission and the
  target.
\<close>

theorem target_access_closed:
  assumes "validate_principal p = Success p"
  shows "authorize_target p permission t = Success g \<longleftrightarrow>
     g = \<lparr>gr_subject = lp_subject p, gr_permission = permission, gr_target = Some t\<rparr> \<and>
     (case lp_service_identity p of
        Some i \<Rightarrow> permission \<in> set (service_permissions i) \<and> t \<in> set (lp_targets p) \<and>
          at_kind t \<in> set (service_target_kinds permission) \<and>
          list_all (\<lambda>r. permission \<notin> set (role_permissions r))
            [VIEWER, RESEARCHER, STRATEGY_REVIEWER, PAPER_OPERATOR, ADMIN]
      | None \<Rightarrow> service_target_kinds permission = [] \<and>
          (\<exists>r \<in> set (lp_roles p). permission \<in> set (role_permissions r)) \<and>
          (ADMIN \<in> set (lp_roles p) \<or> t \<in> set (lp_targets p)))"
proof (cases "lp_principal_kind p")
  case HUMAN
  then have "lp_service_identity p = None"
    using assms by (auto simp: validate_principal_def require_def res_simps split: if_splits)
  then show ?thesis
    using HUMAN permissions_separate [of permission]
    by (auto simp: authorize_target_def bind_Success_iff authorize_grants)
next
  case SERVICE
  then obtain i where "lp_service_identity p = Some i" "lp_roles p = []"
    using assms by (auto simp: validate_principal_def require_def res_simps split: if_splits)
  then show ?thesis
    using SERVICE service_targets_closed [of permission i]
    by (auto simp: authorize_target_def bind_Success_iff authorize_grants)
qed

theorem target_access_closed_witness:
  "\<exists>g. authorize_target
     \<lparr>lp_subject = ''svc'', lp_principal_kind = SERVICE, lp_roles = [],
      lp_service_identity = Some PAPER_EXECUTOR,
      lp_targets = [\<lparr>at_kind = ACCOUNT_RES, at_identifier = ''acct''\<rparr>]\<rparr>
     EXECUTE_ASSIGNED_PAPER \<lparr>at_kind = ACCOUNT_RES, at_identifier = ''acct''\<rparr> = Success g"
proof -
  let ?p = "\<lparr>lp_subject = ''svc'', lp_principal_kind = SERVICE, lp_roles = [],
      lp_service_identity = Some PAPER_EXECUTOR,
      lp_targets = [\<lparr>at_kind = ACCOUNT_RES, at_identifier = ''acct''\<rparr>]\<rparr>"
  have "subject_ok ''svc''"
    by code_simp
  then have "validate_principal ?p = Success ?p"
    by (simp add: validate_principal_def require_def check_all.simps)
  from target_access_closed [OF this] show ?thesis
    by simp
qed

end
