(* ===== verification/Operational_Budget.thy ===== *)
theory Operational_Budget
  imports Contracts Decimal_Rounding
begin

text \<open>
  \<^verbatim>\<open>domain/operational_budget.py\<close> and the evaluator of \<^verbatim>\<open>application/operational_budget.py\<close>: cost and
  latency budgets with a soft and a hard limit each. Missing or malformed usage fails, and a decision
  never improves on the outcome before it.
\<close>

section \<open>Policies, usage and decisions\<close>

datatype budget_scope = RESEARCH_BUDGET | PAPER_CYCLE_BUDGET

datatype budget_dimension = COST | LATENCY

datatype budget_status = WITHIN | DEGRADED | BUDGET_FAILED

datatype budget_reason = WITHIN_BUDGET | THRESHOLD_EXCEEDED | USAGE_MISSING | USAGE_INVALID

definition MAX_COST_USD :: dec where
  "MAX_COST_USD = Dec 1000000 0"

definition MAX_ELAPSED_SECONDS :: dec where
  "MAX_ELAPSED_SECONDS = Dec 86400 0"

definition MAX_MONOTONIC_SECONDS :: dec where
  "MAX_MONOTONIC_SECONDS = Dec 1000000000000 0"

record budget_threshold =
  bh_action :: budget_status
  bh_max_cost_usd :: dec
  bh_max_elapsed_seconds :: dec

definition validate_threshold :: "budget_threshold \<Rightarrow> budget_threshold result" where
  "validate_threshold t = check_all
     [(positive_ok (bh_max_cost_usd t) \<and> positive_ok (bh_max_elapsed_seconds t), ''field''),
      (bh_action t \<noteq> WITHIN, ''budget threshold action must be degraded or failed''),
      (\<not> bh_max_cost_usd t > MAX_COST_USD, ''budget cost threshold exceeds supported bound''),
      (\<not> bh_max_elapsed_seconds t > MAX_ELAPSED_SECONDS,
       ''budget elapsed threshold exceeds supported bound'')] t"

record budget_policy =
  bp_scope :: budget_scope
  bp_degraded :: budget_threshold
  bp_failed :: budget_threshold

definition validate_budget_policy :: "budget_policy \<Rightarrow> budget_policy result" where
  "validate_budget_policy p = check_all
     [(bh_action (bp_degraded p) = DEGRADED, ''soft budget action must be degraded''),
      (bh_action (bp_failed p) = BUDGET_FAILED, ''hard budget action must be failed''),
      (\<not> (bh_max_cost_usd (bp_failed p) \<le> bh_max_cost_usd (bp_degraded p) \<or>
          bh_max_elapsed_seconds (bp_failed p) \<le> bh_max_elapsed_seconds (bp_degraded p)),
       ''hard budget thresholds must exceed soft thresholds'')] p"

record budget_usage =
  bu_cost_usd :: dec
  bu_monotonic_started_seconds :: dec
  bu_monotonic_observed_seconds :: dec

definition validate_budget_usage :: "budget_usage \<Rightarrow> budget_usage result" where
  "validate_budget_usage u = check_all
     [(non_negative_ok (bu_cost_usd u) \<and> bu_cost_usd u \<le> MAX_COST_USD \<and>
       non_negative_ok (bu_monotonic_started_seconds u) \<and>
       bu_monotonic_started_seconds u \<le> MAX_MONOTONIC_SECONDS \<and>
       non_negative_ok (bu_monotonic_observed_seconds u) \<and>
       bu_monotonic_observed_seconds u \<le> MAX_MONOTONIC_SECONDS, ''field''),
      (\<not> bu_monotonic_observed_seconds u < bu_monotonic_started_seconds u,
       ''monotonic observation cannot precede its start'')] u"

definition elapsed_seconds :: "budget_usage \<Rightarrow> dec" where
  "elapsed_seconds u = bu_monotonic_observed_seconds u - bu_monotonic_started_seconds u"

record budget_violation =
  bv_dimension :: budget_dimension
  bv_action :: budget_status
  bv_threshold :: dec
  bv_observed :: dec

definition validate_violation :: "budget_violation \<Rightarrow> budget_violation result" where
  "validate_violation v = check_all
     [(positive_ok (bv_threshold v) \<and> non_negative_ok (bv_observed v), ''field''),
      (\<not> (bv_action v = WITHIN \<or> bv_observed v \<le> bv_threshold v),
       ''budget violation must exceed an actionable threshold'')] v"

fun severity :: "budget_status \<Rightarrow> nat" where
  "severity WITHIN = 0"
| "severity DEGRADED = 1"
| "severity BUDGET_FAILED = 2"

text \<open>\<^verbatim>\<open>max(statuses, key=_SEVERITY.__getitem__)\<close> of a non-empty tuple.\<close>

definition strongest :: "budget_status list \<Rightarrow> budget_status" where
  "strongest xs = fold (\<lambda>x m. if severity m < severity x then x else m) (tl xs) (hd xs)"

record budget_decision =
  bd_scope :: budget_scope
  bd_status :: budget_status
  bd_evaluated_status :: budget_status
  bd_previous_status :: budget_status
  bd_reason :: budget_reason
  bd_usage :: "budget_usage option"
  bd_violations :: "budget_violation list"

definition evaluated_of :: "budget_violation list \<Rightarrow> budget_status" where
  "evaluated_of vs = strongest (if vs = [] then [WITHIN] else map bv_action vs)"

definition reason_of :: "budget_violation list \<Rightarrow> budget_reason" where
  "reason_of vs = (if vs \<noteq> [] then THRESHOLD_EXCEEDED else WITHIN_BUDGET)"

definition validate_budget_decision :: "budget_decision \<Rightarrow> budget_decision result" where
  "validate_budget_decision d =
     bind (require (length (bd_violations d) \<le> 2) ''field'') (\<lambda>_.
     bind (require (bd_status d = strongest [bd_previous_status d, bd_evaluated_status d])
       ''budget status must preserve the strongest outcome'') (\<lambda>_.
     case bd_usage d of
       None \<Rightarrow> check_all
         [(\<not> (bd_evaluated_status d \<noteq> BUDGET_FAILED \<or> bd_violations d \<noteq> [] \<or>
              bd_reason d \<notin> {USAGE_MISSING, USAGE_INVALID}),
           ''invalid usage must produce a closed failed outcome'')] d
     | Some u \<Rightarrow> check_all
         [(distinct (map bv_dimension (bd_violations d)), ''budget violation dimensions must be unique''),
          (bd_evaluated_status d = evaluated_of (bd_violations d) \<and>
           bd_reason d = reason_of (bd_violations d),
           ''budget decision does not match its violations'')] d))"

section \<open>Evaluation\<close>

text \<open>
  The usage snapshot is an arbitrary object: \<^verbatim>\<open>None\<close>, something the usage model cannot read, or
  readable field values.
\<close>

datatype usage_snapshot = NO_USAGE | UNREADABLE | READABLE budget_usage

fun validated_usage :: "usage_snapshot \<Rightarrow> budget_usage option \<times> budget_reason" where
  "validated_usage NO_USAGE = (None, USAGE_MISSING)"
| "validated_usage UNREADABLE = (None, USAGE_INVALID)"
| "validated_usage (READABLE u) =
     (case validate_budget_usage u of
        Success v \<Rightarrow> (Some v, WITHIN_BUDGET)
      | _ \<Rightarrow> (None, USAGE_INVALID))"

definition invalid_usage_decision ::
  "budget_policy \<Rightarrow> budget_status \<Rightarrow> budget_reason \<Rightarrow> budget_decision result" where
  "invalid_usage_decision p previous reason = validate_budget_decision
     \<lparr>bd_scope = bp_scope p, bd_status = BUDGET_FAILED, bd_evaluated_status = BUDGET_FAILED,
      bd_previous_status = previous, bd_reason = reason, bd_usage = None, bd_violations = []\<rparr>"

definition violation ::
  "budget_dimension \<Rightarrow> dec \<Rightarrow> dec \<Rightarrow> dec \<Rightarrow> budget_violation option result" where
  "violation dimension observed soft hard =
     (let v = (\<lambda>action threshold. bind (validate_violation
            \<lparr>bv_dimension = dimension, bv_action = action, bv_threshold = threshold,
             bv_observed = observed\<rparr>) (\<lambda>x. Success (Some x))) in
      if observed > hard then v BUDGET_FAILED hard
      else if observed > soft then v DEGRADED soft
      else Success None)"

definition violations :: "budget_policy \<Rightarrow> budget_usage \<Rightarrow> budget_violation list result" where
  "violations p u =
     bind (run_all (\<lambda>(dimension, observed, soft, hard). violation dimension observed soft hard)
       [(COST, bu_cost_usd u, bh_max_cost_usd (bp_degraded p), bh_max_cost_usd (bp_failed p)),
        (LATENCY, elapsed_seconds u, bh_max_elapsed_seconds (bp_degraded p),
         bh_max_elapsed_seconds (bp_failed p))]) (\<lambda>vs. Success (List.map_filter (\<lambda>v. v) vs))"

definition evaluate_budget ::
  "budget_policy \<Rightarrow> usage_snapshot \<Rightarrow> budget_status \<Rightarrow> budget_decision result" where
  "evaluate_budget p snapshot previous =
     (case validated_usage snapshot of
        (None, reason) \<Rightarrow> invalid_usage_decision p previous reason
      | (Some u, reason) \<Rightarrow>
          bind (violations p u) (\<lambda>vs.
          validate_budget_decision
            \<lparr>bd_scope = bp_scope p, bd_status = strongest [previous, evaluated_of vs],
             bd_evaluated_status = evaluated_of vs, bd_previous_status = previous,
             bd_reason = reason_of vs, bd_usage = Some u, bd_violations = vs\<rparr>))"

text \<open>
  The evaluator turns an exception of the usage port into missing usage. Recording the decision in the
  metrics does not change it.
\<close>

definition evaluate_scope ::
  "(budget_scope \<Rightarrow> budget_policy) \<Rightarrow> (budget_scope \<Rightarrow> usage_snapshot result) \<Rightarrow> budget_scope \<Rightarrow>
   budget_status \<Rightarrow> budget_decision result" where
  "evaluate_scope catalog port scope previous =
     evaluate_budget (catalog scope)
       (case port scope of Success u \<Rightarrow> u | Failure c m \<Rightarrow> UNREADABLE | Raised e \<Rightarrow> NO_USAGE) previous"

section \<open>Budgets fail closed\<close>

lemma strongest_pair: "strongest [a, b] = (if severity a < severity b then b else a)"
  by (simp add: strongest_def)

lemma severity_strongest: "severity (strongest [a, b]) = max (severity a) (severity b)"
  by (simp add: strongest_pair)

lemma elapsed_ok:
  assumes "validate_budget_usage u = Success u"
  shows "non_negative_ok (elapsed_seconds u)"
proof -
  let ?a = "bu_monotonic_observed_seconds u" and ?b = "bu_monotonic_started_seconds u"
  have a: "decimal_ok ?a" "decimal_ok ?b" "0 \<le> val ?b" "val ?b \<le> val ?a" "val ?a \<le> 10 ^ 12"
    using assms
    by (auto simp: validate_budget_usage_def res_simps non_negative_ok_def dec_le_iff dec_less_iff
        MAX_MONOTONIC_SECONDS_def val_Dec)
  have "rnd (10 ^ 12) = 10 ^ 12"
    by (rule rnd_exact [of 0]) (auto simp: fits_def intro!: exI [of _ "10 ^ 12"])
  then have bound: "0 \<le> val (?a - ?b)" "val (?a - ?b) \<le> 10 ^ 12"
    using a rnd_mono [of "val ?a - val ?b" "10 ^ 12"] by (simp_all add: val_minus)
  have "decimal_ok (?a - ?b)"
    unfolding minus_dec_def Let_def
  proof (rule decimal_ok_dround [where a = "Dec (10 ^ 12) 0"])
    show "decimal_ok (Dec (10 ^ 12) 0)"
      by code_simp
  qed (use a bound in \<open>auto simp: decimal_ok_def min_def abs_le_iff val_Dec minus_dec_def Let_def\<close>)
  with bound show ?thesis
    by (simp add: elapsed_seconds_def non_negative_ok_def dec_less_iff)
qed

lemma violation_ok:
  assumes "non_negative_ok x" "positive_ok soft" "positive_ok hard" "\<not> hard \<le> soft"
  shows "violation k x soft hard = Success
    (if x > hard then Some \<lparr>bv_dimension = k, bv_action = BUDGET_FAILED, bv_threshold = hard, bv_observed = x\<rparr>
     else if x > soft then Some \<lparr>bv_dimension = k, bv_action = DEGRADED, bv_threshold = soft, bv_observed = x\<rparr>
     else None)"
  using assms by (auto simp: violation_def validate_violation_def res_simps dec_le_iff dec_less_iff)

text \<open>The status that a usage deserves on its own.\<close>

definition deserved :: "budget_policy \<Rightarrow> budget_usage \<Rightarrow> budget_status" where
  "deserved p u =
     (if bu_cost_usd u > bh_max_cost_usd (bp_failed p) \<or>
         elapsed_seconds u > bh_max_elapsed_seconds (bp_failed p) then BUDGET_FAILED
      else if bu_cost_usd u > bh_max_cost_usd (bp_degraded p) \<or>
         elapsed_seconds u > bh_max_elapsed_seconds (bp_degraded p) then DEGRADED
      else WITHIN)"

lemma violations_ok:
  assumes p: "validate_budget_policy p = Success p" "validate_threshold (bp_degraded p) = Success (bp_degraded p)"
      "validate_threshold (bp_failed p) = Success (bp_failed p)"
    and u: "validate_budget_usage u = Success u"
  shows "\<exists>vs. violations p u = Success vs \<and> distinct (map bv_dimension vs) \<and> length vs \<le> 2 \<and>
    evaluated_of vs = deserved p u"
proof -
  have cost: "violation COST (bu_cost_usd u) (bh_max_cost_usd (bp_degraded p)) (bh_max_cost_usd (bp_failed p)) =
      Success (if bu_cost_usd u > bh_max_cost_usd (bp_failed p)
         then Some \<lparr>bv_dimension = COST, bv_action = BUDGET_FAILED,
           bv_threshold = bh_max_cost_usd (bp_failed p), bv_observed = bu_cost_usd u\<rparr>
         else if bu_cost_usd u > bh_max_cost_usd (bp_degraded p)
         then Some \<lparr>bv_dimension = COST, bv_action = DEGRADED,
           bv_threshold = bh_max_cost_usd (bp_degraded p), bv_observed = bu_cost_usd u\<rparr> else None)"
    using p u by (intro violation_ok)
      (auto simp: validate_budget_usage_def validate_threshold_def validate_budget_policy_def res_simps)
  have latency: "violation LATENCY (elapsed_seconds u) (bh_max_elapsed_seconds (bp_degraded p))
        (bh_max_elapsed_seconds (bp_failed p)) =
      Success (if elapsed_seconds u > bh_max_elapsed_seconds (bp_failed p)
         then Some \<lparr>bv_dimension = LATENCY, bv_action = BUDGET_FAILED,
           bv_threshold = bh_max_elapsed_seconds (bp_failed p), bv_observed = elapsed_seconds u\<rparr>
         else if elapsed_seconds u > bh_max_elapsed_seconds (bp_degraded p)
         then Some \<lparr>bv_dimension = LATENCY, bv_action = DEGRADED,
           bv_threshold = bh_max_elapsed_seconds (bp_degraded p), bv_observed = elapsed_seconds u\<rparr> else None)"
    using p elapsed_ok [OF u] by (intro violation_ok)
      (auto simp: validate_threshold_def validate_budget_policy_def res_simps)
  have "bh_max_cost_usd (bp_degraded p) < bh_max_cost_usd (bp_failed p)"
    "bh_max_elapsed_seconds (bp_degraded p) < bh_max_elapsed_seconds (bp_failed p)"
    using p(1) by (auto simp: validate_budget_policy_def res_simps dec_less_iff dec_le_iff)
  then show ?thesis
    unfolding violations_def run_all.simps case_prod_conv cost latency
    by (auto simp: List.map_filter_def evaluated_of_def strongest_def deserved_def dec_less_iff)
qed

text \<open>
  C39: The budget always decides, and fails closed. With a valid policy every snapshot, readable or
  not, gets a decision; it is \<^verbatim>\<open>failed\<close> for missing or invalid usage and otherwise the stronger of the
  previous outcome and what cost and latency deserve, so that an outcome never gets better.
\<close>

theorem budget_fails_closed:
  assumes "validate_budget_policy p = Success p" "validate_threshold (bp_degraded p) = Success (bp_degraded p)"
    "validate_threshold (bp_failed p) = Success (bp_failed p)"
  shows "\<exists>d. evaluate_budget p snapshot previous = Success d \<and>
     severity (bd_status d) = max (severity previous) (severity (bd_evaluated_status d)) \<and>
     bd_evaluated_status d =
       (case snapshot of
          READABLE u \<Rightarrow> (if is_success (validate_budget_usage u) then deserved p u else BUDGET_FAILED)
        | _ \<Rightarrow> BUDGET_FAILED)"
proof (cases "\<exists>u. snapshot = READABLE u \<and> is_success (validate_budget_usage u)")
  case True
  then obtain u where u: "snapshot = READABLE u" "validate_budget_usage u = Success u"
    by (auto simp: is_success_iff validate_budget_usage_def res_simps)
  from violations_ok [OF assms u(2)] obtain vs where vs: "violations p u = Success vs"
      "distinct (map bv_dimension vs)" "length vs \<le> 2" "evaluated_of vs = deserved p u"
    by blast
  then show ?thesis
    by (simp add: evaluate_budget_def u validate_budget_decision_def require_def check_all.simps
        severity_strongest)
next
  case False
  then have "\<exists>reason \<in> {USAGE_MISSING, USAGE_INVALID}. validated_usage snapshot = (None, reason)"
    by (cases snapshot) (auto split: result.split)
  then obtain reason where "validated_usage snapshot = (None, reason)" "reason \<in> {USAGE_MISSING, USAGE_INVALID}"
    by blast
  moreover have "strongest [previous, BUDGET_FAILED] = BUDGET_FAILED" "severity previous \<le> 2"
    by (cases previous; simp add: strongest_pair)+
  ultimately show ?thesis
    using False
    by (auto simp: evaluate_budget_def invalid_usage_decision_def validate_budget_decision_def require_def
        check_all.simps split: usage_snapshot.splits)
qed

definition sample_budget :: budget_policy where
  "sample_budget =
     \<lparr>bp_scope = PAPER_CYCLE_BUDGET,
      bp_degraded = \<lparr>bh_action = DEGRADED, bh_max_cost_usd = Dec 5 0, bh_max_elapsed_seconds = Dec 60 0\<rparr>,
      bp_failed = \<lparr>bh_action = BUDGET_FAILED, bh_max_cost_usd = Dec 10 0, bh_max_elapsed_seconds = Dec 120 0\<rparr>\<rparr>"

theorem budget_fails_closed_witness:
  "\<exists>d. evaluate_budget sample_budget
       (READABLE \<lparr>bu_cost_usd = Dec 7 0, bu_monotonic_started_seconds = Dec 3 0,
         bu_monotonic_observed_seconds = Dec 10 0\<rparr>) WITHIN = Success d \<and> bd_evaluated_status d = DEGRADED"
proof -
  have "positive_ok (Dec 5 0)" "positive_ok (Dec 60 0)" "positive_ok (Dec 10 0)" "positive_ok (Dec 120 0)"
    "\<not> Dec 5 0 > MAX_COST_USD" "\<not> Dec 10 0 > MAX_COST_USD" "\<not> Dec 60 0 > MAX_ELAPSED_SECONDS"
    "\<not> Dec 120 0 > MAX_ELAPSED_SECONDS" "\<not> Dec 10 0 \<le> Dec 5 0" "\<not> Dec 120 0 \<le> Dec 60 0"
    by code_simp+
  then have p: "validate_budget_policy sample_budget = Success sample_budget"
    "validate_threshold (bp_degraded sample_budget) = Success (bp_degraded sample_budget)"
    "validate_threshold (bp_failed sample_budget) = Success (bp_failed sample_budget)"
    by (simp_all add: sample_budget_def validate_budget_policy_def validate_threshold_def check_all.simps)
  let ?u = "\<lparr>bu_cost_usd = Dec 7 0, bu_monotonic_started_seconds = Dec 3 0, bu_monotonic_observed_seconds = Dec 10 0\<rparr>"
  have "is_success (validate_budget_usage ?u)" "deserved sample_budget ?u = DEGRADED"
    by code_simp+
  then show ?thesis
    using budget_fails_closed [OF p, of "READABLE ?u" WITHIN] by auto
qed

end
