(* ===== verification/Decimal_Text.thy ===== *)
theory Decimal_Text
  imports Canonical_Json
begin

text \<open>
  \<^verbatim>\<open>_parse_decimal\<close> of \<^verbatim>\<open>contracts/common.py\<close>, the reader of every amount on the wire, and how it
  fits the writer \<open>serialize_decimal\<close>. \<^verbatim>\<open>Decimal(text)\<close> is modelled for ASCII texts; the special values
  (infinities and NaNs), which the reader rejects, are rejected with the other malformed texts.
\<close>

section \<open>Reading numbers\<close>

definition digit_byte :: "char \<Rightarrow> bool" where
  "digit_byte c \<longleftrightarrow> 48 \<le> (of_char c :: int) \<and> (of_char c :: int) \<le> 57"

definition space_byte :: "char \<Rightarrow> bool" where
  "space_byte c \<longleftrightarrow> (let n = (of_char c :: int) in (9 \<le> n \<and> n \<le> 13) \<or> (28 \<le> n \<and> n \<le> 32))"

definition strip_text :: "string \<Rightarrow> string" where
  "strip_text s = rev (dropWhile space_byte (rev (dropWhile space_byte s)))"

definition read_sign :: "string \<Rightarrow> int \<times> string" where
  "read_sign s =
     (case s of [] \<Rightarrow> (1, [])
      | c # cs \<Rightarrow> if c = CHR ''-'' then (- 1, cs) else if c = CHR ''+'' then (1, cs) else (1, s))"

definition read_exponent :: "string \<Rightarrow> int option" where
  "read_exponent s =
     (case s of [] \<Rightarrow> Some 0
      | c # cs \<Rightarrow>
          (let (sign, ds) = read_sign cs in
           if (c = CHR ''e'' \<or> c = CHR ''E'') \<and> ds \<noteq> [] \<and> list_all digit_byte ds
           then Some (sign * digits_value ds 0) else None))"

definition decimal_of_text :: "string \<Rightarrow> dec option" where
  "decimal_of_text text =
     (let (sign, s) = read_sign (filter (\<lambda>c. c \<noteq> CHR ''_'') text);
          whole = takeWhile digit_byte s; rest = dropWhile digit_byte s;
          (fraction, tail) =
            (case rest of c # cs \<Rightarrow> if c = CHR ''.'' then (takeWhile digit_byte cs, dropWhile digit_byte cs)
               else ([], rest) | [] \<Rightarrow> ([], rest)) in
      if whole @ fraction = [] then None
      else (case read_exponent tail of None \<Rightarrow> None
        | Some e \<Rightarrow> Some (Dec (sign * digits_value (whole @ fraction) 0) (e - int (length fraction)))))"

definition parse_decimal :: "string \<Rightarrow> dec result" where
  "parse_decimal value =
     (if value = [] \<or> strip_text value \<noteq> value
      then Raised (ValueError ''Decimal string must be non-empty and contain no surrounding whitespace'')
      else (case decimal_of_text value of
          None \<Rightarrow> Raised (ValueError ''Decimal input is invalid'')
        | Some d \<Rightarrow> if decimal_ok d then Success d
            else Raised (ValueError ''Decimal input exceeds supported bounds'')))"

section \<open>Reading what was written\<close>

lemma digit_byte_zero: "digit_byte CHR ''0''"
  by code_simp

lemma dec_digits_bytes: "list_all digit_byte (dec_digits d)"
  using digits_value_show [of "\<bar>coeff d\<bar> * 10 ^ nat (dexp d)"] digits_value_show [of "\<bar>coeff d\<bar>"]
    digit_byte_zero
  by (auto simp: dec_digits_def pad_left_def digit_byte_def list_all_iff)

lemma digit_byte_not:
  "digit_byte c \<Longrightarrow> c \<noteq> CHR ''-'' \<and> c \<noteq> CHR ''+'' \<and> c \<noteq> CHR ''.'' \<and> c \<noteq> CHR ''_'' \<and> \<not> space_byte c"
  by (auto simp: digit_byte_def space_byte_def Let_def)

lemma dec_digits_nonempty: "dec_digits d \<noteq> []"
  using digits_value_show [of "\<bar>coeff d\<bar> * 10 ^ nat (dexp d)"] by (auto simp: dec_digits_def pad_left_def)

text \<open>A text of digits with a point somewhere, or none.\<close>

lemma decimal_of_digits:
  assumes "list_all digit_byte ds" "ds \<noteq> []" "k < length ds"
    and sgn: "sign = [] \<or> sign = ''-''"
  shows "decimal_of_text (sign @ take (length ds - k) ds @ (if k = 0 then [] else CHR ''.'' # drop (length ds - k) ds)) =
     Some (Dec ((if sign = ''-'' then - 1 else 1) * digits_value ds 0) (- int k))"
proof -
  let ?w = "take (length ds - k) ds" and ?f = "drop (length ds - k) ds"
  have w: "\<forall>c \<in> set ?w. digit_byte c" "?w \<noteq> []" and f: "\<forall>c \<in> set ?f. digit_byte c" "length ?f = k"
    using assms by (auto simp: list_all_iff dest: in_set_takeD in_set_dropD)
  have clean: "filter (\<lambda>c. c \<noteq> CHR ''_'') ?w = ?w" "filter (\<lambda>c. c \<noteq> CHR ''_'') ?f = ?f"
    using w f by (auto simp: filter_id_conv dest!: digit_byte_not)
  have point: "\<not> digit_byte CHR ''.''"
    by code_simp
  obtain c cs where c: "?w = c # cs" "digit_byte c"
    using w by (cases ?w) auto
  have split: "takeWhile digit_byte (?w @ CHR ''.'' # ?f) = ?w"
      "dropWhile digit_byte (?w @ CHR ''.'' # ?f) = CHR ''.'' # ?f"
      "takeWhile digit_byte ?w = ?w" "dropWhile digit_byte ?w = []"
      "takeWhile digit_byte ?f = ?f" "dropWhile digit_byte ?f = []"
    using w f point by (simp_all add: takeWhile_append dropWhile_append takeWhile_eq_all_conv dropWhile_eq_Nil_conv)
  have sign: "read_sign (filter (\<lambda>c. c \<noteq> CHR ''_'') (sign @ ?w @ r)) =
      (if sign = ''-'' then - 1 else 1, ?w @ filter (\<lambda>c. c \<noteq> CHR ''_'') r)" for r
    using sgn c(2) digit_byte_not [OF c(2)] clean by (auto simp: read_sign_def c(1))
  show ?thesis
    using w f
    unfolding decimal_of_text_def sign
    by (auto simp: clean split read_exponent_def point simp flip: append_assoc)
qed

lemma dropWhile_hd: "s \<noteq> [] \<Longrightarrow> \<not> p (hd s) \<Longrightarrow> dropWhile p s = s"
  by (cases s) auto

lemma strip_id: "s \<noteq> [] \<Longrightarrow> \<not> space_byte (hd s) \<Longrightarrow> \<not> space_byte (last s) \<Longrightarrow> strip_text s = s"
  by (simp add: strip_text_def dropWhile_hd hd_rev)

lemma dec_places_less: "dec_places d < length (dec_digits d)"
  using dec_digits_nonempty [of d] by (auto simp: dec_digits_def dec_places_def pad_left_def)

lemma serialize_decimal_split:
  "serialize_decimal d = (if coeff d < 0 then ''-'' else []) @
     take (length (dec_digits d) - dec_places d) (dec_digits d) @
     (if dec_places d = 0 then [] else CHR ''.'' # drop (length (dec_digits d) - dec_places d) (dec_digits d))"
  by (auto simp: serialize_decimal_alt dec_body_def dec_places_def Let_def)

lemma serialize_decimal_no_space:
  "serialize_decimal d \<noteq> [] \<and> strip_text (serialize_decimal d) = serialize_decimal d"
proof -
  let ?ds = "dec_digits d" and ?k = "dec_places d"
  have byte: "c \<in> set ?ds \<Longrightarrow> \<not> space_byte c" for c
    using dec_digits_bytes [of d] digit_byte_not by (auto simp: list_all_iff)
  have ds: "take (length ?ds - ?k) ?ds \<noteq> []" "?k \<noteq> 0 \<Longrightarrow> drop (length ?ds - ?k) ?ds \<noteq> []"
    using dec_places_less [of d] by auto
  have "\<not> space_byte CHR ''-''"
    by code_simp
  moreover have "\<not> space_byte (hd (take (length ?ds - ?k) ?ds))"
    using ds(1) byte by (meson hd_in_set in_set_takeD)
  moreover have "\<not> space_byte (last (serialize_decimal d))"
    using ds byte unfolding serialize_decimal_split
    by (cases "?k = 0") (auto dest!: last_in_set dest: in_set_takeD in_set_dropD)
  ultimately have "\<not> space_byte (hd (serialize_decimal d))" "serialize_decimal d \<noteq> []"
    using ds(1) by (auto simp: serialize_decimal_split)
  with \<open>\<not> space_byte (last (serialize_decimal d))\<close> show ?thesis
    by (simp add: strip_id)
qed

lemma decimal_of_serialized:
  "decimal_of_text (serialize_decimal d) =
     Some (if dexp d \<le> 0 then d else Dec (coeff d * 10 ^ nat (dexp d)) 0)"
proof -
  have "digits_value (dec_digits d) 0 = \<bar>coeff d\<bar> * 10 ^ nat (dexp d)"
    using digits_value_show [of "\<bar>coeff d\<bar> * 10 ^ nat (dexp d)"] digits_value_pad [of "\<bar>coeff d\<bar>"]
    by (simp add: dec_digits_def)
  then have "decimal_of_text (serialize_decimal d) =
      Some (Dec ((if coeff d < 0 then - 1 else 1) * (\<bar>coeff d\<bar> * 10 ^ nat (dexp d))) (- int (dec_places d)))"
    unfolding serialize_decimal_split
    using decimal_of_digits [OF dec_digits_bytes dec_digits_nonempty dec_places_less, of "if coeff d < 0 then ''-'' else []" d]
    by simp
  then show ?thesis
    by (cases d) (auto simp: dec_places_def)
qed

text \<open>
  C40: An amount survives the wire unless it has more than 64 digits before the point. Reading the
  text of a valid amount gives the amount back, digit for digit when it has no positive exponent;
  one with a positive exponent comes back with the exponent multiplied out, so that a valid amount
  of \<^verbatim>\<open>10 ** 64\<close> or more, whose text is too long, is the one kind that is refused.
\<close>

theorem decimal_wire_roundtrip:
  assumes "decimal_ok d"
  shows "parse_decimal (serialize_decimal d) =
     (if dexp d \<le> 0 then Success d
      else if \<bar>val d\<bar> < 10 ^ 64 then Success (Dec (coeff d * 10 ^ nat (dexp d)) 0)
      else Raised (ValueError ''Decimal input exceeds supported bounds''))"
proof (cases "dexp d \<le> 0")
  case True
  then show ?thesis
    using assms by (simp add: parse_decimal_def serialize_decimal_no_space decimal_of_serialized)
next
  case False
  let ?n = "coeff d * 10 ^ nat (dexp d)"
  have v: "\<bar>val d\<bar> = of_int \<bar>?n\<bar>"
    using False by (simp add: val_def abs_mult pten_nonneg_exp)
  have "ndigits \<bar>?n\<bar> \<le> 64 \<longleftrightarrow> \<bar>?n\<bar> < 10 ^ 64"
  proof
    assume "ndigits \<bar>?n\<bar> \<le> 64"
    then have "(10 :: int) ^ ndigits \<bar>?n\<bar> \<le> 10 ^ 64"
      by (rule power_increasing) simp
    then show "\<bar>?n\<bar> < 10 ^ 64"
      using ndigits_bounds [of "\<bar>?n\<bar>"] by (cases "?n = 0") auto
  qed (auto intro: ndigits_le)
  moreover have "0 < ndigits \<bar>?n\<bar>"
    by (simp add: ndigits.simps)
  moreover have "(of_int \<bar>?n\<bar> :: rat) < 10 ^ 64 \<longleftrightarrow> \<bar>?n\<bar> < 10 ^ 64"
    by (metis of_int_less_iff of_int_numeral of_int_power)
  ultimately show ?thesis
    using False
    by (auto simp: parse_decimal_def serialize_decimal_no_space decimal_of_serialized decimal_ok_def v)
qed

theorem decimal_wire_roundtrip_witness:
  "parse_decimal (serialize_decimal (Dec (- 1250) (- 3))) = Success (Dec (- 1250) (- 3)) \<and>
   parse_decimal (serialize_decimal (Dec 1 64)) =
     Raised (ValueError ''Decimal input exceeds supported bounds'')"
proof -
  have ok: "decimal_ok (Dec (- 1250) (- 3))" "decimal_ok (Dec 1 64)"
    by code_simp+
  have "\<not> \<bar>val (Dec 1 64)\<bar> < 10 ^ 64"
    by (simp add: val_def pten_nonneg_exp)
  then show ?thesis
    using decimal_wire_roundtrip [OF ok(1)] decimal_wire_roundtrip [OF ok(2)] by simp
qed

end
