(* ===== verification/Paper_Cycle.thy ===== *)
theory Paper_Cycle
  imports Hash_Chain Access_Control
begin

text \<open>
  \<^verbatim>\<open>domain/paper_cycle.py\<close>, with the job lease of \<^verbatim>\<open>domain/job.py\<close>: the nine stages of a paper fund
  cycle, the references a stage may produce, the checkpoint state with its hash, the frozen input and
  the command that binds the input to a leased job. The trace carrier of a lease is not modelled;
  the input is given as a value, not restored from the payload.
\<close>

section \<open>Stages and references\<close>

datatype cycle_stage =
    EVIDENCE
  | RESEARCH_OPINION
  | SIGNAL
  | PORTFOLIO_TARGET
  | RISK_DECISION
  | ORDER_INTENT
  | EXECUTION_RECEIPT
  | LEDGER
  | REPORT

fun stage_value :: "cycle_stage \<Rightarrow> string" where
  "stage_value EVIDENCE = ''evidence''"
| "stage_value RESEARCH_OPINION = ''research_opinion''"
| "stage_value SIGNAL = ''signal''"
| "stage_value PORTFOLIO_TARGET = ''portfolio_target''"
| "stage_value RISK_DECISION = ''risk_decision''"
| "stage_value ORDER_INTENT = ''order_intent''"
| "stage_value EXECUTION_RECEIPT = ''execution_receipt''"
| "stage_value LEDGER = ''ledger''"
| "stage_value REPORT = ''report''"

text \<open>\<^verbatim>\<open>tuple(PaperCycleStage)\<close>.\<close>

definition CYCLE_STAGES :: "cycle_stage list" where
  "CYCLE_STAGES =
     [EVIDENCE, RESEARCH_OPINION, SIGNAL, PORTFOLIO_TARGET, RISK_DECISION, ORDER_INTENT,
      EXECUTION_RECEIPT, LEDGER, REPORT]"

record cycle_reference =
  cr_ref_type :: string
  cr_ref_id :: string
  cr_content_hash :: hash

definition validate_cycle_reference :: "cycle_reference \<Rightarrow> cycle_reference result" where
  "validate_cycle_reference r = check_all
     [(nonempty_ok (cr_ref_type r) \<and> nonempty_ok (cr_ref_id r) \<and> sha256_ok (cr_content_hash r), ''field'')] r"

text \<open>The allowed and the required reference types of a stage.\<close>

fun reference_rules :: "cycle_stage \<Rightarrow> string list \<times> string list" where
  "reference_rules EVIDENCE = ([''evidence''], [''evidence''])"
| "reference_rules RESEARCH_OPINION = ([''research_artifact'', ''agent_opinion''], [''research_artifact''])"
| "reference_rules SIGNAL = ([''alpha_signal''], [''alpha_signal''])"
| "reference_rules PORTFOLIO_TARGET = ([''portfolio_target''], [''portfolio_target''])"
| "reference_rules RISK_DECISION = ([''risk_decision''], [''risk_decision''])"
| "reference_rules ORDER_INTENT = ([''order_intent''], [])"
| "reference_rules EXECUTION_RECEIPT = ([''execution_receipt''], [])"
| "reference_rules LEDGER = ([''ledger_projection''], [''ledger_projection''])"
| "reference_rules REPORT = ([''analysis_report''], [''analysis_report''])"

definition SINGLE_REFERENCE_STAGES :: "cycle_stage list" where
  "SINGLE_REFERENCE_STAGES = [PORTFOLIO_TARGET, RISK_DECISION, LEDGER, REPORT]"

section \<open>Stage outputs\<close>

record stage_output =
  so_stage :: cycle_stage
  so_references :: "cycle_reference list"
  so_output_hash :: hash

definition reference_json :: "cycle_reference \<Rightarrow> json" where
  "reference_json r = JObj
     [(''ref_type'', JStr (cr_ref_type r)), (''ref_id'', JStr (cr_ref_id r)),
      (''content_hash'', JStr (cr_content_hash r))]"

definition output_fields :: "cycle_stage \<Rightarrow> cycle_reference list \<Rightarrow> (string \<times> json) list" where
  "output_fields stage refs =
     [(''stage'', JStr (stage_value stage)), (''references'', JList (map reference_json refs))]"

definition expected_output_hash :: "hashing \<Rightarrow> stage_output \<Rightarrow> hash" where
  "expected_output_hash H x = stable_payload_hash H (JObj (output_fields (so_stage x) (so_references x)))"

definition reference_key :: "cycle_reference \<Rightarrow> string \<times> string" where
  "reference_key r = (cr_ref_type r, cr_ref_id r)"

definition validate_stage_output :: "hashing \<Rightarrow> stage_output \<Rightarrow> stage_output result" where
  "validate_stage_output H x =
     (let keys = map reference_key (so_references x);
          actual = map cr_ref_type (so_references x);
          (allowed, needed) = reference_rules (so_stage x) in
      check_all
       [(length (so_references x) \<le> 10000 \<and> sha256_ok (so_output_hash x), ''field''),
        (sorted keys \<and> distinct keys, ''cycle references must be unique and stably sorted''),
        (list_all (\<lambda>t. t \<in> set allowed) actual \<and> list_all (\<lambda>t. t \<in> set actual) needed,
         ''cycle stage reference types are invalid''),
        (\<not> (so_stage x \<in> set SINGLE_REFERENCE_STAGES \<and> length (so_references x) \<noteq> 1),
         ''cycle stage requires exactly one reference''),
        (so_output_hash x = expected_output_hash H x, ''cycle output hash does not match payload'')] x)"

text \<open>\<^verbatim>\<open>PaperCycleStageOutput.create\<close> sorts the references first.\<close>

definition make_stage_output ::
  "hashing \<Rightarrow> cycle_stage \<Rightarrow> cycle_reference list \<Rightarrow> stage_output result" where
  "make_stage_output H stage refs =
     (let ordered = sort_key (\<lambda>r. (cr_ref_type r, cr_ref_id r, cr_content_hash r)) refs in
      validate_stage_output H
        \<lparr>so_stage = stage, so_references = ordered,
         so_output_hash = stable_payload_hash H (JObj (output_fields stage ordered))\<rparr>)"

section \<open>The checkpoint state\<close>

record cycle_state =
  cy_run_id :: uuid
  cy_cycle_input_hash :: hash
  cy_outputs :: "stage_output list"
  cy_state_hash :: hash

definition output_json :: "stage_output \<Rightarrow> json" where
  "output_json x = JObj (output_fields (so_stage x) (so_references x) @ [(''output_hash'', JStr (so_output_hash x))])"

definition state_fields :: "uuid \<Rightarrow> hash \<Rightarrow> stage_output list \<Rightarrow> (string \<times> json) list" where
  "state_fields run_id input_hash outputs =
     [(''run_id'', JStr run_id), (''cycle_input_hash'', JStr input_hash),
      (''outputs'', JList (map output_json outputs))]"

definition state_json :: "cycle_state \<Rightarrow> json" where
  "state_json s = JObj (state_fields (cy_run_id s) (cy_cycle_input_hash s) (cy_outputs s) @
     [(''state_hash'', JStr (cy_state_hash s))])"

definition expected_state_hash :: "hashing \<Rightarrow> cycle_state \<Rightarrow> hash" where
  "expected_state_hash H s =
     stable_payload_hash H (JObj (state_fields (cy_run_id s) (cy_cycle_input_hash s) (cy_outputs s)))"

definition completed_stages :: "cycle_state \<Rightarrow> cycle_stage list" where
  "completed_stages s = map so_stage (cy_outputs s)"

text \<open>Once the receipts are there, they are as many as the orders.\<close>

definition cardinality_ok :: "cycle_state \<Rightarrow> bool" where
  "cardinality_ok s \<longleftrightarrow>
     length (cy_outputs s) \<le> 6 \<or>
     length (so_references (cy_outputs s ! 5)) = length (so_references (cy_outputs s ! 6))"

definition validate_cycle_state :: "hashing \<Rightarrow> cycle_state \<Rightarrow> cycle_state result" where
  "validate_cycle_state H s = check_all
     [(sha256_ok (cy_cycle_input_hash s) \<and> length (cy_outputs s) \<le> length CYCLE_STAGES \<and>
       sha256_ok (cy_state_hash s), ''field''),
      (completed_stages s = take (length (cy_outputs s)) CYCLE_STAGES,
       ''cycle outputs must be the canonical stage prefix''),
      (cy_state_hash s = expected_state_hash H s, ''cycle state hash does not match payload''),
      (cardinality_ok s, ''execution receipt count must match order count'')] s"

definition make_cycle_state ::
  "hashing \<Rightarrow> uuid \<Rightarrow> hash \<Rightarrow> stage_output list \<Rightarrow> cycle_state result" where
  "make_cycle_state H run_id input_hash outputs = validate_cycle_state H
     \<lparr>cy_run_id = run_id, cy_cycle_input_hash = input_hash, cy_outputs = outputs,
      cy_state_hash = stable_payload_hash H (JObj (state_fields run_id input_hash outputs))\<rparr>"

definition genesis :: "hashing \<Rightarrow> uuid \<Rightarrow> hash \<Rightarrow> cycle_state result" where
  "genesis H run_id input_hash = make_cycle_state H run_id input_hash []"

definition next_stage :: "cycle_state \<Rightarrow> cycle_stage option" where
  "next_stage s =
     (if length (cy_outputs s) < length CYCLE_STAGES then Some (CYCLE_STAGES ! length (cy_outputs s))
      else None)"

definition cycle_complete :: "cycle_state \<Rightarrow> bool" where
  "cycle_complete s \<longleftrightarrow> next_stage s = None"

definition advance :: "hashing \<Rightarrow> cycle_state \<Rightarrow> stage_output \<Rightarrow> cycle_state result" where
  "advance H s x =
     (if next_stage s \<noteq> Some (so_stage x)
      then Raised (ValueError ''cycle output is not the next canonical stage'')
      else make_cycle_state H (cy_run_id s) (cy_cycle_input_hash s) (cy_outputs s @ [x]))"

section \<open>Input and command\<close>

record cycle_policy_hashes =
  ph_research_profile_hash :: hash
  ph_model_policy_hash :: hash
  ph_tool_policy_hash :: hash
  ph_kronos_configuration_hash :: hash
  ph_portfolio_policy_hash :: hash
  ph_risk_policy_hash :: hash
  ph_execution_policy_hash :: hash
  ph_ledger_policy_hash :: hash
  ph_report_policy_hash :: hash

definition policy_hash_fields :: "cycle_policy_hashes \<Rightarrow> (string \<times> hash) list" where
  "policy_hash_fields p =
     [(''research_profile_hash'', ph_research_profile_hash p), (''model_policy_hash'', ph_model_policy_hash p),
      (''tool_policy_hash'', ph_tool_policy_hash p),
      (''kronos_configuration_hash'', ph_kronos_configuration_hash p),
      (''portfolio_policy_hash'', ph_portfolio_policy_hash p), (''risk_policy_hash'', ph_risk_policy_hash p),
      (''execution_policy_hash'', ph_execution_policy_hash p), (''ledger_policy_hash'', ph_ledger_policy_hash p),
      (''report_policy_hash'', ph_report_policy_hash p)]"

definition NIL_UUID :: uuid where
  "NIL_UUID = ''00000000-0000-0000-0000-000000000000''"

record stage_identity =
  si_stage :: cycle_stage
  si_stage_id :: uuid

definition validate_stage_identity :: "stage_identity \<Rightarrow> stage_identity result" where
  "validate_stage_identity i = check_all
     [(si_stage_id i \<noteq> NIL_UUID, ''paper cycle stage ID cannot be zero'')] i"

record cycle_input =
  ci_run_id :: uuid
  ci_snapshot_id :: uuid
  ci_research_run_id :: uuid
  ci_research_artifact_id :: uuid
  ci_account_id :: string
  ci_owner_subject :: string
  ci_instrument_id :: uuid
  ci_symbol :: string
  ci_as_of :: utc
  ci_created_at :: utc
  ci_deadline_at :: utc
  ci_execution_model_version :: string
  ci_policy_hashes :: cycle_policy_hashes
  ci_stage_ids :: "stage_identity list"

text \<open>The symbol pattern \<^verbatim>\<open>^[A-Z0-9][A-Z0-9.-]{0,15}$\<close>.\<close>

fun symbol_ok :: "string \<Rightarrow> bool" where
  "symbol_ok [] = False"
| "symbol_ok (c # cs) =
     ((upper_char c \<or> char_between CHR ''0'' c CHR ''9'') \<and> length cs \<le> 15 \<and>
      list_all (\<lambda>x. upper_char x \<or> char_between CHR ''0'' x CHR ''9'' \<or> x = CHR ''.'' \<or> x = CHR ''-'') cs)"

definition model_version_ok :: "string \<Rightarrow> bool" where
  "model_version_ok s \<longleftrightarrow> take 7 s = ''paper-v'' \<and> drop 7 s \<noteq> [] \<and>
     list_all (\<lambda>c. char_between CHR ''0'' c CHR ''9'') (drop 7 s)"

definition validate_cycle_input :: "cycle_input \<Rightarrow> cycle_input result" where
  "validate_cycle_input i = check_all
     [(nonempty_ok (ci_account_id i) \<and> subject_ok (ci_owner_subject i) \<and> symbol_ok (ci_symbol i) \<and>
       model_version_ok (ci_execution_model_version i) \<and>
       list_all sha256_ok (map snd (policy_hash_fields (ci_policy_hashes i))) \<and>
       length (ci_stage_ids i) = length CYCLE_STAGES, ''field''),
      (ci_as_of i \<le> ci_created_at i \<and> ci_created_at i < ci_deadline_at i,
       ''paper cycle input timeline is invalid''),
      (\<not> list_ex (\<lambda>u. u = NIL_UUID)
         [ci_run_id i, ci_snapshot_id i, ci_research_run_id i, ci_research_artifact_id i, ci_instrument_id i],
       ''paper cycle authority IDs cannot be zero''),
      (map si_stage (ci_stage_ids i) = CYCLE_STAGES, ''paper cycle stage IDs must follow canonical stage order''),
      (distinct (map si_stage_id (ci_stage_ids i)), ''paper cycle stage IDs must be unique'')] i"

definition cycle_input_json :: "cycle_input \<Rightarrow> json" where
  "cycle_input_json i = JObj
     [(''run_id'', JStr (ci_run_id i)), (''snapshot_id'', JStr (ci_snapshot_id i)),
      (''research_run_id'', JStr (ci_research_run_id i)),
      (''research_artifact_id'', JStr (ci_research_artifact_id i)),
      (''account_id'', JStr (ci_account_id i)), (''owner_subject'', JStr (ci_owner_subject i)),
      (''instrument_id'', JStr (ci_instrument_id i)), (''symbol'', JStr (ci_symbol i)),
      (''as_of'', jtime (ci_as_of i)), (''created_at'', jtime (ci_created_at i)),
      (''deadline_at'', jtime (ci_deadline_at i)), (''execution_mode'', JStr ''paper''),
      (''execution_model_version'', JStr (ci_execution_model_version i)),
      (''policy_hashes'', JObj (map (\<lambda>(k, h). (k, JStr h)) (policy_hash_fields (ci_policy_hashes i)))),
      (''stage_ids'', JList (map (\<lambda>s. JObj [(''stage'', JStr (stage_value (si_stage s))),
         (''stage_id'', JStr (si_stage_id s))]) (ci_stage_ids i)))]"

definition cycle_input_hash :: "hashing \<Rightarrow> cycle_input \<Rightarrow> hash" where
  "cycle_input_hash H i = stable_payload_hash H (cycle_input_json i)"

record job_lease =
  jl_job_id :: uuid
  jl_run_id :: uuid
  jl_job_type :: string
  jl_payload :: json
  jl_attempt_generation :: int
  jl_attempt_nonce :: string
  jl_lease_owner :: string
  jl_lease_until :: utc
  jl_attempts :: int
  jl_deadline_at :: utc

text \<open>Equality of parsed JSON values: the order of object members does not count.\<close>

definition json_eq :: "json \<Rightarrow> json \<Rightarrow> bool" where
  "json_eq a b \<longleftrightarrow> jnorm a = jnorm b"

record run_command =
  rc_lease :: job_lease
  rc_cycle_input :: cycle_input

definition rc_input_hash :: "hashing \<Rightarrow> run_command \<Rightarrow> hash" where
  "rc_input_hash H c = cycle_input_hash H (rc_cycle_input c)"

fun member_names :: "json \<Rightarrow> string list" where
  "member_names (JObj kvs) = map fst kvs"
| "member_names j = []"

definition validate_run_command :: "hashing \<Rightarrow> run_command \<Rightarrow> run_command result" where
  "validate_run_command H c =
     (let lease = rc_lease c;
          expected = JObj [(''cycle_input'', cycle_input_json (rc_cycle_input c)),
            (''cycle_input_hash'', JStr (rc_input_hash H c))] in
      check_all
       [(jl_job_type lease = ''paper_fund_cycle'', ''paper cycle requires the canonical job type''),
        (set (member_names (jl_payload lease)) = set (member_names expected),
         ''paper cycle lease payload is ambiguous''),
        (json_eq (jl_payload lease) expected, ''paper cycle input differs from leased command''),
        (ci_run_id (rc_cycle_input c) = jl_run_id lease,
         ''paper cycle run identity differs from leased command''),
        (ci_deadline_at (rc_cycle_input c) = jl_deadline_at lease,
         ''paper cycle deadline differs from leased command'')] c)"

record cancel_command =
  cc_run_id :: uuid
  cc_expected_version :: int
  cc_actor :: string
  cc_reason_code :: string

datatype cycle_run_status = RETRY_SCHEDULED | CYCLE_SUCCEEDED | DEAD_LETTERED | CYCLE_CANCELLED

fun run_status_value :: "cycle_run_status \<Rightarrow> string" where
  "run_status_value RETRY_SCHEDULED = ''retry_scheduled''"
| "run_status_value CYCLE_SUCCEEDED = ''succeeded''"
| "run_status_value DEAD_LETTERED = ''dead_lettered''"
| "run_status_value CYCLE_CANCELLED = ''cancelled''"

record cycle_run_result =
  pr_run_id :: uuid
  pr_status :: cycle_run_status
  pr_state :: cycle_state
  pr_result_artifact_hash :: "hash option"
  pr_error_code :: "string option"

definition validate_run_result :: "cycle_run_result \<Rightarrow> cycle_run_result result" where
  "validate_run_result r =
     (let succeeded = (pr_status r = CYCLE_SUCCEEDED) in
      check_all
       [(opt_ok sha256_ok (pr_result_artifact_hash r) \<and> opt_ok nonempty_ok (pr_error_code r), ''field''),
        (pr_run_id r = cy_run_id (pr_state r), ''cycle result run identity changed''),
        (succeeded = (pr_result_artifact_hash r \<noteq> None), ''only a successful cycle has a result artifact''),
        (\<not> (succeeded \<and> (\<not> cycle_complete (pr_state r) \<or> pr_error_code r \<noteq> None)),
         ''successful cycle result is incomplete''),
        (\<not> (\<not> succeeded \<and> pr_error_code r = None), ''non-successful cycle result requires an error code'')] r)"

section \<open>Reading a state back\<close>

text \<open>
  \<^verbatim>\<open>PaperCycleState.model_validate\<close> of a JSON object, with the members that are neither missing nor
  unknown. A UUID is read from its canonical text, the only form that is ever written.
\<close>

fun text_of :: "json \<Rightarrow> string result" where
  "text_of (JStr s) = Success s"
| "text_of j = Raised (ValueError ''field'')"

fun items_of :: "json \<Rightarrow> json list result" where
  "items_of (JList xs) = Success xs"
| "items_of j = Raised (ValueError ''field'')"

fun members_of :: "string list \<Rightarrow> json \<Rightarrow> json list result" where
  "members_of names (JObj kvs) =
     (if set (map fst kvs) = set names then Success (map (\<lambda>n. the (map_of kvs n)) names)
      else Raised (ValueError ''field''))"
| "members_of names j = Raised (ValueError ''field'')"

definition read_reference :: "json \<Rightarrow> cycle_reference result" where
  "read_reference j =
     bind (members_of [''ref_type'', ''ref_id'', ''content_hash''] j) (\<lambda>ms.
     bind (text_of (ms ! 0)) (\<lambda>t. bind (text_of (ms ! 1)) (\<lambda>i. bind (text_of (ms ! 2)) (\<lambda>h.
     validate_cycle_reference \<lparr>cr_ref_type = t, cr_ref_id = i, cr_content_hash = h\<rparr>))))"

definition read_stage :: "string \<Rightarrow> cycle_stage result" where
  "read_stage s = (case List.find (\<lambda>x. stage_value x = s) CYCLE_STAGES of
     Some x \<Rightarrow> Success x | None \<Rightarrow> Raised (ValueError ''field''))"

definition read_output :: "hashing \<Rightarrow> json \<Rightarrow> stage_output result" where
  "read_output H j =
     bind (members_of [''stage'', ''references'', ''output_hash''] j) (\<lambda>ms.
     bind (text_of (ms ! 0)) (\<lambda>t. bind (read_stage t) (\<lambda>stage.
     bind (items_of (ms ! 1)) (\<lambda>xs. bind (run_all read_reference xs) (\<lambda>refs.
     bind (text_of (ms ! 2)) (\<lambda>h.
     validate_stage_output H \<lparr>so_stage = stage, so_references = refs, so_output_hash = h\<rparr>))))))"

definition read_state :: "hashing \<Rightarrow> json \<Rightarrow> cycle_state result" where
  "read_state H j =
     bind (members_of [''run_id'', ''cycle_input_hash'', ''outputs'', ''state_hash''] j) (\<lambda>ms.
     bind (text_of (ms ! 0)) (\<lambda>r. bind (require (uuid_canonical r) ''field'') (\<lambda>_.
     bind (text_of (ms ! 1)) (\<lambda>i.
     bind (items_of (ms ! 2)) (\<lambda>xs. bind (run_all (read_output H) xs) (\<lambda>outputs.
     bind (text_of (ms ! 3)) (\<lambda>h.
     validate_cycle_state H \<lparr>cy_run_id = r, cy_cycle_input_hash = i, cy_outputs = outputs, cy_state_hash = h\<rparr>)))))))"

section \<open>What the validators say\<close>

lemma length_CYCLE_STAGES [simp]: "length CYCLE_STAGES = 9"
  by (simp add: CYCLE_STAGES_def)

lemma CYCLE_STAGES_all [simp]: "stage \<in> set CYCLE_STAGES"
  by (cases stage) (simp_all add: CYCLE_STAGES_def)

lemma read_stage_value [simp]: "read_stage (stage_value stage) = Success stage"
  by (cases stage) (simp_all add: read_stage_def CYCLE_STAGES_def)

lemma validate_cycle_state_frame: "validate_cycle_state H s = Success s' \<Longrightarrow> s' = s"
  by (auto simp: validate_cycle_state_def res_simps)

lemma make_cycle_state_Success:
  "make_cycle_state H run_id input_hash outputs = Success s \<longleftrightarrow>
     validate_cycle_state H s = Success s \<and> cy_run_id s = run_id \<and> cy_cycle_input_hash s = input_hash \<and>
     cy_outputs s = outputs"
  by (cases s) (auto simp: make_cycle_state_def validate_cycle_state_def res_simps expected_state_hash_def
      completed_stages_def cardinality_ok_def)

lemma advance_Success:
  "advance H s x = Success s' \<longleftrightarrow>
     next_stage s = Some (so_stage x) \<and> validate_cycle_state H s' = Success s' \<and>
     cy_run_id s' = cy_run_id s \<and> cy_cycle_input_hash s' = cy_cycle_input_hash s \<and>
     cy_outputs s' = cy_outputs s @ [x]"
  by (auto simp: advance_def make_cycle_state_Success)

lemma state_eqI:
  "\<lbrakk>validate_cycle_state H s = Success s; validate_cycle_state H s' = Success s'; cy_run_id s = cy_run_id s';
    cy_cycle_input_hash s = cy_cycle_input_hash s'; cy_outputs s = cy_outputs s'\<rbrakk> \<Longrightarrow> s = s'"
  by (auto simp: validate_cycle_state_def res_simps expected_state_hash_def intro: cycle_state.equality)

text \<open>What was written is read back.\<close>

definition references_valid :: "stage_output \<Rightarrow> bool" where
  "references_valid x \<longleftrightarrow> list_all (\<lambda>r. validate_cycle_reference r = Success r) (so_references x)"

definition state_valid :: "hashing \<Rightarrow> cycle_state \<Rightarrow> bool" where
  "state_valid H s \<longleftrightarrow>
     uuid_canonical (cy_run_id s) \<and> validate_cycle_state H s = Success s \<and>
     list_all (\<lambda>x. validate_stage_output H x = Success x \<and> references_valid x) (cy_outputs s)"

lemma run_all_read:
  "list_all (\<lambda>x. f (g x) = Success x) xs \<Longrightarrow> run_all f (map g xs) = Success xs"
  by (induction xs) auto

lemma read_reference_json: "validate_cycle_reference r = Success r \<Longrightarrow> read_reference (reference_json r) = Success r"
  by (cases r) (simp add: read_reference_def reference_json_def insert_commute)

lemma read_output_json:
  "validate_stage_output H x = Success x \<Longrightarrow> references_valid x \<Longrightarrow> read_output H (output_json x) = Success x"
  by (cases x) (auto simp: read_output_def output_json_def output_fields_def references_valid_def insert_commute
      run_all_read read_reference_json list_all_iff)

lemma read_state_json: "state_valid H s \<Longrightarrow> read_state H (state_json s) = Success s"
  by (cases s) (auto simp: read_state_def state_json_def state_fields_def state_valid_def insert_commute require_def
      run_all_read read_output_json list_all_iff)

end
