(* ===== verification/Transactions.thy ===== *)
theory Transactions
  imports Prelude
begin

text \<open>
  The transaction discipline the database adapters share (\<^verbatim>\<open>with session.begin()\<close> and
  \<^verbatim>\<open>begin_nested()\<close> with their \<^verbatim>\<open>except\<close> clauses): a transaction is a computation that returns a value
  and the new database, keeps it on success and rolls back otherwise; the database errors of a rolled
  back transaction become failures.
\<close>

text \<open>
  The \<^verbatim>\<open>except\<close> clauses. A rejection inside the transaction is a \<open>Failure\<close> already; constraint
  violations and invalid values become one failure, other database errors another one.
\<close>

fun caught :: "error_code \<times> string \<Rightarrow> error_code \<times> string \<Rightarrow> 'a result \<Rightarrow> 'a result" where
  "caught (c, m) d (Raised (ValueError e)) = Failure c m"
| "caught (c, m) d (Raised IntegrityError) = Failure c m"
| "caught c (d, m) (Raised DatabaseError) = Failure d m"
| "caught c d r = r"

text \<open>Commit the new database on success, roll back otherwise.\<close>

fun transact :: "'d \<Rightarrow> ('a \<times> 'd) result \<Rightarrow> 'a result \<times> 'd" where
  "transact db (Success (x, db')) = (Success x, db')"
| "transact db (Failure c m) = (Failure c m, db)"
| "transact db (Raised e) = (Raised e, db)"

lemma caught_Success [simp]: "caught a b r = Success x \<longleftrightarrow> r = Success x"
  by (cases "(a, b, r)" rule: caught.cases) auto

lemma transact_Success: "transact db r = (Success x, db') \<longleftrightarrow> r = Success (x, db')"
  by (cases "(db, r)" rule: transact.cases) auto

lemma transact_cases: "transact db r = (y, db') \<Longrightarrow> db' = db \<or> (\<exists>x. y = Success x \<and> r = Success (x, db'))"
  by (cases "(db, r)" rule: transact.cases) auto

end
