(* ===== verification/Workflow_Rows.thy ===== *)
theory Workflow_Rows
  imports Paper_Cycle Transactions
begin

text \<open>
  The tables of \<^verbatim>\<open>adapters/postgres/models/core.py\<close> that the job queue and the checkpoint store of the paper
  cycle share. The database is a record of rows; an insert checks the primary keys and unique constraints
  and, for the payload columns, whether the column type accepts the value (\<open>ce_storable\<close>, an argument: it
  refuses payloads with credential material). \<^verbatim>\<open>clock_timestamp()\<close> is the field \<open>db_now\<close>. Transactions do not
  overlap: rows are read \<^verbatim>\<open>FOR UPDATE\<close>. Trace columns are not modelled.
\<close>

section \<open>Rows\<close>

datatype job_status = QUEUED | LEASED | JOB_SUCCEEDED | DEAD_LETTER | JOB_CANCELLED

datatype workflow_status = PENDING | RUNNING | RUN_DEGRADED | RUN_SUCCEEDED | RUN_FAILED | RUN_CANCELLED

text \<open>\<^verbatim>\<open>domain/workflow.py\<close>: the allowed transitions of a run.\<close>

fun workflow_transitions :: "workflow_status \<Rightarrow> workflow_status list" where
  "workflow_transitions PENDING = [RUNNING, RUN_FAILED, RUN_CANCELLED]"
| "workflow_transitions RUNNING = [RUN_DEGRADED, RUN_SUCCEEDED, RUN_FAILED, RUN_CANCELLED]"
| "workflow_transitions RUN_DEGRADED = [RUN_SUCCEEDED, RUN_FAILED, RUN_CANCELLED]"
| "workflow_transitions RUN_SUCCEEDED = []"
| "workflow_transitions RUN_FAILED = []"
| "workflow_transitions RUN_CANCELLED = []"

definition can_transition_run :: "workflow_status \<Rightarrow> workflow_status \<Rightarrow> bool" where
  "can_transition_run current target \<longleftrightarrow> target \<in> set (workflow_transitions current)"

record job_row =
  jr_job_id :: uuid
  jr_run_id :: uuid
  jr_job_type :: string
  jr_payload :: json
  jr_payload_hash :: hash
  jr_status :: job_status
  jr_idempotency_key :: string
  jr_not_before :: utc
  jr_deadline_at :: utc
  jr_attempts :: nat
  jr_max_attempts :: nat
  jr_attempt_generation :: int
  jr_attempt_nonce :: "string option"
  jr_lease_owner :: "string option"
  jr_lease_until :: "utc option"
  jr_result_artifact_hash :: "hash option"
  jr_last_error :: "json option"
  jr_created_at :: utc
  jr_updated_at :: utc

record run_row =
  wr_run_id :: uuid
  wr_run_type :: string
  wr_status :: workflow_status
  wr_as_of :: utc
  wr_policy_id :: string
  wr_idempotency_key :: string
  wr_input_hash :: hash
  wr_owner_subject :: string
  wr_version :: int
  wr_created_at :: utc
  wr_updated_at :: utc

record run_event =
  re_event_id :: uuid
  re_run_id :: uuid
  re_sequence :: int
  re_event_type :: string
  re_payload :: json
  re_occurred_at :: utc
  re_previous_hash :: "hash option"
  re_event_hash :: hash

record outbox_row =
  ox_outbox_id :: uuid
  ox_aggregate_type :: string
  ox_aggregate_id :: string
  ox_sequence :: int
  ox_topic :: string
  ox_payload :: json
  ox_idempotency_key :: string
  ox_created_at :: utc
  ox_not_before :: utc

record artifact_metadata =
  am_media_type :: string
  am_license_tag :: string
  am_sensitivity :: string
  am_source :: string
  am_attributes :: "(string \<times> string) list"

record artifact_manifest =
  af_content_hash :: hash
  af_size_bytes :: int
  af_metadata :: artifact_metadata
  af_finalized_at :: utc
  af_storage_uri :: string

record artifact_row =
  aw_content_hash :: hash
  aw_size_bytes :: int
  aw_media_type :: string
  aw_license_tag :: string
  aw_sensitivity :: string
  aw_source :: string
  aw_finalized_at :: utc
  aw_storage_uri :: string
  aw_metadata_payload :: json

record cycle_db =
  db_now :: utc
  db_jobs :: "job_row list"
  db_runs :: "run_row list"
  db_events :: "run_event list"
  db_outbox :: "outbox_row list"
  db_artifacts :: "artifact_row list"

record cycle_env =
  ce_hashing :: hashing
  ce_base_retry_delay :: int
  ce_storable :: "json \<Rightarrow> bool"

section \<open>Row locks and updates\<close>

definition locked_job :: "cycle_db \<Rightarrow> uuid \<Rightarrow> job_row result" where
  "locked_job db job_id =
     (case List.find (\<lambda>j. jr_job_id j = job_id) (db_jobs db) of
        None \<Rightarrow> Failure NOT_FOUND ''Paper cycle job was not found'' | Some j \<Rightarrow> Success j)"

definition locked_run :: "cycle_db \<Rightarrow> uuid \<Rightarrow> run_row result" where
  "locked_run db run_id =
     (case List.find (\<lambda>r. wr_run_id r = run_id) (db_runs db) of
        None \<Rightarrow> Failure NOT_FOUND ''Paper cycle run was not found'' | Some r \<Rightarrow> Success r)"

definition update_job :: "job_row \<Rightarrow> cycle_db \<Rightarrow> cycle_db" where
  "update_job j db = db\<lparr>db_jobs := map (\<lambda>x. if jr_job_id x = jr_job_id j then j else x) (db_jobs db)\<rparr>"

definition update_run :: "run_row \<Rightarrow> cycle_db \<Rightarrow> cycle_db" where
  "update_run r db = db\<lparr>db_runs := map (\<lambda>x. if wr_run_id x = wr_run_id r then r else x) (db_runs db)\<rparr>"

fun member :: "string \<Rightarrow> json \<Rightarrow> json option" where
  "member k (JObj kvs) = map_of kvs k"
| "member k j = None"

section \<open>The event log\<close>

definition run_event_hash :: "hashing \<Rightarrow> uuid \<Rightarrow> int \<Rightarrow> hash option \<Rightarrow> json \<Rightarrow> hash" where
  "run_event_hash H event_id sequence previous payload = stable_payload_hash H (JObj
     [(''event_id'', JStr event_id), (''sequence'', JInt sequence),
      (''previous_hash'', jopt JStr previous), (''payload'', payload)])"

definition run_events :: "cycle_db \<Rightarrow> uuid \<Rightarrow> run_event list" where
  "run_events db run_id = sort_key re_sequence (filter (\<lambda>e. re_run_id e = run_id) (db_events db))"

text \<open>
  One event of a run and its outbox message. They are flushed before the transaction ends, so a payload
  the column type refuses and a violated unique constraint raise.
\<close>

definition unique_event :: "cycle_db \<Rightarrow> run_event \<Rightarrow> bool" where
  "unique_event db e \<longleftrightarrow> list_all (\<lambda>x. re_event_id x \<noteq> re_event_id e \<and> re_event_hash x \<noteq> re_event_hash e \<and>
     (re_run_id x, re_sequence x) \<noteq> (re_run_id e, re_sequence e)) (db_events db)"

definition unique_outbox :: "cycle_db \<Rightarrow> outbox_row \<Rightarrow> bool" where
  "unique_outbox db x \<longleftrightarrow> list_all (\<lambda>y. ox_outbox_id y \<noteq> ox_outbox_id x \<and>
     ox_idempotency_key y \<noteq> ox_idempotency_key x \<and>
     (ox_aggregate_type y, ox_aggregate_id y, ox_sequence y) \<noteq>
       (ox_aggregate_type x, ox_aggregate_id x, ox_sequence x)) (db_outbox db)"

definition last_event_hash :: "cycle_db \<Rightarrow> uuid \<Rightarrow> hash option" where
  "last_event_hash db run_id =
     (let events = run_events db run_id in if events = [] then None else Some (re_event_hash (last events)))"

definition insert_audit ::
  "cycle_env \<Rightarrow> run_row \<Rightarrow> uuid \<Rightarrow> uuid \<Rightarrow> string \<Rightarrow> json \<Rightarrow> string \<Rightarrow> utc \<Rightarrow> cycle_db \<Rightarrow> cycle_db result" where
  "insert_audit env run event_id outbox_id event_type payload key occurred_at db =
     (let sequence = wr_version run + 1;
          previous = last_event_hash db (wr_run_id run);
          event = \<lparr>re_event_id = event_id, re_run_id = wr_run_id run, re_sequence = sequence,
            re_event_type = event_type, re_payload = payload, re_occurred_at = occurred_at,
            re_previous_hash = previous,
            re_event_hash = run_event_hash (ce_hashing env) event_id sequence previous payload\<rparr>;
          message = \<lparr>ox_outbox_id = outbox_id, ox_aggregate_type = ''run'', ox_aggregate_id = wr_run_id run,
            ox_sequence = sequence, ox_topic = event_type, ox_payload = payload,
            ox_idempotency_key = key, ox_created_at = occurred_at, ox_not_before = occurred_at\<rparr> in
      if \<not> ce_storable env payload then Raised DatabaseError
      else if \<not> unique_event db event \<or> \<not> unique_outbox db message then Raised IntegrityError
      else Success (db\<lparr>db_events := db_events db @ [event], db_outbox := db_outbox db @ [message]\<rparr>))"

text \<open>The new head of the run.\<close>

definition advance_run :: "run_row \<Rightarrow> workflow_status \<Rightarrow> utc \<Rightarrow> run_row" where
  "advance_run run status t = run\<lparr>wr_status := status, wr_version := wr_version run + 1, wr_updated_at := t\<rparr>"

fun error_code_value :: "error_code \<Rightarrow> string" where
  "error_code_value INVALID_INPUT = ''invalid_input''"
| "error_code_value CONFIGURATION_INVALID = ''configuration_invalid''"
| "error_code_value UNAUTHORIZED = ''unauthorized''"
| "error_code_value FORBIDDEN = ''forbidden''"
| "error_code_value NOT_FOUND = ''not_found''"
| "error_code_value CONFLICT = ''conflict''"
| "error_code_value CAPABILITY_DENIED = ''capability_denied''"
| "error_code_value EGRESS_DENIED = ''egress_denied''"
| "error_code_value DATA_UNAVAILABLE = ''data_unavailable''"
| "error_code_value RATE_LIMITED = ''rate_limited''"
| "error_code_value BUDGET_EXHAUSTED = ''budget_exhausted''"
| "error_code_value DEADLINE_EXCEEDED = ''deadline_exceeded''"
| "error_code_value MODEL_OUTPUT_INVALID = ''model_output_invalid''"
| "error_code_value TOOL_FAILED = ''tool_failed''"
| "error_code_value PAYLOAD_TOO_LARGE = ''payload_too_large''"
| "error_code_value INTERNAL_ERROR = ''internal_error''"

section \<open>Artifacts\<close>

definition metadata_json :: "artifact_metadata \<Rightarrow> json" where
  "metadata_json m = JObj
     [(''media_type'', JStr (am_media_type m)), (''license_tag'', JStr (am_license_tag m)),
      (''sensitivity'', JStr (am_sensitivity m)), (''source'', JStr (am_source m)),
      (''attributes'', JList (map (\<lambda>(k, v). JList [JStr k, JStr v]) (am_attributes m)))]"

text \<open>\<^verbatim>\<open>dict(pairs) == expected\<close>; of pairs with the same key the last one counts.\<close>

definition dict_pairs_eq :: "(string \<times> string) list \<Rightarrow> (string \<times> string) list \<Rightarrow> bool" where
  "dict_pairs_eq pairs expected \<longleftrightarrow>
     set (map fst pairs) = set (map fst expected) \<and>
     list_all (\<lambda>(k, v). map_of (rev pairs) k = Some v) expected"

definition candidate_row :: "artifact_manifest \<Rightarrow> artifact_row" where
  "candidate_row m =
     \<lparr>aw_content_hash = af_content_hash m, aw_size_bytes = af_size_bytes m,
      aw_media_type = am_media_type (af_metadata m), aw_license_tag = am_license_tag (af_metadata m),
      aw_sensitivity = am_sensitivity (af_metadata m), aw_source = am_source (af_metadata m),
      aw_finalized_at = af_finalized_at m, aw_storage_uri = af_storage_uri m,
      aw_metadata_payload = metadata_json (af_metadata m)\<rparr>"

definition same_artifact :: "artifact_row \<Rightarrow> artifact_row \<Rightarrow> bool" where
  "same_artifact a b \<longleftrightarrow>
     aw_size_bytes a = aw_size_bytes b \<and> aw_media_type a = aw_media_type b \<and>
     aw_license_tag a = aw_license_tag b \<and> aw_sensitivity a = aw_sensitivity b \<and>
     aw_source a = aw_source b \<and> aw_finalized_at a = aw_finalized_at b \<and>
     aw_storage_uri a = aw_storage_uri b \<and> json_eq (aw_metadata_payload a) (aw_metadata_payload b)"

end
