(* ===== verification/Cycle_Store.thy ===== *)
theory Cycle_Store
  imports Workflow_Rows
begin

text \<open>
  \<^verbatim>\<open>adapters/postgres/paper_cycle_store.py\<close>: the durable checkpoints of a paper cycle. An operation runs in
  one transaction and leaves the database as it was when it does not succeed.
\<close>

definition validate_cycle_env :: "cycle_env \<Rightarrow> cycle_env result" where
  "validate_cycle_env env = check_all
     [(\<not> (ce_base_retry_delay env < 0 \<or> ce_base_retry_delay env > 3600000000),
       ''paper cycle retry delay is invalid'')] env"

section \<open>The authority of a lease\<close>

definition active_lease :: "hashing \<Rightarrow> utc \<Rightarrow> job_row \<Rightarrow> run_row \<Rightarrow> run_command \<Rightarrow> bool" where
  "active_lease H now job run c \<longleftrightarrow>
     (let lease = rc_lease c in
      jr_run_id job = jl_run_id lease \<and> jr_job_type job = ''paper_fund_cycle'' \<and> jr_status job = LEASED \<and>
      jr_attempt_generation job = jl_attempt_generation lease \<and>
      jr_attempt_nonce job = Some (jl_attempt_nonce lease) \<and>
      jr_lease_owner job = Some (jl_lease_owner lease) \<and>
      (case jr_lease_until job of None \<Rightarrow> False | Some t \<Rightarrow> t > now) \<and> jr_deadline_at job > now \<and>
      stable_payload_hash H (jr_payload job) = jr_payload_hash job \<and>
      member ''cycle_input_hash'' (jr_payload job) = Some (JStr (rc_input_hash H c)) \<and>
      wr_run_id run = jl_run_id lease \<and> wr_run_type run = ''paper_fund_cycle'' \<and>
      wr_input_hash run = rc_input_hash H c \<and> wr_status run \<in> {PENDING, RUNNING})"

definition require_active ::
  "cycle_env \<Rightarrow> cycle_db \<Rightarrow> run_command \<Rightarrow> job_row \<Rightarrow> run_row \<Rightarrow> unit result" where
  "require_active env db c job run =
     (if active_lease (ce_hashing env) (db_now db) job run c then Success ()
      else Failure CONFLICT ''Paper cycle lease is stale or invalid'')"

definition active_authority ::
  "cycle_env \<Rightarrow> cycle_db \<Rightarrow> run_command \<Rightarrow> (job_row \<times> run_row) result" where
  "active_authority env db c =
     bind (locked_job db (jl_job_id (rc_lease c))) (\<lambda>job.
     bind (locked_run db (jl_run_id (rc_lease c))) (\<lambda>run.
     bind (require_active env db c job run) (\<lambda>_. Success (job, run))))"

definition require_completed_authority ::
  "cycle_env \<Rightarrow> run_command \<Rightarrow> job_row \<Rightarrow> run_row \<Rightarrow> unit result" where
  "require_completed_authority env c job run =
     (let lease = rc_lease c; H = ce_hashing env in
      if jr_run_id job = jl_run_id lease \<and> jr_job_type job = ''paper_fund_cycle'' \<and>
         jr_attempt_generation job = jl_attempt_generation lease \<and>
         jr_attempt_nonce job = Some (jl_attempt_nonce lease) \<and>
         jr_lease_owner job = Some (jl_lease_owner lease) \<and> jr_result_artifact_hash job \<noteq> None \<and>
         stable_payload_hash H (jr_payload job) = jr_payload_hash job \<and>
         member ''cycle_input_hash'' (jr_payload job) = Some (JStr (rc_input_hash H c)) \<and>
         wr_run_id run = jl_run_id lease \<and> wr_run_type run = ''paper_fund_cycle'' \<and>
         wr_input_hash run = rc_input_hash H c \<and> wr_status run = RUN_SUCCEEDED
      then Success () else Failure CONFLICT ''Completed paper cycle authority is invalid'')"

section \<open>The event log\<close>

definition CHECKPOINT_SCHEMA :: string where
  "CHECKPOINT_SCHEMA = ''paper-cycle-checkpoint/1.0.0''"

definition validate_event ::
  "hashing \<Rightarrow> cycle_db \<Rightarrow> uuid \<Rightarrow> run_event \<Rightarrow> int \<Rightarrow> hash option \<Rightarrow> unit result" where
  "validate_event H db run_id e sequence previous =
     (if re_sequence e \<noteq> sequence \<or> re_previous_hash e \<noteq> previous \<or>
         re_event_hash e \<noteq> run_event_hash H (re_event_id e) sequence previous (re_payload e)
      then Failure CONFLICT ''Paper cycle event chain is invalid''
      else (case List.find (\<lambda>x. ox_aggregate_type x = ''run'' \<and> ox_aggregate_id x = run_id \<and>
                  ox_sequence x = sequence) (db_outbox db) of
          None \<Rightarrow> Failure CONFLICT ''Paper cycle outbox graph is invalid''
        | Some x \<Rightarrow>
            if ox_topic x = re_event_type e \<and> json_eq (ox_payload x) (re_payload e) \<and>
               ox_created_at x = re_occurred_at e
            then Success () else Failure CONFLICT ''Paper cycle outbox graph is invalid''))"

definition require_next_state :: "cycle_state \<Rightarrow> cycle_state \<Rightarrow> hash \<Rightarrow> unit result" where
  "require_next_state current candidate expected =
     (if cy_state_hash current \<noteq> expected \<or> cy_run_id candidate \<noteq> cy_run_id current \<or>
         cy_cycle_input_hash candidate \<noteq> cy_cycle_input_hash current \<or>
         length (cy_outputs candidate) \<noteq> length (cy_outputs current) + 1 \<or>
         butlast (cy_outputs candidate) \<noteq> cy_outputs current \<or>
         Some (so_stage (last (cy_outputs candidate))) \<noteq> next_stage current
      then Failure CONFLICT ''Paper cycle state CAS failed'' else Success ())"

definition checkpoint_state ::
  "hashing \<Rightarrow> run_event \<Rightarrow> job_row \<Rightarrow> hash \<Rightarrow> cycle_state result" where
  "checkpoint_state H e job input_hash =
     (let get = (\<lambda>k. member k (re_payload e)); missing = (\<lambda>k. get k = None \<or> get k = Some JNull) in
      if get ''schema'' \<noteq> Some (JStr CHECKPOINT_SCHEMA) \<or> get ''job_id'' \<noteq> Some (JStr (jr_job_id job)) \<or>
         get ''cycle_input_hash'' \<noteq> Some (JStr input_hash) \<or> missing ''state_hash'' \<or> missing ''stage'' \<or>
         (case get ''state'' of Some (JObj kvs) \<Rightarrow> False | _ \<Rightarrow> True)
      then Failure CONFLICT ''Paper cycle checkpoint payload is invalid''
      else bind (read_state H (the (get ''state''))) (\<lambda>s.
        if get ''state_hash'' \<noteq> Some (JStr (cy_state_hash s))
        then Failure CONFLICT ''Paper cycle checkpoint binding changed''
        else if cy_outputs s = [] then Raised IndexError
        else if get ''stage'' \<noteq> Some (JStr (stage_value (last (completed_stages s))))
        then Failure CONFLICT ''Paper cycle checkpoint binding changed''
        else Success s))"

definition OTHER_EVENTS :: "string list" where
  "OTHER_EVENTS =
     [''paper_cycle.retry_scheduled'', ''paper_cycle.completed'', ''paper_cycle.dead_lettered'',
      ''paper_cycle.cancelled'']"

fun replay_events ::
  "hashing \<Rightarrow> cycle_db \<Rightarrow> job_row \<Rightarrow> uuid \<Rightarrow> hash \<Rightarrow> run_event list \<Rightarrow> cycle_state \<Rightarrow> hash option \<Rightarrow> int \<Rightarrow>
   (cycle_state \<times> int) result" where
  "replay_events H db job run_id input_hash [] state previous sequence = Success (state, sequence)"
| "replay_events H db job run_id input_hash (e # es) state previous sequence =
     bind (validate_event H db run_id e sequence previous) (\<lambda>_.
     bind (if re_event_type e = ''paper_cycle.stage_completed''
           then bind (checkpoint_state H e job input_hash) (\<lambda>candidate.
                bind (require_next_state state candidate (cy_state_hash state)) (\<lambda>_. Success candidate))
           else if re_event_type e \<notin> set OTHER_EVENTS
           then Failure CONFLICT ''Paper cycle event type is invalid''
           else Success state) (\<lambda>state'.
     replay_events H db job run_id input_hash es state' (Some (re_event_hash e)) (sequence + 1)))"

definition load_state ::
  "hashing \<Rightarrow> cycle_db \<Rightarrow> job_row \<Rightarrow> run_row \<Rightarrow> hash \<Rightarrow> cycle_state result" where
  "load_state H db job run input_hash =
     (let events = run_events db (wr_run_id run) in
      bind (genesis H (wr_run_id run) input_hash) (\<lambda>start.
      bind (replay_events H db job (wr_run_id run) input_hash events start None 2) (\<lambda>(state, sequence).
      if wr_version run \<noteq> sequence - 1
      then Failure CONFLICT ''Paper cycle run/event sequence diverged''
      else if events \<noteq> [] \<and> wr_updated_at run \<noteq> re_occurred_at (last events)
      then Failure CONFLICT ''Paper cycle run/event time diverged''
      else Success state)))"

definition append_audit ::
  "cycle_env \<Rightarrow> run_row \<Rightarrow> job_row \<Rightarrow> string \<Rightarrow> json \<Rightarrow> string \<Rightarrow> utc \<Rightarrow> workflow_status \<Rightarrow> cycle_db \<Rightarrow>
   cycle_db result" where
  "append_audit env run job event_type payload identity occurred_at status db =
     (let prefix = ''stonks:paper-cycle:'' @ jr_job_id job in
      bind (insert_audit env run (uuid5 (ce_hashing env) (prefix @ '':event:'' @ identity))
              (uuid5 (ce_hashing env) (prefix @ '':outbox:'' @ identity)) event_type payload
              (''paper-cycle:'' @ jr_job_id job @ '':'' @ identity) occurred_at db) (\<lambda>db'.
      Success (update_run (advance_run run status occurred_at) db')))"

section \<open>Operations\<close>

definition store_load :: "cycle_env \<Rightarrow> run_command \<Rightarrow> cycle_db \<Rightarrow> cycle_state result" where
  "store_load env c db =
     caught (CONFLICT, ''Paper cycle checkpoint is invalid'') (CONFLICT, ''Paper cycle checkpoint is invalid'')
      (bind (locked_job db (jl_job_id (rc_lease c))) (\<lambda>job.
       bind (locked_run db (jl_run_id (rc_lease c))) (\<lambda>run.
       bind (if jr_status job = JOB_SUCCEEDED then require_completed_authority env c job run
             else require_active env db c job run) (\<lambda>_.
       load_state (ce_hashing env) db job run (rc_input_hash (ce_hashing env) c)))))"

definition checkpoint_payload :: "hashing \<Rightarrow> run_command \<Rightarrow> job_row \<Rightarrow> cycle_state \<Rightarrow> json" where
  "checkpoint_payload H c job s = JObj
     [(''schema'', JStr CHECKPOINT_SCHEMA), (''job_id'', JStr (jr_job_id job)),
      (''cycle_input_hash'', JStr (rc_input_hash H c)),
      (''stage'', JStr (stage_value (last (completed_stages s)))), (''state'', state_json s),
      (''state_hash'', JStr (cy_state_hash s)),
      (''attempt_generation'', JInt (jl_attempt_generation (rc_lease c)))]"

definition store_checkpoint ::
  "cycle_env \<Rightarrow> run_command \<Rightarrow> cycle_state \<Rightarrow> hash \<Rightarrow> cycle_db \<Rightarrow> cycle_state result \<times> cycle_db" where
  "store_checkpoint env c s expected db = transact db
     (caught (CONFLICT, ''Paper cycle checkpoint conflicted'')
        (INTERNAL_ERROR, ''Paper cycle checkpoint failed'')
      (bind (active_authority env db c) (\<lambda>(job, run).
       bind (load_state (ce_hashing env) db job run (rc_input_hash (ce_hashing env) c)) (\<lambda>current.
       bind (require_next_state current s expected) (\<lambda>_.
       bind (append_audit env run job ''paper_cycle.stage_completed''
               (checkpoint_payload (ce_hashing env) c job s)
               (''stage:'' @ stage_value (last (completed_stages s)) @ '':'' @ cy_state_hash s)
               (db_now db) RUNNING db) (\<lambda>db'.
       Success (s, db')))))))"

definition RETRYABLE :: "error_code list" where
  "RETRYABLE = [DATA_UNAVAILABLE, RATE_LIMITED, TOOL_FAILED, INTERNAL_ERROR]"

definition retry_delay :: "cycle_env \<Rightarrow> nat \<Rightarrow> int" where
  "retry_delay env attempts = ce_base_retry_delay env * min (2 ^ (attempts - 1)) 300"

definition last_error_json :: "error_code \<Rightarrow> job_row \<Rightarrow> json" where
  "last_error_json code job = JObj
     [(''code'', JStr (error_code_value code)), (''attempt_generation'', JInt (jr_attempt_generation job))]"

definition mark_failed_attempt ::
  "cycle_env \<Rightarrow> job_row \<Rightarrow> error_code \<Rightarrow> utc \<Rightarrow> utc option \<Rightarrow> cycle_db \<Rightarrow> cycle_db result" where
  "mark_failed_attempt env job code now retry_at db =
     (if \<not> ce_storable env (last_error_json code job) then Raised DatabaseError
      else Success (update_job
        (job\<lparr>jr_status := (if retry_at \<noteq> None then QUEUED else DEAD_LETTER),
             jr_not_before := (case retry_at of None \<Rightarrow> jr_not_before job | Some t \<Rightarrow> t),
             jr_attempt_nonce := None, jr_lease_owner := None, jr_lease_until := None,
             jr_last_error := Some (last_error_json code job), jr_updated_at := now\<rparr>) db))"

definition will_retry :: "cycle_env \<Rightarrow> error_code \<Rightarrow> job_row \<Rightarrow> utc \<Rightarrow> bool" where
  "will_retry env code job now \<longleftrightarrow>
     code \<in> set RETRYABLE \<and> jr_attempts job < jr_max_attempts job \<and>
     now + retry_delay env (jr_attempts job) < jr_deadline_at job"

definition store_fail ::
  "cycle_env \<Rightarrow> run_command \<Rightarrow> error_code \<Rightarrow> cycle_db \<Rightarrow> cycle_run_result result \<times> cycle_db" where
  "store_fail env c code db = transact db
     (caught (CONFLICT, ''Paper cycle failure audit conflicted'')
        (INTERNAL_ERROR, ''Paper cycle failure audit failed'')
      (bind (active_authority env db c) (\<lambda>(job, run).
       bind (load_state (ce_hashing env) db job run (rc_input_hash (ce_hashing env) c)) (\<lambda>s.
       let now = db_now db;
           retry_at = now + retry_delay env (jr_attempts job);
           retry = will_retry env code job now;
           status = (if retry then RETRY_SCHEDULED else DEAD_LETTERED);
           payload = JObj
             [(''schema'', JStr CHECKPOINT_SCHEMA), (''job_id'', JStr (jr_job_id job)),
              (''cycle_input_hash'', JStr (rc_input_hash (ce_hashing env) c)),
              (''state_hash'', JStr (cy_state_hash s)), (''error_code'', JStr (error_code_value code)),
              (''attempt_generation'', JInt (jl_attempt_generation (rc_lease c))),
              (''retry_at'', if retry then JStr (isoformat ''+00:00'' retry_at) else JNull)] in
       bind (append_audit env run job
               (if retry then ''paper_cycle.retry_scheduled'' else ''paper_cycle.dead_lettered'') payload
               (run_status_value status @ '':'' @ show_int (jl_attempt_generation (rc_lease c))) now
               (if retry then RUNNING else RUN_FAILED) db) (\<lambda>db1.
       bind (mark_failed_attempt env job code now (if retry then Some retry_at else None) db1) (\<lambda>db2.
       bind (validate_run_result
         \<lparr>pr_run_id = wr_run_id run, pr_status = status, pr_state = s, pr_result_artifact_hash = None,
          pr_error_code = Some (error_code_value code)\<rparr>) (\<lambda>r.
       Success (r, db2))))))))"

definition register_artifact ::
  "artifact_manifest \<Rightarrow> cycle_state \<Rightarrow> utc \<Rightarrow> cycle_db \<Rightarrow> (artifact_row \<times> cycle_db) result" where
  "register_artifact m s now db =
     (let meta = af_metadata m; candidate = candidate_row m in
      if \<not> (1 \<le> af_size_bytes m \<and> af_size_bytes m \<le> 1048576 \<and> af_finalized_at m \<le> now \<and>
           am_media_type meta = ''application/json'' \<and> am_license_tag meta = ''Apache-2.0'' \<and>
           am_sensitivity meta = ''internal'' \<and> am_source meta = ''stonks-agent-paper-cycle'' \<and>
           dict_pairs_eq (am_attributes meta)
             [(''run_id'', cy_run_id s), (''schema'', ''paper-fund-cycle-result/1.0.0''),
              (''state_hash'', cy_state_hash s)])
      then Failure CONFLICT ''Paper cycle artifact metadata is invalid''
      else (case List.find (\<lambda>a. aw_content_hash a = af_content_hash m) (db_artifacts db) of
          None \<Rightarrow> Success (candidate, db\<lparr>db_artifacts := db_artifacts db @ [candidate]\<rparr>)
        | Some a \<Rightarrow> if same_artifact a candidate then Success (a, db)
            else Failure CONFLICT ''Paper cycle artifact identity changed''))"

definition completion_payload :: "hashing \<Rightarrow> job_row \<Rightarrow> run_command \<Rightarrow> cycle_state \<Rightarrow> artifact_row \<Rightarrow> json" where
  "completion_payload H job c s a = JObj
     [(''schema'', JStr CHECKPOINT_SCHEMA), (''job_id'', JStr (jr_job_id job)),
      (''cycle_input_hash'', JStr (rc_input_hash H c)), (''state_hash'', JStr (cy_state_hash s)),
      (''result_artifact_hash'', JStr (aw_content_hash a)),
      (''result_artifact_identity_hash'', JStr (stable_payload_hash H (JObj
         [(''content_hash'', JStr (aw_content_hash a)), (''size_bytes'', JInt (aw_size_bytes a)),
          (''metadata'', aw_metadata_payload a), (''storage_uri'', JStr (aw_storage_uri a))]))),
      (''attempt_generation'', JInt (jl_attempt_generation (rc_lease c)))]"

definition succeeded_result :: "run_row \<Rightarrow> cycle_state \<Rightarrow> hash \<Rightarrow> cycle_run_result result" where
  "succeeded_result run s content_hash = validate_run_result
     \<lparr>pr_run_id = wr_run_id run, pr_status = CYCLE_SUCCEEDED, pr_state = s,
      pr_result_artifact_hash = Some content_hash, pr_error_code = None\<rparr>"

definition completed_result ::
  "cycle_env \<Rightarrow> cycle_db \<Rightarrow> run_command \<Rightarrow> job_row \<Rightarrow> run_row \<Rightarrow> cycle_state \<Rightarrow> artifact_manifest \<Rightarrow>
   cycle_run_result result" where
  "completed_result env db c job run s m =
     (let H = ce_hashing env; lease = rc_lease c;
          events = filter (\<lambda>e. re_event_type e = ''paper_cycle.completed'') (run_events db (wr_run_id run)) in
      bind (load_state H db job run (rc_input_hash H c)) (\<lambda>current.
      if current = s \<and> cycle_complete s \<and> wr_status run = RUN_SUCCEEDED \<and>
         jr_result_artifact_hash job = Some (af_content_hash m) \<and>
         jr_attempt_generation job = jl_attempt_generation lease \<and>
         jr_attempt_nonce job = Some (jl_attempt_nonce lease) \<and>
         jr_lease_owner job = Some (jl_lease_owner lease) \<and> events \<noteq> [] \<and>
         (case List.find (\<lambda>a. aw_content_hash a = af_content_hash m) (db_artifacts db) of
            None \<Rightarrow> False
          | Some a \<Rightarrow> json_eq (re_payload (last events)) (completion_payload H job c s a))
      then succeeded_result run s (af_content_hash m)
      else Failure CONFLICT ''Completed paper cycle graph is invalid''))"

definition store_complete ::
  "cycle_env \<Rightarrow> run_command \<Rightarrow> cycle_state \<Rightarrow> artifact_manifest \<Rightarrow> cycle_db \<Rightarrow>
   cycle_run_result result \<times> cycle_db" where
  "store_complete env c s m db = transact db
     (caught (CONFLICT, ''Paper cycle completion conflicted'')
        (INTERNAL_ERROR, ''Paper cycle completion failed'')
      (bind (locked_job db (jl_job_id (rc_lease c))) (\<lambda>job.
       bind (locked_run db (jl_run_id (rc_lease c))) (\<lambda>run.
       if jr_status job = JOB_SUCCEEDED
       then bind (completed_result env db c job run s m) (\<lambda>r. Success (r, db))
       else
       bind (require_active env db c job run) (\<lambda>_.
       bind (load_state (ce_hashing env) db job run (rc_input_hash (ce_hashing env) c)) (\<lambda>current.
       if current \<noteq> s \<or> \<not> cycle_complete s
       then Failure CONFLICT ''Paper cycle is not ready to complete''
       else bind (register_artifact m s (db_now db) db) (\<lambda>(a, db1).
       bind (append_audit env run job ''paper_cycle.completed''
               (completion_payload (ce_hashing env) job c s a)
               (''completed:'' @ show_int (jl_attempt_generation (rc_lease c))) (db_now db)
               RUN_SUCCEEDED db1) (\<lambda>db2.
       bind (succeeded_result run s (af_content_hash m)) (\<lambda>r.
       Success (r, update_job
         (job\<lparr>jr_status := JOB_SUCCEEDED, jr_result_artifact_hash := Some (af_content_hash m),
              jr_last_error := None, jr_updated_at := db_now db\<rparr>) db2))))))))))"

definition cancelled_is_exact :: "cycle_db \<Rightarrow> run_row \<Rightarrow> job_row \<Rightarrow> cancel_command \<Rightarrow> bool" where
  "cancelled_is_exact db run job c \<longleftrightarrow>
     (let events = filter (\<lambda>e. re_event_type e = ''paper_cycle.cancelled'') (run_events db (wr_run_id run)) in
      events \<noteq> [] \<and> wr_version run = cc_expected_version c + 1 \<and> jr_status job = JOB_CANCELLED \<and>
      member ''actor'' (re_payload (last events)) = Some (JStr (cc_actor c)) \<and>
      member ''reason_code'' (re_payload (last events)) = Some (JStr (cc_reason_code c)))"

definition cancelled_result :: "run_row \<Rightarrow> cycle_state \<Rightarrow> string \<Rightarrow> cycle_run_result result" where
  "cancelled_result run s reason = validate_run_result
     \<lparr>pr_run_id = wr_run_id run, pr_status = CYCLE_CANCELLED, pr_state = s,
      pr_result_artifact_hash = None, pr_error_code = Some reason\<rparr>"

definition cancel_run ::
  "cycle_env \<Rightarrow> cancel_command \<Rightarrow> run_row \<Rightarrow> job_row \<Rightarrow> cycle_db \<Rightarrow> (cycle_run_result \<times> cycle_db) result" where
  "cancel_run env c run job db =
     bind (load_state (ce_hashing env) db job run (wr_input_hash run)) (\<lambda>s.
     if wr_status run = RUN_CANCELLED
     then if cancelled_is_exact db run job c
          then bind (cancelled_result run s (cc_reason_code c)) (\<lambda>r. Success (r, db))
          else Failure CONFLICT ''Cancelled paper cycle command conflicts''
     else if wr_version run \<noteq> cc_expected_version c \<or>
             wr_status run \<notin> {PENDING, RUNNING, RUN_DEGRADED} \<or> jr_status job \<notin> {QUEUED, LEASED}
     then Failure CONFLICT ''Paper cycle cannot be cancelled''
     else
       let payload = JObj
         [(''schema'', JStr CHECKPOINT_SCHEMA), (''job_id'', JStr (jr_job_id job)),
          (''cycle_input_hash'', JStr (wr_input_hash run)), (''state_hash'', JStr (cy_state_hash s)),
          (''actor'', JStr (cc_actor c)), (''reason_code'', JStr (cc_reason_code c))];
           error = JObj [(''code'', JStr (cc_reason_code c))] in
       bind (append_audit env run job ''paper_cycle.cancelled'' payload
               (''cancelled:'' @ show_int (cc_expected_version c + 1)) (db_now db) RUN_CANCELLED db) (\<lambda>db1.
       if \<not> ce_storable env error then Raised DatabaseError
       else bind (cancelled_result run s (cc_reason_code c)) (\<lambda>r.
       Success (r, update_job
         (job\<lparr>jr_status := JOB_CANCELLED, jr_attempt_nonce := None, jr_lease_owner := None,
              jr_lease_until := None, jr_last_error := Some error, jr_updated_at := db_now db\<rparr>) db1))))"

definition store_cancel ::
  "cycle_env \<Rightarrow> cancel_command \<Rightarrow> cycle_db \<Rightarrow> cycle_run_result result \<times> cycle_db" where
  "store_cancel env c db = transact db
     (caught (CONFLICT, ''Paper cycle cancellation conflicted'')
        (INTERNAL_ERROR, ''Paper cycle cancellation failed'')
      (bind (locked_run db (cc_run_id c)) (\<lambda>run.
       case filter (\<lambda>j. jr_run_id j = cc_run_id c \<and> jr_job_type j = ''paper_fund_cycle'') (db_jobs db) of
         [job] \<Rightarrow> cancel_run env c run job db
       | _ \<Rightarrow> Failure CONFLICT ''Paper cycle job is invalid'')))"

end
