(* ===== verification/Cycle_Runner.thy ===== *)
theory Cycle_Runner
  imports Cycle_Store Operational_Budget
begin

text \<open>
  \<^verbatim>\<open>run_paper_fund_cycle\<close> and \<^verbatim>\<open>cancel_paper_fund_cycle\<close> of \<^verbatim>\<open>application/workflows/run_cycle.py\<close>: the loop that
  advances the durable stages of a cycle under the job lease. The collaborators are arguments, each a
  function on the world \<open>'s\<close>: the store, the stage handler, the budget evaluator, and the artifact
  store with its clock. The telemetry wrapper, which returns the result of the wrapped call, is left out.
\<close>

record 's cycle_ports =
  cp_load :: "run_command \<Rightarrow> 's \<Rightarrow> cycle_state result"
  cp_checkpoint :: "run_command \<Rightarrow> cycle_state \<Rightarrow> hash \<Rightarrow> 's \<Rightarrow> cycle_state result \<times> 's"
  cp_fail :: "run_command \<Rightarrow> error_code \<Rightarrow> 's \<Rightarrow> cycle_run_result result \<times> 's"
  cp_complete :: "run_command \<Rightarrow> cycle_state \<Rightarrow> artifact_manifest \<Rightarrow> 's \<Rightarrow> cycle_run_result result \<times> 's"
  cp_cancel :: "cancel_command \<Rightarrow> 's \<Rightarrow> cycle_run_result result \<times> 's"
  cp_advance :: "run_command \<Rightarrow> cycle_stage \<Rightarrow> cycle_state \<Rightarrow> 's \<Rightarrow> stage_output result \<times> 's"
  cp_budget :: "budget_scope \<Rightarrow> 's \<Rightarrow> budget_decision result \<times> 's"
  cp_finalize :: "string \<Rightarrow> artifact_metadata \<Rightarrow> 's \<Rightarrow> artifact_manifest result \<times> 's"

text \<open>Any exception of the evaluator, and any decision but \<^verbatim>\<open>within\<close>, exhausts the budget.\<close>

fun within_budget :: "budget_decision result \<Rightarrow> bool" where
  "within_budget (Success d) = (bd_status d = WITHIN)"
| "within_budget r = False"

definition result_metadata :: "cycle_state \<Rightarrow> artifact_metadata" where
  "result_metadata s =
     \<lparr>am_media_type = ''application/json'', am_license_tag = ''Apache-2.0'', am_sensitivity = ''internal'',
      am_source = ''stonks-agent-paper-cycle'',
      am_attributes = [(''run_id'', cy_run_id s), (''schema'', ''paper-fund-cycle-result/1.0.0''),
        (''state_hash'', cy_state_hash s)]\<rparr>"

definition finish_cycle ::
  "'s cycle_ports \<Rightarrow> run_command \<Rightarrow> cycle_state \<Rightarrow> 's \<Rightarrow> cycle_run_result result \<times> 's" where
  "finish_cycle port c state w =
     (case cp_finalize port (canonical_json (state_json state)) (result_metadata state) w of
        (Success m, w1) \<Rightarrow> cp_complete port c state m w1
      | (Failure code e, w1) \<Rightarrow> cp_fail port c code w1
      | (Raised e, w1) \<Rightarrow> (Raised e, w1))"

text \<open>
  The \<^verbatim>\<open>while\<close> loop goes on with whatever state the store returned, so that it need not end; \<^verbatim>\<open>None\<close> is a
  call that does not return.
\<close>

partial_function (option) cycle_loop ::
  "hashing \<Rightarrow> 's cycle_ports \<Rightarrow> run_command \<Rightarrow> cycle_state \<Rightarrow> 's \<Rightarrow> (cycle_run_result result \<times> 's) option" where
  "cycle_loop H port c state w =
     (case next_stage state of
        None \<Rightarrow> Some (finish_cycle port c state w)
      | Some stage \<Rightarrow>
          (case cp_budget port PAPER_CYCLE_BUDGET w of (decision, w1) \<Rightarrow>
           if \<not> within_budget decision then Some (cp_fail port c BUDGET_EXHAUSTED w1)
           else
          (case cp_advance port c stage state w1 of
             (Failure code e, w2) \<Rightarrow> Some (cp_fail port c code w2)
           | (Raised e, w2) \<Rightarrow> Some (Raised e, w2)
           | (Success x, w2) \<Rightarrow>
          (case advance H state x of
             Raised (ValueError e) \<Rightarrow> Some (cp_fail port c CONFLICT w2)
           | Raised e \<Rightarrow> Some (Raised e, w2)
           | Failure code e \<Rightarrow> Some (Failure code e, w2)
           | Success state' \<Rightarrow>
          (case cp_checkpoint port c state' (cy_state_hash state) w2 of
             (Failure code e, w3) \<Rightarrow> Some (Failure code e, w3)
           | (Raised e, w3) \<Rightarrow> Some (Raised e, w3)
           | (Success saved, w3) \<Rightarrow> cycle_loop H port c saved w3)))))"

definition run_paper_fund_cycle ::
  "hashing \<Rightarrow> 's cycle_ports \<Rightarrow> run_command \<Rightarrow> 's \<Rightarrow> (cycle_run_result result \<times> 's) option" where
  "run_paper_fund_cycle H port c w =
     (case cp_load port c w of
        Failure code e \<Rightarrow> Some (Failure code e, w)
      | Raised e \<Rightarrow> Some (Raised e, w)
      | Success state \<Rightarrow>
          if cy_run_id state \<noteq> jl_run_id (rc_lease c) \<or> cy_cycle_input_hash state \<noteq> rc_input_hash H c
          then Some (cp_fail port c CONFLICT w)
          else cycle_loop H port c state w)"

definition cancel_paper_fund_cycle ::
  "'s cycle_ports \<Rightarrow> cancel_command \<Rightarrow> 's \<Rightarrow> cycle_run_result result \<times> 's" where
  "cancel_paper_fund_cycle port c w = cp_cancel port c w"

text \<open>
  The ports with the PostgreSQL store: the world is the database and the rest; handler, budget and
  artifact store may change both, as time passes and other jobs write.
\<close>

definition postgres_ports ::
  "cycle_env \<Rightarrow> (run_command \<Rightarrow> cycle_stage \<Rightarrow> cycle_state \<Rightarrow> cycle_db \<times> 'e \<Rightarrow> stage_output result \<times> cycle_db \<times> 'e) \<Rightarrow>
   (budget_scope \<Rightarrow> cycle_db \<times> 'e \<Rightarrow> budget_decision result \<times> cycle_db \<times> 'e) \<Rightarrow>
   (string \<Rightarrow> artifact_metadata \<Rightarrow> cycle_db \<times> 'e \<Rightarrow> artifact_manifest result \<times> cycle_db \<times> 'e) \<Rightarrow>
   (cycle_db \<times> 'e) cycle_ports" where
  "postgres_ports env handler budget artifacts =
     \<lparr>cp_load = (\<lambda>c (db, w). store_load env c db),
      cp_checkpoint = (\<lambda>c s h (db, w). let (r, db') = store_checkpoint env c s h db in (r, db', w)),
      cp_fail = (\<lambda>c code (db, w). let (r, db') = store_fail env c code db in (r, db', w)),
      cp_complete = (\<lambda>c s m (db, w). let (r, db') = store_complete env c s m db in (r, db', w)),
      cp_cancel = (\<lambda>c (db, w). let (r, db') = store_cancel env c db in (r, db', w)),
      cp_advance = handler, cp_budget = budget, cp_finalize = artifacts\<rparr>"

end
