(* ===== verification/Cycle_Log.thy ===== *)
theory Cycle_Log
  imports Cycle_Runner
begin

text \<open>
  What the event log of a paper cycle guarantees: replaying it is compositional, an appended event leaves
  the earlier ones readable, and a state read from it is valid.
\<close>

section \<open>States read from the log\<close>

lemma read_reference_valid: "read_reference j = Success r \<Longrightarrow> validate_cycle_reference r = Success r"
  by (auto simp: read_reference_def validate_cycle_reference_def res_simps)

lemma validate_stage_output_frame: "validate_stage_output H x = Success x' \<Longrightarrow> x' = x"
  by (auto simp: validate_stage_output_def Let_def res_simps split: prod.splits)

lemma read_output_valid:
  assumes "read_output H j = Success x"
  shows "validate_stage_output H x = Success x \<and> references_valid x"
proof -
  from assms obtain rs y where rs: "run_all read_reference rs = Success (so_references y)"
    and y: "validate_stage_output H y = Success x"
    by (force simp: read_output_def bind_Success_iff)
  from validate_stage_output_frame [OF y] rs y show ?thesis
    by (auto simp: references_valid_def run_all_Success list_all2_conv_all_nth list_all_length read_reference_valid)
qed

lemma read_state_valid: "read_state H j = Success s \<Longrightarrow> state_valid H s"
  by (auto simp: read_state_def bind_Success_iff validate_cycle_state_def res_simps state_valid_def require_def
      run_all_Success list_all2_conv_all_nth list_all_length read_output_valid split: if_splits)

lemma checkpoint_state_valid: "checkpoint_state H e job h = Success s \<Longrightarrow> state_valid H s"
  by (auto simp: checkpoint_state_def Let_def bind_Success_iff split: if_splits json.splits option.splits
      intro: read_state_valid)

lemma genesis_valid: "uuid_canonical rid \<Longrightarrow> genesis H rid h = Success s \<Longrightarrow> state_valid H s \<and> cy_outputs s = []"
  by (auto simp: genesis_def make_cycle_state_Success state_valid_def)

lemma require_next_state_Success:
  "require_next_state s s' h = Success u \<longleftrightarrow>
     cy_state_hash s = h \<and> cy_run_id s' = cy_run_id s \<and> cy_cycle_input_hash s' = cy_cycle_input_hash s \<and>
     (\<exists>x. cy_outputs s' = cy_outputs s @ [x] \<and> next_stage s = Some (so_stage x))"
proof -
  have "length (cy_outputs s') = length (cy_outputs s) + 1 \<and> butlast (cy_outputs s') = cy_outputs s \<and>
      Some (so_stage (last (cy_outputs s'))) = next_stage s \<longleftrightarrow>
    (\<exists>x. cy_outputs s' = cy_outputs s @ [x] \<and> next_stage s = Some (so_stage x))"
    by (cases "cy_outputs s'" rule: rev_cases) auto
  then show ?thesis
    by (auto simp: require_next_state_def)
qed

text \<open>What one event does to the state.\<close>

definition apply_event ::
  "hashing \<Rightarrow> job_row \<Rightarrow> hash \<Rightarrow> run_event \<Rightarrow> cycle_state \<Rightarrow> cycle_state result" where
  "apply_event H job input_hash e state =
     (if re_event_type e = ''paper_cycle.stage_completed''
      then bind (checkpoint_state H e job input_hash) (\<lambda>candidate.
           bind (require_next_state state candidate (cy_state_hash state)) (\<lambda>_. Success candidate))
      else if re_event_type e \<notin> set OTHER_EVENTS
      then Failure CONFLICT ''Paper cycle event type is invalid''
      else Success state)"

lemma replay_Cons:
  "replay_events H db job rid h (e # es) s p n =
     bind (validate_event H db rid e n p) (\<lambda>_. bind (apply_event H job h e s) (\<lambda>s'.
       replay_events H db job rid h es s' (Some (re_event_hash e)) (n + 1)))"
  by (simp add: apply_event_def)

declare replay_events.simps(2) [simp del] replay_Cons [simp]

lemma apply_event_extends:
  assumes "apply_event H job h e s = Success s'" "state_valid H s"
  shows "state_valid H s' \<and> cy_run_id s' = cy_run_id s \<and> cy_cycle_input_hash s' = cy_cycle_input_hash s \<and>
    (\<exists>xs. cy_outputs s' = cy_outputs s @ xs)"
  using assms checkpoint_state_valid
  by (fastforce simp: apply_event_def bind_Success_iff require_next_state_Success split: if_splits)

lemma replay_extends:
  assumes "replay_events H db job rid h es s p n = Success (s', n')" "state_valid H s"
  shows "state_valid H s' \<and> cy_run_id s' = cy_run_id s \<and> cy_cycle_input_hash s' = cy_cycle_input_hash s \<and>
    (\<exists>xs. cy_outputs s' = cy_outputs s @ xs) \<and> n' = n + int (length es)"
  using assms
proof (induction es arbitrary: s p n)
  case (Cons e es)
  then obtain s1 where s1: "apply_event H job h e s = Success s1"
      "replay_events H db job rid h es s1 (Some (re_event_hash e)) (n + 1) = Success (s', n')"
    by (auto simp: bind_Success_iff)
  from apply_event_extends [OF s1(1) Cons.prems(2)] Cons.IH [OF s1(2)] show ?case
    by auto
qed simp

lemma replay_append:
  "replay_events H db job rid h (es @ [e]) s p n =
     bind (replay_events H db job rid h es s p n) (\<lambda>(s', n').
     bind (validate_event H db rid e n' (if es = [] then p else Some (re_event_hash (last es)))) (\<lambda>_.
     bind (apply_event H job h e s') (\<lambda>s''. Success (s'', n' + 1))))"
proof (induction es arbitrary: s p n)
  case (Cons a es)
  then show ?case
    by (cases "validate_event H db rid a n p"; cases "apply_event H job h a s") simp_all
qed simp

lemma find_append: "List.find P xs = Some x \<Longrightarrow> List.find P (xs @ ys) = Some x"
  by (induction xs) auto

lemma find_append_new: "\<lbrakk>list_all (\<lambda>x. \<not> P x) xs; P y\<rbrakk> \<Longrightarrow> List.find P (xs @ [y]) = Some y"
  by (induction xs) auto

text \<open>An event stays valid when messages are added to the outbox.\<close>

lemma validate_event_mono:
  assumes "validate_event H db rid e n p = Success u" "db_outbox db' = db_outbox db @ ys"
  shows "validate_event H db' rid e n p = Success u"
  using assms by (auto simp: validate_event_def find_append split: if_splits option.splits)

lemma replay_mono:
  assumes "replay_events H db job rid h es s p n = Success x" "db_outbox db' = db_outbox db @ ys"
  shows "replay_events H db' job rid h es s p n = Success x"
  using assms(1)
proof (induction es arbitrary: s p n)
  case (Cons e es)
  then obtain u s1 where "validate_event H db rid e n p = Success u" "apply_event H job h e s = Success s1"
      "replay_events H db job rid h es s1 (Some (re_event_hash e)) (n + 1) = Success x"
    by (auto simp: bind_Success_iff)
  with Cons.IH validate_event_mono [OF _ assms(2)] show ?case
    by simp
qed simp

lemma replay_job:
  "jr_job_id job = jr_job_id job' \<Longrightarrow>
   replay_events H db job rid h es s p n = replay_events H db job' rid h es s p n"
  by (induction es arbitrary: s p n) (simp_all add: apply_event_def checkpoint_state_def)

lemma validate_event_sequence: "validate_event H db rid e n p = Success u \<Longrightarrow> re_sequence e = n"
  by (auto simp: validate_event_def split: if_splits)

lemma replay_bound: "replay_events H db job rid h es s p n = Success (s', n') \<Longrightarrow> n' = n + int (length es)"
proof (induction es arbitrary: s p n)
  case (Cons e es)
  then obtain s1 where "replay_events H db job rid h es s1 (Some (re_event_hash e)) (n + 1) = Success (s', n')"
    by (auto simp: bind_Success_iff)
  from Cons.IH [OF this] show ?case by simp
qed simp

lemma replay_sequences:
  "replay_events H db job rid h es s p n = Success (s', n') \<Longrightarrow>
   \<forall>e \<in> set es. n \<le> re_sequence e \<and> re_sequence e < n'"
proof (induction es arbitrary: s p n)
  case (Cons e es)
  then obtain u s1 where "validate_event H db rid e n p = Success u"
      "replay_events H db job rid h es s1 (Some (re_event_hash e)) (n + 1) = Success (s', n')"
    by (auto simp: bind_Success_iff)
  with Cons.IH [OF this(2)] validate_event_sequence [of H db rid e n p u]
  have "re_sequence e = n" "\<forall>e \<in> set es. n + 1 \<le> re_sequence e \<and> re_sequence e < n'" "n + 1 \<le> n'"
    using replay_bound [of H db job rid h es s1 "Some (re_event_hash e)" "n + 1" s' n'] by auto
  then show ?case by auto
qed simp

end
