(* ===== verification/Cycle_Append.thy ===== *)
theory Cycle_Append
  imports Cycle_Log
begin

text \<open>
  What one more event does to a log: the state of its run becomes what the event makes of it, and no
  other run notices.
\<close>

section \<open>Appending one event\<close>

lemma json_eq_refl [simp]: "json_eq j j"
  by (simp add: json_eq_def)

lemma run_events_set: "set (run_events db rid) = {e \<in> set (db_events db). re_run_id e = rid}"
  by (auto simp: run_events_def)

lemma run_events_snoc:
  assumes "db_events db' = db_events db @ [e]" "\<forall>x \<in> set (run_events db (re_run_id e)). re_sequence x \<le> re_sequence e"
  shows "run_events db' rid = (if re_run_id e = rid then run_events db rid @ [e] else run_events db rid)"
  using assms by (auto simp: run_events_def intro: sort_key_snoc)

text \<open>The event that an insert adds.\<close>

definition new_event :: "hashing \<Rightarrow> run_row \<Rightarrow> uuid \<Rightarrow> string \<Rightarrow> json \<Rightarrow> utc \<Rightarrow> cycle_db \<Rightarrow> run_event" where
  "new_event H run event_id event_type payload t db =
     (let previous = last_event_hash db (wr_run_id run) in
      \<lparr>re_event_id = event_id, re_run_id = wr_run_id run, re_sequence = wr_version run + 1,
       re_event_type = event_type, re_payload = payload, re_occurred_at = t, re_previous_hash = previous,
       re_event_hash = run_event_hash H event_id (wr_version run + 1) previous payload\<rparr>)"

lemma new_event_simps [simp]:
  "re_run_id (new_event H run i ty p t db) = wr_run_id run"
  "re_sequence (new_event H run i ty p t db) = wr_version run + 1"
  "re_event_type (new_event H run i ty p t db) = ty"
  "re_payload (new_event H run i ty p t db) = p"
  "re_occurred_at (new_event H run i ty p t db) = t"
  by (simp_all add: new_event_def Let_def)

lemma insert_audit_Success:
  assumes "insert_audit env run event_id outbox_id event_type payload key t db = Success db'"
  shows "\<exists>m. db' = db\<lparr>db_events := db_events db @ [new_event (ce_hashing env) run event_id event_type payload t db],
       db_outbox := db_outbox db @ [m]\<rparr> \<and>
    list_all (\<lambda>y. (ox_aggregate_type y, ox_aggregate_id y, ox_sequence y) \<noteq>
       (''run'', wr_run_id run, wr_version run + 1)) (db_outbox db) \<and>
    ox_aggregate_type m = ''run'' \<and> ox_aggregate_id m = wr_run_id run \<and> ox_sequence m = wr_version run + 1 \<and>
    ox_topic m = event_type \<and> ox_payload m = payload \<and> ox_created_at m = t"
proof -
  let ?m = "\<lparr>ox_outbox_id = outbox_id, ox_aggregate_type = ''run'', ox_aggregate_id = wr_run_id run,
      ox_sequence = wr_version run + 1, ox_topic = event_type, ox_payload = payload,
      ox_idempotency_key = key, ox_created_at = t, ox_not_before = t\<rparr>"
  from assms have "unique_outbox db ?m" and
    "db' = db\<lparr>db_events := db_events db @ [new_event (ce_hashing env) run event_id event_type payload t db],
       db_outbox := db_outbox db @ [?m]\<rparr>"
    by (auto simp: insert_audit_def Let_def new_event_def split: if_splits)
  then show ?thesis
    by (intro exI [of _ ?m]) (auto simp: unique_outbox_def list_all_iff)
qed

text \<open>The state of a run depends on the log and the outbox only.\<close>

lemma load_state_cong:
  assumes "db_events db = db_events db'" "db_outbox db = db_outbox db'"
  shows "load_state H db job run h = load_state H db' job run h"
proof -
  have "validate_event H db rid e n p = validate_event H db' rid e n p" for rid e n p
    by (simp add: validate_event_def assms)
  then have "replay_events H db job rid h es s p n = replay_events H db' job rid h es s p n" for rid es s p n
    by (induction es arbitrary: s p n) simp_all
  then show ?thesis
    by (simp add: load_state_def run_events_def assms)
qed

lemma load_state_head:
  "\<lbrakk>wr_run_id run = wr_run_id run'; wr_version run = wr_version run'; wr_updated_at run = wr_updated_at run';
    jr_job_id job = jr_job_id job'\<rbrakk> \<Longrightarrow> load_state H db job run h = load_state H db job' run' h"
  by (simp add: load_state_def replay_job [of job job'] cong: if_cong)

text \<open>The log with one more event replays to what the event makes of the state so far.\<close>

lemma load_appended:
  assumes load: "load_state H db job run h = Success s"
    and audit: "insert_audit env run event_id outbox_id event_type payload key t db = Success db'"
    and H: "H = ce_hashing env"
    and event: "apply_event H job h (new_event H run event_id event_type payload t db) s = Success s'"
  shows "load_state H db' job (advance_run run status t) h = Success s'"
proof -
  let ?rid = "wr_run_id run" and ?e = "new_event H run event_id event_type payload t db"
  let ?es = "run_events db ?rid"
  from load obtain start where start: "genesis H ?rid h = Success start"
    and replay: "replay_events H db job ?rid h ?es start None 2 = Success (s, wr_version run + 1)"
    by (auto simp: load_state_def Let_def bind_Success_iff split: if_splits)
  from insert_audit_Success [OF audit] obtain m where db': "db_events db' = db_events db @ [?e]"
      "db_outbox db' = db_outbox db @ [m]"
    and fresh: "list_all (\<lambda>y. (ox_aggregate_type y, ox_aggregate_id y, ox_sequence y) \<noteq>
       (''run'', wr_run_id run, wr_version run + 1)) (db_outbox db)"
    and m: "ox_aggregate_type m = ''run'' \<and> ox_aggregate_id m = ?rid \<and> ox_sequence m = wr_version run + 1 \<and>
      ox_topic m = event_type \<and> ox_payload m = payload \<and> ox_created_at m = t"
    by (auto simp: H)
  have "\<forall>x \<in> set ?es. re_sequence x \<le> re_sequence ?e"
    using replay_sequences [OF replay] by auto
  then have es: "run_events db' ?rid = ?es @ [?e]"
    using run_events_snoc [OF db'(1)] by simp
  have "List.find (\<lambda>x. ox_aggregate_type x = ''run'' \<and> ox_aggregate_id x = ?rid \<and>
      ox_sequence x = wr_version run + 1) (db_outbox db') = Some m"
    unfolding db' using fresh m by (intro find_append_new) (auto simp: list_all_iff)
  then have "validate_event H db' ?rid ?e (wr_version run + 1) (last_event_hash db ?rid) = Success ()"
    using m by (simp add: validate_event_def new_event_def Let_def)
  then have "replay_events H db' job ?rid h (run_events db' ?rid) start None 2 = Success (s', wr_version run + 2)"
    using replay_mono [OF replay db'(2)] event
    by (simp add: es replay_append last_event_hash_def Let_def add.commute del: replay_Cons split: if_splits)
  then show ?thesis
    using start by (simp add: load_state_def advance_run_def es)
qed

text \<open>Other runs do not see the event.\<close>

lemma load_other:
  assumes load: "load_state H db job run h = Success s"
    and audit: "insert_audit env r event_id outbox_id event_type payload key t db = Success db'"
    and other: "wr_run_id run \<noteq> wr_run_id r"
  shows "load_state H db' job run h = Success s"
proof -
  from insert_audit_Success [OF audit] obtain m where db':
    "db_events db' = db_events db @ [new_event (ce_hashing env) r event_id event_type payload t db]"
    "db_outbox db' = db_outbox db @ [m]"
    by auto
  then have "run_events db' (wr_run_id run) = run_events db (wr_run_id run)"
    using other by (simp add: run_events_def)
  then show ?thesis
    using load replay_mono [OF _ db'(2)]
    by (auto simp: load_state_def Let_def bind_Success_iff split: if_splits)
qed

lemma load_state_extends:
  assumes "load_state H db job run h = Success s" "uuid_canonical (wr_run_id run)"
  shows "state_valid H s \<and> cy_run_id s = wr_run_id run \<and> cy_cycle_input_hash s = h"
proof -
  from assms obtain start where start: "genesis H (wr_run_id run) h = Success start"
    and replay: "replay_events H db job (wr_run_id run) h (run_events db (wr_run_id run)) start None 2 =
      Success (s, wr_version run + 1)"
    by (auto simp: load_state_def Let_def bind_Success_iff split: if_splits)
  from genesis_valid [OF assms(2) start] start have "state_valid H start" "cy_run_id start = wr_run_id run"
      "cy_cycle_input_hash start = h"
    by (auto simp: genesis_def make_cycle_state_Success)
  with replay_extends [OF replay] show ?thesis by auto
qed

end
