(* ===== verification/Job_Queue.thy ===== *)
theory Job_Queue
  imports Workflow_Rows Decimal_Text
begin

text \<open>
  \<^verbatim>\<open>adapters/postgres/job_queue.py\<close> with \<^verbatim>\<open>adapters/postgres/job_queue_audit.py\<close> and the commands of
  \<^verbatim>\<open>domain/job.py\<close>: the durable queue. A claim hands out a lease with a fresh nonce and the next attempt
  generation; completion and failure are accepted only under the active lease and are appended to the
  event log of the run. Unlike the checkpoint store a rejected operation of the queue returns from inside
  the transaction, which commits what was done before. No rows are skipped as locked, since transactions
  do not overlap. The recorder, which returns the result of the wrapped call, and the test that
  the time of the database is aware are left out.
\<close>

section \<open>Commands\<close>

record enqueue_job =
  ej_job_id :: uuid
  ej_run_id :: uuid
  ej_job_type :: string
  ej_payload :: json
  ej_idempotency_key :: string
  ej_not_before :: utc
  ej_deadline_at :: utc
  ej_max_attempts :: nat
  ej_created_at :: utc

definition validate_enqueue :: "enqueue_job \<Rightarrow> enqueue_job result" where
  "validate_enqueue r = check_all
     [(nonempty_ok (ej_job_type r) \<and> nonempty_ok (ej_idempotency_key r) \<and> 1 \<le> ej_max_attempts r \<and>
       ej_max_attempts r \<le> 100, ''field''),
      (\<not> ej_deadline_at r \<le> ej_not_before r, ''deadline_at must be later than not_before'')] r"

definition ej_payload_hash :: "hashing \<Rightarrow> enqueue_job \<Rightarrow> hash" where
  "ej_payload_hash H r = stable_payload_hash H (ej_payload r)"

record complete_job =
  cj_job_id :: uuid
  cj_worker_id :: string
  cj_attempt_generation :: int
  cj_attempt_nonce :: string
  cj_result_artifact_hash :: hash

record fail_job =
  fj_job_id :: uuid
  fj_worker_id :: string
  fj_attempt_generation :: int
  fj_attempt_nonce :: string
  fj_error_code :: error_code
  fj_reason_code :: string

record completion_receipt =
  qc_job_id :: uuid
  qc_run_id :: uuid
  qc_event_id :: uuid
  qc_outbox_id :: uuid
  qc_sequence :: int
  qc_result_artifact_hash :: hash
  qc_completed_at :: utc

definition validate_completion_receipt :: "completion_receipt \<Rightarrow> completion_receipt result" where
  "validate_completion_receipt r =
     check_all [(1 \<le> qc_sequence r \<and> sha256_ok (qc_result_artifact_hash r), ''field'')] r"

record failure_receipt =
  qf_job_id :: uuid
  qf_run_id :: uuid
  qf_event_id :: uuid
  qf_outbox_id :: uuid
  qf_sequence :: int
  qf_error_code :: error_code
  qf_reason_code :: string
  qf_failed_at :: utc

text \<open>The pattern \<^verbatim>\<open>^[a-z][a-z0-9_]*$\<close>.\<close>

fun reason_code_ok :: "string \<Rightarrow> bool" where
  "reason_code_ok [] = False"
| "reason_code_ok (c # cs) =
     (char_between CHR ''a'' c CHR ''z'' \<and> length cs \<le> 63 \<and>
      list_all (\<lambda>x. char_between CHR ''a'' x CHR ''z'' \<or> char_between CHR ''0'' x CHR ''9'' \<or> x = CHR ''_'') cs)"

definition validate_failure_receipt :: "failure_receipt \<Rightarrow> failure_receipt result" where
  "validate_failure_receipt r =
     check_all [(1 \<le> qf_sequence r \<and> reason_code_ok (qf_reason_code r), ''field'')] r"

text \<open>
  A transaction that returns a result, also a rejection, commits; one that raises is rolled back and the
  exception mapped by the \<^verbatim>\<open>except\<close> clauses.
\<close>

fun settle ::
  "error_code \<times> string \<Rightarrow> error_code \<times> string \<Rightarrow> 'd \<Rightarrow> ('a result \<times> 'd) result \<Rightarrow> 'a result \<times> 'd" where
  "settle conflict broken db (Success rd) = rd"
| "settle conflict broken db (Failure c m) = (Failure c m, db)"
| "settle conflict broken db (Raised e) = (caught conflict broken (Raised e), db)"

fun naive_time :: "pytime \<Rightarrow> bool" where
  "naive_time (Naive t) = True"
| "naive_time (Utc t) = False"

definition find_job :: "cycle_db \<Rightarrow> uuid \<Rightarrow> job_row option" where
  "find_job db job_id = List.find (\<lambda>j. jr_job_id j = job_id) (db_jobs db)"

definition find_run :: "cycle_db \<Rightarrow> uuid \<Rightarrow> run_row option" where
  "find_run db run_id = List.find (\<lambda>r. wr_run_id r = run_id) (db_runs db)"

section \<open>Enqueue\<close>

definition queued_row :: "hashing \<Rightarrow> enqueue_job \<Rightarrow> job_row" where
  "queued_row H r =
     \<lparr>jr_job_id = ej_job_id r, jr_run_id = ej_run_id r, jr_job_type = ej_job_type r, jr_payload = ej_payload r,
      jr_payload_hash = ej_payload_hash H r, jr_status = QUEUED, jr_idempotency_key = ej_idempotency_key r,
      jr_not_before = ej_not_before r, jr_deadline_at = ej_deadline_at r, jr_attempts = 0,
      jr_max_attempts = ej_max_attempts r, jr_attempt_generation = 0, jr_attempt_nonce = None,
      jr_lease_owner = None, jr_lease_until = None, jr_result_artifact_hash = None, jr_last_error = None,
      jr_created_at = ej_created_at r, jr_updated_at = ej_created_at r\<rparr>"

definition same_or_conflicting_job :: "hashing \<Rightarrow> job_row \<Rightarrow> enqueue_job \<Rightarrow> job_row result" where
  "same_or_conflicting_job H j r =
     (if jr_job_id j = ej_job_id r \<and> jr_run_id j = ej_run_id r \<and> jr_job_type j = ej_job_type r \<and>
         json_eq (jr_payload j) (ej_payload r) \<and> jr_payload_hash j = stable_payload_hash H (jr_payload j) \<and>
         jr_payload_hash j = ej_payload_hash H r \<and> jr_idempotency_key j = ej_idempotency_key r \<and>
         jr_not_before j = ej_not_before r \<and> jr_deadline_at j = ej_deadline_at r \<and>
         jr_max_attempts j = ej_max_attempts r \<and> jr_created_at j = ej_created_at r
      then Success j else Failure CONFLICT ''Job idempotency command mismatch'')"

definition enqueue :: "cycle_env \<Rightarrow> enqueue_job \<Rightarrow> cycle_db \<Rightarrow> job_row result \<times> cycle_db" where
  "enqueue env r db =
     (case List.find (\<lambda>j. jr_idempotency_key j = ej_idempotency_key r) (db_jobs db) of
        Some j \<Rightarrow> (same_or_conflicting_job (ce_hashing env) j r, db)
      | None \<Rightarrow>
          if \<not> ce_storable env (ej_payload r) then (Failure INTERNAL_ERROR ''Job enqueue failed'', db)
          else if find_job db (ej_job_id r) \<noteq> None \<or> find_run db (ej_run_id r) = None
          then (Failure CONFLICT ''Job already exists'', db)
          else let row = queued_row (ce_hashing env) r in (Success row, db\<lparr>db_jobs := db_jobs db @ [row]\<rparr>))"

section \<open>The audit log of a run\<close>

fun chain_from :: "hashing \<Rightarrow> run_event list \<Rightarrow> int \<Rightarrow> hash option \<Rightarrow> bool" where
  "chain_from H [] n previous = True"
| "chain_from H (e # es) n previous =
     (re_sequence e = n \<and> re_previous_hash e = previous \<and>
      re_event_hash e = run_event_hash H (re_event_id e) (re_sequence e) previous (re_payload e) \<and>
      chain_from H es (n + 1) (Some (re_event_hash e)))"

definition event_chain_valid :: "hashing \<Rightarrow> cycle_db \<Rightarrow> run_row \<Rightarrow> uuid \<Rightarrow> bool" where
  "event_chain_valid H db run required \<longleftrightarrow>
     (let events = run_events db (wr_run_id run) in
      chain_from H events 2 None \<and> events \<noteq> [] \<and> list_ex (\<lambda>e. re_event_id e = required) events \<and>
      re_sequence (last events) = wr_version run \<and> re_occurred_at (last events) = wr_updated_at run)"

definition require_valid_audit_head :: "hashing \<Rightarrow> cycle_db \<Rightarrow> run_row \<Rightarrow> unit result" where
  "require_valid_audit_head H db run =
     (let events = run_events db (wr_run_id run) in
      if events = []
      then (if wr_version run \<noteq> 1 then Raised (ValueError ''run audit head is invalid'') else Success ())
      else if wr_version run \<noteq> re_sequence (last events)
      then Raised (ValueError ''run audit head is invalid'')
      else if \<not> event_chain_valid H db run (re_event_id (last events))
      then Raised (ValueError ''run audit chain is invalid'') else Success ())"

definition audit_event_id :: "hashing \<Rightarrow> uuid \<Rightarrow> int \<Rightarrow> uuid" where
  "audit_event_id H job_id generation = uuid5 H (''stonks:job:'' @ job_id @ '':event:'' @ show_int generation)"

definition audit_outbox_id :: "hashing \<Rightarrow> uuid \<Rightarrow> int \<Rightarrow> uuid" where
  "audit_outbox_id H job_id generation = uuid5 H (''stonks:job:'' @ job_id @ '':outbox:'' @ show_int generation)"

definition job_identity_hash :: "hashing \<Rightarrow> job_row \<Rightarrow> hash" where
  "job_identity_hash H j = stable_payload_hash H (JObj
     [(''job_id'', JStr (jr_job_id j)), (''run_id'', JStr (jr_run_id j)), (''job_type'', JStr (jr_job_type j)),
      (''payload'', jr_payload j), (''payload_hash'', JStr (jr_payload_hash j)),
      (''idempotency_key'', JStr (jr_idempotency_key j)), (''not_before'', jtime (jr_not_before j)),
      (''deadline_at'', jtime (jr_deadline_at j)), (''max_attempts'', JInt (int (jr_max_attempts j))),
      (''created_at'', jtime (jr_created_at j))])"

definition run_identity_hash :: "hashing \<Rightarrow> run_row \<Rightarrow> hash" where
  "run_identity_hash H r = stable_payload_hash H (JObj
     [(''run_id'', JStr (wr_run_id r)), (''run_type'', JStr (wr_run_type r)), (''as_of'', jtime (wr_as_of r)),
      (''policy_id'', JStr (wr_policy_id r)), (''idempotency_key'', JStr (wr_idempotency_key r)),
      (''input_hash'', JStr (wr_input_hash r)), (''owner_subject'', JStr (wr_owner_subject r)),
      (''created_at'', jtime (wr_created_at r))])"

definition artifact_identity_hash :: "hashing \<Rightarrow> artifact_row \<Rightarrow> hash" where
  "artifact_identity_hash H a = stable_payload_hash H (JObj
     [(''content_hash'', JStr (aw_content_hash a)), (''size_bytes'', JInt (aw_size_bytes a)),
      (''media_type'', JStr (aw_media_type a)), (''license_tag'', JStr (aw_license_tag a)),
      (''sensitivity'', JStr (aw_sensitivity a)), (''source'', JStr (aw_source a)),
      (''finalized_at'', jtime (aw_finalized_at a)), (''storage_uri'', JStr (aw_storage_uri a)),
      (''metadata'', aw_metadata_payload a)])"

section \<open>Jobs nobody can claim\<close>

definition unclaimable :: "utc \<Rightarrow> job_row \<Rightarrow> bool" where
  "unclaimable now j \<longleftrightarrow>
     jr_status j \<in> {QUEUED, LEASED} \<and>
     (jr_deadline_at j \<le> now \<or>
      jr_status j = LEASED \<and> (case jr_lease_until j of None \<Rightarrow> False | Some t \<Rightarrow> t \<le> now) \<and>
      jr_max_attempts j \<le> jr_attempts j)"

definition dead_letter_reason :: "job_row \<Rightarrow> utc \<Rightarrow> string result" where
  "dead_letter_reason j now =
     (if jr_deadline_at j \<le> now then Success ''deadline_exceeded''
      else if jr_status j = LEASED \<and> (case jr_lease_until j of None \<Rightarrow> False | Some t \<Rightarrow> t \<le> now) \<and>
              jr_max_attempts j \<le> jr_attempts j
      then Success ''attempts_exhausted''
      else Raised (ValueError ''job is still claimable''))"

definition dead_row :: "job_row \<Rightarrow> json \<Rightarrow> utc \<Rightarrow> job_row" where
  "dead_row j error now =
     j\<lparr>jr_status := DEAD_LETTER, jr_attempt_nonce := None, jr_lease_owner := None, jr_lease_until := None,
       jr_last_error := Some error, jr_updated_at := now\<rparr>"

definition dead_letter_job :: "cycle_env \<Rightarrow> utc \<Rightarrow> job_row \<Rightarrow> cycle_db \<Rightarrow> cycle_db result" where
  "dead_letter_job env now j db =
     (let H = ce_hashing env; g = jr_attempt_generation j in
      if stable_payload_hash H (jr_payload j) \<noteq> jr_payload_hash j
      then Raised (ValueError ''unclaimable job payload is not canonical'')
      else if jr_result_artifact_hash j \<noteq> None
      then Raised (ValueError ''unclaimable job already has a result'')
      else (case find_run db (jr_run_id j) of
        None \<Rightarrow> Raised (ValueError ''unclaimable job has no owning run'')
      | Some run \<Rightarrow>
          bind (require_valid_audit_head H db run) (\<lambda>_.
          bind (dead_letter_reason j now) (\<lambda>reason.
          bind (insert_audit env run (audit_event_id H (jr_job_id j) g) (audit_outbox_id H (jr_job_id j) g)
                  ''job.dead_lettered''
                  (JObj [(''job_id'', JStr (jr_job_id j)), (''job_type'', JStr (jr_job_type j)),
                     (''attempt_generation'', JInt g), (''reason'', JStr reason), (''status'', JStr ''dead_letter'')])
                  (''job:'' @ jr_job_id j @ '':dead-letter:'' @ show_int g) now db) (\<lambda>db1.
          let error = JObj [(''code'', JStr reason), (''attempt_generation'', JInt g)] in
          if \<not> ce_storable env error then Raised DatabaseError
          else Success (update_run (advance_run run RUN_FAILED now) (update_job (dead_row j error now) db1)))))))"

fun dead_letter_jobs :: "cycle_env \<Rightarrow> utc \<Rightarrow> job_row list \<Rightarrow> cycle_db \<Rightarrow> cycle_db result" where
  "dead_letter_jobs env now [] db = Success db"
| "dead_letter_jobs env now (j # js) db =
     bind (dead_letter_job env now j db) (\<lambda>db'. dead_letter_jobs env now js db')"

definition dead_letter_unclaimable :: "cycle_env \<Rightarrow> utc \<Rightarrow> cycle_db \<Rightarrow> cycle_db result" where
  "dead_letter_unclaimable env now db = dead_letter_jobs env now
     (take 100 (sort_key (\<lambda>j. (jr_run_id j, jr_job_id j)) (filter (unclaimable now) (db_jobs db)))) db"

section \<open>Claim\<close>

definition claimable :: "utc \<Rightarrow> job_row \<Rightarrow> bool" where
  "claimable now j \<longleftrightarrow>
     (jr_status j = QUEUED \<or>
      jr_status j = LEASED \<and> (case jr_lease_until j of None \<Rightarrow> False | Some t \<Rightarrow> t \<le> now)) \<and>
     jr_not_before j \<le> now \<and> jr_deadline_at j > now \<and> jr_attempts j < jr_max_attempts j"

definition claim_key :: "job_row \<Rightarrow> utc \<times> utc \<times> uuid" where
  "claim_key j = (jr_not_before j, jr_created_at j, jr_job_id j)"

definition next_claimable_job :: "utc \<Rightarrow> cycle_db \<Rightarrow> job_row option" where
  "next_claimable_job now db =
     (case sort_key claim_key (filter (claimable now) (db_jobs db)) of [] \<Rightarrow> None | j # js \<Rightarrow> Some j)"

definition leased_row :: "job_row \<Rightarrow> string \<Rightarrow> string \<Rightarrow> utc \<Rightarrow> int \<Rightarrow> job_row" where
  "leased_row j worker_id nonce now lease_for =
     j\<lparr>jr_status := LEASED, jr_attempts := jr_attempts j + 1,
       jr_attempt_generation := jr_attempt_generation j + 1, jr_attempt_nonce := Some nonce,
       jr_lease_owner := Some worker_id, jr_lease_until := Some (now + lease_for), jr_updated_at := now\<rparr>"

definition make_job_lease :: "job_row \<Rightarrow> job_lease result" where
  "make_job_lease j =
     (case (jr_attempt_nonce j, jr_lease_owner j, jr_lease_until j) of
        (Some nonce, Some owner, Some until) \<Rightarrow>
          check_all [(nonempty_ok (jr_job_type j) \<and> 1 \<le> jr_attempt_generation j \<and> nonempty_ok nonce \<and>
              nonempty_ok owner \<and> 1 \<le> jr_attempts j, ''field'')]
            \<lparr>jl_job_id = jr_job_id j, jl_run_id = jr_run_id j, jl_job_type = jr_job_type j,
             jl_payload = jr_payload j, jl_attempt_generation = jr_attempt_generation j,
             jl_attempt_nonce = nonce, jl_lease_owner = owner, jl_lease_until = until,
             jl_attempts = int (jr_attempts j), jl_deadline_at = jr_deadline_at j\<rparr>
      | _ \<Rightarrow> Raised (ValueError ''claimed job is missing lease fields''))"

text \<open>\<open>nonce\<close> is the value of \<^verbatim>\<open>secrets.token_urlsafe(32)\<close>.\<close>

definition claim ::
  "cycle_env \<Rightarrow> string \<Rightarrow> string \<Rightarrow> pytime \<Rightarrow> int \<Rightarrow> cycle_db \<Rightarrow> job_lease result \<times> cycle_db" where
  "claim env nonce worker_id now lease_for db =
     (if strip_text worker_id = [] \<or> length worker_id > 128
      then (Failure INVALID_INPUT ''Worker ID is invalid'', db)
      else if naive_time now \<or> lease_for \<le> 0
      then (Failure INVALID_INPUT ''Lease timing is invalid'', db)
      else settle (CONFLICT, ''Job queue audit conflicts'') (INTERNAL_ERROR, ''Job claim failed'') db
       (bind (dead_letter_unclaimable env (db_now db) db) (\<lambda>db1.
        case next_claimable_job (db_now db) db1 of
          None \<Rightarrow> Success (Failure NOT_FOUND ''No claimable job'', db1)
        | Some j \<Rightarrow>
            let row = leased_row j worker_id nonce (db_now db) lease_for in
            bind (make_job_lease row) (\<lambda>lease. Success (Success lease, update_job row db1)))))"

section \<open>Completion\<close>

definition WORKER_JOBS :: "string list" where
  "WORKER_JOBS = [''tradingagents_research'', ''research_pipeline'']"

definition invalid_lease :: "job_row \<Rightarrow> string \<Rightarrow> int \<Rightarrow> string \<Rightarrow> bool" where
  "invalid_lease j worker_id generation nonce \<longleftrightarrow>
     jr_lease_until j = None \<or> jr_status j \<noteq> LEASED \<or> jr_lease_owner j \<noteq> Some worker_id \<or>
     jr_attempt_generation j \<noteq> generation \<or> jr_attempt_nonce j \<noteq> Some nonce"

definition expired :: "job_row \<Rightarrow> utc \<Rightarrow> bool" where
  "expired j now \<longleftrightarrow> the (jr_lease_until j) \<le> now \<or> jr_deadline_at j \<le> now"

definition worker_artifact_policy :: "job_row \<Rightarrow> (string \<times> (string \<times> string) list) result" where
  "worker_artifact_policy j =
     (if jr_job_type j = ''tradingagents_research''
      then Success (''tradingagents-isolated-worker'', [(''schema'', ''tradingagents-worker-result/1.0.0'')])
      else if jr_job_type j = ''research_pipeline''
      then Success (''stonks-agent-research-worker'',
        [(''schema'', ''research-worker-result/1.0.0''), (''run_id'', jr_run_id j)])
      else Raised (ValueError ''job type may not register worker artifacts''))"

definition register_result_artifact ::
  "job_row \<Rightarrow> complete_job \<Rightarrow> artifact_manifest \<Rightarrow> utc \<Rightarrow> cycle_db \<Rightarrow> (unit result \<times> cycle_db) result" where
  "register_result_artifact j r m now db =
     bind (worker_artifact_policy j) (\<lambda>(source, attributes).
     let meta = af_metadata m; candidate = candidate_row m in
     if af_content_hash m \<noteq> cj_result_artifact_hash r \<or>
        \<not> (1 \<le> af_size_bytes m \<and> af_size_bytes m \<le> 2097152) \<or> af_finalized_at m > now \<or>
        am_source meta \<noteq> source \<or> am_media_type meta \<noteq> ''application/json'' \<or>
        am_license_tag meta \<noteq> ''Apache-2.0'' \<or> am_sensitivity meta \<noteq> ''internal'' \<or>
        \<not> dict_pairs_eq (am_attributes meta) attributes \<or> length (am_attributes meta) \<noteq> length attributes
     then Success (Failure CONFLICT ''Result artifact metadata is invalid'', db)
     else (case List.find (\<lambda>a. aw_content_hash a = af_content_hash m) (db_artifacts db) of
         None \<Rightarrow> Success (Success (), db\<lparr>db_artifacts := db_artifacts db @ [candidate]\<rparr>)
       | Some a \<Rightarrow> if same_artifact a candidate then Success (Success (), db)
           else Success (Failure CONFLICT ''Result artifact metadata conflicts'', db)))"

definition job_completion_payload ::
  "hashing \<Rightarrow> job_row \<Rightarrow> run_row \<Rightarrow> artifact_row \<Rightarrow> complete_job \<Rightarrow> json" where
  "job_completion_payload H j run a r = JObj
     [(''job_id'', JStr (jr_job_id j)), (''job_type'', JStr (jr_job_type j)),
      (''result_artifact_hash'', JStr (cj_result_artifact_hash r)),
      (''attempt_generation'', JInt (cj_attempt_generation r)),
      (''job_identity_hash'', JStr (job_identity_hash H j)), (''run_identity_hash'', JStr (run_identity_hash H run)),
      (''result_artifact_identity_hash'', JStr (artifact_identity_hash H a))]"

definition commit_job_result ::
  "cycle_env \<Rightarrow> job_row \<Rightarrow> run_row \<Rightarrow> artifact_row \<Rightarrow> complete_job \<Rightarrow> utc \<Rightarrow> cycle_db \<Rightarrow>
   (completion_receipt \<times> cycle_db) result" where
  "commit_job_result env j run a r now db =
     (let H = ce_hashing env; g = cj_attempt_generation r;
          event_id = audit_event_id H (jr_job_id j) g; outbox_id = audit_outbox_id H (jr_job_id j) g in
      bind (require_valid_audit_head H db run) (\<lambda>_.
      bind (insert_audit env run event_id outbox_id ''job.completed'' (job_completion_payload H j run a r)
              (''job:'' @ jr_job_id j @ '':complete:'' @ show_int g) now db) (\<lambda>db1.
      bind (validate_completion_receipt
        \<lparr>qc_job_id = jr_job_id j, qc_run_id = wr_run_id run, qc_event_id = event_id, qc_outbox_id = outbox_id,
         qc_sequence = wr_version run + 1, qc_result_artifact_hash = cj_result_artifact_hash r,
         qc_completed_at = now\<rparr>) (\<lambda>receipt.
      Success (receipt,
        update_run (advance_run run (if jr_job_type j \<in> set WORKER_JOBS then RUN_SUCCEEDED else wr_status run) now)
          (update_job (j\<lparr>jr_status := JOB_SUCCEEDED, jr_result_artifact_hash := Some (cj_result_artifact_hash r),
             jr_updated_at := now\<rparr>) db1))))))"

definition complete_active_job ::
  "cycle_env \<Rightarrow> job_row \<Rightarrow> complete_job \<Rightarrow> artifact_manifest option \<Rightarrow> cycle_db \<Rightarrow>
   (completion_receipt result \<times> cycle_db) result" where
  "complete_active_job env j r manifest db =
     (if invalid_lease j (cj_worker_id r) (cj_attempt_generation r) (cj_attempt_nonce r)
      then Success (Failure CONFLICT ''Job lease is stale or invalid'', db)
      else if manifest \<noteq> None \<and> jr_job_type j \<notin> set WORKER_JOBS
      then Success (Failure CAPABILITY_DENIED ''This job type may not register worker artifacts'', db)
      else (case find_run db (jr_run_id j) of
        None \<Rightarrow> Success (Failure CONFLICT ''Owning run was not found'', db)
      | Some run \<Rightarrow>
          if expired j (db_now db) then Success (Failure CONFLICT ''Job lease is stale or invalid'', db)
          else
          bind (case manifest of None \<Rightarrow> Success (Success (), db)
                | Some m \<Rightarrow> register_result_artifact j r m (db_now db) db) (\<lambda>(registered, db1).
          case registered of
            Failure code e \<Rightarrow> Success (Failure code e, db1)
          | Raised e \<Rightarrow> Raised e
          | Success u \<Rightarrow>
              (case List.find (\<lambda>a. aw_content_hash a = cj_result_artifact_hash r) (db_artifacts db1) of
                 None \<Rightarrow> Success (Failure NOT_FOUND ''Result artifact was not finalized'', db1)
               | Some a \<Rightarrow>
                   bind (commit_job_result env j run a r (db_now db) db1) (\<lambda>(receipt, db2).
                   Success (Success receipt, db2))))))"

definition completed_job_valid :: "hashing \<Rightarrow> job_row \<Rightarrow> run_event \<Rightarrow> complete_job \<Rightarrow> bool" where
  "completed_job_valid H j e r \<longleftrightarrow>
     jr_status j = JOB_SUCCEEDED \<and> jr_lease_owner j = Some (cj_worker_id r) \<and>
     jr_attempt_generation j = cj_attempt_generation r \<and> int (jr_attempts j) = cj_attempt_generation r \<and>
     jr_attempt_nonce j = Some (cj_attempt_nonce r) \<and>
     jr_result_artifact_hash j = Some (cj_result_artifact_hash r) \<and>
     stable_payload_hash H (jr_payload j) = jr_payload_hash j \<and> jr_updated_at j = re_occurred_at e \<and>
     jr_last_error j = None"

definition graph_valid ::
  "hashing \<Rightarrow> cycle_db \<Rightarrow> run_row \<Rightarrow> run_event \<Rightarrow> outbox_row \<Rightarrow> json \<Rightarrow> string \<Rightarrow> string \<Rightarrow> bool" where
  "graph_valid H db run e x payload topic key \<longleftrightarrow>
     wr_version run \<ge> re_sequence e \<and> event_chain_valid H db run (re_event_id e) \<and> re_event_type e = topic \<and>
     json_eq (re_payload e) payload \<and> ox_aggregate_type x = ''run'' \<and> ox_aggregate_id x = wr_run_id run \<and>
     ox_sequence x = re_sequence e \<and> ox_topic x = topic \<and> json_eq (ox_payload x) payload \<and>
     ox_idempotency_key x = key \<and> ox_created_at x = re_occurred_at e \<and> ox_not_before x = re_occurred_at e"

definition completed_job_receipt :: "hashing \<Rightarrow> cycle_db \<Rightarrow> job_row \<Rightarrow> complete_job \<Rightarrow> completion_receipt result" where
  "completed_job_receipt H db j r =
     (let g = cj_attempt_generation r in
      case (find_run db (jr_run_id j),
            List.find (\<lambda>e. re_event_id e = audit_event_id H (jr_job_id j) g) (db_events db),
            List.find (\<lambda>x. ox_outbox_id x = audit_outbox_id H (jr_job_id j) g) (db_outbox db),
            List.find (\<lambda>a. aw_content_hash a = cj_result_artifact_hash r) (db_artifacts db)) of
        (Some run, Some e, Some x, Some a) \<Rightarrow>
          if \<not> completed_job_valid H j e r then Failure CONFLICT ''Completed job result conflicts''
          else if \<not> (graph_valid H db run e x (job_completion_payload H j run a r) ''job.completed''
                     (''job:'' @ jr_job_id j @ '':complete:'' @ show_int g) \<and>
                   (jr_job_type j \<in> set WORKER_JOBS \<longrightarrow> wr_status run = RUN_SUCCEEDED))
          then Failure CONFLICT ''Completed job canonical graph is invalid''
          else validate_completion_receipt
            \<lparr>qc_job_id = jr_job_id j, qc_run_id = jr_run_id j, qc_event_id = re_event_id e,
             qc_outbox_id = ox_outbox_id x, qc_sequence = re_sequence e,
             qc_result_artifact_hash = cj_result_artifact_hash r, qc_completed_at = re_occurred_at e\<rparr>
      | _ \<Rightarrow> Failure CONFLICT ''Completed job canonical graph is incomplete'')"

definition complete_transaction ::
  "cycle_env \<Rightarrow> complete_job \<Rightarrow> artifact_manifest option \<Rightarrow> cycle_db \<Rightarrow>
   (completion_receipt result \<times> cycle_db) result" where
  "complete_transaction env r manifest db =
     (case find_job db (cj_job_id r) of
        None \<Rightarrow> Success (Failure NOT_FOUND ''Job was not found'', db)
      | Some j \<Rightarrow>
          if jr_job_type j = ''create_snapshot''
          then Success (Failure CAPABILITY_DENIED ''Snapshot jobs require canonical snapshot completion'', db)
          else if jr_status j = JOB_SUCCEEDED
          then (case completed_job_receipt (ce_hashing env) db j r of
              Raised e \<Rightarrow> Raised e | outcome \<Rightarrow> Success (outcome, db))
          else complete_active_job env j r manifest db)"

definition queue_complete ::
  "cycle_env \<Rightarrow> complete_job \<Rightarrow> pytime \<Rightarrow> artifact_manifest option \<Rightarrow> cycle_db \<Rightarrow>
   completion_receipt result \<times> cycle_db" where
  "queue_complete env r now manifest db =
     (if naive_time now then (Failure INVALID_INPUT ''Completion time is invalid'', db)
      else settle (CONFLICT, ''Job completion audit conflicts'') (INTERNAL_ERROR, ''Job completion failed'') db
        (complete_transaction env r manifest db))"

section \<open>Failure\<close>

definition job_failure_payload :: "hashing \<Rightarrow> job_row \<Rightarrow> run_row \<Rightarrow> fail_job \<Rightarrow> json" where
  "job_failure_payload H j run r = JObj
     [(''job_id'', JStr (jr_job_id j)), (''job_type'', JStr (jr_job_type j)),
      (''attempt_generation'', JInt (fj_attempt_generation r)), (''worker_id'', JStr (fj_worker_id r)),
      (''attempt_nonce_hash'', JStr (stable_payload_hash H (JObj [(''attempt_nonce'', JStr (fj_attempt_nonce r))]))),
      (''error_code'', JStr (error_code_value (fj_error_code r))), (''reason'', JStr (fj_reason_code r)),
      (''status'', JStr ''dead_letter''), (''job_identity_hash'', JStr (job_identity_hash H j)),
      (''run_identity_hash'', JStr (run_identity_hash H run))]"

definition explicit_error :: "fail_job \<Rightarrow> json" where
  "explicit_error r = JObj
     [(''code'', JStr (error_code_value (fj_error_code r))), (''reason'', JStr (fj_reason_code r)),
      (''attempt_generation'', JInt (fj_attempt_generation r))]"

definition commit_job_failure ::
  "cycle_env \<Rightarrow> job_row \<Rightarrow> run_row \<Rightarrow> fail_job \<Rightarrow> utc \<Rightarrow> cycle_db \<Rightarrow> (failure_receipt \<times> cycle_db) result" where
  "commit_job_failure env j run r now db =
     (let H = ce_hashing env; g = fj_attempt_generation r;
          event_id = audit_event_id H (jr_job_id j) g; outbox_id = audit_outbox_id H (jr_job_id j) g in
      if stable_payload_hash H (jr_payload j) \<noteq> jr_payload_hash j
      then Raised (ValueError ''failed job payload is not canonical'')
      else if jr_result_artifact_hash j \<noteq> None then Raised (ValueError ''failed job already has a result'')
      else
      bind (require_valid_audit_head H db run) (\<lambda>_.
      bind (insert_audit env run event_id outbox_id ''job.dead_lettered'' (job_failure_payload H j run r)
              (''job:'' @ jr_job_id j @ '':dead-letter:'' @ show_int g) now db) (\<lambda>db1.
      bind (validate_failure_receipt
        \<lparr>qf_job_id = jr_job_id j, qf_run_id = wr_run_id run, qf_event_id = event_id, qf_outbox_id = outbox_id,
         qf_sequence = wr_version run + 1, qf_error_code = fj_error_code r, qf_reason_code = fj_reason_code r,
         qf_failed_at = now\<rparr>) (\<lambda>receipt.
      if \<not> ce_storable env (explicit_error r) then Raised DatabaseError
      else Success (receipt,
        update_run (advance_run run RUN_FAILED now) (update_job (dead_row j (explicit_error r) now) db1))))))"

definition fail_active_job ::
  "cycle_env \<Rightarrow> job_row \<Rightarrow> fail_job \<Rightarrow> cycle_db \<Rightarrow> (failure_receipt result \<times> cycle_db) result" where
  "fail_active_job env j r db =
     (if invalid_lease j (fj_worker_id r) (fj_attempt_generation r) (fj_attempt_nonce r) \<or>
         jr_result_artifact_hash j \<noteq> None \<or>
         stable_payload_hash (ce_hashing env) (jr_payload j) \<noteq> jr_payload_hash j
      then Success (Failure CONFLICT ''Job lease is stale or invalid'', db)
      else (case find_run db (jr_run_id j) of
        None \<Rightarrow> Success (Failure CONFLICT ''Owning run was not found'', db)
      | Some run \<Rightarrow>
          if expired j (db_now db) then Success (Failure CONFLICT ''Job lease is stale or invalid'', db)
          else bind (commit_job_failure env j run r (db_now db) db) (\<lambda>(receipt, db1).
            Success (Success receipt, db1))))"

definition failed_job_valid :: "hashing \<Rightarrow> job_row \<Rightarrow> run_event \<Rightarrow> fail_job \<Rightarrow> bool" where
  "failed_job_valid H j e r \<longleftrightarrow>
     jr_status j = DEAD_LETTER \<and> jr_lease_owner j = None \<and> jr_attempt_nonce j = None \<and> jr_lease_until j = None \<and>
     jr_attempt_generation j = fj_attempt_generation r \<and> int (jr_attempts j) = fj_attempt_generation r \<and>
     jr_result_artifact_hash j = None \<and> stable_payload_hash H (jr_payload j) = jr_payload_hash j \<and>
     jr_updated_at j = re_occurred_at e \<and>
     (case jr_last_error j of None \<Rightarrow> False | Some error \<Rightarrow> json_eq error (explicit_error r))"

definition failed_job_receipt :: "hashing \<Rightarrow> cycle_db \<Rightarrow> job_row \<Rightarrow> fail_job \<Rightarrow> failure_receipt result" where
  "failed_job_receipt H db j r =
     (let g = fj_attempt_generation r in
      case (find_run db (jr_run_id j),
            List.find (\<lambda>e. re_event_id e = audit_event_id H (jr_job_id j) g) (db_events db),
            List.find (\<lambda>x. ox_outbox_id x = audit_outbox_id H (jr_job_id j) g) (db_outbox db)) of
        (Some run, Some e, Some x) \<Rightarrow>
          if \<not> failed_job_valid H j e r then Failure CONFLICT ''Failed job command conflicts''
          else if \<not> (wr_status run = RUN_FAILED \<and>
                   graph_valid H db run e x (job_failure_payload H j run r) ''job.dead_lettered''
                     (''job:'' @ jr_job_id j @ '':dead-letter:'' @ show_int g))
          then Failure CONFLICT ''Failed job canonical graph is invalid''
          else validate_failure_receipt
            \<lparr>qf_job_id = jr_job_id j, qf_run_id = jr_run_id j, qf_event_id = re_event_id e,
             qf_outbox_id = ox_outbox_id x, qf_sequence = re_sequence e, qf_error_code = fj_error_code r,
             qf_reason_code = fj_reason_code r, qf_failed_at = re_occurred_at e\<rparr>
      | _ \<Rightarrow> Failure CONFLICT ''Failed job canonical graph is incomplete'')"

definition fail_transaction ::
  "cycle_env \<Rightarrow> fail_job \<Rightarrow> cycle_db \<Rightarrow> (failure_receipt result \<times> cycle_db) result" where
  "fail_transaction env r db =
     (case find_job db (fj_job_id r) of
        None \<Rightarrow> Success (Failure NOT_FOUND ''Job was not found'', db)
      | Some j \<Rightarrow>
          if jr_job_type j = ''create_snapshot''
          then Success (Failure CAPABILITY_DENIED ''Snapshot jobs require canonical snapshot failure'', db)
          else if jr_status j = DEAD_LETTER
          then (case failed_job_receipt (ce_hashing env) db j r of
              Raised e \<Rightarrow> Raised e | outcome \<Rightarrow> Success (outcome, db))
          else fail_active_job env j r db)"

definition queue_fail ::
  "cycle_env \<Rightarrow> fail_job \<Rightarrow> pytime \<Rightarrow> cycle_db \<Rightarrow> failure_receipt result \<times> cycle_db" where
  "queue_fail env r now db =
     (if naive_time now then (Failure INVALID_INPUT ''Failure time is invalid'', db)
      else settle (CONFLICT, ''Job failure audit conflicts'') (INTERNAL_ERROR, ''Job failure failed'') db
        (fail_transaction env r db))"

end
