(* ===== verification/Cycle_Invariant.thy ===== *)
theory Cycle_Invariant
  imports Cycle_Append Job_Queue
begin

text \<open>
  What the job queue and the checkpoint store together keep of the database: job and run agree on their
  status, the event log of every paper run that the queue did not reject can be read, and the attempt
  generation counts the leases.
\<close>

definition paper :: "job_row \<Rightarrow> bool" where
  "paper j \<longleftrightarrow> jr_job_type j = ''paper_fund_cycle''"

text \<open>The statuses a paper job and its run have at the same time.\<close>

fun agree :: "job_status \<Rightarrow> workflow_status \<Rightarrow> bool" where
  "agree QUEUED s \<longleftrightarrow> s = PENDING \<or> s = RUNNING"
| "agree LEASED s \<longleftrightarrow> s = PENDING \<or> s = RUNNING"
| "agree JOB_SUCCEEDED s \<longleftrightarrow> s = RUN_SUCCEEDED"
| "agree DEAD_LETTER s \<longleftrightarrow> s = RUN_FAILED"
| "agree JOB_CANCELLED s \<longleftrightarrow> s = RUN_CANCELLED"

definition readable :: "cycle_env \<Rightarrow> cycle_db \<Rightarrow> job_row \<Rightarrow> run_row \<Rightarrow> bool" where
  "readable env db j r \<longleftrightarrow> is_success (load_state (ce_hashing env) db j r (wr_input_hash r))"

definition run_ok :: "cycle_env \<Rightarrow> cycle_db \<Rightarrow> job_row \<Rightarrow> run_row \<Rightarrow> bool" where
  "run_ok env db j r \<longleftrightarrow>
     uuid_canonical (wr_run_id r) \<and> agree (jr_status j) (wr_status r) \<and>
     (wr_status r = PENDING \<longrightarrow> wr_version r = 1) \<and> (wr_status r \<noteq> RUN_FAILED \<longrightarrow> readable env db j r)"

definition keys_ok :: "cycle_db \<Rightarrow> bool" where
  "keys_ok db \<longleftrightarrow>
     distinct (map jr_job_id (db_jobs db)) \<and> distinct (map wr_run_id (db_runs db)) \<and>
     (\<forall>e \<in> set (db_events db). re_run_id e \<in> wr_run_id ` set (db_runs db)) \<and>
     (\<forall>j \<in> set (db_jobs db). jr_run_id j \<in> wr_run_id ` set (db_runs db)) \<and>
     (\<forall>j \<in> set (db_jobs db). jr_attempt_generation j = int (jr_attempts j) \<and> jr_attempts j \<le> jr_max_attempts j) \<and>
     (\<forall>j \<in> set (db_jobs db). paper j \<longrightarrow> (\<forall>k \<in> set (db_jobs db). jr_run_id k = jr_run_id j \<longrightarrow> jr_job_id k = jr_job_id j))"

definition cycle_ok :: "cycle_env \<Rightarrow> cycle_db \<Rightarrow> bool" where
  "cycle_ok env db \<longleftrightarrow> keys_ok db \<and>
     (\<forall>j \<in> set (db_jobs db). \<forall>r \<in> set (db_runs db). paper j \<and> wr_run_id r = jr_run_id j \<longrightarrow> run_ok env db j r)"

lemma job_unique:
  "\<lbrakk>keys_ok db; j \<in> set (db_jobs db); k \<in> set (db_jobs db); jr_job_id j = jr_job_id k\<rbrakk> \<Longrightarrow> j = k"
  by (auto simp: keys_ok_def distinct_map inj_on_def)

lemma run_unique:
  "\<lbrakk>keys_ok db; r \<in> set (db_runs db); q \<in> set (db_runs db); wr_run_id r = wr_run_id q\<rbrakk> \<Longrightarrow> r = q"
  by (auto simp: keys_ok_def distinct_map inj_on_def)

lemma sole_job:
  "\<lbrakk>keys_ok db; paper k; k \<in> set (db_jobs db); j \<in> set (db_jobs db); jr_run_id j = jr_run_id k\<rbrakk> \<Longrightarrow> j = k"
  by (rule job_unique) (assumption | unfold keys_ok_def, blast)+

section \<open>One audited change\<close>

definition same_job :: "job_row \<Rightarrow> job_row \<Rightarrow> bool" where
  "same_job j j' \<longleftrightarrow>
     jr_job_id j' = jr_job_id j \<and> jr_run_id j' = jr_run_id j \<and> jr_job_type j' = jr_job_type j \<and>
     jr_attempt_generation j' = jr_attempt_generation j \<and> jr_attempts j' = jr_attempts j \<and>
     jr_max_attempts j' = jr_max_attempts j"

definition changed ::
  "cycle_env \<Rightarrow> cycle_db \<Rightarrow> job_row \<Rightarrow> run_row \<Rightarrow> job_row \<Rightarrow> workflow_status \<Rightarrow> cycle_db \<Rightarrow> bool" where
  "changed env db j r j' status db' \<longleftrightarrow>
     j \<in> set (db_jobs db) \<and> r \<in> set (db_runs db) \<and> jr_run_id j = wr_run_id r \<and> same_job j j' \<and>
     db_now db' = db_now db \<and>
     db_jobs db' = map (\<lambda>x. if jr_job_id x = jr_job_id j then j' else x) (db_jobs db) \<and>
     db_runs db' = map (\<lambda>x. if wr_run_id x = wr_run_id r then advance_run r status (db_now db) else x) (db_runs db) \<and>
     (\<exists>event_id outbox_id event_type payload key db1.
        insert_audit env r event_id outbox_id event_type payload key (db_now db) db = Success db1 \<and>
        db_events db' = db_events db1 \<and> db_outbox db' = db_outbox db1)"

lemma advance_run_simps [simp]:
  "wr_run_id (advance_run r status t) = wr_run_id r" "wr_status (advance_run r status t) = status"
  "wr_version (advance_run r status t) = wr_version r + 1"
  "wr_input_hash (advance_run r status t) = wr_input_hash r"
  by (simp_all add: advance_run_def)

lemma changed_keys:
  assumes "changed env db j r j' status db'" "keys_ok db"
  shows "keys_ok db'"
proof -
  from assms(1) obtain i o' ty p k db1 where
    ins: "insert_audit env r i o' ty p k (db_now db) db = Success db1" "db_events db' = db_events db1"
    by (auto simp: changed_def)
  from insert_audit_Success [OF this(1)] this(2)
  have ev: "db_events db' = db_events db @ [new_event (ce_hashing env) r i ty p (db_now db) db]" by auto
  have jobs: "db_jobs db' = map (\<lambda>x. if jr_job_id x = jr_job_id j then j' else x) (db_jobs db)"
    and runs: "db_runs db' = map (\<lambda>x. if wr_run_id x = wr_run_id r then advance_run r status (db_now db) else x) (db_runs db)"
    and j: "j \<in> set (db_jobs db)" "r \<in> set (db_runs db)" "same_job j j'"
    using assms(1) by (auto simp: changed_def)
  have ids: "map jr_job_id (db_jobs db') = map jr_job_id (db_jobs db)"
    "map wr_run_id (db_runs db') = map wr_run_id (db_runs db)"
    using j by (auto simp: jobs runs same_job_def)
  have run_ids: "wr_run_id ` set (db_runs db') = wr_run_id ` set (db_runs db)"
    by (metis ids(2) list.set_map)
  have eq: "k = j" if "k \<in> set (db_jobs db)" "jr_job_id k = jr_job_id j" for k
    using job_unique [OF assms(2) that(1) j(1) that(2)] .
  have origin: "\<exists>x \<in> set (db_jobs db). same_job x y" if "y \<in> set (db_jobs db')" for y
    using that j(1,3) eq by (fastforce simp: jobs same_job_def split: if_splits)
  have sole: "jr_job_id a' = jr_job_id b'"
    if ab: "a' \<in> set (db_jobs db')" "b' \<in> set (db_jobs db')" "paper a'" "jr_run_id b' = jr_run_id a'" for a' b'
  proof -
    from origin [OF ab(1)] origin [OF ab(2)] obtain a b where "a \<in> set (db_jobs db)" "b \<in> set (db_jobs db)"
        "same_job a a'" "same_job b b'"
      by blast
    note ab' = this
    then have "paper a" "jr_run_id b = jr_run_id a"
      using ab(3,4) unfolding same_job_def paper_def by simp_all
    from sole_job [OF assms(2) this(1) ab'(1,2) this(2)] show ?thesis
      using ab'(3,4) unfolding same_job_def by simp
  qed
  have row: "jr_run_id y \<in> wr_run_id ` set (db_runs db) \<and> jr_attempt_generation y = int (jr_attempts y) \<and>
      jr_attempts y \<le> jr_max_attempts y" if "y \<in> set (db_jobs db')" for y
  proof -
    from origin [OF that] obtain x where "x \<in> set (db_jobs db)" "same_job x y" by blast
    with assms(2) show ?thesis
      unfolding keys_ok_def same_job_def by metis
  qed
  have events: "\<forall>e \<in> set (db_events db'). re_run_id e \<in> wr_run_id ` set (db_runs db)"
    using assms(2) j(2) unfolding keys_ok_def ev by simp
  show ?thesis
    unfolding keys_ok_def ids run_ids
  proof (intro conjI ballI impI)
    show "distinct (map jr_job_id (db_jobs db))" "distinct (map wr_run_id (db_runs db))"
      using assms(2) unfolding keys_ok_def by blast+
    show "re_run_id e \<in> wr_run_id ` set (db_runs db)" if "e \<in> set (db_events db')" for e
      using events that by blast
    show "jr_run_id y \<in> wr_run_id ` set (db_runs db)" "jr_attempt_generation y = int (jr_attempts y)"
      "jr_attempts y \<le> jr_max_attempts y" if "y \<in> set (db_jobs db')" for y
      using row [OF that] by blast+
    show "jr_job_id k = jr_job_id y"
      if "y \<in> set (db_jobs db')" "paper y" "k \<in> set (db_jobs db')" "jr_run_id k = jr_run_id y" for y k
      using sole [OF that(1,3,2,4)] by simp
  qed
qed

lemma changed_ok:
  assumes ch: "changed env db j r j' status db'" and ok: "cycle_ok env db"
    and paper: "paper j \<Longrightarrow> status \<noteq> PENDING \<and> agree (jr_status j') status \<and>
      (status \<noteq> RUN_FAILED \<longrightarrow> readable env db' j' (advance_run r status (db_now db)))"
  shows "cycle_ok env db'"
  unfolding cycle_ok_def
proof (intro conjI ballI impI)
  show keys: "keys_ok db'"
    using changed_keys [OF ch] ok by (simp add: cycle_ok_def)
  fix k q
  assume k: "k \<in> set (db_jobs db')" and q: "q \<in> set (db_runs db')" and pk: "paper k \<and> wr_run_id q = jr_run_id k"
  from ch obtain i o' ty p key db1 where
    ins: "insert_audit env r i o' ty p key (db_now db) db = Success db1" "db_events db' = db_events db1"
      "db_outbox db' = db_outbox db1"
    by (auto simp: changed_def)
  have jobs: "db_jobs db' = map (\<lambda>x. if jr_job_id x = jr_job_id j then j' else x) (db_jobs db)"
    and runs: "db_runs db' = map (\<lambda>x. if wr_run_id x = wr_run_id r then advance_run r status (db_now db) else x) (db_runs db)"
    and j: "j \<in> set (db_jobs db)" "r \<in> set (db_runs db)" "same_job j j'" "jr_run_id j = wr_run_id r"
    using ch by (auto simp: changed_def)
  have old: "keys_ok db" "\<And>j r. \<lbrakk>j \<in> set (db_jobs db); r \<in> set (db_runs db); paper j; wr_run_id r = jr_run_id j\<rbrakk>
      \<Longrightarrow> run_ok env db j r"
    using ok by (auto simp: cycle_ok_def)
  show "run_ok env db' k q"
  proof (cases "k = j'")
    case True
    then have "paper j" "q = advance_run r status (db_now db)"
      using pk q j by (auto simp: runs same_job_def paper_def)
    then show ?thesis
      using paper old(2) [OF j(1,2)] j True by (auto simp: run_ok_def)
  next
    case False
    then have k': "k \<in> set (db_jobs db)" "k \<noteq> j"
      using k by (auto simp: jobs split: if_splits)
    then have other: "jr_run_id k \<noteq> wr_run_id r"
      using sole_job [OF old(1) _ k'(1) j(1)] pk j(4) by metis
    then have q': "q \<in> set (db_runs db)"
      using q pk by (auto simp: runs split: if_splits)
    have "readable env db' k q" if "readable env db k q"
      using that load_other [OF _ ins(1), of "ce_hashing env" k q] other pk
        load_state_cong [OF ins(2,3), of "ce_hashing env" k q "wr_input_hash q"]
      by (auto simp: readable_def is_success_iff)
    then show ?thesis
      using old(2) [OF k'(1) q'] pk by (auto simp: run_ok_def)
  qed
qed

section \<open>The operations of the checkpoint store\<close>

text \<open>
  Every successful operation of the store that writes: it appends one event to the run of a paper job,
  and the outputs recorded so far stay.
\<close>

definition advanced :: "cycle_env \<Rightarrow> cycle_db \<Rightarrow> cycle_db \<Rightarrow> bool" where
  "advanced env db db' \<longleftrightarrow> (\<exists>j r j' status s s' xs.
     changed env db j r j' status db' \<and> paper j \<and> status \<noteq> PENDING \<and> agree (jr_status j') status \<and>
     (wr_status r = RUNNING \<or> wr_status r = PENDING \<and> status \<noteq> RUN_SUCCEEDED) \<and>
     load_state (ce_hashing env) db j r (wr_input_hash r) = Success s \<and>
     load_state (ce_hashing env) db' j' (advance_run r status (db_now db)) (wr_input_hash r) = Success s' \<and>
     cy_outputs s' = cy_outputs s @ xs)"

lemma locked_job_Success: "locked_job db i = Success j \<Longrightarrow> j \<in> set (db_jobs db) \<and> jr_job_id j = i"
  by (auto simp: locked_job_def split: option.splits dest!: find_key)

lemma locked_run_Success: "locked_run db i = Success r \<Longrightarrow> r \<in> set (db_runs db) \<and> wr_run_id r = i"
  by (auto simp: locked_run_def split: option.splits dest!: find_key)

lemma require_active_Success:
  "require_active env db c j r = Success u \<longleftrightarrow> active_lease (ce_hashing env) (db_now db) j r c"
  by (simp add: require_active_def)

lemma active_authority_Success:
  assumes "active_authority env db c = Success (j, r)"
  shows "j \<in> set (db_jobs db) \<and> r \<in> set (db_runs db) \<and> jr_run_id j = wr_run_id r \<and> paper j \<and> jr_status j = LEASED \<and>
    rc_input_hash (ce_hashing env) c = wr_input_hash r \<and> wr_status r \<in> {PENDING, RUNNING}"
  using assms locked_job_Success locked_run_Success
  by (fastforce simp: active_authority_def bind_Success_iff require_active_Success active_lease_def Let_def paper_def)

lemma insert_audit_artifacts:
  "insert_audit env r i o' ty p k t (db\<lparr>db_artifacts := a\<rparr>) =
     bind (insert_audit env r i o' ty p k t db) (\<lambda>db'. Success (db'\<lparr>db_artifacts := a\<rparr>))"
  by (simp add: insert_audit_def unique_event_def unique_outbox_def last_event_hash_def run_events_def Let_def)

lemma apply_event_cong:
  "\<lbrakk>re_event_type e = re_event_type e'; re_payload e = re_payload e'\<rbrakk> \<Longrightarrow>
   apply_event H j h e s = apply_event H j h e' s"
  by (simp add: apply_event_def checkpoint_state_def Let_def)

lemma audit_advances:
  assumes ok: "cycle_ok env db"
    and j: "j \<in> set (db_jobs db)" "r \<in> set (db_runs db)" "jr_run_id j = wr_run_id r"
    and load: "load_state (ce_hashing env) db j r h = Success s"
    and audit: "append_audit env r j ty p identity (db_now db) status (db\<lparr>db_artifacts := a\<rparr>) = Success db2"
    and event: "\<And>e. \<lbrakk>re_event_type e = ty; re_payload e = p\<rbrakk> \<Longrightarrow> apply_event (ce_hashing env) j h e s = Success s'"
    and j': "same_job j j'" "db' = update_job j' db2 \<or> j' = j \<and> db' = db2"
  shows "changed env db j r j' status db' \<and>
    load_state (ce_hashing env) db' j' (advance_run r status (db_now db)) h = Success s'"
proof -
  from audit obtain i o' k db1 where ins: "insert_audit env r i o' ty p k (db_now db) db = Success db1"
    and db2: "db2 = update_run (advance_run r status (db_now db)) (db1\<lparr>db_artifacts := a\<rparr>)"
    by (auto simp: append_audit_def Let_def insert_audit_artifacts bind_Success_iff)
  from insert_audit_Success [OF ins] obtain m where db1: "db1 = db\<lparr>db_events := db_events db @
      [new_event (ce_hashing env) r i ty p (db_now db) db], db_outbox := db_outbox db @ [m]\<rparr>"
    by auto
  have jobs: "map (\<lambda>x. if jr_job_id x = jr_job_id j then j else x) (db_jobs db) = db_jobs db"
    using job_unique [OF _ j(1)] ok unfolding cycle_ok_def by (intro map_idI) metis
  have db': "db_jobs db' = map (\<lambda>x. if jr_job_id x = jr_job_id j then j' else x) (db_jobs db)"
    "db_runs db' = map (\<lambda>x. if wr_run_id x = wr_run_id r then advance_run r status (db_now db) else x) (db_runs db)"
    "db_events db' = db_events db1" "db_outbox db' = db_outbox db1" "db_now db' = db_now db"
    using j' jobs by (auto simp: db2 db1 update_job_def update_run_def same_job_def cong: if_cong)
  have "load_state (ce_hashing env) db1 j (advance_run r status (db_now db)) h = Success s'"
    using load_appended [OF load ins refl event] by simp
  then have "load_state (ce_hashing env) db' j' (advance_run r status (db_now db)) h = Success s'"
    using load_state_cong [OF db'(3,4)] load_state_head [OF refl refl refl, of j' j] j'(1)
    by (simp add: same_job_def)
  then show ?thesis
    using ins db' j j'(1) unfolding changed_def by blast
qed

text \<open>An event that is no checkpoint leaves the state alone; a checkpoint records the state it carries.\<close>

lemma other_event: "\<lbrakk>ty \<in> set OTHER_EVENTS; re_event_type e = ty\<rbrakk> \<Longrightarrow> apply_event H j h e s = Success s"
  by (auto simp: apply_event_def OTHER_EVENTS_def)

lemma checkpoint_event:
  assumes "state_valid H s'" "require_next_state s s' expected = Success u" "rc_input_hash H c = h"
    "re_event_type e = ''paper_cycle.stage_completed''" "re_payload e = checkpoint_payload H c j s'"
  shows "apply_event H j h e s = Success s'"
proof -
  obtain kvs where kvs: "state_json s' = JObj kvs"
    by (simp add: state_json_def)
  have "read_state H (JObj kvs) = Success s'"
    using read_state_json [OF assms(1)] kvs by simp
  moreover from assms(2) obtain x where "cy_outputs s' = cy_outputs s @ [x]"
    by (auto simp: require_next_state_Success)
  ultimately have "checkpoint_state H e j h = Success s'"
    using assms(3,5) by (simp add: checkpoint_state_def checkpoint_payload_def completed_stages_def kvs)
  then show ?thesis
    using assms(2,4) by (auto simp: apply_event_def bind_Success_iff require_next_state_Success)
qed

lemma load_pending:
  assumes "load_state H db j r h = Success s" "wr_version r = 1"
  shows "cy_outputs s = []"
proof -
  from assms obtain start where "genesis H (wr_run_id r) h = Success start"
    and replay: "replay_events H db j (wr_run_id r) h (run_events db (wr_run_id r)) start None 2 = Success (s, 2)"
    by (auto simp: load_state_def Let_def bind_Success_iff split: if_splits)
  moreover have "run_events db (wr_run_id r) = []"
    using replay_bound [OF replay] by simp
  ultimately show ?thesis
    by (auto simp: genesis_def make_cycle_state_Success)
qed

text \<open>The state before an operation under an active lease.\<close>

lemma advancedI:
  assumes ok: "cycle_ok env db"
    and j: "j \<in> set (db_jobs db)" "r \<in> set (db_runs db)" "jr_run_id j = wr_run_id r" "paper j"
    and load: "load_state (ce_hashing env) db j r (wr_input_hash r) = Success s"
    and audit: "append_audit env r j ty p identity (db_now db) status (db\<lparr>db_artifacts := a\<rparr>) = Success db2"
    and event: "\<And>e. \<lbrakk>re_event_type e = ty; re_payload e = p\<rbrakk> \<Longrightarrow>
      apply_event (ce_hashing env) j (wr_input_hash r) e s = Success s'"
    and j': "same_job j j'" "db' = update_job j' db2 \<or> j' = j \<and> db' = db2"
    and status: "status \<noteq> PENDING" "agree (jr_status j') status" "wr_status r \<in> {PENDING, RUNNING}"
    and started: "status = RUN_SUCCEEDED \<Longrightarrow> cy_outputs s \<noteq> []"
  shows "advanced env db db'"
proof -
  have "run_ok env db j r"
    using ok j by (simp add: cycle_ok_def)
  then have run: "uuid_canonical (wr_run_id r)" "wr_status r = PENDING \<Longrightarrow> wr_version r = 1"
    by (auto simp: run_ok_def)
  have "wr_status r = RUNNING \<or> wr_status r = PENDING \<and> status \<noteq> RUN_SUCCEEDED"
    using status(3) started load_pending [OF load] run(2) by blast
  moreover obtain xs where "cy_outputs s' = cy_outputs s @ xs"
    using apply_event_extends [OF event] load_state_extends [OF load run(1)]
    by (metis run_event.select_convs(4,5))
  moreover note audit_advances [OF ok j(1-3) load audit event j']
  ultimately show ?thesis
    using j(4) status(1,2) load unfolding advanced_def by blast
qed

lemma same_job_refl [simp]: "same_job j j"
  by (simp add: same_job_def)

lemma checkpoint_advances:
  assumes step: "store_checkpoint env c s h db = (out, db')" and ok: "cycle_ok env db"
    and valid: "state_valid (ce_hashing env) s"
  shows "db' = db \<or> advanced env db db'"
proof (cases "db' = db")
  case False
  with step obtain j r cur u where auth: "active_authority env db c = Success (j, r)"
    and load: "load_state (ce_hashing env) db j r (rc_input_hash (ce_hashing env) c) = Success cur"
    and nxt: "require_next_state cur s h = Success u"
    and audit: "append_audit env r j ''paper_cycle.stage_completed'' (checkpoint_payload (ce_hashing env) c j s)
               (''stage:'' @ stage_value (last (completed_stages s)) @ '':'' @ cy_state_hash s)
               (db_now db) RUNNING db = Success db'"
    by (auto simp: store_checkpoint_def bind_Success_iff dest!: transact_cases)
  from active_authority_Success [OF auth] have j: "j \<in> set (db_jobs db)" "r \<in> set (db_runs db)"
      "jr_run_id j = wr_run_id r" "paper j" "jr_status j = LEASED"
      "rc_input_hash (ce_hashing env) c = wr_input_hash r" "wr_status r \<in> {PENDING, RUNNING}"
    by auto
  have "append_audit env r j ''paper_cycle.stage_completed'' (checkpoint_payload (ce_hashing env) c j s)
               (''stage:'' @ stage_value (last (completed_stages s)) @ '':'' @ cy_state_hash s)
               (db_now db) RUNNING (db\<lparr>db_artifacts := db_artifacts db\<rparr>) = Success db'"
    using audit by simp
  from advancedI [OF ok j(1-4) load [unfolded j(6)] this checkpoint_event [OF valid nxt j(6)] same_job_refl _ _ _ j(7)]
  show ?thesis
    using j(5) by simp
qed simp

lemma fail_advances:
  assumes step: "store_fail env c code db = (out, db')" and ok: "cycle_ok env db"
  shows "db' = db \<or> advanced env db db'"
proof (cases "db' = db")
  case False
  with step obtain j r s ty p identity status retry db1 where auth: "active_authority env db c = Success (j, r)"
    and load: "load_state (ce_hashing env) db j r (rc_input_hash (ce_hashing env) c) = Success s"
    and audit: "append_audit env r j ty p identity (db_now db) status db = Success db1"
    and mark: "mark_failed_attempt env j code (db_now db) retry db1 = Success db'"
    and ty: "ty \<in> set OTHER_EVENTS"
      "status = (if retry \<noteq> None then RUNNING else RUN_FAILED)"
    by (fastforce simp: store_fail_def bind_Success_iff Let_def OTHER_EVENTS_def dest!: transact_cases split: if_splits)
  from active_authority_Success [OF auth] have j: "j \<in> set (db_jobs db)" "r \<in> set (db_runs db)"
      "jr_run_id j = wr_run_id r" "paper j" "jr_status j = LEASED"
      "rc_input_hash (ce_hashing env) c = wr_input_hash r" "wr_status r \<in> {PENDING, RUNNING}"
    by auto
  let ?j' = "j\<lparr>jr_status := (if retry \<noteq> None then QUEUED else DEAD_LETTER),
      jr_not_before := (case retry of None \<Rightarrow> jr_not_before j | Some t \<Rightarrow> t),
      jr_attempt_nonce := None, jr_lease_owner := None, jr_lease_until := None,
      jr_last_error := Some (last_error_json code j), jr_updated_at := db_now db\<rparr>"
  have j': "same_job j ?j'" "agree (jr_status ?j') status" "db' = update_job ?j' db1"
    using mark by (auto simp: mark_failed_attempt_def ty(2) same_job_def split: if_splits)
  have "append_audit env r j ty p identity (db_now db) status (db\<lparr>db_artifacts := db_artifacts db\<rparr>) = Success db1"
    using audit by simp
  then have "advanced env db db'"
    by (rule advancedI [OF ok j(1-4) load [unfolded j(6)] _ other_event [OF ty(1)] j'(1) disjI1 [OF j'(3)] _ j'(2) j(7)])
      (simp_all add: ty(2) split: if_splits)
  then show ?thesis ..
qed simp

lemma register_artifact_Success:
  "register_artifact m s t db = Success (x, db') \<Longrightarrow> \<exists>a. db' = db\<lparr>db_artifacts := a\<rparr>"
proof -
  assume "register_artifact m s t db = Success (x, db')"
  then have "db' = db \<or> (\<exists>a. db' = db\<lparr>db_artifacts := a\<rparr>)"
    by (auto simp: register_artifact_def Let_def split: if_splits option.splits)
  moreover have "db = db\<lparr>db_artifacts := db_artifacts db\<rparr>" by simp
  ultimately show ?thesis by metis
qed

lemma complete_advances:
  assumes step: "store_complete env c s m db = (out, db')" and ok: "cycle_ok env db"
  shows "db' = db \<or> advanced env db db'"
proof (cases "db' = db")
  case False
  with step obtain j r u a db1 db2 where lj: "locked_job db (jl_job_id (rc_lease c)) = Success j"
    and lr: "locked_run db (jl_run_id (rc_lease c)) = Success r"
    and act: "require_active env db c j r = Success u"
    and load: "load_state (ce_hashing env) db j r (rc_input_hash (ce_hashing env) c) = Success s"
    and complete: "cycle_complete s"
    and art: "register_artifact m s (db_now db) db = Success (a, db1)"
    and audit: "append_audit env r j ''paper_cycle.completed'' (completion_payload (ce_hashing env) j c s a)
               (''completed:'' @ show_int (jl_attempt_generation (rc_lease c))) (db_now db) RUN_SUCCEEDED db1 = Success db2"
    and db': "db' = update_job
         (j\<lparr>jr_status := JOB_SUCCEEDED, jr_result_artifact_hash := Some (af_content_hash m),
              jr_last_error := None, jr_updated_at := db_now db\<rparr>) db2"
    by (auto simp: store_complete_def bind_Success_iff dest!: transact_cases split: if_splits)
  have "active_authority env db c = Success (j, r)"
    using lj lr act by (simp add: active_authority_def)
  from active_authority_Success [OF this] have j: "j \<in> set (db_jobs db)" "r \<in> set (db_runs db)"
      "jr_run_id j = wr_run_id r" "paper j" "jr_status j = LEASED"
      "rc_input_hash (ce_hashing env) c = wr_input_hash r" "wr_status r \<in> {PENDING, RUNNING}"
    by auto
  from register_artifact_Success [OF art] obtain arts where db1: "db1 = db\<lparr>db_artifacts := arts\<rparr>" ..
  let ?j' = "j\<lparr>jr_status := JOB_SUCCEEDED, jr_result_artifact_hash := Some (af_content_hash m),
              jr_last_error := None, jr_updated_at := db_now db\<rparr>"
  have j': "same_job j ?j'" "agree (jr_status ?j') RUN_SUCCEEDED"
    by (auto simp: same_job_def)
  have ty: "''paper_cycle.completed'' \<in> set OTHER_EVENTS"
    by (simp add: OTHER_EVENTS_def)
  have "cy_outputs s \<noteq> []"
    using complete by (auto simp: cycle_complete_def next_stage_def)
  then have "advanced env db db'"
    by (intro advancedI [OF ok j(1-4) load [unfolded j(6)] audit [unfolded db1] other_event [OF ty] j'(1)
          disjI1 [OF db'] _ j'(2) j(7)]) simp_all
  then show ?thesis ..
qed simp

lemma case_single:
  "(case xs of [x] \<Rightarrow> f x | _ \<Rightarrow> Failure c m) = Success y \<longleftrightarrow> (\<exists>x. xs = [x] \<and> f x = Success y)"
  by (auto split: list.splits)

lemma cancel_advances:
  assumes step: "store_cancel env c db = (out, db')" and ok: "cycle_ok env db"
  shows "db' = db \<or> advanced env db db'"
proof (cases "db' = db")
  case False
  with step obtain x r j where lr: "locked_run db (cc_run_id c) = Success r"
    and jobs: "filter (\<lambda>j. jr_run_id j = cc_run_id c \<and> jr_job_type j = ''paper_fund_cycle'') (db_jobs db) = [j]"
    and cancel: "cancel_run env c r j db = Success (x, db')"
    by (auto simp: store_cancel_def bind_Success_iff case_single dest!: transact_cases)
  from cancel False obtain s p db1 where
    load: "load_state (ce_hashing env) db j r (wr_input_hash r) = Success s"
    and job: "jr_status j \<in> {QUEUED, LEASED}"
    and audit: "append_audit env r j ''paper_cycle.cancelled'' p
        (''cancelled:'' @ show_int (cc_expected_version c + 1)) (db_now db) RUN_CANCELLED db = Success db1"
    and db': "db' = update_job
         (j\<lparr>jr_status := JOB_CANCELLED, jr_attempt_nonce := None, jr_lease_owner := None, jr_lease_until := None,
            jr_last_error := Some (JObj [(''code'', JStr (cc_reason_code c))]), jr_updated_at := db_now db\<rparr>) db1"
    by (auto simp: cancel_run_def bind_Success_iff Let_def split: if_splits)
  have "j \<in> set (filter (\<lambda>j. jr_run_id j = cc_run_id c \<and> jr_job_type j = ''paper_fund_cycle'') (db_jobs db))"
    by (simp add: jobs)
  then have j: "j \<in> set (db_jobs db)" "r \<in> set (db_runs db)" "jr_run_id j = wr_run_id r" "paper j"
    using locked_run_Success [OF lr] by (auto simp: paper_def)
  have "run_ok env db j r"
    using ok j by (simp add: cycle_ok_def)
  then have status: "wr_status r \<in> {PENDING, RUNNING}"
    using job by (auto simp: run_ok_def)
  let ?j' = "j\<lparr>jr_status := JOB_CANCELLED, jr_attempt_nonce := None, jr_lease_owner := None, jr_lease_until := None,
            jr_last_error := Some (JObj [(''code'', JStr (cc_reason_code c))]), jr_updated_at := db_now db\<rparr>"
  have j': "same_job j ?j'" "agree (jr_status ?j') RUN_CANCELLED"
    by (auto simp: same_job_def)
  have ty: "''paper_cycle.cancelled'' \<in> set OTHER_EVENTS"
    by (simp add: OTHER_EVENTS_def)
  have audit': "append_audit env r j ''paper_cycle.cancelled'' p (''cancelled:'' @ show_int (cc_expected_version c + 1))
      (db_now db) RUN_CANCELLED (db\<lparr>db_artifacts := db_artifacts db\<rparr>) = Success db1"
    using audit by simp
  have "advanced env db db'"
    by (rule advancedI [OF ok j load audit' other_event [OF ty] j'(1) disjI1 [OF db'] _ j'(2) status]) simp_all
  then show ?thesis ..
qed simp

end
