(* ===== verification/Cycle_Steps.thy ===== *)
theory Cycle_Steps
  imports Cycle_Invariant Status_Machine
begin

text \<open>
  The queue and the store at work on one database: every operation is a step, and so are the passing of
  time, a new run and a new artifact. Paper jobs are enqueued for runs of their own, and the generic
  completion and failure of the queue are for other jobs; the paper store has its own.
\<close>

definition run_rank :: "workflow_status \<Rightarrow> nat" where
  "run_rank s = (case s of PENDING \<Rightarrow> 0 | RUNNING \<Rightarrow> 1 | RUN_DEGRADED \<Rightarrow> 2 | _ \<Rightarrow> 3)"

interpretation run_statuses: status_machine "\<lambda>s. set (workflow_transitions s)" run_rank
proof
  show "t = s \<or> run_rank s < run_rank t" if "t \<in> set (workflow_transitions s)" for s t
    using that by (cases s) (auto simp: run_rank_def)
qed

text \<open>The statuses that may follow, with any number of transitions in between.\<close>

definition run_leads :: "workflow_status \<Rightarrow> workflow_status \<Rightarrow> bool" where
  "run_leads = can_transition_run\<^sup>*\<^sup>*"

lemma run_leads_refl [simp]: "run_leads s s"
  by (simp add: run_leads_def)

lemma run_leads_trans: "run_leads a b \<Longrightarrow> run_leads b c \<Longrightarrow> run_leads a c"
  by (auto simp: run_leads_def)

lemma run_leads_step: "can_transition_run a b \<Longrightarrow> run_leads a b"
  by (auto simp: run_leads_def)

lemma run_leads_terminal:
  assumes "run_leads s t" "workflow_transitions s = []"
  shows "t = s"
  using assms(1) [unfolded run_leads_def] assms(2)
  by (induction rule: converse_rtranclp_induct) (auto simp: can_transition_run_def)

section \<open>How the database evolves\<close>

text \<open>
  Jobs stay, and their attempt generation does not fall. The run of a paper job only moves along the
  table, and unless it failed its recorded outputs only grow.
\<close>

definition job_evolves :: "job_row \<Rightarrow> job_row \<Rightarrow> bool" where
  "job_evolves j j' \<longleftrightarrow>
     jr_job_id j' = jr_job_id j \<and> jr_run_id j' = jr_run_id j \<and> jr_job_type j' = jr_job_type j \<and>
     jr_attempt_generation j \<le> jr_attempt_generation j'"

definition run_evolves ::
  "cycle_env \<Rightarrow> cycle_db \<Rightarrow> job_row \<Rightarrow> run_row \<Rightarrow> cycle_db \<Rightarrow> job_row \<Rightarrow> run_row \<Rightarrow> bool" where
  "run_evolves env db j r db' j' r' \<longleftrightarrow>
     wr_run_id r' = wr_run_id r \<and> wr_input_hash r' = wr_input_hash r \<and> run_leads (wr_status r) (wr_status r') \<and>
     (wr_status r' \<noteq> RUN_FAILED \<longrightarrow>
        (\<forall>s. load_state (ce_hashing env) db j r (wr_input_hash r) = Success s \<longrightarrow>
           (\<exists>s' xs. load_state (ce_hashing env) db' j' r' (wr_input_hash r') = Success s' \<and>
              cy_outputs s' = cy_outputs s @ xs)))"

definition evolves :: "cycle_env \<Rightarrow> cycle_db \<Rightarrow> cycle_db \<Rightarrow> bool" where
  "evolves env db db' \<longleftrightarrow>
     (\<forall>j \<in> set (db_jobs db). \<exists>j' \<in> set (db_jobs db'). job_evolves j j' \<and>
        (\<forall>r \<in> set (db_runs db). paper j \<and> wr_run_id r = jr_run_id j \<longrightarrow>
           (\<exists>r' \<in> set (db_runs db'). run_evolves env db j r db' j' r')))"

lemma run_failed_back: "run_leads RUN_FAILED s \<Longrightarrow> s = RUN_FAILED"
  by (rule run_leads_terminal) simp_all

lemma evolves_refl [simp]: "evolves env db db"
proof -
  have "job_evolves j j \<and> run_evolves env db j r db j r" for j r
    by (simp add: job_evolves_def run_evolves_def)
  then show ?thesis
    unfolding evolves_def by blast
qed

lemma run_evolves_trans:
  assumes "run_evolves env db j r db' j' r'" "run_evolves env db' j' r' db'' j'' r''"
  shows "run_evolves env db j r db'' j'' r''"
proof -
  have leads: "run_leads (wr_status r) (wr_status r'')"
    using assms run_leads_trans unfolding run_evolves_def by blast
  have "\<exists>s' xs. load_state (ce_hashing env) db'' j'' r'' (wr_input_hash r'') = Success s' \<and>
      cy_outputs s' = cy_outputs s @ xs"
    if "wr_status r'' \<noteq> RUN_FAILED" "load_state (ce_hashing env) db j r (wr_input_hash r) = Success s" for s
  proof -
    have "wr_status r' \<noteq> RUN_FAILED"
      using that(1) assms(2) run_failed_back unfolding run_evolves_def by metis
    with assms(1) that(2) obtain s1 xs where
      "load_state (ce_hashing env) db' j' r' (wr_input_hash r') = Success s1" "cy_outputs s1 = cy_outputs s @ xs"
      unfolding run_evolves_def by blast
    with assms(2) that(1) obtain s2 ys where
      "load_state (ce_hashing env) db'' j'' r'' (wr_input_hash r'') = Success s2"
      "cy_outputs s2 = cy_outputs s @ (xs @ ys)"
      unfolding run_evolves_def by (metis append.assoc)
    then show ?thesis by blast
  qed
  with assms leads show ?thesis
    unfolding run_evolves_def by simp
qed

lemma evolves_trans:
  assumes "evolves env db db'" "evolves env db' db''"
  shows "evolves env db db''"
  unfolding evolves_def
proof
  fix j assume j: "j \<in> set (db_jobs db)"
  with assms(1) obtain j1 where j1: "j1 \<in> set (db_jobs db')" "job_evolves j j1"
    and r1: "\<forall>r \<in> set (db_runs db). paper j \<and> wr_run_id r = jr_run_id j \<longrightarrow>
      (\<exists>r' \<in> set (db_runs db'). run_evolves env db j r db' j1 r')"
    unfolding evolves_def by blast
  with assms(2) obtain j2 where j2: "j2 \<in> set (db_jobs db'')" "job_evolves j1 j2"
    and r2: "\<forall>r \<in> set (db_runs db'). paper j1 \<and> wr_run_id r = jr_run_id j1 \<longrightarrow>
      (\<exists>r' \<in> set (db_runs db''). run_evolves env db' j1 r db'' j2 r')"
    unfolding evolves_def by blast
  have "\<exists>r' \<in> set (db_runs db''). run_evolves env db j r db'' j2 r'"
    if r: "r \<in> set (db_runs db)" "paper j \<and> wr_run_id r = jr_run_id j" for r
  proof -
    from r1 r obtain r' where r': "r' \<in> set (db_runs db')" "run_evolves env db j r db' j1 r'"
      by blast
    moreover have "paper j1 \<and> wr_run_id r' = jr_run_id j1"
      using r(2) r'(2) j1(2) by (simp add: paper_def job_evolves_def run_evolves_def)
    ultimately show ?thesis
      using r2 run_evolves_trans by blast
  qed
  moreover have "job_evolves j j2"
    using j1(2) j2(2) by (simp add: job_evolves_def)
  ultimately show "\<exists>j' \<in> set (db_jobs db''). job_evolves j j' \<and>
      (\<forall>r \<in> set (db_runs db). paper j \<and> wr_run_id r = jr_run_id j \<longrightarrow>
         (\<exists>r' \<in> set (db_runs db''). run_evolves env db j r db'' j' r'))"
    using j2(1) by blast
qed

text \<open>An audited change evolves the database when the run of a paper job takes a step of the table.\<close>

lemma changed_evolves:
  assumes ch: "changed env db j r j' status db'" and ok: "cycle_ok env db"
    and step: "paper j \<Longrightarrow> run_leads (wr_status r) status \<and> (status \<noteq> RUN_FAILED \<longrightarrow>
      (\<exists>s s' xs. load_state (ce_hashing env) db j r (wr_input_hash r) = Success s \<and>
         load_state (ce_hashing env) db' j' (advance_run r status (db_now db)) (wr_input_hash r) = Success s' \<and>
         cy_outputs s' = cy_outputs s @ xs))"
  shows "evolves env db db'"
  unfolding evolves_def
proof
  fix k assume k: "k \<in> set (db_jobs db)"
  from ch obtain i o' ty p key db1 where
    ins: "insert_audit env r i o' ty p key (db_now db) db = Success db1" "db_events db' = db_events db1"
      "db_outbox db' = db_outbox db1"
    by (auto simp: changed_def)
  have jobs: "db_jobs db' = map (\<lambda>x. if jr_job_id x = jr_job_id j then j' else x) (db_jobs db)"
    and runs: "db_runs db' = map (\<lambda>x. if wr_run_id x = wr_run_id r then advance_run r status (db_now db) else x) (db_runs db)"
    and j: "j \<in> set (db_jobs db)" "r \<in> set (db_runs db)" "same_job j j'" "jr_run_id j = wr_run_id r"
    using ch by (auto simp: changed_def)
  have keys: "keys_ok db"
    using ok by (simp add: cycle_ok_def)
  show "\<exists>k' \<in> set (db_jobs db'). job_evolves k k' \<and>
      (\<forall>q \<in> set (db_runs db). paper k \<and> wr_run_id q = jr_run_id k \<longrightarrow>
         (\<exists>q' \<in> set (db_runs db'). run_evolves env db k q db' k' q'))"
  proof (cases "k = j")
    case True
    have "run_evolves env db j q db' j' (advance_run r status (db_now db))"
      if "q \<in> set (db_runs db)" "paper j \<and> wr_run_id q = jr_run_id j" for q
    proof -
      have "q = r"
        using run_unique [OF keys that(1) j(2)] that(2) j(4) by simp
      with step that(2) show ?thesis
        by (auto simp: run_evolves_def)
    qed
    moreover have "advance_run r status (db_now db) \<in> set (db_runs db')"
      using j(2) by (force simp: runs)
    moreover have "j' \<in> set (db_jobs db')"
      using j(1) by (force simp: jobs)
    moreover have "job_evolves j j'"
      using j(3) by (simp add: job_evolves_def same_job_def)
    ultimately show ?thesis
      using True by blast
  next
    case False
    then have "jr_job_id k \<noteq> jr_job_id j"
      using job_unique [OF keys k j(1)] by blast
    then have k': "k \<in> set (db_jobs db')"
      using k by (force simp: jobs)
    have "\<exists>q' \<in> set (db_runs db'). run_evolves env db k q db' k q'"
      if q: "q \<in> set (db_runs db)" "paper k \<and> wr_run_id q = jr_run_id k" for q
    proof -
      have other: "wr_run_id q \<noteq> wr_run_id r"
        using sole_job [OF keys _ k j(1)] q(2) j(4) False by metis
      then have "q \<in> set (db_runs db')"
        using q(1) by (force simp: runs)
      moreover have "run_evolves env db k q db' k q"
        using load_other [OF _ ins(1) other] load_state_cong [OF ins(2,3)]
        by (simp add: run_evolves_def)
      ultimately show ?thesis ..
    qed
    moreover have "job_evolves k k"
      by (simp add: job_evolves_def)
    ultimately show ?thesis
      using k' by blast
  qed
qed

lemma advanced_sound:
  assumes "advanced env db db'" "cycle_ok env db"
  shows "cycle_ok env db' \<and> evolves env db db'"
proof -
  from assms(1) obtain j r j' status s s' xs where a: "changed env db j r j' status db'" "paper j"
     "status \<noteq> PENDING" "agree (jr_status j') status"
     "wr_status r = RUNNING \<or> wr_status r = PENDING \<and> status \<noteq> RUN_SUCCEEDED"
     "load_state (ce_hashing env) db j r (wr_input_hash r) = Success s"
     "load_state (ce_hashing env) db' j' (advance_run r status (db_now db)) (wr_input_hash r) = Success s'"
     "cy_outputs s' = cy_outputs s @ xs"
    unfolding advanced_def by blast
  have "run_leads (wr_status r) status"
  proof (cases "status = wr_status r")
    case False
    have "status \<noteq> RUN_DEGRADED"
      using a(4) by (cases "jr_status j'") auto
    then have "can_transition_run (wr_status r) status"
      using a(3,5) False by (cases status) (auto simp: can_transition_run_def)
    then show ?thesis by (rule run_leads_step)
  qed simp
  with a(6-8) have "evolves env db db'"
    by (intro changed_evolves [OF a(1) assms(2)]) blast
  moreover have "cycle_ok env db'"
    by (rule changed_ok [OF a(1) assms(2)]) (simp add: a(3,4,7) readable_def is_success_iff)
  ultimately show ?thesis by simp
qed

end
