(* ===== verification/Cycle_Queue.thy ===== *)
theory Cycle_Queue
  imports Cycle_Steps
begin

text \<open>
  Every operation of the job queue keeps the invariant, whether it leases a job, rejects jobs that
  nobody can claim, takes a new one or closes one of another kind.
\<close>

section \<open>Changes of jobs alone\<close>

lemma find_job_Some: "find_job db i = Some j \<Longrightarrow> j \<in> set (db_jobs db) \<and> jr_job_id j = i"
  by (auto simp: find_job_def dest!: find_key)

lemma find_run_Some: "find_run db i = Some r \<Longrightarrow> r \<in> set (db_runs db) \<and> wr_run_id r = i"
  by (auto simp: find_run_def dest!: find_key)

lemma find_None: "List.find (\<lambda>y. f y = k) xs = None \<longleftrightarrow> k \<notin> f ` set xs"
  by (induction xs) auto

text \<open>Only what the invariant reads counts.\<close>

lemma cycle_ok_cong:
  assumes "db_jobs db' = db_jobs db" "db_runs db' = db_runs db" "db_events db' = db_events db"
    "db_outbox db' = db_outbox db"
  shows "cycle_ok env db' \<longleftrightarrow> cycle_ok env db" "evolves env db db'"
proof -
  have load: "load_state H db' j r h = load_state H db j r h" for H j r h
    by (rule load_state_cong) (simp_all add: assms)
  show "cycle_ok env db' \<longleftrightarrow> cycle_ok env db"
    by (simp add: cycle_ok_def keys_ok_def run_ok_def readable_def assms load)
  have "run_evolves env db j r db' j r" for j r
    by (simp add: run_evolves_def load)
  then show "evolves env db db'"
    using evolves_refl [of env db] unfolding evolves_def assms by (fastforce simp: job_evolves_def)
qed

text \<open>A new lease on a job that is queued or leased.\<close>

lemma leased_sound:
  assumes ok: "cycle_ok env db" and j: "j \<in> set (db_jobs db)" "claimable (db_now db) j"
    and db': "db' = update_job (leased_row j worker nonce now lease_for) db"
  shows "cycle_ok env db' \<and> evolves env db db'"
proof -
  let ?j' = "leased_row j worker nonce now lease_for"
  have keys: "keys_ok db"
    using ok by (simp add: cycle_ok_def)
  have id: "jr_job_id ?j' = jr_job_id j" "jr_run_id ?j' = jr_run_id j" "jr_job_type ?j' = jr_job_type j"
      "jr_attempt_generation ?j' = jr_attempt_generation j + 1" "jr_attempts ?j' = jr_attempts j + 1"
      "jr_max_attempts ?j' = jr_max_attempts j" "jr_status ?j' = LEASED"
    by (simp_all add: leased_row_def)
  have jobs: "db_jobs db' = map (\<lambda>x. if jr_job_id x = jr_job_id j then ?j' else x) (db_jobs db)"
    and rest: "db_runs db' = db_runs db" "db_events db' = db_events db" "db_outbox db' = db_outbox db"
    by (simp_all add: db' update_job_def id)
  have load: "load_state H db' k r h = load_state H db k r h" for H k r h
    by (rule load_state_cong) (simp_all add: rest)
  have load': "load_state H db ?j' r h = load_state H db j r h" for H r h
    by (rule load_state_head) (simp_all add: id)
  have ids: "map jr_job_id (db_jobs db') = map jr_job_id (db_jobs db)"
    by (auto simp: jobs id)
  have origin: "y = ?j' \<or> y \<in> set (db_jobs db) \<and> jr_job_id y \<noteq> jr_job_id j" if "y \<in> set (db_jobs db')" for y
    using that by (auto simp: jobs split: if_splits)
  have sole: "jr_job_id b = jr_job_id a"
    if ab: "a \<in> set (db_jobs db')" "paper a" "b \<in> set (db_jobs db')" "jr_run_id b = jr_run_id a" for a b
    using origin [OF ab(1)] origin [OF ab(3)] ab(2,4) sole_job [OF keys _ _ j(1), of b]
      sole_job [OF keys _ j(1), of b] sole_job [OF keys, of a b] sole_job [OF keys _ _ j(1), of a]
    unfolding paper_def by (metis id(1,2,3))
  have keys': "keys_ok db'"
    unfolding keys_ok_def ids rest
  proof (intro conjI ballI impI)
    show "distinct (map jr_job_id (db_jobs db))" "distinct (map wr_run_id (db_runs db))"
      using keys unfolding keys_ok_def by blast+
    show "re_run_id e \<in> wr_run_id ` set (db_runs db)" if "e \<in> set (db_events db)" for e
      using keys that unfolding keys_ok_def by blast
    fix y assume y: "y \<in> set (db_jobs db')"
    have "jr_run_id j \<in> wr_run_id ` set (db_runs db) \<and> jr_attempt_generation j = int (jr_attempts j)"
      using keys j(1) unfolding keys_ok_def by blast
    moreover have "jr_run_id y \<in> wr_run_id ` set (db_runs db) \<and> jr_attempt_generation y = int (jr_attempts y) \<and>
        jr_attempts y \<le> jr_max_attempts y" if "y \<in> set (db_jobs db)"
      using keys that unfolding keys_ok_def by blast
    ultimately show "jr_run_id y \<in> wr_run_id ` set (db_runs db)" "jr_attempt_generation y = int (jr_attempts y)"
      "jr_attempts y \<le> jr_max_attempts y"
      using origin [OF y] j(2) by (auto simp: id claimable_def)
  qed (rule sole)
  have run: "run_ok env db' y r"
    if "y \<in> set (db_jobs db')" "r \<in> set (db_runs db)" "paper y \<and> wr_run_id r = jr_run_id y" for y r
  proof (cases "y = ?j'")
    case True
    then have "run_ok env db j r"
      using ok that j(1) by (simp add: cycle_ok_def paper_def id)
    then show ?thesis
      using True j(2) by (auto simp: run_ok_def readable_def load load' id claimable_def)
  next
    case False
    then have "run_ok env db y r"
      using origin [OF that(1)] ok that(2,3) by (auto simp: cycle_ok_def)
    then show ?thesis
      by (simp add: run_ok_def readable_def load)
  qed
  have "evolves env db db'"
    unfolding evolves_def
  proof
    fix k assume k: "k \<in> set (db_jobs db)"
    let ?k' = "if jr_job_id k = jr_job_id j then ?j' else k"
    have "?k' \<in> set (db_jobs db')"
      using k by (auto simp: jobs)
    moreover have "k = j" if "jr_job_id k = jr_job_id j"
      using job_unique [OF keys k j(1) that] .
    then have "job_evolves k ?k' \<and> (\<forall>r. run_evolves env db k r db' ?k' r)"
      by (auto simp: job_evolves_def run_evolves_def id load load')
    ultimately show "\<exists>k' \<in> set (db_jobs db'). job_evolves k k' \<and>
      (\<forall>r \<in> set (db_runs db). paper k \<and> wr_run_id r = jr_run_id k \<longrightarrow>
         (\<exists>r' \<in> set (db_runs db'). run_evolves env db k r db' k' r'))"
      unfolding rest by blast
  qed
  then show ?thesis
    using keys' run by (simp add: cycle_ok_def rest)
qed

section \<open>The operations of the queue\<close>

text \<open>An audited change of the queue, as the log functions make it.\<close>

lemma queue_changed:
  assumes keys: "keys_ok db" and j: "j \<in> set (db_jobs db)" "r \<in> set (db_runs db)" "jr_run_id j = wr_run_id r"
    and ins: "insert_audit env r i o' ty p k (db_now db) (db\<lparr>db_artifacts := a\<rparr>) = Success db1"
    and j': "same_job j j'" and db': "db' = update_run (advance_run r status (db_now db)) (update_job j' db1)"
  shows "changed env db j r j' status db'"
proof -
  from ins obtain db2 where ins2: "insert_audit env r i o' ty p k (db_now db) db = Success db2"
    and db1: "db1 = db2\<lparr>db_artifacts := a\<rparr>"
    by (auto simp: insert_audit_artifacts bind_Success_iff)
  from insert_audit_Success [OF ins2] obtain m where db2: "db2 = db\<lparr>db_events := db_events db @
      [new_event (ce_hashing env) r i ty p (db_now db) db], db_outbox := db_outbox db @ [m]\<rparr>"
    by auto
  have "db_jobs db' = map (\<lambda>x. if jr_job_id x = jr_job_id j then j' else x) (db_jobs db)"
    "db_runs db' = map (\<lambda>x. if wr_run_id x = wr_run_id r then advance_run r status (db_now db) else x) (db_runs db)"
    "db_events db' = db_events db2" "db_outbox db' = db_outbox db2" "db_now db' = db_now db"
    using j' by (auto simp: db' db1 db2 update_job_def update_run_def same_job_def cong: if_cong)
  with ins2 j j' show ?thesis
    unfolding changed_def by blast
qed

lemma dead_letter_job_changed:
  assumes "dead_letter_job env (db_now db) j db = Success db'" "keys_ok db" "j \<in> set (db_jobs db)"
  shows "\<exists>r error. changed env db j r (dead_row j error (db_now db)) RUN_FAILED db' \<and> wr_run_id r = jr_run_id j"
proof -
  from assms(1) obtain r i o' ty p k db1 error where r: "find_run db (jr_run_id j) = Some r"
    and ins: "insert_audit env r i o' ty p k (db_now db) db = Success db1"
    and db': "db' = update_run (advance_run r RUN_FAILED (db_now db)) (update_job (dead_row j error (db_now db)) db1)"
    by (auto simp: dead_letter_job_def Let_def bind_Success_iff split: if_splits option.splits)
  have ins': "insert_audit env r i o' ty p k (db_now db) (db\<lparr>db_artifacts := db_artifacts db\<rparr>) = Success db1"
    using ins by simp
  have "same_job j (dead_row j error (db_now db))"
    by (simp add: same_job_def dead_row_def)
  from queue_changed [OF assms(2,3) _ _ ins' this db'] find_run_Some [OF r] show ?thesis
    by auto
qed

lemma changed_others:
  "\<lbrakk>changed env db j r j' status db'; k \<in> set (db_jobs db); jr_job_id k \<noteq> jr_job_id j\<rbrakk> \<Longrightarrow> k \<in> set (db_jobs db')"
  by (force simp: changed_def)

lemma dead_letter_job_sound:
  assumes "dead_letter_job env (db_now db) j db = Success db'" "cycle_ok env db" "j \<in> set (db_jobs db)"
    "unclaimable (db_now db) j"
  shows "cycle_ok env db' \<and> evolves env db db' \<and> db_now db' = db_now db \<and>
    (\<forall>k \<in> set (db_jobs db). jr_job_id k \<noteq> jr_job_id j \<longrightarrow> k \<in> set (db_jobs db'))"
proof -
  have keys: "keys_ok db"
    using assms(2) by (simp add: cycle_ok_def)
  from dead_letter_job_changed [OF assms(1) keys assms(3)] obtain r error
    where ch: "changed env db j r (dead_row j error (db_now db)) RUN_FAILED db'" "wr_run_id r = jr_run_id j" by blast
  have r: "r \<in> set (db_runs db)" "db_now db' = db_now db"
    using ch(1) by (auto simp: changed_def)
  have "run_leads (wr_status r) RUN_FAILED" if "paper j"
  proof -
    have "run_ok env db j r"
      using assms(2,3) r(1) ch(2) that by (simp add: cycle_ok_def)
    then have "wr_status r = PENDING \<or> wr_status r = RUNNING"
      using assms(4) by (auto simp: run_ok_def unclaimable_def)
    then show ?thesis
      by (auto intro!: run_leads_step simp: can_transition_run_def)
  qed
  then have "evolves env db db'"
    by (intro changed_evolves [OF ch(1) assms(2)]) simp
  moreover have "cycle_ok env db'"
    by (rule changed_ok [OF ch(1) assms(2)]) (simp add: dead_row_def)
  ultimately show ?thesis
    using changed_others [OF ch(1)] r(2) by blast
qed

lemma dead_letter_jobs_sound:
  assumes "dead_letter_jobs env (db_now db) js db = Success db'" "cycle_ok env db"
    "distinct (map jr_job_id js)" "\<forall>j \<in> set js. j \<in> set (db_jobs db) \<and> unclaimable (db_now db) j"
  shows "cycle_ok env db' \<and> evolves env db db' \<and> db_now db' = db_now db"
  using assms
proof (induction js arbitrary: db)
  case (Cons j js)
  from Cons.prems(1) obtain db1 where db1: "dead_letter_job env (db_now db) j db = Success db1"
      "dead_letter_jobs env (db_now db) js db1 = Success db'"
    by (auto simp: bind_Success_iff)
  have s: "cycle_ok env db1" "evolves env db db1" "db_now db1 = db_now db"
      "\<forall>k \<in> set (db_jobs db). jr_job_id k \<noteq> jr_job_id j \<longrightarrow> k \<in> set (db_jobs db1)"
    using dead_letter_job_sound [OF db1(1) Cons.prems(2)] Cons.prems(4) by auto
  have "\<forall>k \<in> set js. k \<in> set (db_jobs db1) \<and> unclaimable (db_now db1) k"
    using Cons.prems(3,4) s(3,4) by (auto simp: image_iff)
  with Cons.IH [of db1] db1(2) s Cons.prems(3) evolves_trans [OF s(2)] show ?case
    by auto
qed simp

lemma dead_letter_sound:
  assumes "dead_letter_unclaimable env (db_now db) db = Success db'" "cycle_ok env db"
  shows "cycle_ok env db' \<and> evolves env db db' \<and> db_now db' = db_now db"
proof -
  let ?js = "take 100 (sort_key (\<lambda>j. (jr_run_id j, jr_job_id j)) (filter (unclaimable (db_now db)) (db_jobs db)))"
  have "distinct (map jr_job_id (db_jobs db))"
    using assms(2) by (simp add: cycle_ok_def keys_ok_def)
  then have "distinct (map jr_job_id ?js)"
    by (auto simp: distinct_map inj_on_def dest!: in_set_takeD)
  moreover have "\<forall>j \<in> set ?js. j \<in> set (db_jobs db) \<and> unclaimable (db_now db) j"
    by (auto dest!: in_set_takeD)
  ultimately show ?thesis
    using dead_letter_jobs_sound [OF assms(1) [unfolded dead_letter_unclaimable_def] assms(2)] by blast
qed

lemma next_claimable: "next_claimable_job t db = Some j \<Longrightarrow> j \<in> set (db_jobs db) \<and> claimable t j"
proof -
  assume "next_claimable_job t db = Some j"
  then have "j \<in> set (sort_key claim_key (filter (claimable t) (db_jobs db)))"
    by (cases "sort_key claim_key (filter (claimable t) (db_jobs db))") (simp_all add: next_claimable_job_def)
  then show ?thesis
    unfolding set_sort by simp
qed

lemma settle_cases:
  "settle a b db r = (out, db') \<Longrightarrow> db' = db \<or> r = Success (out, db')"
  by (cases r) auto

lemma claim_sound:
  assumes "claim env nonce worker now lease_for db = (out, db')" "cycle_ok env db"
  shows "cycle_ok env db' \<and> evolves env db db'"
proof (cases "db' = db")
  case False
  with assms(1) obtain db1 where dead: "dead_letter_unclaimable env (db_now db) db = Success db1"
    and claim: "db' = db1 \<or> (\<exists>j. next_claimable_job (db_now db) db1 = Some j \<and>
      db' = update_job (leased_row j worker nonce (db_now db) lease_for) db1)"
    by (auto simp: claim_def bind_Success_iff Let_def split: if_splits option.splits dest!: settle_cases)
  have s: "cycle_ok env db1" "evolves env db db1" "db_now db1 = db_now db"
    using dead_letter_sound [OF dead assms(2)] by auto
  from claim show ?thesis
  proof
    assume "\<exists>j. next_claimable_job (db_now db) db1 = Some j \<and>
      db' = update_job (leased_row j worker nonce (db_now db) lease_for) db1"
    then obtain j where j: "next_claimable_job (db_now db1) db1 = Some j"
      "db' = update_job (leased_row j worker nonce (db_now db) lease_for) db1"
      by (auto simp: s(3))
    with leased_sound [OF s(1) _ _ j(2)] next_claimable [OF j(1)] evolves_trans [OF s(2)] show ?thesis
      by blast
  qed (use s in simp)
qed (use assms in simp)

lemma load_fresh:
  assumes "wf_hashing H" "sha256_ok h" "wr_version r = 1" "run_events db (wr_run_id r) = []"
  shows "is_success (load_state H db j r h)"
proof -
  have "is_success (genesis H (wr_run_id r) h)"
    using assms(1,2)
    by (auto simp: genesis_def make_cycle_state_def validate_cycle_state_def check_all.simps completed_stages_def
        cardinality_ok_def expected_state_hash_def stable_payload_hash_def wf_hashing_def is_success_iff)
  then show ?thesis
    using assms(3,4) by (auto simp: load_state_def is_success_iff)
qed

text \<open>
  What the code that requests a job promises: a paper job gets a new run of its own, and no other job
  joins the run of a paper job.
\<close>

definition enqueue_allowed :: "enqueue_job \<Rightarrow> cycle_db \<Rightarrow> bool" where
  "enqueue_allowed q db \<longleftrightarrow>
     (\<forall>j \<in> set (db_jobs db). jr_run_id j = ej_run_id q \<longrightarrow> \<not> paper j \<and> ej_job_type q \<noteq> ''paper_fund_cycle'') \<and>
     (ej_job_type q = ''paper_fund_cycle'' \<longrightarrow>
       (\<forall>r \<in> set (db_runs db). wr_run_id r = ej_run_id q \<longrightarrow>
          uuid_canonical (wr_run_id r) \<and> wr_status r = PENDING \<and> wr_version r = 1 \<and> sha256_ok (wr_input_hash r) \<and>
          run_events db (wr_run_id r) = []))"

lemma enqueue_sound:
  assumes en: "enqueue env q db = (out, db')" and ok: "cycle_ok env db" and H: "wf_hashing (ce_hashing env)"
    and allowed: "enqueue_allowed q db"
  shows "cycle_ok env db' \<and> evolves env db db'"
proof (cases "db' = db")
  case False
  let ?row = "queued_row (ce_hashing env) q"
  from en False have db': "db' = db\<lparr>db_jobs := db_jobs db @ [?row]\<rparr>" and new: "find_job db (ej_job_id q) = None"
    and run: "find_run db (ej_run_id q) \<noteq> None"
    by (auto simp: enqueue_def Let_def split: option.splits if_splits)
  have row: "jr_job_id ?row = ej_job_id q" "jr_run_id ?row = ej_run_id q" "jr_job_type ?row = ej_job_type q"
      "jr_attempt_generation ?row = 0" "jr_attempts ?row = 0" "jr_status ?row = QUEUED"
    by (simp_all add: queued_row_def)
  have fresh: "ej_job_id q \<notin> jr_job_id ` set (db_jobs db)"
    using new by (simp add: find_job_def find_None)
  have keys: "keys_ok db"
    using ok by (simp add: cycle_ok_def)
  have load: "load_state H db' k r h = load_state H db k r h" for H k r h
    by (rule load_state_cong) (simp_all add: db')
  have run': "ej_run_id q \<in> wr_run_id ` set (db_runs db)"
    using run find_run_Some by (metis imageI not_None_eq)
  have jobs: "db_jobs db' = db_jobs db @ [?row]" "db_runs db' = db_runs db" "db_events db' = db_events db"
    by (simp_all add: db')
  have sole: "jr_job_id b = jr_job_id a"
    if ab: "a \<in> set (db_jobs db')" "paper a" "b \<in> set (db_jobs db')" "jr_run_id b = jr_run_id a" for a b
    using ab allowed sole_job [OF keys, of a b] row(1-3) unfolding enqueue_allowed_def jobs paper_def by fastforce
  have keys': "keys_ok db'"
    unfolding keys_ok_def
  proof (intro conjI ballI impI)
    show "distinct (map jr_job_id (db_jobs db'))" "distinct (map wr_run_id (db_runs db'))"
      using keys fresh unfolding keys_ok_def by (simp_all add: jobs row)
    show "re_run_id e \<in> wr_run_id ` set (db_runs db')" if "e \<in> set (db_events db')" for e
      using keys that unfolding keys_ok_def jobs by blast
    fix y assume y: "y \<in> set (db_jobs db')"
    have "jr_run_id y \<in> wr_run_id ` set (db_runs db) \<and> jr_attempt_generation y = int (jr_attempts y) \<and>
        jr_attempts y \<le> jr_max_attempts y" if "y \<in> set (db_jobs db)"
      using keys that unfolding keys_ok_def by blast
    then show "jr_run_id y \<in> wr_run_id ` set (db_runs db')" "jr_attempt_generation y = int (jr_attempts y)"
      "jr_attempts y \<le> jr_max_attempts y"
      using y run' by (auto simp: jobs row)
  qed (rule sole)
  have "run_ok env db' y r"
    if "y \<in> set (db_jobs db')" "r \<in> set (db_runs db')" "paper y \<and> wr_run_id r = jr_run_id y" for y r
  proof (cases "y \<in> set (db_jobs db)")
    case True
    with ok that show ?thesis
      by (simp add: cycle_ok_def jobs run_ok_def readable_def load)
  next
    case False
    then have "y = ?row"
      using that(1) by (simp add: jobs)
    with that allowed load_fresh [OF H, of _ r db y] show ?thesis
      by (auto simp: enqueue_allowed_def jobs row paper_def run_ok_def readable_def load)
  qed
  moreover have "evolves env db db'"
  proof -
    have "run_evolves env db j r db' j r \<and> job_evolves j j" for j r
      by (simp add: run_evolves_def job_evolves_def load)
    then show ?thesis
      unfolding evolves_def jobs by (metis UnCI set_append)
  qed
  ultimately show ?thesis
    using keys' by (simp add: cycle_ok_def)
qed (use ok in simp)

lemma create_run_sound:
  assumes ok: "cycle_ok env db" and fresh: "wr_run_id r \<notin> wr_run_id ` set (db_runs db)"
    and db': "db' = db\<lparr>db_runs := db_runs db @ [r]\<rparr>"
  shows "cycle_ok env db' \<and> evolves env db db'"
proof -
  have keys: "keys_ok db"
    using ok by (simp add: cycle_ok_def)
  have load: "load_state H db' k r h = load_state H db k r h" for H k r h
    by (rule load_state_cong) (simp_all add: db')
  have run: "run_ok env db' y q"
    if "y \<in> set (db_jobs db')" "q \<in> set (db_runs db')" "paper y \<and> wr_run_id q = jr_run_id y" for y q
  proof -
    have "jr_run_id y \<in> wr_run_id ` set (db_runs db)"
      using keys that(1) by (simp add: keys_ok_def db')
    then have "q \<in> set (db_runs db)"
      using that(2,3) fresh by (auto simp: db')
    then show ?thesis
      using ok that by (simp add: cycle_ok_def db' run_ok_def readable_def load [unfolded db'])
  qed
  have "run_evolves env db j r db' j r \<and> job_evolves j j" for j r
    by (simp add: run_evolves_def job_evolves_def load)
  then have "evolves env db db'"
    unfolding evolves_def db' by fastforce
  moreover have "keys_ok db'"
  proof -
    have rows: "db_jobs db' = db_jobs db" "db_events db' = db_events db" "db_runs db' = db_runs db @ [r]"
      by (simp_all add: db')
    have ids: "wr_run_id ` set (db_runs db') = insert (wr_run_id r) (wr_run_id ` set (db_runs db))"
      by (simp add: rows)
    have "distinct (map wr_run_id (db_runs db))"
      using keys unfolding keys_ok_def by blast
    then have "distinct (map wr_run_id (db_runs db'))"
      using fresh by (simp add: rows)
    then show ?thesis
      using keys unfolding keys_ok_def ids rows(1,2) by blast
  qed
  ultimately show ?thesis
    using run by (simp add: cycle_ok_def)
qed

text \<open>Jobs of other kinds, completed and rejected by their workers.\<close>

lemma other_changed:
  assumes "changed env db j r j' status db'" "cycle_ok env db" "\<not> paper j"
  shows "cycle_ok env db' \<and> evolves env db db'"
  using changed_ok [OF assms(1,2)] changed_evolves [OF assms(1,2)] assms(3) by blast

lemma register_result_Success:
  "register_result_artifact j r m t db = Success (x, db') \<Longrightarrow> \<exists>a. db' = db\<lparr>db_artifacts := a\<rparr>"
proof -
  assume "register_result_artifact j r m t db = Success (x, db')"
  then have "db' = db \<or> (\<exists>a. db' = db\<lparr>db_artifacts := a\<rparr>)"
    by (auto simp: register_result_artifact_def Let_def bind_Success_iff split: if_splits option.splits)
  moreover have "db = db\<lparr>db_artifacts := db_artifacts db\<rparr>" by simp
  ultimately show ?thesis by metis
qed

lemma complete_active_changed:
  assumes "complete_active_job env j r m db = Success (out, db')" "keys_ok db" "j \<in> set (db_jobs db)"
  shows "(\<exists>a. db' = db\<lparr>db_artifacts := a\<rparr>) \<or> (\<exists>q j' status. changed env db j q j' status db')"
proof -
  have reg: "\<exists>a. db1 = db\<lparr>db_artifacts := a\<rparr>"
    if "(case m of None \<Rightarrow> Success (Success (), db) | Some m \<Rightarrow> register_result_artifact j r m (db_now db) db) =
      Success (registered, db1)" for registered db1
  proof (cases m)
    case None
    with that show ?thesis by (intro exI [of _ "db_artifacts db"]) simp
  qed (use that register_result_Success in \<open>fastforce\<close>)
  from assms(1) consider "db' = db" | registered db1 where
      "(case m of None \<Rightarrow> Success (Success (), db) | Some m \<Rightarrow> register_result_artifact j r m (db_now db) db) =
        Success (registered, db1)" "db' = db1"
    | registered db1 q a receipt where "find_run db (jr_run_id j) = Some q"
      "(case m of None \<Rightarrow> Success (Success (), db) | Some m \<Rightarrow> register_result_artifact j r m (db_now db) db) =
        Success (registered, db1)" "commit_job_result env j q a r (db_now db) db1 = Success (receipt, db')"
    unfolding complete_active_job_def
    by (auto simp: bind_Success_iff split: if_splits option.splits result.splits)
  then show ?thesis
  proof cases
    case 1
    then show ?thesis by (intro disjI1 exI [of _ "db_artifacts db"]) simp
  next
    case 2
    then show ?thesis using reg by blast
  next
    case 3
    from reg [OF 3(2)] obtain arts where db1: "db1 = db\<lparr>db_artifacts := arts\<rparr>" ..
    let ?j' = "j\<lparr>jr_status := JOB_SUCCEEDED, jr_result_artifact_hash := Some (cj_result_artifact_hash r),
             jr_updated_at := db_now db\<rparr>"
    let ?status = "if jr_job_type j \<in> set WORKER_JOBS then RUN_SUCCEEDED else wr_status q"
    from 3(3) obtain i o' ty p k db2 where
      ins: "insert_audit env q i o' ty p k (db_now db) (db\<lparr>db_artifacts := arts\<rparr>) = Success db2"
      and db': "db' = update_run (advance_run q ?status (db_now db)) (update_job ?j' db2)"
      by (auto simp: commit_job_result_def Let_def bind_Success_iff db1)
    have "same_job j ?j'"
      by (simp add: same_job_def)
    from queue_changed [OF assms(2,3) _ _ ins this db'] find_run_Some [OF 3(1)] show ?thesis
      by auto
  qed
qed

lemma queue_complete_sound:
  assumes c: "queue_complete env r now m db = (out, db')" and ok: "cycle_ok env db"
    and other: "\<And>j. find_job db (cj_job_id r) = Some j \<Longrightarrow> \<not> paper j"
  shows "cycle_ok env db' \<and> evolves env db db'"
proof (cases "db' = db")
  case False
  with c obtain j where j: "find_job db (cj_job_id r) = Some j"
    and act: "complete_active_job env j r m db = Success (out, db')"
    by (auto simp: queue_complete_def complete_transaction_def split: if_splits option.splits result.splits dest!: settle_cases)
  have "keys_ok db"
    using ok by (simp add: cycle_ok_def)
  from complete_active_changed [OF act this] find_job_Some [OF j] show ?thesis
    using other_changed [OF _ ok other [OF j]] cycle_ok_cong [of db' db env] ok by auto
qed (use ok in simp)

lemma queue_fail_sound:
  assumes c: "queue_fail env r now db = (out, db')" and ok: "cycle_ok env db"
    and other: "\<And>j. find_job db (fj_job_id r) = Some j \<Longrightarrow> \<not> paper j"
  shows "cycle_ok env db' \<and> evolves env db db'"
proof (cases "db' = db")
  case False
  with c obtain j where j: "find_job db (fj_job_id r) = Some j"
    and act: "fail_active_job env j r db = Success (out, db')"
    by (auto simp: queue_fail_def fail_transaction_def split: if_splits option.splits result.splits dest!: settle_cases)
  from act False obtain q receipt where q: "find_run db (jr_run_id j) = Some q"
    and com: "commit_job_failure env j q r (db_now db) db = Success (receipt, db')"
    by (auto simp: fail_active_job_def bind_Success_iff split: if_splits option.splits)
  from com obtain i o' ty p k db1 where ins: "insert_audit env q i o' ty p k (db_now db) db = Success db1"
    and db': "db' = update_run (advance_run q RUN_FAILED (db_now db)) (update_job (dead_row j (explicit_error r) (db_now db)) db1)"
    by (auto simp: commit_job_failure_def Let_def bind_Success_iff split: if_splits)
  have ins': "insert_audit env q i o' ty p k (db_now db) (db\<lparr>db_artifacts := db_artifacts db\<rparr>) = Success db1"
    using ins by simp
  have "same_job j (dead_row j (explicit_error r) (db_now db))"
    by (simp add: same_job_def dead_row_def)
  moreover have "keys_ok db"
    using ok by (simp add: cycle_ok_def)
  ultimately have "changed env db j q (dead_row j (explicit_error r) (db_now db)) RUN_FAILED db'"
    using queue_changed [OF _ _ _ _ ins' _ db'] find_job_Some [OF j] find_run_Some [OF q] by auto
  from other_changed [OF this ok other [OF j]] show ?thesis .
qed (use ok in simp)

end
