(* ===== verification/Cycle_Properties.thy ===== *)
theory Cycle_Properties
  imports Cycle_Queue Sample_Hashing
begin

text \<open>
  What the job queue and the checkpoint store guarantee together, whatever the order of their
  operations.
\<close>

inductive cycle_step :: "cycle_env \<Rightarrow> cycle_db \<Rightarrow> cycle_db \<Rightarrow> bool" for env where
  clock: "db_now db \<le> t \<Longrightarrow> cycle_step env db (db\<lparr>db_now := t\<rparr>)"
| artifact: "cycle_step env db (db\<lparr>db_artifacts := db_artifacts db @ [a]\<rparr>)"
| new_run: "wr_run_id r \<notin> wr_run_id ` set (db_runs db) \<Longrightarrow> cycle_step env db (db\<lparr>db_runs := db_runs db @ [r]\<rparr>)"
| enqueued: "\<lbrakk>validate_enqueue q = Success q; enqueue_allowed q db; enqueue env q db = (out, db')\<rbrakk> \<Longrightarrow>
    cycle_step env db db'"
| claimed: "claim env nonce worker now lease_for db = (out, db') \<Longrightarrow> cycle_step env db db'"
| completed_other: "\<lbrakk>queue_complete env r now m db = (out, db');
    \<forall>j. find_job db (cj_job_id r) = Some j \<longrightarrow> \<not> paper j\<rbrakk> \<Longrightarrow> cycle_step env db db'"
| failed_other: "\<lbrakk>queue_fail env q now db = (out, db');
    \<forall>j. find_job db (fj_job_id q) = Some j \<longrightarrow> \<not> paper j\<rbrakk> \<Longrightarrow> cycle_step env db db'"
| checkpointed: "\<lbrakk>state_valid (ce_hashing env) s; store_checkpoint env c s h db = (out, db')\<rbrakk> \<Longrightarrow> cycle_step env db db'"
| failed: "store_fail env c code db = (out, db') \<Longrightarrow> cycle_step env db db'"
| completed: "store_complete env c s m db = (out, db') \<Longrightarrow> cycle_step env db db'"
| cancelled: "store_cancel env cc db = (out, db') \<Longrightarrow> cycle_step env db db'"

definition empty_db :: "utc \<Rightarrow> cycle_db" where
  "empty_db t = \<lparr>db_now = t, db_jobs = [], db_runs = [], db_events = [], db_outbox = [], db_artifacts = []\<rparr>"

definition reachable :: "cycle_env \<Rightarrow> cycle_db \<Rightarrow> bool" where
  "reachable env db \<longleftrightarrow> (\<exists>t. (cycle_step env)\<^sup>*\<^sup>* (empty_db t) db)"

lemma cycle_step_sound:
  assumes "cycle_step env db db'" "wf_hashing (ce_hashing env)" "cycle_ok env db"
  shows "cycle_ok env db' \<and> evolves env db db'"
  using assms
proof (induction rule: cycle_step.induct)
  case (clock db t)
  then show ?case using cycle_ok_cong [of "db\<lparr>db_now := t\<rparr>" db env] by simp
next
  case (artifact db a)
  then show ?case using cycle_ok_cong [of "db\<lparr>db_artifacts := db_artifacts db @ [a]\<rparr>" db env] by simp
next
  case (new_run r db)
  then show ?case using create_run_sound by blast
next
  case (enqueued q db out db')
  then show ?case using enqueue_sound by blast
next
  case (claimed nonce worker now lease_for db out db')
  then show ?case using claim_sound by blast
next
  case (completed_other r now m db out db')
  then show ?case using queue_complete_sound by blast
next
  case (failed_other q now db out db')
  then show ?case using queue_fail_sound by blast
next
  case (checkpointed s c h db out db')
  then show ?case using checkpoint_advances advanced_sound evolves_refl by metis
next
  case (failed c code db out db')
  then show ?case using fail_advances advanced_sound evolves_refl by metis
next
  case (completed c s m db out db')
  then show ?case using complete_advances advanced_sound evolves_refl by metis
next
  case (cancelled cc db out db')
  then show ?case using cancel_advances advanced_sound evolves_refl by metis
qed

lemma cycle_steps_sound:
  assumes "(cycle_step env)\<^sup>*\<^sup>* db db'" "wf_hashing (ce_hashing env)" "cycle_ok env db"
  shows "cycle_ok env db' \<and> evolves env db db'"
  using assms(1)
proof (induction rule: rtranclp_induct)
  case base
  then show ?case using assms(3) by simp
next
  case (step db1 db2)
  then show ?case
    using cycle_step_sound [OF step.hyps(2) assms(2)] evolves_trans by blast
qed

lemma reachable_ok: "reachable env db \<Longrightarrow> wf_hashing (ce_hashing env) \<Longrightarrow> cycle_ok env db"
proof -
  assume "reachable env db" and H: "wf_hashing (ce_hashing env)"
  then obtain t where "(cycle_step env)\<^sup>*\<^sup>* (empty_db t) db"
    by (auto simp: reachable_def)
  moreover have "cycle_ok env (empty_db t)"
    by (simp add: cycle_ok_def keys_ok_def empty_db_def)
  ultimately show ?thesis
    using cycle_steps_sound H by blast
qed



lemma settle_Success: "settle a b db r = (Success x, db') \<longleftrightarrow> r = Success (Success x, db')"
  using caught_Success [of a b "Raised e" x for e] by (cases r) (auto simp: eq_commute [of "Success x"])

text \<open>The row behind a lease.\<close>

lemma claim_lease:
  assumes "claim env nonce worker now lease_for db = (Success lease, db')"
  shows "\<exists>j \<in> set (db_jobs db'). jr_job_id j = jl_job_id lease \<and> jr_attempt_generation j = jl_attempt_generation lease"
proof -
  from assms obtain db1 j where j: "next_claimable_job (db_now db) db1 = Some j"
    and lease: "make_job_lease (leased_row j worker nonce (db_now db) lease_for) = Success lease"
    and db': "db' = update_job (leased_row j worker nonce (db_now db) lease_for) db1"
    by (auto simp: claim_def settle_Success bind_Success_iff Let_def split: if_splits option.splits)
  have "leased_row j worker nonce (db_now db) lease_for \<in> set (db_jobs db')"
    using next_claimable [OF j] by (force simp: db' update_job_def leased_row_def)
  moreover have "jl_job_id lease = jr_job_id (leased_row j worker nonce (db_now db) lease_for) \<and>
      jl_attempt_generation lease = jr_attempt_generation (leased_row j worker nonce (db_now db) lease_for)"
    using lease by (auto simp: make_job_lease_def res_simps split: option.splits)
  ultimately show ?thesis by force
qed

lemma stale_authority:
  assumes "j \<in> set (db_jobs db)" "keys_ok db" "jr_job_id j = jl_job_id (rc_lease c)"
    "jl_attempt_generation (rc_lease c) < jr_attempt_generation j"
  shows "locked_job db (jl_job_id (rc_lease c)) = Success j" "\<not> active_lease H t j r c"
    "\<exists>m code. active_authority env db c = Failure code m"
proof -
  have "distinct (map jr_job_id (db_jobs db))"
    using assms(2) by (simp add: keys_ok_def)
  from find_distinct [OF this assms(1)] show lj: "locked_job db (jl_job_id (rc_lease c)) = Success j"
    by (simp add: locked_job_def assms(3))
  show stale: "\<not> active_lease H t j r c" for H t r
    using assms(4) by (simp add: active_lease_def Let_def)
  show "\<exists>m code. active_authority env db c = Failure code m"
    by (auto simp: active_authority_def lj require_active_def stale locked_run_def split: option.splits)
qed

text \<open>
  C8: A worker that lost its lease can do no harm. Once a job was claimed anew, every checkpoint,
  failure and completion under an older lease of the job is refused and leaves the database as it is,
  and so is a read, no matter what happened in between.
\<close>

theorem stale_lease_fenced:
  assumes "reachable env db" "wf_hashing (ce_hashing env)"
    and "claim env nonce worker now lease_for db = (Success lease, db1)" "(cycle_step env)\<^sup>*\<^sup>* db1 db2"
    and "jl_job_id (rc_lease c) = jl_job_id lease" "jl_attempt_generation (rc_lease c) < jl_attempt_generation lease"
  shows "\<not> is_success (store_load env c db2) \<and>
    (\<not> is_success (fst (store_checkpoint env c s h db2)) \<and> snd (store_checkpoint env c s h db2) = db2) \<and>
    (\<not> is_success (fst (store_fail env c code db2)) \<and> snd (store_fail env c code db2) = db2) \<and>
    (\<not> is_success (fst (store_complete env c s m db2)) \<and> snd (store_complete env c s m db2) = db2)"
proof -
  have ok1: "cycle_ok env db1"
    using claim_sound [OF assms(3) reachable_ok [OF assms(1,2)]] ..
  have ok2: "keys_ok db2" and ev: "evolves env db1 db2"
    using cycle_steps_sound [OF assms(4,2) ok1] by (simp_all add: cycle_ok_def)
  from claim_lease [OF assms(3)] ev obtain j where j: "j \<in> set (db_jobs db2)" "jr_job_id j = jl_job_id lease"
      "jl_attempt_generation lease \<le> jr_attempt_generation j"
    unfolding evolves_def job_evolves_def by (metis (no_types, lifting))
  note stale = stale_authority [OF j(1) ok2, of c]
  from stale(3) [of env] j assms(5,6) obtain e code' where auth: "active_authority env db2 c = Failure code' e"
    by auto
  have lj: "locked_job db2 (jl_job_id (rc_lease c)) = Success j"
    and lease: "\<not> active_lease H t j r c" for H t r
    using stale(1,2) j assms(5,6) by simp_all
  have gen: "jr_attempt_generation j \<noteq> jl_attempt_generation (rc_lease c)"
    using j(3) assms(6) by simp
  have load: "\<not> is_success (store_load env c db2)"
    using gen by (auto simp: store_load_def lj require_active_def lease require_completed_authority_def Let_def
        is_success_iff bind_Success_iff split: if_splits)
  have "store_checkpoint env c s h db2 = (Failure code' e, db2)" "store_fail env c code db2 = (Failure code' e, db2)"
    by (simp_all add: store_checkpoint_def store_fail_def auth)
  moreover have "completed_result env db2 c j r s m = Success x \<longleftrightarrow> False" for r x
    using gen by (auto simp: completed_result_def Let_def bind_Success_iff)
  then have "\<not> is_success out \<and> db3 = db2" if "store_complete env c s m db2 = (out, db3)" for out db3
    using transact_cases [OF that [unfolded store_complete_def]] that
    by (auto simp: store_complete_def lj require_active_def lease is_success_iff bind_Success_iff transact_Success
        split: if_splits)
  then have "\<not> is_success (fst (store_complete env c s m db2)) \<and> snd (store_complete env c s m db2) = db2"
    by (metis prod.collapse)
  ultimately show ?thesis
    using load by (simp add: is_success_iff)
qed

text \<open>
  C11: What was checkpointed is what a resumed worker gets. A successful checkpoint returns the state it
  was given, and as long as the lease is active a load returns exactly that state, read back from the
  text in the event log.
\<close>

theorem checkpoint_then_load:
  assumes "reachable env db" "wf_hashing (ce_hashing env)" "state_valid (ce_hashing env) s"
    and "store_checkpoint env c s h db = (Success s', db')"
    and "active_authority env (db'\<lparr>db_now := t\<rparr>) c = Success a"
  shows "s' = s \<and> store_load env c (db'\<lparr>db_now := t\<rparr>) = Success s"
proof -
  have ok: "cycle_ok env db"
    using reachable_ok [OF assms(1,2)] .
  from assms(4) obtain j r cur u where auth: "active_authority env db c = Success (j, r)"
    and load: "load_state (ce_hashing env) db j r (rc_input_hash (ce_hashing env) c) = Success cur"
    and nxt: "require_next_state cur s h = Success u" and s': "s' = s"
    and audit: "append_audit env r j ''paper_cycle.stage_completed'' (checkpoint_payload (ce_hashing env) c j s)
               (''stage:'' @ stage_value (last (completed_stages s)) @ '':'' @ cy_state_hash s)
               (db_now db) RUNNING db = Success db'"
    by (auto simp: store_checkpoint_def bind_Success_iff transact_Success)
  from active_authority_Success [OF auth] have j: "j \<in> set (db_jobs db)" "r \<in> set (db_runs db)"
      "jr_run_id j = wr_run_id r" "rc_input_hash (ce_hashing env) c = wr_input_hash r"
    by auto
  have audit': "append_audit env r j ''paper_cycle.stage_completed'' (checkpoint_payload (ce_hashing env) c j s)
               (''stage:'' @ stage_value (last (completed_stages s)) @ '':'' @ cy_state_hash s)
               (db_now db) RUNNING (db\<lparr>db_artifacts := db_artifacts db\<rparr>) = Success db'"
    using audit by simp
  from audit_advances [OF ok j(1-3) load audit' checkpoint_event [OF assms(3) nxt refl] same_job_refl]
  have ch: "changed env db j r j RUNNING db'"
    and after: "load_state (ce_hashing env) db' j (advance_run r RUNNING (db_now db)) (wr_input_hash r) = Success s"
    by (simp_all add: j(4))
  obtain j2 r2 where a: "a = (j2, r2)" by (cases a)
  have auth2: "active_authority env (db'\<lparr>db_now := t\<rparr>) c = Success (j2, r2)"
    using assms(5) a by simp
  from active_authority_Success [OF this] have j2: "j2 \<in> set (db_jobs db')" "r2 \<in> set (db_runs db')"
      "jr_status j2 = LEASED" by auto
  have ids: "jr_job_id j2 = jr_job_id j" "wr_run_id r2 = wr_run_id r"
    using auth auth2 by (auto simp: active_authority_def bind_Success_iff dest!: locked_job_Success locked_run_Success)
  have keys: "keys_ok db'"
    using changed_keys [OF ch] ok by (simp add: cycle_ok_def)
  have "advance_run r RUNNING (db_now db) \<in> set (db_runs db')"
    using ch by (force simp: changed_def)
  then have r2: "r2 = advance_run r RUNNING (db_now db)"
    using run_unique [OF keys j2(2)] ids(2) by simp
  have "load_state (ce_hashing env) (db'\<lparr>db_now := t\<rparr>) j2 r2 (wr_input_hash r) = Success s"
    using after load_state_head [OF refl refl refl ids(1)]
      load_state_cong [of "db'\<lparr>db_now := t\<rparr>" db'] by (simp add: r2)
  then show ?thesis
    using s' auth2 j2(3)
    by (auto simp: store_load_def active_authority_def bind_Success_iff j(4))
qed

end
