(* ===== verification/Cycle_Example.thy ===== *)
theory Cycle_Example
  imports Cycle_Properties
begin

text \<open>
  An example of the properties: one run, its job, a claim, the checkpoint of the first stage, and a
  second worker after the lease has expired.
\<close>

definition SAMPLE_HASH :: hash where
  "SAMPLE_HASH = replicate 64 CHR ''a''"

definition sample_env :: cycle_env where
  "sample_env = \<lparr>ce_hashing = sample_hashing, ce_base_retry_delay = 1000000, ce_storable = (\<lambda>j. True)\<rparr>"

definition sample_run_id :: uuid where
  "sample_run_id = ''10000000-0000-4000-8000-000000000000''"

definition sample_job_id :: uuid where
  "sample_job_id = ''20000000-0000-4000-8000-000000000000''"

definition sample_run :: run_row where
  "sample_run =
     \<lparr>wr_run_id = sample_run_id, wr_run_type = ''paper_fund_cycle'', wr_status = PENDING, wr_as_of = 0,
      wr_policy_id = ''p'', wr_idempotency_key = ''r'', wr_input_hash = SAMPLE_HASH, wr_owner_subject = ''o'',
      wr_version = 1, wr_created_at = 0, wr_updated_at = 0\<rparr>"

definition sample_payload :: json where
  "sample_payload = JObj [(''cycle_input_hash'', JStr SAMPLE_HASH)]"

definition sample_request :: enqueue_job where
  "sample_request =
     \<lparr>ej_job_id = sample_job_id, ej_run_id = sample_run_id, ej_job_type = ''paper_fund_cycle'',
      ej_payload = sample_payload, ej_idempotency_key = ''k'', ej_not_before = 0, ej_deadline_at = 1000,
      ej_max_attempts = 3, ej_created_at = 0\<rparr>"

definition sample_job :: job_row where
  "sample_job =
     \<lparr>jr_job_id = sample_job_id, jr_run_id = sample_run_id, jr_job_type = ''paper_fund_cycle'',
      jr_payload = sample_payload, jr_payload_hash = SAMPLE_HASH, jr_status = QUEUED, jr_idempotency_key = ''k'',
      jr_not_before = 0, jr_deadline_at = 1000, jr_attempts = 0, jr_max_attempts = 3, jr_attempt_generation = 0,
      jr_attempt_nonce = None, jr_lease_owner = None, jr_lease_until = None, jr_result_artifact_hash = None,
      jr_last_error = None, jr_created_at = 0, jr_updated_at = 0\<rparr>"

definition sample_leased :: job_row where
  "sample_leased = leased_row sample_job ''w'' ''n'' 0 100"

definition sample_lease :: job_lease where
  "sample_lease =
     \<lparr>jl_job_id = sample_job_id, jl_run_id = sample_run_id, jl_job_type = ''paper_fund_cycle'',
      jl_payload = sample_payload, jl_attempt_generation = 1, jl_attempt_nonce = ''n'', jl_lease_owner = ''w'',
      jl_lease_until = 100, jl_attempts = 1, jl_deadline_at = 1000\<rparr>"

definition sample_db :: "job_row list \<Rightarrow> cycle_db" where
  "sample_db jobs =
     \<lparr>db_now = 0, db_jobs = jobs, db_runs = [sample_run], db_events = [], db_outbox = [], db_artifacts = []\<rparr>"

lemma sample_new_run: "cycle_step env (empty_db 0) (sample_db [])"
  using cycle_step.new_run [of sample_run "empty_db 0" env] by (simp add: empty_db_def sample_db_def)

lemma sample_ids: "uuid_canonical sample_run_id" "sample_run_id \<noteq> sample_job_id"
  by code_simp+

lemma sample_queued: "queued_row sample_hashing sample_request = sample_job"
  by (simp add: queued_row_def sample_request_def sample_job_def ej_payload_hash_def SAMPLE_HASH_def)

lemma sample_enqueue: "enqueue sample_env sample_request (sample_db []) = (Success sample_job, sample_db [sample_job])"
proof -
  have "find_run (sample_db []) (ej_run_id sample_request) \<noteq> None"
    by (simp add: find_run_def sample_db_def sample_request_def sample_run_def)
  then show ?thesis
    by (simp add: enqueue_def sample_db_def sample_env_def find_job_def sample_queued)
qed

lemma sample_enqueued: "cycle_step sample_env (sample_db []) (sample_db [sample_job])"
proof (rule cycle_step.enqueued [OF _ _ sample_enqueue])
  show "validate_enqueue sample_request = Success sample_request"
    by (simp add: validate_enqueue_def sample_request_def nonempty_ok_def check_all.simps)
  have "sha256_ok SAMPLE_HASH"
    by (simp add: SAMPLE_HASH_def)
  then show "enqueue_allowed sample_request (sample_db [])"
    using sample_ids by (simp add: enqueue_allowed_def sample_db_def sample_run_def run_events_def)
qed

lemma sample_claim:
  "claim sample_env ''n'' ''w'' (Utc 0) 100 (sample_db [sample_job]) = (Success sample_lease, sample_db [sample_leased])"
proof -
  have worker: "strip_text ''w'' \<noteq> []"
    by code_simp
  have live: "\<not> unclaimable 0 sample_job" "claimable 0 sample_job"
    by (simp_all add: unclaimable_def claimable_def sample_job_def)
  have dead: "dead_letter_unclaimable sample_env 0 (sample_db [sample_job]) = Success (sample_db [sample_job])"
    using live by (simp add: dead_letter_unclaimable_def sample_db_def)
  have nxt: "next_claimable_job 0 (sample_db [sample_job]) = Some sample_job"
    using live by (simp add: next_claimable_job_def sample_db_def)
  have lease: "make_job_lease sample_leased = Success sample_lease"
    by (simp add: make_job_lease_def sample_leased_def leased_row_def sample_job_def sample_lease_def
        nonempty_ok_def check_all.simps)
  have now: "db_now (sample_db js) = 0" for js
    by (simp add: sample_db_def)
  have upd: "update_job sample_leased (sample_db [sample_job]) = sample_db [sample_leased]"
    by (simp add: update_job_def sample_db_def sample_leased_def leased_row_def)
  show ?thesis
    using worker dead nxt lease upd
    by (simp add: claim_def now sample_leased_def [symmetric] Let_def)
qed

lemma sample_claimed: "cycle_step sample_env (sample_db [sample_job]) (sample_db [sample_leased])"
  by (rule cycle_step.claimed [OF sample_claim])

lemma sample_reachable: "reachable sample_env (sample_db [sample_leased])" "reachable sample_env (sample_db [sample_job])"
  using sample_new_run sample_enqueued sample_claimed unfolding reachable_def
  by (meson rtranclp.rtrancl_into_rtrancl rtranclp.rtrancl_refl)+

lemma wf_sample_env: "wf_hashing (ce_hashing sample_env)"
  by (simp add: sample_env_def)


definition sample_reference :: cycle_reference where
  "sample_reference = \<lparr>cr_ref_type = ''evidence'', cr_ref_id = ''e'', cr_content_hash = SAMPLE_HASH\<rparr>"

definition sample_output :: stage_output where
  "sample_output = \<lparr>so_stage = EVIDENCE, so_references = [sample_reference], so_output_hash = SAMPLE_HASH\<rparr>"

definition sample_state :: cycle_state where
  "sample_state = \<lparr>cy_run_id = sample_run_id, cy_cycle_input_hash = SAMPLE_HASH, cy_outputs = [sample_output],
     cy_state_hash = SAMPLE_HASH\<rparr>"

lemma sample_hash_ok [simp]: "sha256_ok SAMPLE_HASH"
  by (simp add: SAMPLE_HASH_def)

lemma sample_state_valid: "state_valid sample_hashing sample_state"
proof -
  have "validate_cycle_reference sample_reference = Success sample_reference"
    by (simp add: validate_cycle_reference_def sample_reference_def nonempty_ok_def check_all.simps)
  moreover have "validate_stage_output sample_hashing sample_output = Success sample_output"
    by (simp add: validate_stage_output_def sample_output_def sample_reference_def check_all.simps
        SINGLE_REFERENCE_STAGES_def expected_output_hash_def SAMPLE_HASH_def [symmetric] reference_key_def)
  moreover have "validate_cycle_state sample_hashing sample_state = Success sample_state"
    by (simp add: validate_cycle_state_def sample_state_def check_all.simps completed_stages_def CYCLE_STAGES_def
        sample_output_def expected_state_hash_def SAMPLE_HASH_def [symmetric] cardinality_ok_def)
  ultimately show ?thesis
    using sample_ids(1) by (simp add: state_valid_def references_valid_def) (simp add: sample_state_def sample_output_def)
qed

definition sample_command :: run_command where
  "sample_command =
     \<lparr>rc_lease = sample_lease,
      rc_cycle_input =
        \<lparr>ci_run_id = sample_run_id, ci_snapshot_id = sample_job_id, ci_research_run_id = sample_job_id,
         ci_research_artifact_id = sample_job_id, ci_account_id = ''a'', ci_owner_subject = ''o'',
         ci_instrument_id = sample_job_id, ci_symbol = ''SPY'', ci_as_of = 0, ci_created_at = 0,
         ci_deadline_at = 1000, ci_execution_model_version = ''paper-v1'',
         ci_policy_hashes = \<lparr>ph_research_profile_hash = SAMPLE_HASH, ph_model_policy_hash = SAMPLE_HASH,
           ph_tool_policy_hash = SAMPLE_HASH, ph_kronos_configuration_hash = SAMPLE_HASH,
           ph_portfolio_policy_hash = SAMPLE_HASH, ph_risk_policy_hash = SAMPLE_HASH,
           ph_execution_policy_hash = SAMPLE_HASH, ph_ledger_policy_hash = SAMPLE_HASH,
           ph_report_policy_hash = SAMPLE_HASH\<rparr>,
         ci_stage_ids = []\<rparr>\<rparr>"

lemma sample_input_hash: "rc_input_hash sample_hashing sample_command = SAMPLE_HASH"
  by (simp add: rc_input_hash_def cycle_input_hash_def SAMPLE_HASH_def)

lemma sample_hashing_SAMPLE: "stable_payload_hash sample_hashing j = SAMPLE_HASH"
  by (simp add: SAMPLE_HASH_def)

lemma sample_active:
  "t < 100 \<Longrightarrow> s \<in> {PENDING, RUNNING} \<Longrightarrow>
   active_lease sample_hashing t sample_leased (advance_run sample_run s u) sample_command \<and>
   active_lease sample_hashing t sample_leased sample_run sample_command"
  by (simp add: active_lease_def sample_input_hash sample_hashing_SAMPLE Let_def advance_run_def del: sample_hash(1))
    (auto simp: sample_command_def sample_lease_def sample_leased_def leased_row_def sample_job_def sample_run_def
      sample_payload_def)

lemma sample_load:
  "\<exists>cur. load_state sample_hashing (sample_db [sample_leased]) sample_leased sample_run SAMPLE_HASH = Success cur \<and>
     cy_run_id cur = sample_run_id \<and> cy_cycle_input_hash cur = SAMPLE_HASH \<and> cy_outputs cur = [] \<and>
     cy_state_hash cur = SAMPLE_HASH"
proof -
  have "genesis sample_hashing sample_run_id SAMPLE_HASH = Success
    \<lparr>cy_run_id = sample_run_id, cy_cycle_input_hash = SAMPLE_HASH, cy_outputs = [], cy_state_hash = SAMPLE_HASH\<rparr>"
    by (simp add: genesis_def make_cycle_state_def sample_hashing_SAMPLE validate_cycle_state_def check_all.simps
        completed_stages_def expected_state_hash_def cardinality_ok_def del: sample_hash(1))
  then show ?thesis
    by (simp add: load_state_def run_events_def sample_db_def sample_run_def)
qed

lemma sample_checkpoint:
  "\<exists>db'. store_checkpoint sample_env sample_command sample_state SAMPLE_HASH (sample_db [sample_leased]) =
     (Success sample_state, db') \<and> db_jobs db' = [sample_leased] \<and>
     db_runs db' = [advance_run sample_run RUNNING 0]"
proof -
  let ?db = "sample_db [sample_leased]"
  from sample_load obtain cur where cur:
    "load_state sample_hashing ?db sample_leased sample_run SAMPLE_HASH = Success cur"
    "cy_run_id cur = sample_run_id" "cy_cycle_input_hash cur = SAMPLE_HASH" "cy_outputs cur = []"
    "cy_state_hash cur = SAMPLE_HASH" by blast
  have now: "db_now ?db = 0"
    by (simp add: sample_db_def)
  have "locked_job ?db (jl_job_id (rc_lease sample_command)) = Success sample_leased"
    "locked_run ?db (jl_run_id (rc_lease sample_command)) = Success sample_run"
    by (simp_all add: locked_job_def locked_run_def sample_db_def sample_command_def sample_lease_def
        sample_leased_def leased_row_def sample_job_def sample_run_def)
  then have auth: "active_authority sample_env ?db sample_command = Success (sample_leased, sample_run)"
    using sample_active [of 0 RUNNING 0]
    by (simp add: active_authority_def require_active_def now sample_env_def)
  have nxt: "require_next_state cur sample_state SAMPLE_HASH = Success ()"
    using cur(2-5) by (simp add: require_next_state_Success next_stage_def CYCLE_STAGES_def)
      (simp add: sample_state_def sample_output_def)
  have "\<exists>db'. append_audit sample_env sample_run sample_leased ty p i 0 RUNNING ?db = Success db' \<and>
     db_jobs db' = [sample_leased] \<and> db_runs db' = [advance_run sample_run RUNNING 0]" for ty p i
    by (simp add: append_audit_def insert_audit_def unique_event_def unique_outbox_def update_run_def Let_def)
      (simp add: sample_db_def sample_env_def)
  then obtain db' where db': "append_audit sample_env sample_run sample_leased ''paper_cycle.stage_completed''
      (checkpoint_payload sample_hashing sample_command sample_leased sample_state)
      (''stage:'' @ stage_value (last (completed_stages sample_state)) @ '':'' @ cy_state_hash sample_state)
      0 RUNNING ?db = Success db'" "db_jobs db' = [sample_leased]" "db_runs db' = [advance_run sample_run RUNNING 0]"
    by blast
  have H: "ce_hashing sample_env = sample_hashing"
    by (simp add: sample_env_def)
  have "store_checkpoint sample_env sample_command sample_state SAMPLE_HASH ?db = (Success sample_state, db')"
    using auth nxt cur(1) db'(1) unfolding store_checkpoint_def H now sample_input_hash by simp
  with db' show ?thesis by blast
qed

theorem checkpoint_then_load_witness:
  "\<exists>db'. store_checkpoint sample_env sample_command sample_state SAMPLE_HASH (sample_db [sample_leased]) =
       (Success sample_state, db') \<and>
     store_load sample_env sample_command (db'\<lparr>db_now := 50\<rparr>) = Success sample_state"
proof -
  from sample_checkpoint obtain db' where db':
    "store_checkpoint sample_env sample_command sample_state SAMPLE_HASH (sample_db [sample_leased]) =
       (Success sample_state, db')" "db_jobs db' = [sample_leased]" "db_runs db' = [advance_run sample_run RUNNING 0]"
    by blast
  have "locked_job (db'\<lparr>db_now := 50\<rparr>) (jl_job_id (rc_lease sample_command)) = Success sample_leased"
    "locked_run (db'\<lparr>db_now := 50\<rparr>) (jl_run_id (rc_lease sample_command)) = Success (advance_run sample_run RUNNING 0)"
    by (simp_all add: locked_job_def locked_run_def db' sample_command_def sample_lease_def
        sample_leased_def leased_row_def sample_job_def sample_run_def)
  then have auth: "active_authority sample_env (db'\<lparr>db_now := 50\<rparr>) sample_command =
      Success (sample_leased, advance_run sample_run RUNNING 0)"
    using sample_active [of 50 RUNNING 0]
    by (simp add: active_authority_def require_active_def sample_env_def)
  have "state_valid (ce_hashing sample_env) sample_state"
    using sample_state_valid by (simp add: sample_env_def)
  from checkpoint_then_load [OF sample_reachable(1) wf_sample_env this db'(1) auth] db'(1) show ?thesis
    by blast
qed


text \<open>The lease expires and another worker claims the job.\<close>

definition sample_second :: job_lease where
  "sample_second = sample_lease\<lparr>jl_attempt_generation := 2, jl_attempts := 2, jl_attempt_nonce := ''m'',
     jl_lease_owner := ''v'', jl_lease_until := 300\<rparr>"

definition sample_expired :: cycle_db where
  "sample_expired = (sample_db [sample_leased])\<lparr>db_now := 200\<rparr>"

lemma sample_reclaim:
  "\<exists>db1. claim sample_env ''m'' ''v'' (Utc 200) 100 sample_expired = (Success sample_second, db1)"
proof -
  have worker: "strip_text ''v'' \<noteq> []"
    by code_simp
  have live: "\<not> unclaimable 200 sample_leased" "claimable 200 sample_leased"
    by (simp_all add: unclaimable_def claimable_def sample_leased_def leased_row_def sample_job_def)
  have dead: "dead_letter_unclaimable sample_env 200 sample_expired = Success sample_expired"
    using live by (simp add: dead_letter_unclaimable_def sample_expired_def sample_db_def)
  have nxt: "next_claimable_job 200 sample_expired = Some sample_leased"
    using live by (simp add: next_claimable_job_def sample_expired_def sample_db_def)
  have lease: "make_job_lease (leased_row sample_leased ''v'' ''m'' 200 100) = Success sample_second"
    by (simp add: make_job_lease_def sample_leased_def leased_row_def sample_job_def sample_second_def sample_lease_def
        nonempty_ok_def check_all.simps)
  have now: "db_now sample_expired = 200"
    by (simp add: sample_expired_def)
  show ?thesis
    using worker dead nxt lease by (simp add: claim_def now Let_def)
qed

theorem stale_lease_fenced_witness:
  "\<exists>lease db1. claim sample_env ''m'' ''v'' (Utc 200) 100 sample_expired = (Success lease, db1) \<and>
     \<not> is_success (store_load sample_env sample_command db1) \<and>
     snd (store_checkpoint sample_env sample_command sample_state SAMPLE_HASH db1) = db1"
proof -
  from sample_reclaim obtain db1 where
    claim: "claim sample_env ''m'' ''v'' (Utc 200) 100 sample_expired = (Success sample_second, db1)" ..
  have "cycle_step sample_env (sample_db [sample_leased]) sample_expired"
    using cycle_step.clock [of "sample_db [sample_leased]" 200] by (simp add: sample_expired_def sample_db_def)
  then have reach: "reachable sample_env sample_expired"
    using sample_reachable(1) unfolding reachable_def by (meson rtranclp.rtrancl_into_rtrancl)
  have "jl_job_id (rc_lease sample_command) = jl_job_id sample_second"
    "jl_attempt_generation (rc_lease sample_command) < jl_attempt_generation sample_second"
    by (simp_all add: sample_command_def sample_second_def sample_lease_def)
  from stale_lease_fenced [OF reach wf_sample_env claim rtranclp.rtrancl_refl this] claim show ?thesis
    by blast
qed

end
