(* ===== verification/Cycle_Liveness.thy ===== *)
theory Cycle_Liveness
  imports Cycle_Runner Cycle_Append
begin

text \<open>
  The cycle runner always returns, and reports success only for a complete cycle. The loop goes on with
  whatever the store hands back, so this rests on a contract of the store, which the PostgreSQL store
  keeps.
\<close>

locale cycle_store_contract =
  fixes H :: hashing
    and port :: "'s cycle_ports"
  assumes load_valid: "cp_load port c w = Success s \<Longrightarrow> validate_cycle_state H s = Success s"
    and checkpoint_returns: "cp_checkpoint port c s h w = (Success s', w') \<Longrightarrow> s' = s"
    and complete_returns: "cp_complete port c s m w = (Success r, w') \<Longrightarrow>
      pr_status r = CYCLE_SUCCEEDED \<and> pr_state r = s"
    and fail_never_succeeds: "cp_fail port c code w = (Success r, w') \<Longrightarrow>
      pr_status r \<in> {RETRY_SCHEDULED, DEAD_LETTERED}"
begin

definition good_result :: "run_command \<Rightarrow> cycle_run_result result \<Rightarrow> bool" where
  "good_result c result \<longleftrightarrow>
     (case result of
        Success r \<Rightarrow>
          if pr_status r = CYCLE_SUCCEEDED
          then completed_stages (pr_state r) = CYCLE_STAGES \<and> cy_run_id (pr_state r) = jl_run_id (rc_lease c) \<and>
            cy_cycle_input_hash (pr_state r) = rc_input_hash H c
          else pr_status r \<in> {RETRY_SCHEDULED, DEAD_LETTERED}
      | _ \<Rightarrow> True)"

lemma good_rejected [simp]: "good_result c (Failure code e)" "good_result c (Raised x)"
  by (simp_all add: good_result_def)

lemma good_fail [simp]: "good_result c (fst (cp_fail port c code w))"
  using fail_never_succeeds [of c code w _ "snd (cp_fail port c code w)"]
  by (cases "fst (cp_fail port c code w)") (force simp: good_result_def prod_eq_iff)+

lemma good_finish:
  assumes "validate_cycle_state H s = Success s" "next_stage s = None" "cy_run_id s = jl_run_id (rc_lease c)"
    "cy_cycle_input_hash s = rc_input_hash H c"
  shows "good_result c (fst (finish_cycle port c s w))"
proof -
  have "length (cy_outputs s) = 9" "completed_stages s = take (length (cy_outputs s)) CYCLE_STAGES"
    using assms(1,2) by (auto simp: validate_cycle_state_def next_stage_def res_simps split: if_splits)
  then have all: "completed_stages s = CYCLE_STAGES"
    by (simp add: CYCLE_STAGES_def)
  have "good_result c (fst (cp_complete port c s m w1))" for m w1
    using complete_returns [of c s m w1 _ "snd (cp_complete port c s m w1)"] all assms(3,4)
    by (cases "fst (cp_complete port c s m w1)") (force simp: good_result_def prod_eq_iff)+
  then show ?thesis
    by (auto simp: finish_cycle_def split: prod.split result.split)
qed

lemma loop_total:
  assumes "validate_cycle_state H s = Success s" "cy_run_id s = jl_run_id (rc_lease c)"
    "cy_cycle_input_hash s = rc_input_hash H c"
  shows "\<exists>y. cycle_loop H port c s w = Some y \<and> good_result c (fst y)"
  using assms
proof (induction "9 - length (cy_outputs s)" arbitrary: s w rule: less_induct)
  case less
  show ?case
  proof (cases "next_stage s")
    case None
    then show ?thesis
      using good_finish [OF less.prems(1) None less.prems(2,3)] by (simp add: cycle_loop.simps)
  next
    case (Some stage)
    have next_round: "\<exists>y. cycle_loop H port c s' w' = Some y \<and> good_result c (fst y)"
      if "advance H s x = Success s'" for x s' w'
    proof (rule less.hyps)
      from that have s': "validate_cycle_state H s' = Success s'" "cy_run_id s' = cy_run_id s"
          "cy_cycle_input_hash s' = cy_cycle_input_hash s" "cy_outputs s' = cy_outputs s @ [x]"
        by (simp_all add: advance_Success)
      then show "9 - length (cy_outputs s') < 9 - length (cy_outputs s)"
        using Some by (auto simp: next_stage_def split: if_splits)
      show "validate_cycle_state H s' = Success s'" "cy_run_id s' = jl_run_id (rc_lease c)"
        "cy_cycle_input_hash s' = rc_input_hash H c"
        using s' less.prems(2,3) by simp_all
    qed
    obtain decision w1 where budget: "cp_budget port PAPER_CYCLE_BUDGET w = (decision, w1)"
      by fastforce
    obtain stage_result w2 where adv: "cp_advance port c stage s w1 = (stage_result, w2)"
      by fastforce
    show ?thesis
    proof (cases "within_budget decision \<and> (\<exists>x s'. stage_result = Success x \<and> advance H s x = Success s')")
      case True
      then obtain x s' where x: "stage_result = Success x" "advance H s x = Success s'" by blast
      obtain saved w3 where save: "cp_checkpoint port c s' (cy_state_hash s) w2 = (saved, w3)"
        by fastforce
      have "saved = Success t \<Longrightarrow> t = s'" for t
        using checkpoint_returns save by simp
      then show ?thesis
        using True x budget adv save Some next_round [OF x(2)]
        by (subst cycle_loop.simps) (cases saved, auto simp del: split_paired_Ex)
    next
      case False
      then show ?thesis
        using budget adv Some
        by (subst cycle_loop.simps)
          (auto split: result.split exn.split simp del: split_paired_Ex)
    qed
  qed
qed

lemma run_total:
  "\<exists>y. run_paper_fund_cycle H port c w = Some y \<and> good_result c (fst y)"
proof (cases "cp_load port c w")
  case (Success s)
  then show ?thesis
    using loop_total [OF load_valid [OF Success]]
    by (auto simp: run_paper_fund_cycle_def simp del: split_paired_Ex)
qed (simp_all add: run_paper_fund_cycle_def)

end

section \<open>The PostgreSQL store keeps the contract\<close>

lemma checkpoint_state_validates:
  "checkpoint_state H e job h = Success s \<Longrightarrow> validate_cycle_state H s = Success s"
  using checkpoint_state_valid by (auto simp: state_valid_def)

lemma replay_validates:
  assumes "replay_events H db job rid h es s p n = Success (s', n')" "validate_cycle_state H s = Success s"
  shows "validate_cycle_state H s' = Success s'"
  using assms
proof (induction es arbitrary: s p n)
  case (Cons e es)
  then obtain s1 where s1: "apply_event H job h e s = Success s1"
      "replay_events H db job rid h es s1 (Some (re_event_hash e)) (n + 1) = Success (s', n')"
    by (auto simp: bind_Success_iff)
  have "validate_cycle_state H s1 = Success s1"
    using s1(1) Cons.prems(2) checkpoint_state_validates
    by (fastforce simp: apply_event_def bind_Success_iff split: if_splits)
  from Cons.IH [OF s1(2) this] show ?case .
qed simp

lemma load_state_validates:
  assumes "load_state H db job run h = Success s"
  shows "validate_cycle_state H s = Success s"
proof -
  from assms obtain start n where "genesis H (wr_run_id run) h = Success start"
    "replay_events H db job (wr_run_id run) h (run_events db (wr_run_id run)) start None 2 = Success (s, n)"
    by (auto simp: load_state_def Let_def bind_Success_iff split: if_splits)
  moreover from this(1) have "validate_cycle_state H start = Success start"
    by (simp add: genesis_def make_cycle_state_Success)
  ultimately show ?thesis
    using replay_validates by blast
qed

lemma validate_run_result_frame: "validate_run_result r = Success r' \<Longrightarrow> r' = r"
  by (auto simp: validate_run_result_def Let_def res_simps)

lemma store_complete_returns:
  assumes "store_complete env c s m db = (Success r, db')"
  shows "pr_status r = CYCLE_SUCCEEDED \<and> pr_state r = s"
  using assms
  by (auto simp: store_complete_def transact_Success bind_Success_iff completed_result_def succeeded_result_def
      Let_def split: if_splits option.splits dest!: validate_run_result_frame)

lemma store_fail_returns:
  assumes "store_fail env c code db = (Success r, db')"
  shows "pr_status r \<in> {RETRY_SCHEDULED, DEAD_LETTERED}"
  using assms
  by (auto simp: store_fail_def transact_Success bind_Success_iff Let_def dest!: validate_run_result_frame split: if_splits)

lemma store_checkpoint_returns: "store_checkpoint env c s h db = (Success s', db') \<Longrightarrow> s' = s"
  by (auto simp: store_checkpoint_def transact_Success bind_Success_iff)

lemma store_load_validates: "store_load env c db = Success s \<Longrightarrow> validate_cycle_state (ce_hashing env) s = Success s"
  by (auto simp: store_load_def bind_Success_iff intro: load_state_validates)

interpretation postgres: cycle_store_contract "ce_hashing env" "postgres_ports env handler budget artifacts"
  for env handler budget artifacts
proof
  fix c w s h s' w' m r code
  show "cp_load (postgres_ports env handler budget artifacts) c w = Success s \<Longrightarrow>
      validate_cycle_state (ce_hashing env) s = Success s"
    using store_load_validates by (cases w) (simp add: postgres_ports_def)
  show "cp_checkpoint (postgres_ports env handler budget artifacts) c s h w = (Success s', w') \<Longrightarrow> s' = s"
    using store_checkpoint_returns by (cases w) (auto simp: postgres_ports_def split: prod.splits)
  show "cp_complete (postgres_ports env handler budget artifacts) c s m w = (Success r, w') \<Longrightarrow>
      pr_status r = CYCLE_SUCCEEDED \<and> pr_state r = s"
    using store_complete_returns by (cases w) (auto simp: postgres_ports_def split: prod.splits)
  show "cp_fail (postgres_ports env handler budget artifacts) c code w = (Success r, w') \<Longrightarrow>
      pr_status r \<in> {RETRY_SCHEDULED, DEAD_LETTERED}"
    using store_fail_returns by (cases w) (fastforce simp: postgres_ports_def split: prod.splits)
qed

text \<open>
  C10: A cycle run always returns, whatever the stage handler, the budget evaluator and the artifact
  store do. It reports success only when all nine stages were completed, in order, for the run and the
  input of the command; a failure is reported as a scheduled retry or a dead letter.
\<close>

theorem cycle_run_total:
  "\<exists>result w'. run_paper_fund_cycle (ce_hashing env) (postgres_ports env handler budget artifacts) c w =
       Some (result, w') \<and>
     (case result of
        Success r \<Rightarrow>
          if pr_status r = CYCLE_SUCCEEDED
          then completed_stages (pr_state r) = CYCLE_STAGES \<and> cy_run_id (pr_state r) = jl_run_id (rc_lease c) \<and>
            cy_cycle_input_hash (pr_state r) = rc_input_hash (ce_hashing env) c
          else pr_status r \<in> {RETRY_SCHEDULED, DEAD_LETTERED}
      | _ \<Rightarrow> True)"
  using postgres.run_total [of env handler budget artifacts c w]
  by (fastforce simp: postgres.good_result_def)

end
