(* ===== verification/Spec2Isabelle.thy ===== *)
theory Spec2Isabelle
  imports Reservation_Lifecycle Order_Lifecycle Posting_Properties Paper_Broker_Properties
    Risk_Gate_Properties Signal_Properties Portfolio_Builder_Properties
    Risk_Authorization_Properties
    Walk_Forward_Properties Promotion_Properties
    Access_Control Operational_Budget Decimal_Text
    Cycle_Example Cycle_Liveness
begin

text \<open>
  The trading core of the stonks-agent repository: a paper trading platform that turns the opinions of
  research models into signals, signals into a portfolio target, a target into orders under a hard risk
  gate, orders into simulated fills and fills into a double-entry ledger, all of it replayable from
  hash-chained records. File names below are relative to \<^verbatim>\<open>src/stonks_agent\<close> unless they start with
  \<^verbatim>\<open>packages\<close>.

  \<^bold>\<open>The flow and the theories that model it.\<close>

  \<^item> Foundations. \<open>Prelude\<close> holds the outcome of a Python function (\<open>Success\<close>, \<open>Failure\<close> of
    \<^verbatim>\<open>domain/errors.py\<close>, or a raised exception) and its rules. \<open>Py_Decimal\<close>, \<open>Decimal_Rounding\<close> and
    \<open>Quantum\<close> are \<^verbatim>\<open>decimal.Decimal\<close> under the default context and amounts on the grid of a quantum.
    \<open>Contracts\<close>, \<open>Canonical_Json\<close> and \<open>Decimal_Text\<close> are the wire primitives of
    \<^verbatim>\<open>packages/contracts/src/stonks_contracts/common.py\<close>: validators, canonical JSON, payload hashes, the
    reader and the writer of amounts. \<open>Hash_Chain\<close> and \<open>Status_Machine\<close> hold the interfaces several
    components share, \<open>Sample_Hashing\<close> digest functions for the examples.
  \<^item> Who may act. \<open>Access_Control\<close> is \<^verbatim>\<open>domain/auth.py\<close>.
  \<^item> From evaluation to signals. \<open>Walk_Forward\<close>, \<open>Evaluation_Metrics\<close> and \<open>Promotion_Report\<close> are
    \<^verbatim>\<open>application/evaluation\<close>; \<open>Strategy_Signals\<close> is \<^verbatim>\<open>domain/strategy.py\<close>, \<^verbatim>\<open>domain/evaluation.py\<close> and
    \<^verbatim>\<open>domain/signal.py\<close>.
  \<^item> From signals to a target. \<open>Portfolio\<close> is the account aggregate of \<^verbatim>\<open>domain/portfolio.py\<close>,
    \<open>Portfolio_Builder\<close> is \<^verbatim>\<open>application/portfolio/build_target.py\<close>.
  \<^item> From a target to orders. \<open>Market_Session\<close>, \<open>Risk\<close> and \<open>Risk_Gate\<close> are the hard risk gate of
    \<^verbatim>\<open>application/risk/evaluate.py\<close>; \<open>Reservations\<close> and \<open>Orders\<close> are \<^verbatim>\<open>domain/reservations.py\<close> and
    \<^verbatim>\<open>domain/orders.py\<close>; \<open>Risk_Authorization\<close> is the transaction of \<^verbatim>\<open>application/risk/authorize.py\<close> that
    calls the gate and creates reservations and orders on a stored account.
  \<^item> From orders to the ledger. \<open>Fills\<close>, \<open>Execution_Model\<close> and \<open>Paper_Broker\<close> are the deterministic
    next-bar execution of \<^verbatim>\<open>adapters/execution/paper.py\<close>; \<open>Journal\<close>, \<open>Posting\<close> and \<open>Ledger\<close> are the
    postings of a fill, the journal chain, its replay and the comparison with a stored projection.
  \<^item> The cycle that drives it. \<open>Paper_Cycle\<close> is \<^verbatim>\<open>domain/paper_cycle.py\<close>, the nine stages and their
    hash-bound state. \<open>Workflow_Rows\<close> holds the tables of \<^verbatim>\<open>adapters/postgres/models/core.py\<close> that the next
    two share: \<open>Job_Queue\<close> is \<^verbatim>\<open>adapters/postgres/job_queue.py\<close> with \<^verbatim>\<open>job_queue_audit.py\<close>, which hands out
    leases; \<open>Cycle_Store\<close> is \<^verbatim>\<open>adapters/postgres/paper_cycle_store.py\<close>, the durable checkpoints under a
    lease. \<open>Cycle_Runner\<close> is the loop of \<^verbatim>\<open>application/workflows/run_cycle.py\<close>, which asks
    \<open>Operational_Budget\<close> (\<^verbatim>\<open>domain/operational_budget.py\<close>) before every stage. \<open>Cycle_Log\<close> and
    \<open>Cycle_Append\<close> are lemmas on the event log, \<open>Cycle_Invariant\<close>, \<open>Cycle_Steps\<close> and \<open>Cycle_Queue\<close> the
    invariant of the database and its preservation by every operation, \<open>Cycle_Properties\<close> what follows
    for all interleavings, \<open>Cycle_Example\<close> the examples, \<open>Cycle_Liveness\<close> the runner.

  A pydantic model is a record with a function \<open>validate_...\<close> that runs its validators in the order of
  the code; a function or method has the name it has in the code, without the leading underscore and
  with a prefix where two files use the same name. Properties are in the theory of the operations or in
  the theory \<open>..._Properties\<close> or \<open>..._Lifecycle\<close> beside it.

  \<^bold>\<open>What the groups of theorems show.\<close>

  \<^item> Conservation: reservations, orders, broker outcomes and the journal neither create nor lose
    money or units, in spite of rounding; replay conserves every commodity and the journal of a fill is
    always a valid next transaction.
  \<^item> Gates fail closed and are exact: the risk gate, the eligibility of signals, the promotion report,
    the audit of a dataset, access to targets and the operational budget decide exactly as stated on the
    exact numbers, times and sets.
  \<^item> Bounds: fills respect the order, targets the policy, reserved cash the cost of the order,
    estimates their range.
  \<^item> State machines: orders, reservations and strategies follow their tables; histories are hash
    chains that determine their past up to a collision of the digest.
  \<^item> Durability and fencing: in every interleaving of queue and store operations a paper job and its run
    agree, the event log stays readable and only grows, a superseded lease changes nothing, and what was
    checkpointed is what a later worker loads.
  \<^item> Round trips and equivalences: amounts on the wire, checkpoints in the event log, two-part replay, the closed form of the
    walk-forward loop, independence of the order of inputs.
  \<^item> Termination and liveness: the search for a fill quantity, runs of reservation operations, the
    cycle runner, the decisions that are always produced.

  \<^bold>\<open>Interfaces.\<close> The locales \<open>hash_chain\<close> (a record chained to its predecessor), \<open>status_machine\<close> (a table
  of status changes with a rank), \<open>quantizer\<close> (a rounding helper and its direction) and
  \<open>cycle_store_contract\<close> (what the cycle runner needs of its store) are interpreted on the functions of
  every component that provides them.

  \<^bold>\<open>Conventions and bounds.\<close>

  \<^item> Decimals are finite, without signed zeros and without exponent limits (accepted amounts have at most
    64 digits and exponents up to 64, far inside those of the context); results are rounded half-even to
    28 digits wherever the code does not set another mode. The model was compared with Python's module
    on random operations.
  \<^item> A validated time is the number of microseconds since 1970 as an unbounded integer, so that
    datetime overflow does not occur; a raw datetime is either aware or naive.
  \<^item> SHA-256 and UUID-5 are the arguments \<open>hashing\<close>; theorems assume at most the documented formats of
    their results, and statements that need injectivity exhibit the collision instead of excluding it.
  \<^item> Texts are lists of bytes. A violated field constraint raises \<open>ValueError ''field''\<close>, as pydantic does
    before any model validator; a nested model that was validated once is not validated again.
  \<^item> Details of a failure, which are only displayed, are left out; the code and the message are kept.
  \<^item> Loops whose end is not structural are \<open>partial_function (option)\<close> (\<open>affordable_quantity\<close>,
    \<open>cycle_loop\<close>), \<open>None\<close> being a call that does not return; no fuel is used anywhere.
  \<^item> The unit of work of the authorisation is the record of functions it is in the source, with commit
    and rollback explicit. The database of the cycle store is a record of rows with the primary and
    unique keys of the schema, and transactions do not overlap, because every row is read for update;
    \<open>transact\<close> (of the store) commits on success and otherwise restores the rows, \<open>settle\<close> (of the queue)
    also commits when a rejection is returned.
    \<^verbatim>\<open>clock_timestamp()\<close> is a field of it, and whether a JSON column accepts a payload is an argument.
    Status columns are enumerations.
  \<^item> Frozen sets are lists of which only membership is used.

  \<^bold>\<open>Not modelled.\<close> Reading of policy files (the validated policies are inputs); pure input and output
  (HTTP, command line, exporters, mail, data providers, object storage, SQL repositories other than the
  job queue and the checkpoint store); language-model workers and third-party engines with the jobs and artifacts around
  them; cryptographic verification of tokens; display of errors and reports; telemetry and trace columns;
  the exchange calendar, which needs the time zone database. Not modelled yet: the kill switch and the
  pause and resume of accounts (\<^verbatim>\<open>application/operations\<close>, \<^verbatim>\<open>domain/operations.py\<close>), the submit and execute
  transactions (\<^verbatim>\<open>application/execution\<close>), mark-to-market monitoring and the derivation of
  signals from opinions.
\<close>

end
